(* ===== verification/Prelude.thy ===== *)
theory Prelude
  imports Main "HOL-Library.Word" "HOL-Library.Sublist"
begin

text \<open>
  Shared vocabulary of the development.

  \<^item> Errors: every C++ exception the extension throws is a value \<open>Err kind message arguments\<close>; a
    function that may throw returns \<open>error + 'a\<close> (\<open>throws\<close>), and \<open>bindr\<close>, \<open>throw_if\<close>, \<open>mapr\<close> and
    \<open>forr\<close> are sequencing, guards and loops over such results.
  \<^item> Machine integers: \<open>idx_t\<close> is a 64-bit word; \<open>INVALID_INDEX\<close> is DConstants::INVALID\_INDEX.
  \<^item> The part of \<open>std::string\<close> the sources use: \<open>str_find\<close>, \<open>str_find_char\<close>, \<open>substr\<close>.
  \<^item> \<open>duckdb::StringUtil\<close> lives in the DuckDB submodule, so it is a parameter: a record \<open>string_util\<close>
    of the operations the extension calls, with the documented ASCII behaviour as the laws of the
    locale \<open>string_util_laws\<close>. \<open>ascii_string_util\<close> writes those operations out.
\<close>

section \<open>Collections of the development\<close>

named_theorems result_simps \<open>unfolding of the result combinators\<close>
named_theorems string_laws \<open>the documented behaviour of StringUtil\<close>

section \<open>Errors and results\<close>

datatype exception_type =
    InvalidInput | NotImplemented | BinderEx | CatalogEx | IOEx | InternalEx | PermissionEx
  | TransactionEx | ConstraintEx | ConversionEx | ParserEx | InvalidConfiguration | KernelEx
  | OutOfRangeEx | UndefinedBehaviour

datatype error = Err (err_kind: exception_type) (err_message: string) (err_args: "string list")

type_synonym 'a throws = "error + 'a"

definition bindr :: "'e + 'a \<Rightarrow> ('a \<Rightarrow> 'e + 'b) \<Rightarrow> 'e + 'b" where
  "bindr r f = (case r of Inl e \<Rightarrow> Inl e | Inr a \<Rightarrow> f a)"

definition throw_if :: "bool \<Rightarrow> 'e \<Rightarrow> 'e + unit" where
  "throw_if b e = (if b then Inl e else Inr ())"

fun mapr :: "('a \<Rightarrow> 'e + 'b) \<Rightarrow> 'a list \<Rightarrow> 'e + 'b list" where
  "mapr f [] = Inr []"
| "mapr f (x # xs) = bindr (f x) (\<lambda>y. bindr (mapr f xs) (\<lambda>ys. Inr (y # ys)))"

fun forr :: "('a \<Rightarrow> 'e + unit) \<Rightarrow> 'a list \<Rightarrow> 'e + unit" where
  "forr f [] = Inr ()"
| "forr f (x # xs) = bindr (f x) (\<lambda>_. forr f xs)"

fun foldr_throws :: "('s \<Rightarrow> 'a \<Rightarrow> 'e + 's) \<Rightarrow> 's \<Rightarrow> 'a list \<Rightarrow> 'e + 's" where
  "foldr_throws f s [] = Inr s"
| "foldr_throws f s (x # xs) = bindr (f s x) (\<lambda>s'. foldr_throws f s' xs)"

lemma bindr_simps [simp, result_simps]:
  "bindr (Inl e) f = Inl e" "bindr (Inr a) f = f a"
  by (simp_all add: bindr_def)

lemma bindr_eq_Inr: "bindr r f = Inr b \<longleftrightarrow> (\<exists>a. r = Inr a \<and> f a = Inr b)"
  by (cases r) auto

lemma bindr_eq_Inl: "bindr r f = Inl e \<longleftrightarrow> r = Inl e \<or> (\<exists>a. r = Inr a \<and> f a = Inl e)"
  by (cases r) auto

lemma bindr_cong [fundef_cong]:
  "r = r' \<Longrightarrow> (\<And>a. r' = Inr a \<Longrightarrow> f a = g a) \<Longrightarrow> bindr r f = bindr r' g"
  by (cases r') auto

lemma bindr_assoc: "bindr (bindr r f) g = bindr r (\<lambda>a. bindr (f a) g)"
  by (cases r) auto

lemma throw_if_simps [simp, result_simps]:
  "throw_if True e = Inl e" "throw_if False e = Inr ()"
  by (simp_all add: throw_if_def)

lemma throw_if_eq_Inr [simp]: "throw_if b e = Inr u \<longleftrightarrow> \<not> b"
  by (simp add: throw_if_def)

lemma throw_if_eq_Inl [simp]: "throw_if b e = Inl e' \<longleftrightarrow> b \<and> e' = e"
  by (auto simp: throw_if_def)

lemma bindr_throw_if:
  "bindr (throw_if b e) f = (if b then Inl e else f ())"
  by (simp add: throw_if_def)

lemma mapr_cong [fundef_cong]:
  "xs = ys \<Longrightarrow> (\<And>x. x \<in> set ys \<Longrightarrow> f x = g x) \<Longrightarrow> mapr f xs = mapr g ys"
  by (induction xs arbitrary: ys) auto

lemma forr_cong [fundef_cong]:
  "xs = ys \<Longrightarrow> (\<And>x. x \<in> set ys \<Longrightarrow> f x = g x) \<Longrightarrow> forr f xs = forr g ys"
  by (induction xs arbitrary: ys) auto

lemma forr_eq_Inr: "forr f xs = Inr u \<longleftrightarrow> (\<forall>x \<in> set xs. f x = Inr ())"
  by (induction xs) (auto simp: bindr_eq_Inr)

lemma forr_append: "forr f (xs @ ys) = bindr (forr f xs) (\<lambda>_. forr f ys)"
  by (induction xs) (auto simp: bindr_assoc)

lemma forr_InlD: "forr f xs = Inl e \<Longrightarrow> \<exists>x \<in> set xs. f x = Inl e"
  by (induction xs) (auto simp: bindr_eq_Inl)

lemma mapr_eq_Inr: "mapr f xs = Inr ys \<longleftrightarrow> list_all2 (\<lambda>x y. f x = Inr y) xs ys"
  by (induction xs arbitrary: ys) (auto simp: bindr_eq_Inr list_all2_Cons1)

lemma mapr_length: "mapr f xs = Inr ys \<Longrightarrow> length ys = length xs"
  by (auto simp: mapr_eq_Inr dest: list_all2_lengthD)

lemma mapr_total: "(\<And>x. x \<in> set xs \<Longrightarrow> f x = Inr (g x)) \<Longrightarrow> mapr f xs = Inr (map g xs)"
  by (induction xs) auto

lemma foldr_throws_append:
  "foldr_throws f s (xs @ ys) = bindr (foldr_throws f s xs) (\<lambda>s'. foldr_throws f s' ys)"
  by (induction xs arbitrary: s) (auto simp: bindr_assoc)

lemma foldr_throws_invariant:
  assumes "foldr_throws f s xs = Inr s'" "P s"
    and "\<And>s x s'. x \<in> set xs \<Longrightarrow> P s \<Longrightarrow> f s x = Inr s' \<Longrightarrow> P s'"
  shows "P s'"
  using assms by (induction xs arbitrary: s) (auto simp: bindr_eq_Inr)

section \<open>Invariants of a transition system\<close>

text \<open>The step relations of the development (the transaction, the references to kernel objects) interpret these locales.\<close>

locale invariant_system =
  fixes step :: "'s \<Rightarrow> 's \<Rightarrow> bool"
    and initial :: "'s \<Rightarrow> bool"
    and inv :: "'s \<Rightarrow> bool"
  assumes initial_inv: "initial s \<Longrightarrow> inv s"
    and step_inv: "inv s \<Longrightarrow> step s t \<Longrightarrow> inv t"
begin

lemma steps_inv: "step\<^sup>*\<^sup>* s t \<Longrightarrow> inv s \<Longrightarrow> inv t"
  by (induction rule: rtranclp_induct) (auto intro: step_inv)

lemma reachable_inv: "initial s \<Longrightarrow> step\<^sup>*\<^sup>* s t \<Longrightarrow> inv t"
  using steps_inv initial_inv by blast

end

locale transition_system = invariant_system +
  fixes before :: "'a \<Rightarrow> 'a \<Rightarrow> bool"
  assumes before_refl: "before s s"
    and before_trans: "before s t \<Longrightarrow> before t u \<Longrightarrow> before s u"
    and step_before: "inv s \<Longrightarrow> step s t \<Longrightarrow> before s t"
begin

lemma steps_before: "step\<^sup>*\<^sup>* s t \<Longrightarrow> inv s \<Longrightarrow> before s t"
proof (induction rule: rtranclp_induct)
  case (step t u)
  then show ?case using steps_inv step_before before_trans by blast
qed (rule before_refl)

lemma reachable_before: "initial s \<Longrightarrow> step\<^sup>*\<^sup>* s t \<Longrightarrow> step\<^sup>*\<^sup>* t u \<Longrightarrow> before t u"
  using steps_before reachable_inv by blast

end

section \<open>Machine integers\<close>

type_synonym idx_t = "64 word"

definition INVALID_INDEX :: idx_t where
  "INVALID_INDEX = - 1"

lemma unat_INVALID_INDEX: "unat INVALID_INDEX = 18446744073709551615"
  by (simp add: INVALID_INDEX_def unsigned_minus_1_eq_mask mask_eq_exp_minus_1)

section \<open>Strings\<close>

text \<open>\<open>std::string::find(char, pos)\<close> and \<open>std::string::find(string, pos)\<close>; \<open>None\<close> is \<open>npos\<close>.\<close>

fun find_char_from :: "char \<Rightarrow> string \<Rightarrow> nat \<Rightarrow> nat option" where
  "find_char_from c [] i = None"
| "find_char_from c (x # xs) i = (if x = c then Some i else find_char_from c xs (Suc i))"

definition str_find_char :: "string \<Rightarrow> char \<Rightarrow> nat \<Rightarrow> nat option" where
  "str_find_char s c pos = find_char_from c (drop pos s) pos"

fun is_prefix :: "string \<Rightarrow> string \<Rightarrow> bool" where
  "is_prefix [] s = True"
| "is_prefix (p # ps) [] = False"
| "is_prefix (p # ps) (c # cs) = (p = c \<and> is_prefix ps cs)"

fun find_str_from :: "string \<Rightarrow> string \<Rightarrow> nat \<Rightarrow> nat option" where
  "find_str_from p [] i = (if p = [] then Some i else None)"
| "find_str_from p (x # xs) i = (if is_prefix p (x # xs) then Some i else find_str_from p xs (Suc i))"

definition str_find :: "string \<Rightarrow> string \<Rightarrow> nat \<Rightarrow> nat option" where
  "str_find s p pos = (if pos \<le> length s then find_str_from p (drop pos s) pos else None)"

definition substr :: "string \<Rightarrow> nat \<Rightarrow> nat \<Rightarrow> string" where
  "substr s pos n = take n (drop pos s)"

lemma is_prefix_iff: "is_prefix p s \<longleftrightarrow> prefix p s"
  by (induction p s rule: is_prefix.induct) auto

lemma find_char_from_None: "find_char_from c s i = None \<longleftrightarrow> c \<notin> set s"
  by (induction s arbitrary: i) auto

lemma find_char_from_append:
  "c \<notin> set ys \<Longrightarrow> find_char_from c (ys @ c # zs) i = Some (i + length ys)"
  by (induction ys arbitrary: i) auto

lemma find_char_from_Some:
  "find_char_from c s i = Some j \<longleftrightarrow> (\<exists>ys zs. s = ys @ c # zs \<and> c \<notin> set ys \<and> j = i + length ys)"
proof
  assume *: "find_char_from c s i = Some j"
  then have "c \<in> set s" using find_char_from_None [of c s i] by auto
  then obtain ys zs where "s = ys @ c # zs" "c \<notin> set ys" by (metis split_list_first)
  then show "\<exists>ys zs. s = ys @ c # zs \<and> c \<notin> set ys \<and> j = i + length ys"
    using * find_char_from_append [of c ys zs i] by auto
qed (auto simp: find_char_from_append)

lemma find_str_from_None: "find_str_from p s i = None \<Longrightarrow> \<not> sublist p s"
proof (induction p s i rule: find_str_from.induct)
  case (1 p i)
  then show ?case by (auto split: if_splits)
next
  case (2 p x xs i)
  then show ?case by (auto simp: is_prefix_iff sublist_Cons_right split: if_splits)
qed

lemma find_str_from_Some:
  "find_str_from p s i = Some j \<Longrightarrow> \<exists>ys zs. s = ys @ p @ zs \<and> j = i + length ys"
proof (induction p s i rule: find_str_from.induct)
  case (1 p i)
  then show ?case by (auto split: if_splits)
next
  case (2 p x xs i)
  show ?case
  proof (cases "is_prefix p (x # xs)")
    case True
    then have "x # xs = [] @ p @ drop (length p) (x # xs)"
      by (auto simp: is_prefix_iff prefix_def)
    then show ?thesis using 2 True by auto
  next
    case False
    then obtain ys zs where "xs = ys @ p @ zs" "j = Suc i + length ys" using 2 by auto
    then have "x # xs = (x # ys) @ p @ zs \<and> j = i + length (x # ys)" by simp
    then show ?thesis by blast
  qed
qed

section \<open>StringUtil\<close>

record string_util =
  StartsWith :: "string \<Rightarrow> string \<Rightarrow> bool"
  Contains :: "string \<Rightarrow> string \<Rightarrow> bool"
  CIEquals :: "string \<Rightarrow> string \<Rightarrow> bool"
  Lower :: "string \<Rightarrow> string"
  RTrim :: "string \<Rightarrow> string \<Rightarrow> string"
  CharacterIsAlpha :: "char \<Rightarrow> bool"
  CharacterIsDigit :: "char \<Rightarrow> bool"
  CharacterIsAlphaNumeric :: "char \<Rightarrow> bool"

definition ascii_lower :: "char \<Rightarrow> char" where
  "ascii_lower c = (if 65 \<le> (of_char c :: nat) \<and> (of_char c :: nat) \<le> 90
     then char_of ((of_char c :: nat) + 32) else c)"

lemma ascii_lower_upper [simp]:
  "ascii_lower CHR ''A'' = CHR ''a''"
  "ascii_lower CHR ''B'' = CHR ''b''"
  "ascii_lower CHR ''C'' = CHR ''c''"
  "ascii_lower CHR ''D'' = CHR ''d''"
  "ascii_lower CHR ''E'' = CHR ''e''"
  "ascii_lower CHR ''F'' = CHR ''f''"
  "ascii_lower CHR ''G'' = CHR ''g''"
  "ascii_lower CHR ''H'' = CHR ''h''"
  "ascii_lower CHR ''I'' = CHR ''i''"
  "ascii_lower CHR ''J'' = CHR ''j''"
  "ascii_lower CHR ''K'' = CHR ''k''"
  "ascii_lower CHR ''L'' = CHR ''l''"
  "ascii_lower CHR ''M'' = CHR ''m''"
  "ascii_lower CHR ''N'' = CHR ''n''"
  "ascii_lower CHR ''O'' = CHR ''o''"
  "ascii_lower CHR ''P'' = CHR ''p''"
  "ascii_lower CHR ''Q'' = CHR ''q''"
  "ascii_lower CHR ''R'' = CHR ''r''"
  "ascii_lower CHR ''S'' = CHR ''s''"
  "ascii_lower CHR ''T'' = CHR ''t''"
  "ascii_lower CHR ''U'' = CHR ''u''"
  "ascii_lower CHR ''V'' = CHR ''v''"
  "ascii_lower CHR ''W'' = CHR ''w''"
  "ascii_lower CHR ''X'' = CHR ''x''"
  "ascii_lower CHR ''Y'' = CHR ''y''"
  "ascii_lower CHR ''Z'' = CHR ''z''"
  by (simp_all add: ascii_lower_def char_of_def bit_Suc_0_iff)

lemma ascii_lower_other [simp]: "(of_char c :: nat) < 65 \<or> 90 < (of_char c :: nat) \<Longrightarrow> ascii_lower c = c"
  by (auto simp: ascii_lower_def)
definition ascii_digit :: "char \<Rightarrow> bool" where
  "ascii_digit c \<longleftrightarrow> 48 \<le> (of_char c :: nat) \<and> (of_char c :: nat) \<le> 57"

definition ascii_alpha :: "char \<Rightarrow> bool" where
  "ascii_alpha c \<longleftrightarrow> 65 \<le> (of_char c :: nat) \<and> (of_char c :: nat) \<le> 90 \<or>
     97 \<le> (of_char c :: nat) \<and> (of_char c :: nat) \<le> 122"

locale string_util_laws =
  fixes su :: "string_util"
  assumes StartsWith_law [string_laws]: "StartsWith su s p = is_prefix p s"
    and Contains_law [string_laws]: "Contains su s p = sublist p s"
    and CIEquals_law [string_laws]: "CIEquals su s t = (map ascii_lower s = map ascii_lower t)"
    and Lower_law [string_laws]: "Lower su s = map ascii_lower s"
    and RTrim_law [string_laws]: "RTrim su s cs = rev (dropWhile (\<lambda>c. c \<in> set cs) (rev s))"
    and IsAlpha_law [string_laws]: "CharacterIsAlpha su c = ascii_alpha c"
    and IsDigit_law [string_laws]: "CharacterIsDigit su c = ascii_digit c"
    and IsAlphaNumeric_law [string_laws]:
      "CharacterIsAlphaNumeric su c = (ascii_alpha c \<or> ascii_digit c)"
begin

lemma CIEquals_refl: "CIEquals su s s"
  by (simp add: CIEquals_law)

lemma CIEquals_sym: "CIEquals su s t \<longleftrightarrow> CIEquals su t s"
  by (auto simp: CIEquals_law)

lemma CIEquals_trans: "CIEquals su s t \<Longrightarrow> CIEquals su t u \<Longrightarrow> CIEquals su s u"
  by (simp add: CIEquals_law)

lemma StartsWith_iff: "StartsWith su s p \<longleftrightarrow> (\<exists>r. s = p @ r)"
  by (simp add: StartsWith_law is_prefix_iff prefix_def)

lemma RTrim_no_suffix: "s = [] \<or> last s \<notin> set cs \<Longrightarrow> RTrim su s cs = s"
  by (cases s rule: rev_cases) (auto simp: RTrim_law)

end

text \<open>The operations of \<open>StringUtil\<close> written out for ASCII; the witnesses evaluate them.\<close>

definition ascii_string_util :: string_util where
  "ascii_string_util = \<lparr>
     StartsWith = (\<lambda>s p. is_prefix p s),
     Contains = (\<lambda>s p. str_find s p 0 \<noteq> None),
     CIEquals = (\<lambda>s t. map ascii_lower s = map ascii_lower t),
     Lower = map ascii_lower,
     RTrim = (\<lambda>s cs. rev (dropWhile (\<lambda>c. c \<in> set cs) (rev s))),
     CharacterIsAlpha = ascii_alpha,
     CharacterIsDigit = ascii_digit,
     CharacterIsAlphaNumeric = (\<lambda>c. ascii_alpha c \<or> ascii_digit c)\<rparr>"

lemma str_find_iff_sublist: "str_find s p 0 \<noteq> None \<longleftrightarrow> sublist p s"
  unfolding str_find_def using find_str_from_None [of p s 0] find_str_from_Some [of p s 0]
  by (cases "find_str_from p s 0") (auto simp: sublist_def)

interpretation ascii: string_util_laws ascii_string_util
  by unfold_locales (simp_all add: ascii_string_util_def str_find_iff_sublist del: not_None_eq)

end
