(* ===== verification/Table_Properties.thy ===== *)
theory Table_Properties
  imports Prelude
begin

text \<open>
  The table property keys the extension knows (delta\_table\_properties.cpp): the four constant
  arrays, the list \<open>KnownKeys\<close> built from them, the case-insensitive lookup and the check every
  statement that takes properties runs. The did-you-mean text is computed by the Jaro-Winkler ranking
  of DuckDB, which is the parameter \<open>cand\<close>.
\<close>

definition KERNEL_TABLE_PROPERTIES :: "string list" where
  "KERNEL_TABLE_PROPERTIES = [
     ''delta.appendOnly'',
     ''delta.autoOptimize.autoCompact'',
     ''delta.autoOptimize.optimizeWrite'',
     ''delta.checkpointInterval'',
     ''delta.checkpoint.writeStatsAsJson'',
     ''delta.checkpoint.writeStatsAsStruct'',
     ''delta.columnMapping.mode'',
     ''delta.columnMapping.maxColumnId'',
     ''delta.dataSkippingNumIndexedCols'',
     ''delta.dataSkippingStatsColumns'',
     ''delta.deletedFileRetentionDuration'',
     ''delta.enableChangeDataFeed'',
     ''delta.enableDeletionVectors'',
     ''delta.enableTypeWidening'',
     ''delta.enableIcebergCompatV1'',
     ''delta.enableIcebergCompatV2'',
     ''delta.enableIcebergCompatV3'',
     ''delta.isolationLevel'',
     ''delta.logRetentionDuration'',
     ''delta.enableExpiredLogCleanup'',
     ''delta.randomizeFilePrefixes'',
     ''delta.randomPrefixLength'',
     ''delta.setTransactionRetentionDuration'',
     ''delta.targetFileSize'',
     ''delta.tuneFileSizesForRewrites'',
     ''delta.checkpointPolicy'',
     ''delta.enableRowTracking'',
     ''delta.rowTracking.materializedRowIdColumnName'',
     ''delta.rowTracking.materializedRowCommitVersionColumnName'',
     ''delta.rowTrackingSuspended'',
     ''delta.parquet.format.version'',
     ''delta.parquet.compression.codec'',
     ''delta.enableInCommitTimestamps'',
     ''delta.inCommitTimestampEnablementVersion'',
     ''delta.inCommitTimestampEnablementTimestamp'']"

definition DUCKDB_DELTA_TABLE_PROPERTIES :: "string list" where
  "DUCKDB_DELTA_TABLE_PROPERTIES = [
     ''delta.enableVariantShredding'']"

definition KERNEL_TABLE_FEATURES :: "string list" where
  "KERNEL_TABLE_FEATURES = [
     ''appendOnly'',
     ''invariants'',
     ''checkConstraints'',
     ''changeDataFeed'',
     ''generatedColumns'',
     ''identityColumns'',
     ''inCommitTimestamp'',
     ''rowTracking'',
     ''domainMetadata'',
     ''icebergCompatV1'',
     ''icebergCompatV2'',
     ''icebergCompatV3'',
     ''icebergNativeV4-preview'',
     ''clustering'',
     ''materializePartitionColumns'',
     ''catalogManaged'',
     ''catalogOwned-preview'',
     ''columnMapping'',
     ''deletionVectors'',
     ''timestampNtz'',
     ''typeWidening'',
     ''typeWidening-preview'',
     ''v2Checkpoint'',
     ''vacuumProtocolCheck'',
     ''variantType'',
     ''variantType-preview'',
     ''variantShredding'',
     ''variantShredding-preview'',
     ''adaptiveMetadata-preview'',
     ''allowColumnDefaults'',
     ''geospatial'']"

definition PROTOCOL_PROPERTIES :: "string list" where
  "PROTOCOL_PROPERTIES = [
     ''delta.minReaderVersion'',
     ''delta.minWriterVersion'']"

definition KnownKeys :: "string list" where
  "KnownKeys = KERNEL_TABLE_PROPERTIES @ DUCKDB_DELTA_TABLE_PROPERTIES @
     map (\<lambda>feature. ''delta.feature.'' @ feature) KERNEL_TABLE_FEATURES @ PROTOCOL_PROPERTIES"

definition IsDeltaKey :: "string_util \<Rightarrow> string \<Rightarrow> bool" where
  "IsDeltaKey su key = StartsWith su (Lower su key) ''delta.''"

definition FindKnownKey :: "string_util \<Rightarrow> string \<Rightarrow> string option" where
  "FindKnownKey su key = find (\<lambda>known. CIEquals su known key) KnownKeys"

definition ThrowIfUnknownDeltaKey ::
  "string_util \<Rightarrow> (string list \<Rightarrow> string \<Rightarrow> string) \<Rightarrow> string \<Rightarrow> string \<Rightarrow> unit throws" where
  "ThrowIfUnknownDeltaKey su cand key statement =
    (if \<not> IsDeltaKey su key then Inr ()
     else case FindKnownKey su key of
       Some known \<Rightarrow>
         if known = key then Inr ()
         else Inl (Err InvalidInput ''Delta table property keys are case-sensitive''
                    [statement, key, known])
     | None \<Rightarrow> Inl (Err InvalidInput ''unknown Delta table property''
                    [statement, key, cand KnownKeys key]))"

lemmas known_key_lists =
  KnownKeys_def KERNEL_TABLE_PROPERTIES_def DUCKDB_DELTA_TABLE_PROPERTIES_def
  KERNEL_TABLE_FEATURES_def PROTOCOL_PROPERTIES_def

lemma KnownKeys_lower:
  "map (map ascii_lower) KnownKeys = [
     ''delta.appendonly'',
     ''delta.autooptimize.autocompact'',
     ''delta.autooptimize.optimizewrite'',
     ''delta.checkpointinterval'',
     ''delta.checkpoint.writestatsasjson'',
     ''delta.checkpoint.writestatsasstruct'',
     ''delta.columnmapping.mode'',
     ''delta.columnmapping.maxcolumnid'',
     ''delta.dataskippingnumindexedcols'',
     ''delta.dataskippingstatscolumns'',
     ''delta.deletedfileretentionduration'',
     ''delta.enablechangedatafeed'',
     ''delta.enabledeletionvectors'',
     ''delta.enabletypewidening'',
     ''delta.enableicebergcompatv1'',
     ''delta.enableicebergcompatv2'',
     ''delta.enableicebergcompatv3'',
     ''delta.isolationlevel'',
     ''delta.logretentionduration'',
     ''delta.enableexpiredlogcleanup'',
     ''delta.randomizefileprefixes'',
     ''delta.randomprefixlength'',
     ''delta.settransactionretentionduration'',
     ''delta.targetfilesize'',
     ''delta.tunefilesizesforrewrites'',
     ''delta.checkpointpolicy'',
     ''delta.enablerowtracking'',
     ''delta.rowtracking.materializedrowidcolumnname'',
     ''delta.rowtracking.materializedrowcommitversioncolumnname'',
     ''delta.rowtrackingsuspended'',
     ''delta.parquet.format.version'',
     ''delta.parquet.compression.codec'',
     ''delta.enableincommittimestamps'',
     ''delta.incommittimestampenablementversion'',
     ''delta.incommittimestampenablementtimestamp'',
     ''delta.enablevariantshredding'',
     ''delta.feature.appendonly'',
     ''delta.feature.invariants'',
     ''delta.feature.checkconstraints'',
     ''delta.feature.changedatafeed'',
     ''delta.feature.generatedcolumns'',
     ''delta.feature.identitycolumns'',
     ''delta.feature.incommittimestamp'',
     ''delta.feature.rowtracking'',
     ''delta.feature.domainmetadata'',
     ''delta.feature.icebergcompatv1'',
     ''delta.feature.icebergcompatv2'',
     ''delta.feature.icebergcompatv3'',
     ''delta.feature.icebergnativev4-preview'',
     ''delta.feature.clustering'',
     ''delta.feature.materializepartitioncolumns'',
     ''delta.feature.catalogmanaged'',
     ''delta.feature.catalogowned-preview'',
     ''delta.feature.columnmapping'',
     ''delta.feature.deletionvectors'',
     ''delta.feature.timestampntz'',
     ''delta.feature.typewidening'',
     ''delta.feature.typewidening-preview'',
     ''delta.feature.v2checkpoint'',
     ''delta.feature.vacuumprotocolcheck'',
     ''delta.feature.varianttype'',
     ''delta.feature.varianttype-preview'',
     ''delta.feature.variantshredding'',
     ''delta.feature.variantshredding-preview'',
     ''delta.feature.adaptivemetadata-preview'',
     ''delta.feature.allowcolumndefaults'',
     ''delta.feature.geospatial'',
     ''delta.minreaderversion'',
     ''delta.minwriterversion'']"
  unfolding known_key_lists by simp

lemma KnownKeys_distinct: "distinct (map (map ascii_lower) KnownKeys)"
  unfolding KnownKeys_lower by simp

lemma KnownKeys_delta: "list_all (is_prefix ''delta.'') KnownKeys"
  unfolding known_key_lists by simp

lemma KnownKeys_unique:
  assumes "k \<in> set KnownKeys" "k' \<in> set KnownKeys" "map ascii_lower k = map ascii_lower k'"
  shows "k = k'"
  using KnownKeys_distinct assms by (auto simp: distinct_map inj_on_def)

context string_util_laws
begin

lemma IsDeltaKey_iff: "IsDeltaKey su key \<longleftrightarrow> is_prefix ''delta.'' (map ascii_lower key)"
  by (simp add: IsDeltaKey_def string_laws)

lemma FindKnownKey_Some:
  "FindKnownKey su key = Some known \<longleftrightarrow>
     known \<in> set KnownKeys \<and> map ascii_lower known = map ascii_lower key"
proof
  assume "FindKnownKey su key = Some known"
  then show "known \<in> set KnownKeys \<and> map ascii_lower known = map ascii_lower key"
    unfolding FindKnownKey_def find_Some_iff by (auto simp: string_laws)
next
  assume known: "known \<in> set KnownKeys \<and> map ascii_lower known = map ascii_lower key"
  then obtain k where k: "FindKnownKey su key = Some k"
    by (cases "FindKnownKey su key") (auto simp: FindKnownKey_def find_None_iff string_laws)
  then have "k \<in> set KnownKeys \<and> map ascii_lower k = map ascii_lower key"
    unfolding FindKnownKey_def find_Some_iff by (auto simp: string_laws)
  then show "FindKnownKey su key = Some known" using k known KnownKeys_unique by metis
qed

lemma FindKnownKey_None:
  "FindKnownKey su key = None \<longleftrightarrow> map ascii_lower key \<notin> map ascii_lower ` set KnownKeys"
  using FindKnownKey_Some by (metis (no_types, lifting) image_iff not_Some_eq)

lemma ThrowIfUnknownDeltaKey_ok:
  "ThrowIfUnknownDeltaKey su cand key st = Inr () \<longleftrightarrow>
     \<not> is_prefix ''delta.'' (map ascii_lower key) \<or> key \<in> set KnownKeys"
  by (auto simp: ThrowIfUnknownDeltaKey_def IsDeltaKey_iff FindKnownKey_Some FindKnownKey_None
      split: option.splits)
    (metis FindKnownKey_Some option.inject)+

lemma ThrowIfUnknownDeltaKey_misspelled:
  assumes "known \<in> set KnownKeys" "known \<noteq> key" "map ascii_lower known = map ascii_lower key"
  shows "ThrowIfUnknownDeltaKey su cand key st =
    Inl (Err InvalidInput ''Delta table property keys are case-sensitive'' [st, key, known])"
proof -
  have "is_prefix ''delta.'' known" using KnownKeys_delta assms(1) by (simp add: list_all_iff)
  then have "is_prefix ''delta.'' (map ascii_lower known)"
    by (auto simp: is_prefix_iff prefix_def)
  then show ?thesis
    using assms FindKnownKey_Some [of key known]
    by (simp add: ThrowIfUnknownDeltaKey_def IsDeltaKey_iff)
qed

end

section \<open>Properties\<close>

text \<open>The property check accepts a key exactly when it is outside the delta namespace (in any case)
  or is a known key spelled exactly, and a known key in the wrong case is refused with its one
  canonical spelling.\<close>

theorem ThrowIfUnknownDeltaKey_spec:
  assumes "string_util_laws su"
  shows "(ThrowIfUnknownDeltaKey su cand key st = Inr () \<longleftrightarrow>
       \<not> is_prefix ''delta.'' (map ascii_lower key) \<or> key \<in> set KnownKeys) \<and>
     (\<forall>known \<in> set KnownKeys. known \<noteq> key \<and> map ascii_lower known = map ascii_lower key \<longrightarrow>
       ThrowIfUnknownDeltaKey su cand key st =
         Inl (Err InvalidInput ''Delta table property keys are case-sensitive'' [st, key, known]))"
  using string_util_laws.ThrowIfUnknownDeltaKey_ok [OF assms]
    string_util_laws.ThrowIfUnknownDeltaKey_misspelled [OF assms] by blast

theorem ThrowIfUnknownDeltaKey_spec_witness:
  "ThrowIfUnknownDeltaKey ascii_string_util (\<lambda>_ _. []) ''delta.appendonly'' ''COPY'' =
     Inl (Err InvalidInput ''Delta table property keys are case-sensitive''
       [''COPY'', ''delta.appendonly'', ''delta.appendOnly''])
   \<and> ThrowIfUnknownDeltaKey ascii_string_util (\<lambda>_ _. []) ''delta.appendOnly'' ''COPY'' = Inr ()"
proof -
  have "''delta.appendOnly'' \<in> set KnownKeys" by (simp add: known_key_lists)
  then show ?thesis
    using ThrowIfUnknownDeltaKey_spec [OF ascii.string_util_laws_axioms, of "\<lambda>_ _. []" _ "''COPY''"]
    by simp
qed

end
