(* ===== verification/Paths.thy ===== *)
theory Paths
  imports Prelude
begin

text \<open>
  Paths and URIs. The writer percent-encodes the path of a data file into \<open>add.path\<close>
  (\<open>EncodePathAsUri\<close>, delta\_transaction.cpp); the reader decodes it and resolves it against the table
  root (\<open>url_decode\<close>, \<open>HasUriScheme\<close> and the first half of ScanDataCallBack::VisitCallbackInternal,
  delta\_multi\_file\_list.cpp), and translates between the spellings of DuckDB and of the kernel
  (\<open>ToDuckDBPath\<close>, \<open>ToDeltaPath\<close>).

  \<open>url_decode\<close> calls \<open>sscanf("%x")\<close> and ignores whether it converted anything: on a failed conversion the
  variable it reads is uninitialised. The value of that variable is the parameter \<open>junk\<close>, indexed by
  the position of the loop. The contract between writer and reader is the locale
  \<open>add_path_encoder\<close>, which \<open>EncodePathAsUri\<close> is shown to meet.
\<close>

section \<open>Decoding\<close>

definition c_isspace :: "char \<Rightarrow> bool" where
  "c_isspace c = (let n = (of_char c :: nat) in n = 32 \<or> 9 \<le> n \<and> n \<le> 13)"

definition hex_digit_value :: "char \<Rightarrow> nat option" where
  "hex_digit_value c = (let n = (of_char c :: nat) in
     if 48 \<le> n \<and> n \<le> 57 then Some (n - 48)
     else if 65 \<le> n \<and> n \<le> 70 then Some (n - 55)
     else if 97 \<le> n \<and> n \<le> 102 then Some (n - 87)
     else None)"

fun hex_value :: "nat \<Rightarrow> string \<Rightarrow> nat" where
  "hex_value acc [] = acc"
| "hex_value acc (c # cs) =
     (case hex_digit_value c of Some d \<Rightarrow> hex_value (16 * acc + d) cs | None \<Rightarrow> acc)"

fun drop_hex_prefix :: "string \<Rightarrow> string" where
  "drop_hex_prefix (a # b # cs) =
     (if a = CHR ''0'' \<and> (b = CHR ''x'' \<or> b = CHR ''X'') then cs else a # b # cs)"
| "drop_hex_prefix s = s"

definition sscanf_x :: "string \<Rightarrow> 32 word option" where
  "sscanf_x s =
    (let t = dropWhile c_isspace (takeWhile (\<lambda>c. c \<noteq> CHR 0x00) s);
         neg = (t \<noteq> [] \<and> hd t = CHR ''-'');
         u = (if t \<noteq> [] \<and> (hd t = CHR ''-'' \<or> hd t = CHR ''+'') then tl t else t);
         v = drop_hex_prefix u
     in if v = [] \<or> hex_digit_value (hd v) = None then None
        else Some (if neg then - of_nat (hex_value 0 v) else of_nat (hex_value 0 v)))"

fun url_decode_loop :: "(nat \<Rightarrow> 32 word) \<Rightarrow> nat \<Rightarrow> string \<Rightarrow> string" where
  "url_decode_loop junk i [] = []"
| "url_decode_loop junk i (c # cs) =
     (if (of_char c :: nat) = 37 then
        let ii = (case sscanf_x (take 2 cs) of Some v \<Rightarrow> v | None \<Rightarrow> junk i)
        in char_of (unat ii) # url_decode_loop junk (i + 3) (drop 2 cs)
      else c # url_decode_loop junk (i + 1) cs)"

definition url_decode :: "(nat \<Rightarrow> 32 word) \<Rightarrow> string \<Rightarrow> string" where
  "url_decode junk input = url_decode_loop junk 0 input"

section \<open>Encoding\<close>

definition HEX_DIGIT :: string where
  "HEX_DIGIT = ''0123456789ABCDEF''"

definition uri_unreserved :: "string_util \<Rightarrow> char \<Rightarrow> bool" where
  "uri_unreserved su c \<longleftrightarrow> CharacterIsAlphaNumeric su c \<or> c = CHR ''_'' \<or> c = CHR ''-'' \<or>
     c = CHR ''~'' \<or> c = CHR ''.'' \<or> c = CHR ''/'' \<or> c = CHR ''=''"

definition EncodePathAsUri :: "string_util \<Rightarrow> string \<Rightarrow> string" where
  "EncodePathAsUri su path =
     concat (map (\<lambda>c. if uri_unreserved su c then [c]
       else [CHR ''%'', HEX_DIGIT ! (drop_bit 4 (of_char c :: nat)),
             HEX_DIGIT ! (take_bit 4 (of_char c :: nat))]) path)"

section \<open>Resolving \<open>add.path\<close>\<close>

definition HasUriScheme :: "string_util \<Rightarrow> string \<Rightarrow> bool" where
  "HasUriScheme su path =
    (case str_find path ''://'' 0 of
       None \<Rightarrow> False
     | Some pos \<Rightarrow>
         pos \<noteq> 0 \<and> CharacterIsAlpha su (path ! 0) \<and>
         list_all (\<lambda>i. let c = path ! i in
             CharacterIsAlphaNumeric su c \<or> c = CHR ''+'' \<or> c = CHR ''-'' \<or> c = CHR ''.'')
           [1..<pos])"

definition ToDuckDBPath :: "string_util \<Rightarrow> string \<Rightarrow> string" where
  "ToDuckDBPath su raw_path =
    (if StartsWith su raw_path ''file://localhost/'' then drop 16 raw_path
     else if StartsWith su raw_path ''file://'' then drop 7 raw_path
     else if StartsWith su raw_path ''file:/'' then drop 5 raw_path
     else raw_path)"

text \<open>\<open>join\<close> and \<open>cwd\<close> stand for LocalFileSystem::JoinPath and GetWorkingDirectory. On an empty path the
  source reads \<open>path[path.size() - 1]\<close>, which is outside the string.\<close>

definition ToDeltaPath ::
  "string_util \<Rightarrow> (string \<Rightarrow> string \<Rightarrow> string) \<Rightarrow> string \<Rightarrow> string \<Rightarrow> string throws" where
  "ToDeltaPath su join cwd raw_path =
    (let path = (if StartsWith su raw_path ''./''
                 then ''file://'' @ join cwd (drop 2 raw_path) else raw_path)
     in if path = [] then Inl (Err UndefinedBehaviour ''path[path.size() - 1]'' [])
        else if last path \<noteq> CHR ''/'' then Inr (path @ ''/'') else Inr path)"

definition IsAbsoluteAddPath :: "string_util \<Rightarrow> string \<Rightarrow> bool" where
  "IsAbsoluteAddPath su sub_path \<longleftrightarrow>
    (StartsWith su sub_path ''/'' \<and> str_find_char sub_path CHR ''/'' 1 \<noteq> None) \<or>
    HasUriScheme su sub_path \<or> StartsWith su sub_path ''file:/''"

definition ResolveAddPath :: "string_util \<Rightarrow> (nat \<Rightarrow> 32 word) \<Rightarrow> string \<Rightarrow> string \<Rightarrow> string" where
  "ResolveAddPath su junk root sub_path =
    (let path_string = (if IsAbsoluteAddPath su sub_path then sub_path
                        else RTrim su root ''/'' @ ''/'' @ sub_path)
     in ToDuckDBPath su (url_decode junk path_string))"

section \<open>The codec\<close>

lemma HEX_DIGIT_decode:
  "k < 16 \<Longrightarrow> hex_digit_value (HEX_DIGIT ! k) = Some k \<and> \<not> c_isspace (HEX_DIGIT ! k) \<and>
     HEX_DIGIT ! k \<notin> {CHR 0x00, CHR ''-'', CHR ''+'', CHR ''x'', CHR ''X'', CHR '':'', CHR ''/''}"
proof -
  have "list_all (\<lambda>k. hex_digit_value (HEX_DIGIT ! k) = Some k \<and> \<not> c_isspace (HEX_DIGIT ! k) \<and>
     HEX_DIGIT ! k \<notin> set [CHR 0x00, CHR ''-'', CHR ''+'', CHR ''x'', CHR ''X'', CHR '':'', CHR ''/''])
     [0..<16]"
    by (simp add: upt_rec HEX_DIGIT_def hex_digit_value_def c_isspace_def)
  then show "k < 16 \<Longrightarrow> ?thesis" by (simp add: list_all_iff)
qed

lemma sscanf_x_two_digits:
  assumes "a < 16" "b < 16"
  shows "sscanf_x [HEX_DIGIT ! a, HEX_DIGIT ! b] = Some (of_nat (16 * a + b))"
  using HEX_DIGIT_decode [OF assms(1)] HEX_DIGIT_decode [OF assms(2)]
  by (auto simp: sscanf_x_def Let_def)

lemma url_decode_loop_plain:
  "CHR ''%'' \<notin> set r \<Longrightarrow> url_decode_loop junk i (r @ s) = r @ url_decode_loop junk (i + length r) s"
proof (induction r arbitrary: i)
  case (Cons c r)
  have "(of_char c :: nat) \<noteq> 37"
  proof
    assume "(of_char c :: nat) = 37"
    then have "(of_char c :: nat) = of_char CHR ''%''" by simp
    then have "c = CHR ''%''" by (simp only: of_char_eq_iff)
    then show False using Cons.prems by auto
  qed
  then show ?case using Cons by simp
qed simp

lemma nibbles: "drop_bit 4 (of_char c :: nat) < 16" "take_bit 4 (of_char c :: nat) < 16"
proof -
  have "(of_char c :: nat) < 16 * 16" by simp
  then show "drop_bit 4 (of_char c :: nat) < 16"
    unfolding drop_bit_eq_div by (simp add: less_mult_imp_div_less)
qed (simp add: take_bit_eq_mod)

lemma url_decode_loop_escape:
  "url_decode_loop junk i ([CHR ''%'', HEX_DIGIT ! (drop_bit 4 (of_char c :: nat)),
     HEX_DIGIT ! (take_bit 4 (of_char c :: nat))] @ s) = c # url_decode_loop junk (i + 3) s"
proof -
  let ?n = "of_char c :: nat"
  have n: "?n < 256" by simp
  have "16 * drop_bit 4 ?n + take_bit 4 ?n = ?n"
    by (simp add: drop_bit_eq_div take_bit_eq_mod)
  then have "sscanf_x [HEX_DIGIT ! drop_bit 4 ?n, HEX_DIGIT ! take_bit 4 ?n] = Some (of_nat ?n)"
    by (simp only: sscanf_x_two_digits [OF nibbles])
  moreover have "unat (of_nat ?n :: 32 word) = ?n"
    using less_trans [OF n, of "2 ^ 32"] by (simp add: unat_of_nat)
  ultimately show ?thesis by simp
qed

context string_util_laws
begin

lemma unreserved_iff:
  "uri_unreserved su c \<longleftrightarrow> ascii_alpha c \<or> ascii_digit c \<or> c \<in> set ''_-~./=''"
  by (auto simp: uri_unreserved_def string_laws)

lemma reserved_chars: "\<not> uri_unreserved su CHR ''%''" "\<not> uri_unreserved su CHR '':''"
  by (simp_all add: unreserved_iff ascii_alpha_def ascii_digit_def)

lemma url_decode_loop_encode:
  "url_decode_loop junk i (EncodePathAsUri su p) = p"
proof (induction p arbitrary: i)
  case (Cons c p)
  show ?case
  proof (cases "uri_unreserved su c")
    case True
    then have "c \<noteq> CHR ''%''" using reserved_chars by metis
    then show ?thesis
      using True Cons.IH url_decode_loop_plain [of "[c]" junk i "EncodePathAsUri su p"]
      by (simp add: EncodePathAsUri_def)
  next
    case False
    then have "EncodePathAsUri su (c # p) = [CHR ''%'', HEX_DIGIT ! (drop_bit 4 (of_char c :: nat)),
        HEX_DIGIT ! (take_bit 4 (of_char c :: nat))] @ EncodePathAsUri su p"
      by (simp add: EncodePathAsUri_def)
    then show ?thesis using Cons.IH by (simp only: url_decode_loop_escape)
  qed
qed (simp add: EncodePathAsUri_def)

lemma EncodePathAsUri_no_colon: "CHR '':'' \<notin> set (EncodePathAsUri su p)"
proof -
  have "HEX_DIGIT ! (drop_bit 4 (of_char c :: nat)) \<noteq> CHR '':''"
    "HEX_DIGIT ! (take_bit 4 (of_char c :: nat)) \<noteq> CHR '':''" for c
    using HEX_DIGIT_decode [OF nibbles(1) [of c]] HEX_DIGIT_decode [OF nibbles(2) [of c]] by auto
  moreover have "c = CHR '':'' \<Longrightarrow> \<not> uri_unreserved su c" for c using reserved_chars by blast
  ultimately show ?thesis by (auto simp: EncodePathAsUri_def split: if_splits) metis+
qed

lemma EncodePathAsUri_head:
  "EncodePathAsUri su p \<noteq> [] \<and> hd (EncodePathAsUri su p) = CHR ''/'' \<longleftrightarrow> p \<noteq> [] \<and> hd p = CHR ''/''"
  by (cases p) (auto simp: EncodePathAsUri_def unreserved_iff)

end

section \<open>The contract between the writer and the reader of \<open>add.path\<close>\<close>

locale add_path_encoder = string_util_laws su for su +
  fixes enc :: "string \<Rightarrow> string" and dec :: "nat \<Rightarrow> string \<Rightarrow> string"
  assumes dec_plain: "CHR ''%'' \<notin> set r \<Longrightarrow> dec i (r @ s) = r @ dec (i + length r) s"
    and dec_enc: "dec i (enc p) = p"
    and enc_no_colon: "CHR '':'' \<notin> set (enc p)"
    and enc_head: "enc p \<noteq> [] \<and> hd (enc p) = CHR ''/'' \<longleftrightarrow> p \<noteq> [] \<and> hd p = CHR ''/''"
begin

lemma dec_under_root: "CHR ''%'' \<notin> set r \<Longrightarrow> dec 0 (r @ enc p) = r @ p"
  by (simp add: dec_plain dec_enc)

lemma no_scheme: "CHR '':'' \<notin> set s \<Longrightarrow> \<not> HasUriScheme su s"
  using find_str_from_Some [of "''://''" s 0]
  by (cases "find_str_from ''://'' s 0") (auto simp: HasUriScheme_def str_find_def)

lemma relative_stays_relative:
  assumes "p = [] \<or> hd p \<noteq> CHR ''/''"
  shows "\<not> IsAbsoluteAddPath su (enc p)"
proof -
  have "\<not> StartsWith su (enc p) ''/''"
    using enc_head [of p] assms by (cases "enc p") (auto simp: StartsWith_law)
  moreover have "\<not> StartsWith su (enc p) ''file:/''"
    using enc_no_colon [of p] by (auto simp: StartsWith_iff)
  ultimately show ?thesis using no_scheme [OF enc_no_colon] by (simp add: IsAbsoluteAddPath_def)
qed

end

sublocale string_util_laws \<subseteq> add_path: add_path_encoder su "EncodePathAsUri su" "url_decode_loop junk"
  for junk
  by unfold_locales
    (simp_all add: url_decode_loop_plain url_decode_loop_encode EncodePathAsUri_no_colon
      EncodePathAsUri_head)

context string_util_laws
begin

lemma RTrim_set: "set (RTrim su s cs) \<subseteq> set s"
  using set_dropWhileD by (fastforce simp: RTrim_law)

lemma resolve_encoded:
  assumes "rel = [] \<or> hd rel \<noteq> CHR ''/''" and "CHR ''%'' \<notin> set root"
  shows "ResolveAddPath su junk root (EncodePathAsUri su rel) =
    ToDuckDBPath su (RTrim su root ''/'' @ ''/'' @ rel)"
proof -
  have "CHR ''%'' \<notin> set (RTrim su root ''/'' @ ''/'')" using RTrim_set assms(2) by auto
  then show ?thesis
    using add_path.dec_under_root [of "RTrim su root ''/'' @ ''/''" junk rel]
      add_path.relative_stays_relative [OF assms(1)]
    by (simp add: ResolveAddPath_def url_decode_def)
qed

end

section \<open>Properties\<close>

text \<open>Decoding undoes encoding: whatever bytes the name of a data file holds, and whatever an
  uninitialised variable would hold, the reader's url_decode gives back the name the writer encoded.\<close>

theorem url_decode_EncodePathAsUri:
  assumes "string_util_laws su"
  shows "url_decode junk (EncodePathAsUri su path) = path"
  unfolding url_decode_def by (rule string_util_laws.url_decode_loop_encode [OF assms])

theorem url_decode_EncodePathAsUri_witness:
  "url_decode (\<lambda>_. 0) (EncodePathAsUri ascii_string_util ''p=a%20b/x y.parquet'')
     = ''p=a%20b/x y.parquet''
   \<and> EncodePathAsUri ascii_string_util ''p=a%20 :'' = ''p=a%2520%20%3A''"
  using url_decode_EncodePathAsUri [OF ascii.string_util_laws_axioms] by (simp, code_simp)

text \<open>What the writer records is what the reader opens: the encoded relative path of a data file is
  never mistaken for an absolute path or a URI, and resolving it against a table root without percent
  signs names exactly the file of that relative path under the root.\<close>

theorem ResolveAddPath_of_written_file:
  assumes "string_util_laws su" and "rel = [] \<or> hd rel \<noteq> CHR ''/''" and "CHR ''%'' \<notin> set root"
  shows "ResolveAddPath su junk root (EncodePathAsUri su rel) =
    ToDuckDBPath su (RTrim su root ''/'' @ ''/'' @ rel)"
  by (rule string_util_laws.resolve_encoded [OF assms])

theorem ResolveAddPath_of_written_file_witness:
  "ResolveAddPath ascii_string_util (\<lambda>_. 0) ''file:///data/t/''
      (EncodePathAsUri ascii_string_util ''p=a:b/f.parquet'') = ''/data/t/p=a:b/f.parquet''"
  using ResolveAddPath_of_written_file [OF ascii.string_util_laws_axioms,
      of "''p=a:b/f.parquet''" "''file:///data/t/''"]
  by (simp add: ToDuckDBPath_def ascii_string_util_def)

end
