(* ===== verification/Types.thy ===== *)
theory Types
  imports Prelude
begin

text \<open>
  The DuckDB types the extension distinguishes (\<open>LogicalTypeId\<close> with the nested type's info), the
  columns of a table (\<open>ColumnDefinition\<close>, \<open>ColumnList\<close>). An identifier is the
  string GetIdentifierName() gives; its comparison is case-insensitive in DuckDB and is a parameter
  wherever the code relies on it.
\<close>

datatype logical_type =
    BOOLEAN | TINYINT | SMALLINT | INTEGER | BIGINT | HUGEINT
  | UTINYINT | USMALLINT | UINTEGER | UBIGINT | UHUGEINT
  | FLOAT | DOUBLE | DECIMAL nat nat
  | VARCHAR | BLOB | BIT | UUID
  | DATE | TIME | TIME_TZ | INTERVAL
  | TIMESTAMP | TIMESTAMP_SEC | TIMESTAMP_MS | TIMESTAMP_NS | TIMESTAMP_TZ
  | VARIANT | SQLNULL | ENUM "string list" | UNION "(string \<times> logical_type) list"
  | is_struct: STRUCT (struct_fields: "(string \<times> logical_type) list")
  | is_list: LIST (list_child: logical_type)
  | ARRAY logical_type nat
  | is_map: MAP (map_key: logical_type) (map_value: logical_type)
  | OTHER_TYPE string

text \<open>A reference to a type inside a type, as the path of child positions from the outer type; the
  outer type itself is \<open>[]\<close>. It models the pointers FindUnsupportedType hands out.\<close>

type_synonym type_ref = "nat list \<times> logical_type"

record column_definition =
  col_name :: string
  col_type :: logical_type
  col_generated :: bool
  col_default :: bool

type_synonym column_list = "column_definition list"

lemma size_snd_lt_STRUCT [termination_simp]:
  "(n, t) \<in> set fs \<Longrightarrow> size t < Suc (size_list (size_prod (\<lambda>_. 0) size) fs)"
  by (induction fs) auto

end
