(* ===== verification/Schema_Builder.thy ===== *)
theory Schema_Builder
  imports Types
begin

text \<open>
  DeltaSchemaBuilder (delta\_schema\_builder.cpp): lowering the columns of a CREATE TABLE into a kernel
  schema through the kernel's \<open>visit_field_*\<close> entry points. The kernel is the parameter \<open>ffi\<close>: it takes
  the state the kernel keeps, which entry point is called with which child ids, the field name and
  nullability, and gives an error or the id of the new field with the new state.
\<close>

section \<open>Entry points of the kernel\<close>

datatype field_call =
    visit_field_boolean | visit_field_byte | visit_field_short | visit_field_integer
  | visit_field_long | visit_field_float | visit_field_double | visit_field_string
  | visit_field_binary | visit_field_date | visit_field_timestamp | visit_field_timestamp_ntz
  | visit_field_decimal nat nat
  | visit_field_variant nat
  | visit_field_struct "nat list"
  | visit_field_array nat
  | visit_field_map nat nat

type_synonym 's field_ffi = "'s \<Rightarrow> field_call \<Rightarrow> string \<Rightarrow> bool \<Rightarrow> string option + (nat \<times> 's)"

text \<open>KernelUtils::TryUnpackResult followed by Throw: a kernel error with or without a text becomes an
  IO exception.\<close>

definition Unpack :: "string option + 'a \<Rightarrow> 'a throws" where
  "Unpack result = (case result of
     Inl (Some text) \<Rightarrow> Inl (Err IOEx text [])
   | Inl None \<Rightarrow> Inl (Err IOEx ''Unknown Delta kernel error'' [])
   | Inr v \<Rightarrow> Inr v)"

section \<open>Lowering a type\<close>

fun FindUnsupportedType :: "logical_type \<Rightarrow> type_ref option"
and FindUnsupportedChild :: "nat \<Rightarrow> (string \<times> logical_type) list \<Rightarrow> type_ref option" where
  "FindUnsupportedType BOOLEAN = None"
| "FindUnsupportedType TINYINT = None"
| "FindUnsupportedType SMALLINT = None"
| "FindUnsupportedType INTEGER = None"
| "FindUnsupportedType BIGINT = None"
| "FindUnsupportedType FLOAT = None"
| "FindUnsupportedType DOUBLE = None"
| "FindUnsupportedType VARCHAR = None"
| "FindUnsupportedType BLOB = None"
| "FindUnsupportedType DATE = None"
| "FindUnsupportedType TIMESTAMP_TZ = None"
| "FindUnsupportedType TIMESTAMP = None"
| "FindUnsupportedType (DECIMAL w s) = None"
| "FindUnsupportedType VARIANT = None"
| "FindUnsupportedType (STRUCT children) = FindUnsupportedChild 0 children"
| "FindUnsupportedType (LIST child) =
     map_option (\<lambda>(p, t). (0 # p, t)) (FindUnsupportedType child)"
| "FindUnsupportedType (MAP key_type value_type) =
     (case FindUnsupportedType key_type of
        Some (p, t) \<Rightarrow> Some (0 # p, t)
      | None \<Rightarrow> map_option (\<lambda>(p, t). (1 # p, t)) (FindUnsupportedType value_type))"
| "FindUnsupportedType type = Some ([], type)"
| "FindUnsupportedChild i [] = None"
| "FindUnsupportedChild i ((name, type) # children) =
     (case FindUnsupportedType type of
        Some (p, t) \<Rightarrow> Some (i # p, t)
      | None \<Rightarrow> FindUnsupportedChild (Suc i) children)"

definition unsupported_column :: "string \<Rightarrow> type_ref \<Rightarrow> error" where
  "unsupported_column name ref = Err NotImplemented
     (if fst ref = [] then ''Delta CREATE TABLE does not support column''
      else ''Delta CREATE TABLE does not support column (it holds an unsupported type)'') [name]"

definition call_ffi ::
  "'s field_ffi \<Rightarrow> 's \<Rightarrow> field_call \<Rightarrow> string \<Rightarrow> bool \<Rightarrow> (nat \<times> 's) throws" where
  "call_ffi ffi st call name nullable = Unpack (ffi st call name nullable)"

fun VisitField :: "'s field_ffi \<Rightarrow> 's \<Rightarrow> string \<Rightarrow> logical_type \<Rightarrow> bool \<Rightarrow> (nat \<times> 's) throws"
and VisitChildren ::
  "'s field_ffi \<Rightarrow> 's \<Rightarrow> (string \<times> logical_type) list \<Rightarrow> (nat list \<times> 's) throws" where
  "VisitField ffi st name type nullable =
    (case FindUnsupportedType type of
       Some ref \<Rightarrow> Inl (unsupported_column name ref)
     | None \<Rightarrow>
      (case type of
         BOOLEAN \<Rightarrow> call_ffi ffi st visit_field_boolean name nullable
       | TINYINT \<Rightarrow> call_ffi ffi st visit_field_byte name nullable
       | SMALLINT \<Rightarrow> call_ffi ffi st visit_field_short name nullable
       | INTEGER \<Rightarrow> call_ffi ffi st visit_field_integer name nullable
       | BIGINT \<Rightarrow> call_ffi ffi st visit_field_long name nullable
       | FLOAT \<Rightarrow> call_ffi ffi st visit_field_float name nullable
       | DOUBLE \<Rightarrow> call_ffi ffi st visit_field_double name nullable
       | VARCHAR \<Rightarrow> call_ffi ffi st visit_field_string name nullable
       | BLOB \<Rightarrow> call_ffi ffi st visit_field_binary name nullable
       | DATE \<Rightarrow> call_ffi ffi st visit_field_date name nullable
       | TIMESTAMP_TZ \<Rightarrow> call_ffi ffi st visit_field_timestamp name nullable
       | TIMESTAMP \<Rightarrow> call_ffi ffi st visit_field_timestamp_ntz name nullable
       | DECIMAL w s \<Rightarrow> call_ffi ffi st (visit_field_decimal w s) name nullable
       | VARIANT \<Rightarrow>
           bindr (call_ffi ffi st visit_field_binary ''metadata'' False) (\<lambda>(m, st1).
           bindr (call_ffi ffi st1 visit_field_binary ''value'' False) (\<lambda>(v, st2).
           bindr (call_ffi ffi st2 (visit_field_struct [m, v]) name False) (\<lambda>(p, st3).
           call_ffi ffi st3 (visit_field_variant p) name nullable)))
       | STRUCT children \<Rightarrow>
           bindr (VisitChildren ffi st children) (\<lambda>(ids, st1).
           call_ffi ffi st1 (visit_field_struct ids) name nullable)
       | LIST child \<Rightarrow>
           bindr (VisitField ffi st ''element'' child True) (\<lambda>(e, st1).
           call_ffi ffi st1 (visit_field_array e) name nullable)
       | MAP key_type value_type \<Rightarrow>
           bindr (VisitField ffi st ''key'' key_type False) (\<lambda>(k, st1).
           bindr (VisitField ffi st1 ''value'' value_type True) (\<lambda>(v, st2).
           call_ffi ffi st2 (visit_field_map k v) name nullable))
       | _ \<Rightarrow> Inl (Err InternalEx ''Delta schema builder has no case for type'' [])))"
| "VisitChildren ffi st [] = Inr ([], st)"
| "VisitChildren ffi st ((name, type) # children) =
     bindr (VisitField ffi st name type True) (\<lambda>(i, st1).
     bindr (VisitChildren ffi st1 children) (\<lambda>(ids, st2). Inr (i # ids, st2)))"

text \<open>Build is called by the kernel: errors do not cross the FFI boundary, they are stored in the builder
  and 0 is returned. Every column of the table is visited in order with nullable set.\<close>

record 's build_result =
  root_id :: nat
  build_error :: "error option"
  build_state :: "'s option"

definition Build :: "'s field_ffi \<Rightarrow> 's \<Rightarrow> column_list \<Rightarrow> 's build_result" where
  "Build ffi st columns =
    (case bindr (VisitChildren ffi st (map (\<lambda>c. (col_name c, col_type c)) columns))
        (\<lambda>(ids, st1). call_ffi ffi st1 (visit_field_struct ids) ''root'' False) of
       Inr (i, st2) \<Rightarrow> \<lparr>root_id = i, build_error = None, build_state = Some st2\<rparr>
     | Inl e \<Rightarrow> \<lparr>root_id = 0, build_error = Some e, build_state = None\<rparr>)"

end
