(* ===== verification/Column_Def.thy ===== *)
theory Column_Def
  imports Types
begin

text \<open>
  DeltaMultiFileColumnDefinition (delta\_utils.hpp): a column of the scan schema with its nullability and
  its column-mapping identity, and the operations on field ids; and the parts of KernelUtils that read
  field metadata, the protocol and the column mapping mode of a snapshot (delta\_utils.cpp).

  A value of DuckDB is reduced to the kinds the code tells apart. The kernel's view of a snapshot (its
  protocol and metadata configuration) and of a field's metadata map are the parameters.
\<close>

section \<open>Columns\<close>

datatype identifier_value = Id_Null | Id_Integer int | Id_Varchar string

datatype column_def = ColumnDef
  (cd_name: string) (cd_type: logical_type) (cd_children: "column_def list") (cd_nullable: bool)
  (cd_char_varchar_type: string) (cd_physical_name: string) (cd_field_id: "nat option")
  (cd_identifier: identifier_value) (cd_default: "logical_type option")

definition new_column :: "string \<Rightarrow> logical_type \<Rightarrow> bool \<Rightarrow> column_def" where
  "new_column name type nullable = ColumnDef name type [] nullable [] [] None Id_Null None"

fun set_name :: "string \<Rightarrow> column_def \<Rightarrow> column_def" where
  "set_name x (ColumnDef n t cs nl cv p f i d) = ColumnDef x t cs nl cv p f i d"

fun set_children :: "column_def list \<Rightarrow> column_def \<Rightarrow> column_def" where
  "set_children x (ColumnDef n t cs nl cv p f i d) = ColumnDef n t x nl cv p f i d"

fun set_char_varchar_type :: "string \<Rightarrow> column_def \<Rightarrow> column_def" where
  "set_char_varchar_type x (ColumnDef n t cs nl cv p f i d) = ColumnDef n t cs nl x p f i d"

fun set_physical_name :: "string \<Rightarrow> column_def \<Rightarrow> column_def" where
  "set_physical_name x (ColumnDef n t cs nl cv p f i d) = ColumnDef n t cs nl cv x f i d"

fun set_field_id :: "nat option \<Rightarrow> column_def \<Rightarrow> column_def" where
  "set_field_id x (ColumnDef n t cs nl cv p f i d) = ColumnDef n t cs nl cv p x i d"

fun set_identifier :: "identifier_value \<Rightarrow> column_def \<Rightarrow> column_def" where
  "set_identifier x (ColumnDef n t cs nl cv p f i d) = ColumnDef n t cs nl cv p f x d"

fun set_default :: "logical_type option \<Rightarrow> column_def \<Rightarrow> column_def" where
  "set_default x (ColumnDef n t cs nl cv p f i d) = ColumnDef n t cs nl cv p f i x"

lemma column_def_updates [simp]:
  "cd_name (set_name x c) = x" "cd_type (set_name x c) = cd_type c"
  "cd_children (set_name x c) = cd_children c" "cd_identifier (set_name x c) = cd_identifier c"
  "cd_field_id (set_name x c) = cd_field_id c" "cd_physical_name (set_name x c) = cd_physical_name c"
  "cd_nullable (set_name x c) = cd_nullable c"
  "cd_type (set_children cs c) = cd_type c" "cd_children (set_children cs c) = cs"
  "cd_name (set_children cs c) = cd_name c" "cd_identifier (set_children cs c) = cd_identifier c"
  "cd_nullable (set_children cs c) = cd_nullable c"
  "cd_type (set_default d c) = cd_type c" "cd_children (set_default d c) = cd_children c"
  "cd_name (set_default d c) = cd_name c" "cd_nullable (set_default d c) = cd_nullable c"
  "cd_identifier (set_default d c) = cd_identifier c"
  "cd_type (set_identifier i c) = cd_type c" "cd_children (set_identifier i c) = cd_children c"
  "cd_identifier (set_identifier i c) = i" "cd_name (set_identifier i c) = cd_name c"
  "cd_nullable (set_identifier i c) = cd_nullable c"
  "cd_physical_name (set_identifier i c) = cd_physical_name c"
  "cd_field_id (set_identifier i c) = cd_field_id c"
  "cd_type (set_field_id f c) = cd_type c" "cd_name (set_field_id f c) = cd_name c"
  "cd_children (set_field_id f c) = cd_children c" "cd_field_id (set_field_id f c) = f"
  "cd_nullable (set_field_id f c) = cd_nullable c" "cd_identifier (set_field_id f c) = cd_identifier c"
  "cd_type (set_physical_name p c) = cd_type c" "cd_name (set_physical_name p c) = cd_name c"
  "cd_children (set_physical_name p c) = cd_children c" "cd_physical_name (set_physical_name p c) = p"
  "cd_nullable (set_physical_name p c) = cd_nullable c" "cd_identifier (set_physical_name p c) = cd_identifier c"
  "cd_type (set_char_varchar_type v c) = cd_type c" "cd_name (set_char_varchar_type v c) = cd_name c"
  "cd_children (set_char_varchar_type v c) = cd_children c"
  "cd_nullable (set_char_varchar_type v c) = cd_nullable c"
  "cd_identifier (set_char_varchar_type v c) = cd_identifier c"
  by (cases c; simp)+

lemma new_column_simps [simp]:
  "cd_name (new_column n t b) = n" "cd_type (new_column n t b) = t" "cd_children (new_column n t b) = []"
  "cd_nullable (new_column n t b) = b" "cd_identifier (new_column n t b) = Id_Null"
  "cd_field_id (new_column n t b) = None" "cd_physical_name (new_column n t b) = []"
  by (simp_all add: new_column_def)

section \<open>Field ids\<close>

definition has_field_id :: "column_def \<Rightarrow> bool" where
  "has_field_id c = (case cd_identifier c of Id_Integer _ \<Rightarrow> True | _ \<Rightarrow> False)"

definition AllHaveFieldIds :: "column_def list \<Rightarrow> bool" where
  "AllHaveFieldIds columns = list_all has_field_id columns"

text \<open>\<open>case_insensitive_set_t\<close> is DuckDB's; its comparison is StringUtil's.\<close>

definition CoveredByNames :: "string_util \<Rightarrow> column_def list \<Rightarrow> column_def list \<Rightarrow> bool \<Rightarrow> bool" where
  "CoveredByNames su file_columns schema physical =
    (let names = map (\<lambda>c. if physical then cd_physical_name c else cd_name c) schema
     in list_all (\<lambda>c. list_ex (\<lambda>n. CIEquals su n (cd_name c)) names) file_columns)"

text \<open>int32: the complement of the parent's id stays in range when the id does.\<close>

definition ContainerChildFieldId :: "int \<Rightarrow> nat \<Rightarrow> int" where
  "ContainerChildFieldId parent_id position = (if position = 0 then parent_id else - parent_id - 1)"

definition fill_identifier :: "int \<Rightarrow> nat \<Rightarrow> column_def \<Rightarrow> column_def" where
  "fill_identifier parent_id i c =
    (if cd_identifier c = Id_Null then set_identifier (Id_Integer (ContainerChildFieldId parent_id i)) c
     else c)"

lemma size_set_identifier [simp]: "size (set_identifier i c) = size c"
  by (cases c) simp

lemma size_fill_identifier [simp]: "size (fill_identifier p i c) = size c"
  by (simp add: fill_identifier_def)

lemma size_children: "size_list size (cd_children c) < size c"
  by (cases c) simp

lemma size_child_in: "x \<in> set (cd_children c) \<Longrightarrow> size x < size c"
  using size_children [of c] size_list_estimation' [of x "cd_children c" "size x" size] by simp

text \<open>\<open>int_of\<close> is Value::GetValue<int32_t> on a text identifier: DuckDB's cast. The bounds check of
  duckdb::vector's operator[] throws an internal error.\<close>

definition fill_entries :: "int \<Rightarrow> column_def list \<Rightarrow> column_def list" where
  "fill_entries parent_id entries = map2 (fill_identifier parent_id) [0..<length entries] entries"

lemma size_fill_entries:
  "e \<in> set (fill_entries p cs) \<Longrightarrow> (\<And>c. c \<in> set cs \<Longrightarrow> size c < n) \<Longrightarrow> size e < (n :: nat)"
  by (auto simp: fill_entries_def set_zip)

definition identifier_id :: "(string \<Rightarrow> int throws) \<Rightarrow> identifier_value \<Rightarrow> int throws" where
  "identifier_id int_of v = (case v of
     Id_Integer i \<Rightarrow> Inr i
   | Id_Varchar s \<Rightarrow> int_of s
   | Id_Null \<Rightarrow> Inl (Err InternalEx ''value is NULL'' []))"

lemma size_grandchild:
  "length (cd_children c) = 1 \<Longrightarrow> x \<in> set (cd_children (hd (cd_children c))) \<Longrightarrow> size x < size c"
  using size_child_in [of "hd (cd_children c)" c] size_child_in [of x "hd (cd_children c)"]
  by (cases "cd_children c") auto

function FillContainerChildIds :: "(string \<Rightarrow> int throws) \<Rightarrow> column_def \<Rightarrow> column_def throws" where
  "FillContainerChildIds int_of column =
    (if is_struct (cd_type column) then
       bindr (mapr (FillContainerChildIds int_of) (cd_children column)) (\<lambda>cs.
       Inr (set_children cs column))
     else if cd_identifier column = Id_Null then Inr column
     else if is_list (cd_type column) then
       (if cd_children column = [] then Inl (Err InternalEx ''index out of bounds'' [])
        else
          bindr (identifier_id int_of (cd_identifier column)) (\<lambda>p.
          bindr (mapr (FillContainerChildIds int_of) (fill_entries p (take 1 (cd_children column)))) (\<lambda>es.
          Inr (set_children (es @ drop 1 (cd_children column)) column))))
     else if is_map (cd_type column) then
       (if length (cd_children column) = 1 then
          bindr (identifier_id int_of (cd_identifier column)) (\<lambda>p.
          bindr (mapr (FillContainerChildIds int_of)
                   (fill_entries p (cd_children (hd (cd_children column))))) (\<lambda>es.
          Inr (set_children [set_children es (hd (cd_children column))] column)))
        else
          bindr (identifier_id int_of (cd_identifier column)) (\<lambda>p.
          bindr (mapr (FillContainerChildIds int_of) (fill_entries p (cd_children column))) (\<lambda>es.
          Inr (set_children es column))))
     else Inr column)"
  by pat_completeness auto

termination
proof (relation "measure (\<lambda>(_, c). size c)", goal_cases)
  case (3 int_of column p e)
  then show ?case
    using size_fill_entries [of e p "take 1 (cd_children column)" "size column"]
    by (auto intro: size_child_in dest: in_set_takeD)
next
  case (4 int_of column p e)
  then show ?case
    using size_fill_entries [of e p "cd_children (hd (cd_children column))" "size column"]
      size_grandchild [of column] by auto
qed (auto intro: size_fill_entries size_child_in)

fun HasFieldIdsRecursive :: "column_def \<Rightarrow> bool" where
  "HasFieldIdsRecursive (ColumnDef n t cs nl cv p f i d) =
    ((case i of Id_Integer _ \<Rightarrow> True | _ \<Rightarrow> False) \<and> list_all HasFieldIdsRecursive cs)"

datatype DeltaColumnMappingMode = MODE_NONE | MODE_ID | MODE_NAME

definition ResolveByFieldId :: "column_def list \<Rightarrow> DeltaColumnMappingMode \<Rightarrow> bool throws" where
  "ResolveByFieldId schema mapping_mode =
    (if mapping_mode \<noteq> MODE_ID then Inr False
     else bindr (forr (\<lambda>col. throw_if (\<not> HasFieldIdsRecursive col)
              (Err InvalidInput ''Column has no column mapping id, which id mode requires'' [cd_name col]))
            schema) (\<lambda>_. Inr True))"

fun UseNameIdentifiers :: "bool \<Rightarrow> column_def \<Rightarrow> column_def" where
  "UseNameIdentifiers physical (ColumnDef n t cs nl cv p f i d) =
    ColumnDef n t (map (UseNameIdentifiers physical) cs) nl cv p f
      (if physical \<and> p \<noteq> [] then Id_Varchar p else Id_Null) d"

definition IsColumnMapped :: "column_def \<Rightarrow> bool" where
  "IsColumnMapped c \<longleftrightarrow> cd_physical_name c \<noteq> [] \<or> cd_field_id c \<noteq> None"

section \<open>Field metadata, protocol and mapping mode\<close>

text \<open>What ffi::get\_from\_metadata\_map gives for a key, and the value made of it; \<open>cast_bigint\<close> is
  DuckDB's text to BIGINT cast.\<close>

datatype metadata_kind = MetadataNumber | MetadataString | MetadataBoolean | MetadataJson

type_synonym metadata_map = "string \<Rightarrow> (metadata_kind \<times> string) option"

datatype metadata_value = MV_Bigint int | MV_Varchar string | MV_Boolean bool | MV_Json string

definition FetchFromMetadataMap ::
  "(string \<Rightarrow> int option) \<Rightarrow> metadata_map \<Rightarrow> string \<Rightarrow> metadata_value option" where
  "FetchFromMetadataMap cast_bigint m key =
    (case m key of
       None \<Rightarrow> None
     | Some (kind, text) \<Rightarrow>
         (case kind of
            MetadataNumber \<Rightarrow>
              (case cast_bigint text of Some n \<Rightarrow> Some (MV_Bigint n) | None \<Rightarrow> Some (MV_Json text))
          | MetadataString \<Rightarrow> Some (MV_Varchar text)
          | MetadataBoolean \<Rightarrow> Some (MV_Boolean (text = ''true''))
          | MetadataJson \<Rightarrow> Some (MV_Json text)))"

text \<open>The kernel snapshot as the calls that read it: visit\_metadata\_configuration visits the
  configuration entries in order, visit\_protocol the reader version and the features with whether
  each is a reader feature.\<close>

record kernel_snapshot =
  configuration :: "(string \<times> string) list"
  protocol_min_reader :: int
  protocol_features :: "(bool \<times> string) list"

definition ReadTableProperty :: "kernel_snapshot \<Rightarrow> string \<Rightarrow> string" where
  "ReadTableProperty snapshot key =
     fold (\<lambda>(k, v) acc. if k = key then v else acc) (configuration snapshot) []"

definition ReadProtocol :: "kernel_snapshot \<Rightarrow> int \<times> string list" where
  "ReadProtocol snapshot =
    (protocol_min_reader snapshot,
     fold (\<lambda>(is_reader, name) fs. if is_reader then fs else List.insert name fs)
       (protocol_features snapshot) [])"

definition HasWriterFeature :: "kernel_snapshot \<Rightarrow> string \<Rightarrow> bool" where
  "HasWriterFeature snapshot feature = (feature \<in> set (snd (ReadProtocol snapshot)))"

definition IsCatalogManaged :: "kernel_snapshot \<Rightarrow> bool" where
  "IsCatalogManaged snapshot \<longleftrightarrow>
     HasWriterFeature snapshot ''catalogManaged'' \<or> HasWriterFeature snapshot ''catalogOwned-preview''"

definition HasColumnMappingFeature :: "kernel_snapshot \<Rightarrow> bool" where
  "HasColumnMappingFeature snapshot =
    (let (min_reader, features) = ReadProtocol snapshot
     in min_reader = 2 \<or> (min_reader = 3 \<and> ''columnMapping'' \<in> set features))"

definition ReadColumnMappingMode :: "kernel_snapshot \<Rightarrow> DeltaColumnMappingMode" where
  "ReadColumnMappingMode snapshot =
    (if \<not> HasColumnMappingFeature snapshot then MODE_NONE
     else let mode = ReadTableProperty snapshot ''delta.columnMapping.mode''
       in if mode = ''id'' then MODE_ID else if mode = ''name'' then MODE_NAME else MODE_NONE)"

definition IsMissingMaxCatalogVersion :: "string_util \<Rightarrow> string \<Rightarrow> bool" where
  "IsMissingMaxCatalogVersion su raw_message =
     Contains su raw_message ''Max catalog version is required when loading a catalog-managed table''"

section \<open>Lemmas\<close>

lemma fold_writer_features:
  "set (fold (\<lambda>(is_reader, name) fs. if is_reader then fs else List.insert name fs) xs acc) =
     set acc \<union> {name. (False, name) \<in> set xs}"
proof (induction xs arbitrary: acc)
  case (Cons x xs)
  show ?case by (cases x) (auto simp: Cons.IH)
qed simp

lemma HasWriterFeature_iff:
  "HasWriterFeature s f \<longleftrightarrow> (False, f) \<in> set (protocol_features s)"
  by (simp add: HasWriterFeature_def ReadProtocol_def fold_writer_features)

lemma HasColumnMappingFeature_iff:
  "HasColumnMappingFeature s \<longleftrightarrow>
     protocol_min_reader s = 2 \<or>
     (protocol_min_reader s = 3 \<and> (False, ''columnMapping'') \<in> set (protocol_features s))"
  by (simp add: HasColumnMappingFeature_def ReadProtocol_def fold_writer_features)

lemma fold_last_value:
  "distinct (map fst xs) \<Longrightarrow> fold (\<lambda>(k, v) acc. if k = key then v else acc) xs acc =
     (case map_of xs key of Some v \<Rightarrow> v | None \<Rightarrow> acc)"
proof (induction xs arbitrary: acc)
  case (Cons x xs)
  then show ?case
    by (cases x) (auto simp: map_of_eq_None_iff image_iff split: option.splits)
qed simp

lemma ReadTableProperty_map_of:
  "distinct (map fst (configuration s)) \<Longrightarrow>
     ReadTableProperty s key = (case map_of (configuration s) key of Some v \<Rightarrow> v | None \<Rightarrow> [])"
  by (simp add: ReadTableProperty_def fold_last_value)

lemma ContainerChildFieldId_inj:
  assumes "0 \<le> p" "0 \<le> q" "i < 2" "j < (2 :: nat)"
    and "ContainerChildFieldId p i = ContainerChildFieldId q j"
  shows "p = q \<and> i = j"
  using assms by (auto simp: ContainerChildFieldId_def split: if_splits)

declare FillContainerChildIds.simps [simp del]

text \<open>The shape of a column in id mode before the synthetic ids are filled in: every field of a struct has
  an id; a list element or a map entry (\<open>synthetic\<close>) may still lack one.\<close>

fun fields_mapped :: "bool \<Rightarrow> column_def \<Rightarrow> bool" where
  "fields_mapped synthetic (ColumnDef n t cs nl cv p f i d) =
    ((case i of Id_Integer _ \<Rightarrow> True | Id_Null \<Rightarrow> synthetic | Id_Varchar _ \<Rightarrow> False) \<and>
     (if is_struct t then list_all (fields_mapped False) cs
      else if is_list t then length cs = 1 \<and> list_all (fields_mapped True) cs
      else if is_map t then length cs = 2 \<and> list_all (fields_mapped True) cs
      else cs = []))"

lemma fields_mapped_alt:
  "fields_mapped synthetic c \<longleftrightarrow>
    (case cd_identifier c of Id_Integer _ \<Rightarrow> True | Id_Null \<Rightarrow> synthetic | Id_Varchar _ \<Rightarrow> False) \<and>
     (if is_struct (cd_type c) then list_all (fields_mapped False) (cd_children c)
      else if is_list (cd_type c) then length (cd_children c) = 1 \<and> list_all (fields_mapped True) (cd_children c)
      else if is_map (cd_type c) then length (cd_children c) = 2 \<and> list_all (fields_mapped True) (cd_children c)
      else cd_children c = [])"
  by (cases c) simp

lemma HasFieldIdsRecursive_alt:
  "HasFieldIdsRecursive c \<longleftrightarrow> has_field_id c \<and> list_all HasFieldIdsRecursive (cd_children c)"
  by (cases c) (simp add: has_field_id_def)

lemma fields_mapped_fill: "fields_mapped True c \<Longrightarrow> fields_mapped False (fill_identifier p i c)"
  by (cases c) (auto simp: fill_identifier_def split: identifier_value.splits)

lemma fields_mapped_fill_entries:
  "list_all (fields_mapped True) cs \<Longrightarrow> list_all (fields_mapped False) (fill_entries p cs)"
  by (auto simp: fill_entries_def list_all_iff set_zip intro!: fields_mapped_fill)

lemma mapr_all_ex:
  assumes "\<And>x. x \<in> set xs \<Longrightarrow> \<exists>y. f x = Inr y \<and> P y"
  shows "\<exists>ys. mapr f xs = Inr ys \<and> list_all P ys \<and> length ys = length xs"
  using assms
proof (induction xs)
  case (Cons x xs)
  then obtain y ys where "f x = Inr y" "P y" "mapr f xs = Inr ys" "list_all P ys" "length ys = length xs"
    by fastforce
  then show ?case by simp
qed simp

lemma fields_mapped_weaken: "fields_mapped False c \<Longrightarrow> fields_mapped True c"
  by (cases c) (auto split: identifier_value.splits)

lemma fill_entries_length [simp]: "length (fill_entries p cs) = length cs"
  by (simp add: fill_entries_def)

text \<open>A filled column: ids everywhere, and still the shape of its type.\<close>

definition filled :: "column_def \<Rightarrow> bool" where
  "filled c \<longleftrightarrow> HasFieldIdsRecursive c \<and> fields_mapped False c"

lemma filled_set_children:
  assumes "cd_identifier c = Id_Integer p" "fields_mapped False c" "list_all filled cs"
    and "length cs = length (cd_children c)"
  shows "filled (set_children cs c)"
  using assms
  by (auto simp: filled_def HasFieldIdsRecursive_alt [of "set_children cs c"] has_field_id_def
      fields_mapped_alt [of _ c] fields_mapped_alt [of _ "set_children cs c"] list_all_iff
      intro: fields_mapped_weaken split: if_splits)

lemma FillContainerChildIds_complete:
  "fields_mapped False c \<Longrightarrow>
     \<exists>c'. FillContainerChildIds int_of c = Inr c' \<and> filled c'"
proof (induction int_of c rule: FillContainerChildIds.induct)
  case (1 int_of c)
  obtain p where p: "cd_identifier c = Id_Integer p" "identifier_id int_of (cd_identifier c) = Inr p"
    using "1.prems" by (auto simp: fields_mapped_alt identifier_id_def split: identifier_value.splits)
  note own = filled_set_children [OF p(1) "1.prems"]
  consider "is_struct (cd_type c)" | "is_list (cd_type c)" | "is_map (cd_type c)"
    | "\<not> is_struct (cd_type c)" "\<not> is_list (cd_type c)" "\<not> is_map (cd_type c)" by blast
  then show ?case
  proof cases
    case 1
    then have "\<exists>ys. mapr (FillContainerChildIds int_of) (cd_children c) = Inr ys \<and>
        list_all filled ys \<and> length ys = length (cd_children c)"
      using "1.prems" "1.IH"(1) by (intro mapr_all_ex) (auto simp: fields_mapped_alt [of _ c] list_all_iff)
    then show ?thesis using 1 own by (auto simp: FillContainerChildIds.simps [of _ c])
  next
    case 2
    then have one: "length (cd_children c) = 1" "list_all (fields_mapped True) (cd_children c)"
      using "1.prems" by (auto simp: fields_mapped_alt [of _ c] is_list_def)
    have "cd_children c \<noteq> []" using one(1) by auto
    then have "\<exists>ys. mapr (FillContainerChildIds int_of) (fill_entries p (cd_children c)) = Inr ys \<and>
        list_all filled ys \<and> length ys = length (fill_entries p (cd_children c))"
      using 2 p one(1) "1.IH"(2) [of p] fields_mapped_fill_entries [OF one(2), of p]
      by (intro mapr_all_ex) (auto simp: list_all_iff is_list_def)
    then show ?thesis using 2 one own p
      by (auto simp: FillContainerChildIds.simps [of _ c] is_list_def)
  next
    case 3
    then have two: "length (cd_children c) = 2" "list_all (fields_mapped True) (cd_children c)"
      using "1.prems" by (auto simp: fields_mapped_alt [of _ c] is_map_def)
    then have "\<exists>ys. mapr (FillContainerChildIds int_of) (fill_entries p (cd_children c)) = Inr ys \<and>
        list_all filled ys \<and> length ys = length (fill_entries p (cd_children c))"
      using 3 p "1.IH"(4) [of p] fields_mapped_fill_entries [OF two(2), of p]
      by (intro mapr_all_ex) (auto simp: list_all_iff is_map_def)
    then show ?thesis using 3 two own p
      by (auto simp: FillContainerChildIds.simps [of _ c] is_map_def)
  next
    case 4
    then have "filled c" using "1.prems" p
      by (auto simp: filled_def fields_mapped_alt [of _ c] HasFieldIdsRecursive_alt has_field_id_def)
    then show ?thesis using 4 p by (auto simp: FillContainerChildIds.simps [of _ c])
  qed
qed

lemma FillContainerChildIds_unmapped:
  "cd_identifier c = Id_Null \<Longrightarrow> \<not> is_struct (cd_type c) \<Longrightarrow> FillContainerChildIds int_of c = Inr c"
  by (simp add: FillContainerChildIds.simps [of _ c])

end
