(* ===== verification/Inflight_Lists.thy ===== *)
theory Inflight_Lists
  imports Prelude
begin

text \<open>
  The contract of the field lists that both kernel visitors keep while the kernel walks a tree
  (\<open>inflight_lists\<close>, MakeFieldListImpl, AppendToList and TakeFieldList of KernelExpressionVisitor and
  KernelSchemaVisitor): a new list has a fresh id and is empty, appending extends one list, taking
  gives the list and removes it. The lemmas say what a visit of the children of a node amounts to;
  both visitors interpret the locale on their own operations.
\<close>

locale inflight_lists =
  fixes lists :: "'s \<Rightarrow> nat \<Rightarrow> 'a list option"
    and wf :: "'s \<Rightarrow> bool"
    and make :: "'s \<Rightarrow> nat \<times> 's"
    and append_to :: "'s \<Rightarrow> nat \<Rightarrow> 'a \<Rightarrow> 's"
    and take_list :: "'s \<Rightarrow> nat \<Rightarrow> 'a list \<times> 's"
  assumes make_law: "wf st \<Longrightarrow> make st = (i, st') \<Longrightarrow>
      wf st' \<and> lists st i = None \<and> lists st' = (lists st)(i \<mapsto> [])"
    and append_law: "wf st \<Longrightarrow> lists st i = Some xs \<Longrightarrow>
      wf (append_to st i x) \<and> lists (append_to st i x) = (lists st)(i \<mapsto> xs @ [x])"
    and take_law: "wf st \<Longrightarrow> lists st i = Some xs \<Longrightarrow>
      \<exists>st'. take_list st i = (xs, st') \<and> wf st' \<and> lists st' = (lists st)(i := None)"
begin

text \<open>\<open>st'\<close> is \<open>st\<close> with \<open>ys\<close> added to list \<open>i\<close>.\<close>

definition appended :: "'s \<Rightarrow> nat \<Rightarrow> 'a list \<Rightarrow> 's \<Rightarrow> bool" where
  "appended st i ys st' \<longleftrightarrow>
    (\<exists>xs. lists st i = Some xs \<and> lists st' = (lists st)(i \<mapsto> xs @ ys)) \<and> wf st'"

lemma appended_append: "wf st \<Longrightarrow> lists st i = Some xs \<Longrightarrow> appended st i [x] (append_to st i x)"
  using append_law by (auto simp: appended_def)

lemma appended_refl: "wf st \<Longrightarrow> lists st i = Some xs \<Longrightarrow> appended st i [] st"
  by (auto simp: appended_def)

lemma appended_trans: "appended st i xs st' \<Longrightarrow> appended st' i ys st'' \<Longrightarrow> appended st i (xs @ ys) st''"
  by (auto simp: appended_def)

lemma appended_wf: "appended st i ys st' \<Longrightarrow> wf st'"
  by (simp add: appended_def)

lemma appended_list: "appended st i ys st' \<Longrightarrow> lists st i = Some xs \<Longrightarrow> lists st' i = Some (xs @ ys)"
  by (auto simp: appended_def)

lemma take_after_children:
  assumes "wf st" "make st = (i, st1)" "appended st1 i ys st2"
  obtains st3 where "take_list st2 i = (ys, st3)" "wf st3" "lists st3 = lists st"
proof -
  have "lists st i = None" "lists st1 = (lists st)(i \<mapsto> [])" using make_law assms by auto
  then have l: "lists st2 = (lists st)(i \<mapsto> ys)" using assms(3) by (auto simp: appended_def)
  moreover have "wf st2" using appended_wf assms(3) by blast
  ultimately obtain st3 where st3: "take_list st2 i = (ys, st3)" "wf st3" "lists st3 = (lists st2)(i := None)"
    using take_law [of st2 i ys] by auto
  moreover have "(lists st2)(i := None) = lists st"
    using l \<open>lists st i = None\<close> by (simp add: fun_eq_iff)
  ultimately show ?thesis using that by metis
qed

lemma appended_same_lists: "lists st' = lists st \<Longrightarrow> appended st' i ys s \<longleftrightarrow> appended st i ys s"
  by (simp add: appended_def)

lemma new_list: "wf st \<Longrightarrow> make st = (i, st') \<Longrightarrow> wf st' \<and> lists st' i = Some []"
  using make_law by fastforce

end

end
