(* ===== verification/Schema_Visitor.thy ===== *)
theory Schema_Visitor
  imports Column_Def Inflight_Lists
begin

text \<open>
  KernelSchemaVisitor (delta\_utils.cpp and delta\_utils.hpp): the callbacks the kernel drives while it
  walks the schema of a table, which build the columns of the scan. Errors never cross the FFI
  boundary: the first one is kept in the state and thrown once the walk is over.

  The kernel's side is a parameter \<open>visit_schema\<close>; \<open>walk_schema\<close> is its documented traversal (children
  before their container, each container's children in a list of their own), over the schema as the
  kernel presents it (\<open>kernel_field\<close>). The casts of DuckDB are the parameter \<open>env\<close>.
\<close>

section \<open>State\<close>

record cast_env =
  cast_bigint :: "string \<Rightarrow> int option"
  cast_integer :: "string \<Rightarrow> int option"
  get_int32 :: "string \<Rightarrow> int throws"

record schema_visitor =
  sv_lists :: "nat \<Rightarrow> column_def list option"
  sv_next_id :: nat
  sv_mode :: DeltaColumnMappingMode
  sv_error :: "error option"
  sv_refused_type :: string
  sv_refused_path :: "string list"
  sv_refused_list_id :: nat

definition initial_visitor :: "DeltaColumnMappingMode \<Rightarrow> schema_visitor" where
  "initial_visitor mode = \<lparr>sv_lists = Map.empty, sv_next_id = 1, sv_mode = mode, sv_error = None,
     sv_refused_type = [], sv_refused_path = [], sv_refused_list_id = 0\<rparr>"

section \<open>Errors and refusals\<close>

definition RecordError :: "error \<Rightarrow> schema_visitor \<Rightarrow> schema_visitor" where
  "RecordError e st = (if sv_error st = None then st\<lparr>sv_error := Some e\<rparr> else st)"

definition record_first :: "error option \<Rightarrow> schema_visitor \<Rightarrow> schema_visitor" where
  "record_first eo st = (case eo of None \<Rightarrow> st | Some e \<Rightarrow> RecordError e st)"

definition HasChildren ::
  "schema_visitor \<Rightarrow> string \<Rightarrow> column_def list \<Rightarrow> nat \<Rightarrow> bool \<times> schema_visitor" where
  "HasChildren st name children expected =
    (if length children = expected then (True, st)
     else (False, RecordError (Err InternalEx ''Delta column has the wrong number of child types'' [name]) st))"

definition SetRefusalError :: "schema_visitor \<Rightarrow> schema_visitor" where
  "SetRefusalError st = st\<lparr>sv_error :=
     Some (Err NotImplemented ''Column has a Delta type which DuckDB cannot read yet''
       (sv_refused_type st # sv_refused_path st))\<rparr>"

definition RefuseType :: "schema_visitor \<Rightarrow> nat \<Rightarrow> string \<Rightarrow> string \<Rightarrow> schema_visitor" where
  "RefuseType st sibling_list_id name type_name =
    (if sv_error st \<noteq> None then st
     else SetRefusalError (st\<lparr>sv_refused_type := type_name, sv_refused_path := [name],
            sv_refused_list_id := sibling_list_id\<rparr>))"

definition container_child_name :: "bool \<Rightarrow> string \<Rightarrow> string" where
  "container_child_name list_or_map child =
    (if list_or_map \<and> child = ''array_element'' then ''element''
     else if list_or_map \<and> child = ''map_key'' then ''key''
     else if list_or_map \<and> child = ''map_value'' then ''value''
     else child)"

definition ExtendRefusedPath ::
  "schema_visitor \<Rightarrow> nat \<Rightarrow> nat \<Rightarrow> string \<Rightarrow> bool \<Rightarrow> schema_visitor" where
  "ExtendRefusedPath st child_list_id sibling_list_id name list_or_map =
    (if sv_refused_type st = [] \<or> sv_refused_list_id st \<noteq> child_list_id then st
     else SetRefusalError (st\<lparr>
       sv_refused_path := name # (case sv_refused_path st of
            [] \<Rightarrow> [] | child # rest \<Rightarrow> container_child_name list_or_map child # rest),
       sv_refused_list_id := sibling_list_id\<rparr>))"

section \<open>Lists\<close>

definition MakeFieldListImpl :: "schema_visitor \<Rightarrow> nat \<times> schema_visitor" where
  "MakeFieldListImpl st =
    (sv_next_id st, st\<lparr>sv_next_id := sv_next_id st + 1, sv_lists := (sv_lists st)(sv_next_id st \<mapsto> [])\<rparr>)"

definition AppendToList :: "schema_visitor \<Rightarrow> nat \<Rightarrow> string \<Rightarrow> column_def \<Rightarrow> schema_visitor" where
  "AppendToList st i name child =
    (case sv_lists st i of
       None \<Rightarrow> st\<lparr>sv_error := Some (Err InternalEx ''Unhandled error in KernelSchemaVisitor::AppendToList'' [])\<rparr>
     | Some xs \<Rightarrow> st\<lparr>sv_lists := (sv_lists st)(i \<mapsto> xs @ [set_name name child])\<rparr>)"

definition TakeFieldList :: "schema_visitor \<Rightarrow> nat \<Rightarrow> column_def list \<times> schema_visitor" where
  "TakeFieldList st i =
    (case sv_lists st i of
       None \<Rightarrow> ([], st\<lparr>sv_error := Some (Err InternalEx ''Unhandled error in KernelSchemaVisitor::TakeFieldList'' [])\<rparr>)
     | Some xs \<Rightarrow> (xs, st\<lparr>sv_lists := (sv_lists st)(i := None)\<rparr>))"

section \<open>Column mapping\<close>

definition INT32_MAX :: int where
  "INT32_MAX = 2147483647"

definition mapping_id :: "cast_env \<Rightarrow> metadata_map \<Rightarrow> metadata_value option" where
  "mapping_id env metadata =
    (case FetchFromMetadataMap (cast_bigint env) metadata ''delta.columnMapping.id'' of
       Some v \<Rightarrow> Some v
     | None \<Rightarrow> FetchFromMetadataMap (cast_bigint env) metadata ''parquet.field.id'')"

fun bad_mapping_id :: "metadata_value option \<Rightarrow> bool" where
  "bad_mapping_id None = False"
| "bad_mapping_id (Some (MV_Bigint n)) = (n < 0 \<or> n > INT32_MAX)"
| "bad_mapping_id (Some _) = True"

fun bad_physical_name :: "metadata_value option \<Rightarrow> bool" where
  "bad_physical_name None = False"
| "bad_physical_name (Some (MV_Varchar s)) = (s = [])"
| "bad_physical_name (Some _) = True"

fun with_field_id :: "metadata_value option \<Rightarrow> column_def \<Rightarrow> column_def" where
  "with_field_id (Some (MV_Bigint n)) col = set_field_id (Some (nat n)) col"
| "with_field_id _ col = col"

fun with_physical_name :: "metadata_value option \<Rightarrow> column_def \<Rightarrow> column_def" where
  "with_physical_name (Some (MV_Varchar s)) col = set_physical_name s col"
| "with_physical_name _ col = col"

fun with_identifier ::
  "DeltaColumnMappingMode \<Rightarrow> metadata_value option \<Rightarrow> metadata_value option \<Rightarrow> column_def \<Rightarrow> column_def" where
  "with_identifier MODE_ID (Some (MV_Bigint n)) name col = set_identifier (Id_Integer n) col"
| "with_identifier MODE_NAME i (Some (MV_Varchar s)) col = set_identifier (Id_Varchar s) col"
| "with_identifier _ _ _ col = col"

text \<open>ApplyDeltaColumnMapping: the error it records, if any, and the column as it leaves it.\<close>

definition ApplyDeltaColumnMapping ::
  "cast_env \<Rightarrow> DeltaColumnMappingMode \<Rightarrow> metadata_map \<Rightarrow> column_def \<Rightarrow> error option \<times> column_def" where
  "ApplyDeltaColumnMapping env mode metadata col =
    (let i = mapping_id env metadata;
         name = FetchFromMetadataMap (cast_bigint env) metadata ''delta.columnMapping.physicalName'';
         col1 = with_field_id i col;
         col3 = with_identifier mode i name (with_physical_name name col1)
     in if bad_mapping_id i then
          (Some (Err InvalidInput ''Column has a column mapping id which is not in range'' [cd_name col]), col)
        else if bad_physical_name name then
          (Some (Err InvalidInput ''Column has a physical name which is not a non-empty string'' [cd_name col]), col1)
        else (case FetchFromMetadataMap (cast_bigint env) metadata ''__CHAR_VARCHAR_TYPE_STRING'' of
            None \<Rightarrow> (None, set_default (Some (cd_type col3)) col3)
          | Some (MV_Varchar s) \<Rightarrow> (None, set_default (Some (cd_type col3)) (set_char_varchar_type s col3))
          | Some _ \<Rightarrow>
              (Some (Err InvalidInput ''Column has a CHAR/VARCHAR annotation which is not a string'' [cd_name col]), col3)))"

lemma with_field_id_keeps [simp]:
  "cd_type (with_field_id i c) = cd_type c" "cd_children (with_field_id i c) = cd_children c"
  "cd_name (with_field_id i c) = cd_name c" "cd_nullable (with_field_id i c) = cd_nullable c"
  "cd_identifier (with_field_id i c) = cd_identifier c"
  by (induction i c rule: with_field_id.induct) simp_all

lemma with_physical_name_keeps [simp]:
  "cd_type (with_physical_name n c) = cd_type c" "cd_children (with_physical_name n c) = cd_children c"
  "cd_name (with_physical_name n c) = cd_name c" "cd_nullable (with_physical_name n c) = cd_nullable c"
  "cd_identifier (with_physical_name n c) = cd_identifier c"
  by (induction n c rule: with_physical_name.induct) simp_all

lemma with_identifier_keeps [simp]:
  "cd_type (with_identifier mode i n c) = cd_type c" "cd_children (with_identifier mode i n c) = cd_children c"
  "cd_name (with_identifier mode i n c) = cd_name c" "cd_nullable (with_identifier mode i n c) = cd_nullable c"
  by (induction mode i n c rule: with_identifier.induct) simp_all

definition is_decimal_digit :: "char \<Rightarrow> bool" where
  "is_decimal_digit c \<longleftrightarrow> (of_char CHR ''0'' :: nat) \<le> of_char c \<and> (of_char c :: nat) \<le> of_char CHR ''9''"

definition ApplyNestedFieldIds ::
  "cast_env \<Rightarrow> DeltaColumnMappingMode \<Rightarrow> metadata_map \<Rightarrow> column_def \<Rightarrow> column_def \<Rightarrow> string
     \<Rightarrow> error option \<times> column_def" where
  "ApplyNestedFieldIds env mode metadata parent child sfx =
    (if mode = MODE_NONE then (None, child)
     else case FetchFromMetadataMap (cast_bigint env) metadata ''delta.columnMapping.nested.ids'' of
       Some (MV_Varchar nested) \<Rightarrow>
        (if cd_physical_name parent = [] then (None, child)
         else
          (let needle = [CHR 0x22] @ cd_physical_name parent @ sfx @ [CHR 0x22] @ '':''
           in case str_find nested needle 0 of
             None \<Rightarrow> (None, child)
           | Some pos \<Rightarrow>
              (let digits = takeWhile is_decimal_digit (drop (pos + length needle) nested)
               in if digits = [] then (None, child)
                  else case cast_integer env digits of
                    None \<Rightarrow> (Some (Err InvalidInput ''Column has a nested column mapping id which is not in range''
                               [cd_name parent, digits, cd_physical_name parent @ sfx]), child)
                  | Some i \<Rightarrow>
                     (None, if mode = MODE_ID
                       then set_identifier (Id_Integer i) (set_field_id (Some (nat i)) child)
                       else set_field_id (Some (nat i)) child))))
     | _ \<Rightarrow> (None, child))"

definition first_error :: "error option \<Rightarrow> error option \<Rightarrow> error option" where
  "first_error a b = (case a of None \<Rightarrow> b | Some e \<Rightarrow> Some e)"

lemma size_ApplyNestedFieldIds [termination_simp, simp]:
  "size (snd (ApplyNestedFieldIds env mode m p c s)) = size c"
  by (cases c)
    (auto simp: ApplyNestedFieldIds_def Let_def split: option.splits metadata_value.splits)

lemma size_nth_child: "i < length (cd_children c) \<Longrightarrow> size (cd_children c ! i) < size c"
  by (simp add: size_child_in)

text \<open>A container always holds the children of its type (see \<open>HasChildren\<close>); one that does not is left
  alone.\<close>

function ApplyNestedFieldIdsBelow ::
  "cast_env \<Rightarrow> DeltaColumnMappingMode \<Rightarrow> metadata_map \<Rightarrow> column_def \<Rightarrow> column_def \<Rightarrow> string
     \<Rightarrow> error option \<times> column_def" where
  "ApplyNestedFieldIdsBelow env mode metadata field container path =
    (if is_list (cd_type container) \<and> cd_children container \<noteq> [] then
       (let r1 = ApplyNestedFieldIds env mode metadata field (cd_children container ! 0) (path @ ''.element'');
            r2 = ApplyNestedFieldIdsBelow env mode metadata field (snd r1) (path @ ''.element'')
        in (first_error (fst r1) (fst r2), set_children (snd r2 # drop 1 (cd_children container)) container))
     else if is_map (cd_type container) \<and> length (cd_children container) \<ge> 2 then
       (let r1 = ApplyNestedFieldIds env mode metadata field (cd_children container ! 0) (path @ ''.key'');
            r2 = ApplyNestedFieldIdsBelow env mode metadata field (snd r1) (path @ ''.key'');
            r3 = ApplyNestedFieldIds env mode metadata field (cd_children container ! 1) (path @ ''.value'');
            r4 = ApplyNestedFieldIdsBelow env mode metadata field (snd r3) (path @ ''.value'')
        in (first_error (first_error (fst r1) (fst r2)) (first_error (fst r3) (fst r4)),
            set_children (snd r2 # snd r4 # drop 2 (cd_children container)) container))
     else (None, container))"
  by pat_completeness auto

termination
  by (relation "measure (\<lambda>(_, _, _, _, c, _). size c)", simp_all add: size_nth_child)
    (intro size_nth_child, linarith)

declare ApplyNestedFieldIdsBelow.simps [simp del]

section \<open>Callbacks\<close>

datatype simple_visit =
    visit_string | visit_long | visit_integer | visit_short | visit_byte | visit_float | visit_double
  | visit_boolean | visit_binary | visit_date | visit_timestamp | visit_timestamp_ntz | visit_void

fun CreateSchemaVisitor :: "simple_visit \<Rightarrow> logical_type" where
  "CreateSchemaVisitor visit_string = VARCHAR"
| "CreateSchemaVisitor visit_long = BIGINT"
| "CreateSchemaVisitor visit_integer = INTEGER"
| "CreateSchemaVisitor visit_short = SMALLINT"
| "CreateSchemaVisitor visit_byte = TINYINT"
| "CreateSchemaVisitor visit_float = FLOAT"
| "CreateSchemaVisitor visit_double = DOUBLE"
| "CreateSchemaVisitor visit_boolean = BOOLEAN"
| "CreateSchemaVisitor visit_binary = BLOB"
| "CreateSchemaVisitor visit_date = DATE"
| "CreateSchemaVisitor visit_timestamp = TIMESTAMP_TZ"
| "CreateSchemaVisitor visit_timestamp_ntz = TIMESTAMP"
| "CreateSchemaVisitor visit_void = SQLNULL"

definition finish_column ::
  "schema_visitor \<Rightarrow> nat \<Rightarrow> string \<Rightarrow> error option \<times> column_def \<Rightarrow> schema_visitor" where
  "finish_column st sibling_list_id name r =
     AppendToList (record_first (fst r) st) sibling_list_id name (snd r)"

definition VisitSimpleTypeImpl ::
  "cast_env \<Rightarrow> logical_type \<Rightarrow> schema_visitor \<Rightarrow> nat \<Rightarrow> string \<Rightarrow> bool \<Rightarrow> metadata_map \<Rightarrow> schema_visitor" where
  "VisitSimpleTypeImpl env type st sibling_list_id name is_nullable metadata =
     finish_column st sibling_list_id name
       (ApplyDeltaColumnMapping env (sv_mode st) metadata (new_column name type is_nullable))"

definition VisitDecimal ::
  "cast_env \<Rightarrow> schema_visitor \<Rightarrow> nat \<Rightarrow> string \<Rightarrow> bool \<Rightarrow> metadata_map \<Rightarrow> nat \<Rightarrow> nat \<Rightarrow> schema_visitor" where
  "VisitDecimal env st sibling_list_id name is_nullable metadata precision scale =
    (let decimal_type = DECIMAL precision scale
     in finish_column st sibling_list_id name
          (ApplyDeltaColumnMapping env (sv_mode st) metadata
             (set_default (Some decimal_type) (new_column name decimal_type is_nullable))))"

definition VisitVariant ::
  "cast_env \<Rightarrow> schema_visitor \<Rightarrow> nat \<Rightarrow> string \<Rightarrow> bool \<Rightarrow> metadata_map \<Rightarrow> schema_visitor" where
  "VisitVariant env st sibling_list_id name is_nullable metadata =
     finish_column st sibling_list_id name
       (ApplyDeltaColumnMapping env (sv_mode st) metadata (new_column name VARIANT is_nullable))"

definition struct_column ::
  "cast_env \<Rightarrow> DeltaColumnMappingMode \<Rightarrow> string \<Rightarrow> bool \<Rightarrow> metadata_map \<Rightarrow> column_def list
     \<Rightarrow> error option \<times> column_def" where
  "struct_column env mode name is_nullable metadata children =
    (let struct_type = STRUCT (map (\<lambda>c. (cd_name c, cd_type c)) children)
     in ApplyDeltaColumnMapping env mode metadata
          (set_default (Some struct_type) (set_children children (new_column name struct_type is_nullable))))"

definition VisitStruct ::
  "cast_env \<Rightarrow> schema_visitor \<Rightarrow> nat \<Rightarrow> string \<Rightarrow> bool \<Rightarrow> metadata_map \<Rightarrow> nat \<Rightarrow> schema_visitor" where
  "VisitStruct env st sibling_list_id name is_nullable metadata child_list_id =
    (let (children, st1) = TakeFieldList st child_list_id;
         st2 = ExtendRefusedPath st1 child_list_id sibling_list_id name False
     in finish_column st2 sibling_list_id name
          (struct_column env (sv_mode st2) name is_nullable metadata children))"

text \<open>What VisitArray and VisitMap do once the column and its children exist: the mapping of the column
  itself, the ids the metadata names for the synthetic children, and in id mode the derived ones. An
  exception of the last step would unwind into the kernel, which aborts the process.\<close>

definition map_container ::
  "cast_env \<Rightarrow> DeltaColumnMappingMode \<Rightarrow> metadata_map \<Rightarrow> column_def \<Rightarrow> error option \<times> column_def" where
  "map_container env mode metadata col =
    (let r1 = ApplyDeltaColumnMapping env mode metadata col;
         r2 = ApplyNestedFieldIdsBelow env mode metadata (snd r1) (snd r1) [];
         e = first_error (fst r1) (fst r2)
     in if mode = MODE_ID then
          (case FillContainerChildIds (get_int32 env) (snd r2) of
             Inr c \<Rightarrow> (e, c)
           | Inl _ \<Rightarrow> (Some (Err UndefinedBehaviour ''exception in a kernel callback'' []), snd r2))
        else (e, snd r2))"

definition list_column ::
  "cast_env \<Rightarrow> DeltaColumnMappingMode \<Rightarrow> string \<Rightarrow> bool \<Rightarrow> metadata_map \<Rightarrow> column_def
     \<Rightarrow> error option \<times> column_def" where
  "list_column env mode name is_nullable metadata child =
    (let list_type = LIST (cd_type child)
     in map_container env mode metadata
          (set_default (Some list_type)
            (set_children [set_name ''list'' child] (new_column name list_type is_nullable))))"

definition VisitArray ::
  "cast_env \<Rightarrow> schema_visitor \<Rightarrow> nat \<Rightarrow> string \<Rightarrow> bool \<Rightarrow> metadata_map \<Rightarrow> nat \<Rightarrow> schema_visitor" where
  "VisitArray env st sibling_list_id name is_nullable metadata child_list_id =
    (let (children, st1) = TakeFieldList st child_list_id;
         st2 = ExtendRefusedPath st1 child_list_id sibling_list_id name True;
         (ok, st3) = HasChildren st2 name children 1
     in if \<not> ok then st3
        else finish_column st3 sibling_list_id name
               (list_column env (sv_mode st3) name is_nullable metadata (hd children)))"

definition map_column ::
  "cast_env \<Rightarrow> DeltaColumnMappingMode \<Rightarrow> string \<Rightarrow> bool \<Rightarrow> metadata_map \<Rightarrow> column_def \<Rightarrow> column_def
     \<Rightarrow> error option \<times> column_def" where
  "map_column env mode name is_nullable metadata k v =
    (let map_type = MAP (cd_type k) (cd_type v)
     in map_container env mode metadata
          (set_default (Some map_type)
            (set_children [set_name ''key'' k, set_name ''value'' v] (new_column name map_type is_nullable))))"

definition VisitMap ::
  "cast_env \<Rightarrow> schema_visitor \<Rightarrow> nat \<Rightarrow> string \<Rightarrow> bool \<Rightarrow> metadata_map \<Rightarrow> nat \<Rightarrow> schema_visitor" where
  "VisitMap env st sibling_list_id name is_nullable metadata child_list_id =
    (let (children, st1) = TakeFieldList st child_list_id;
         st2 = ExtendRefusedPath st1 child_list_id sibling_list_id name True;
         (ok, st3) = HasChildren st2 name children 2
     in if \<not> ok then st3
        else finish_column st3 sibling_list_id name
               (map_column env (sv_mode st3) name is_nullable metadata (hd children) (last children)))"

definition VisitIntervalYearMonth :: "schema_visitor \<Rightarrow> nat \<Rightarrow> string \<Rightarrow> schema_visitor" where
  "VisitIntervalYearMonth st sibling_list_id name = RefuseType st sibling_list_id name ''interval year to month''"

definition VisitIntervalDayTime :: "schema_visitor \<Rightarrow> nat \<Rightarrow> string \<Rightarrow> schema_visitor" where
  "VisitIntervalDayTime st sibling_list_id name = RefuseType st sibling_list_id name ''interval day to second''"

definition VisitGeometry :: "schema_visitor \<Rightarrow> nat \<Rightarrow> string \<Rightarrow> schema_visitor" where
  "VisitGeometry st sibling_list_id name = RefuseType st sibling_list_id name ''geometry''"

definition VisitGeography :: "schema_visitor \<Rightarrow> nat \<Rightarrow> string \<Rightarrow> schema_visitor" where
  "VisitGeography st sibling_list_id name = RefuseType st sibling_list_id name ''geography''"

definition VisitUserDefined :: "schema_visitor \<Rightarrow> nat \<Rightarrow> string \<Rightarrow> nat \<Rightarrow> schema_visitor" where
  "VisitUserDefined st sibling_list_id name child_list_id =
     RefuseType (ExtendRefusedPath st child_list_id sibling_list_id name False) sibling_list_id name
       ''user-defined type''"

section \<open>The walk of the kernel and its result\<close>

datatype kernel_type =
    KSimple simple_visit
  | KDecimal nat nat
  | KVariant
  | KIntervalYearMonth | KIntervalDayTime | KGeometry | KGeography
  | KArray kernel_type bool
  | KMap kernel_type kernel_type bool
  | KStruct "kernel_field list"
and kernel_field = KField string kernel_type bool metadata_map

definition no_metadata :: metadata_map where
  "no_metadata = Map.empty"

fun walk_type ::
  "cast_env \<Rightarrow> schema_visitor \<Rightarrow> nat \<Rightarrow> string \<Rightarrow> kernel_type \<Rightarrow> bool \<Rightarrow> metadata_map \<Rightarrow> schema_visitor"
and walk_fields :: "cast_env \<Rightarrow> schema_visitor \<Rightarrow> nat \<Rightarrow> kernel_field list \<Rightarrow> schema_visitor"
and walk_field :: "cast_env \<Rightarrow> schema_visitor \<Rightarrow> nat \<Rightarrow> kernel_field \<Rightarrow> schema_visitor" where
  "walk_type env st sib name (KSimple v) nullable m =
     VisitSimpleTypeImpl env (CreateSchemaVisitor v) st sib name nullable m"
| "walk_type env st sib name (KDecimal p s) nullable m = VisitDecimal env st sib name nullable m p s"
| "walk_type env st sib name KVariant nullable m = VisitVariant env st sib name nullable m"
| "walk_type env st sib name KIntervalYearMonth nullable m = VisitIntervalYearMonth st sib name"
| "walk_type env st sib name KIntervalDayTime nullable m = VisitIntervalDayTime st sib name"
| "walk_type env st sib name KGeometry nullable m = VisitGeometry st sib name"
| "walk_type env st sib name KGeography nullable m = VisitGeography st sib name"
| "walk_type env st sib name (KArray e contains_null) nullable m =
    (let (i, st1) = MakeFieldListImpl st;
         st2 = walk_type env st1 i ''array_element'' e contains_null no_metadata
     in VisitArray env st2 sib name nullable m i)"
| "walk_type env st sib name (KMap k v contains_null) nullable m =
    (let (i, st1) = MakeFieldListImpl st;
         st2 = walk_type env st1 i ''map_key'' k False no_metadata;
         st3 = walk_type env st2 i ''map_value'' v contains_null no_metadata
     in VisitMap env st3 sib name nullable m i)"
| "walk_type env st sib name (KStruct fs) nullable m =
    (let (i, st1) = MakeFieldListImpl st;
         st2 = walk_fields env st1 i fs
     in VisitStruct env st2 sib name nullable m i)"
| "walk_fields env st sib [] = st"
| "walk_fields env st sib (f # fs) = walk_fields env (walk_field env st sib f) sib fs"
| "walk_field env st sib (KField name t nullable m) = walk_type env st sib name t nullable m"

definition walk_schema :: "cast_env \<Rightarrow> kernel_field list \<Rightarrow> schema_visitor \<Rightarrow> nat \<times> schema_visitor" where
  "walk_schema env schema st = (let (i, st1) = MakeFieldListImpl st in (i, walk_fields env st1 i schema))"

definition ToColumnDefinitions ::
  "(kernel_field list \<Rightarrow> schema_visitor \<Rightarrow> nat \<times> schema_visitor) \<Rightarrow> kernel_field list
     \<Rightarrow> DeltaColumnMappingMode \<Rightarrow> column_def list throws" where
  "ToColumnDefinitions visit_schema schema mapping_mode =
    (let (result, st) = visit_schema schema (initial_visitor mapping_mode)
     in case sv_error st of
          Some e \<Rightarrow> Inl e
        | None \<Rightarrow> Inr (fst (TakeFieldList st result)))"

section \<open>The columns a schema denotes\<close>

text \<open>The abstract specification: the column of a field by recursion on its type, or \<open>None\<close> when the type
  cannot be read or its metadata is malformed.\<close>

definition accepted :: "error option \<times> column_def \<Rightarrow> column_def option" where
  "accepted r = (if fst r = None then Some (snd r) else None)"

fun column_of ::
  "cast_env \<Rightarrow> DeltaColumnMappingMode \<Rightarrow> string \<Rightarrow> kernel_type \<Rightarrow> bool \<Rightarrow> metadata_map \<Rightarrow> column_def option"
and columns_of ::
  "cast_env \<Rightarrow> DeltaColumnMappingMode \<Rightarrow> kernel_field list \<Rightarrow> column_def list option" where
  "column_of env mode name (KSimple v) nullable m =
     map_option (set_name name)
       (accepted (ApplyDeltaColumnMapping env mode m (new_column name (CreateSchemaVisitor v) nullable)))"
| "column_of env mode name (KDecimal p s) nullable m =
     map_option (set_name name)
       (accepted (ApplyDeltaColumnMapping env mode m
          (set_default (Some (DECIMAL p s)) (new_column name (DECIMAL p s) nullable))))"
| "column_of env mode name KVariant nullable m =
     map_option (set_name name) (accepted (ApplyDeltaColumnMapping env mode m (new_column name VARIANT nullable)))"
| "column_of env mode name KIntervalYearMonth nullable m = None"
| "column_of env mode name KIntervalDayTime nullable m = None"
| "column_of env mode name KGeometry nullable m = None"
| "column_of env mode name KGeography nullable m = None"
| "column_of env mode name (KArray e contains_null) nullable m =
    (case column_of env mode ''array_element'' e contains_null no_metadata of
       None \<Rightarrow> None
     | Some c \<Rightarrow> map_option (set_name name) (accepted (list_column env mode name nullable m c)))"
| "column_of env mode name (KMap k v contains_null) nullable m =
    (case column_of env mode ''map_key'' k False no_metadata of
       None \<Rightarrow> None
     | Some kc \<Rightarrow>
        (case column_of env mode ''map_value'' v contains_null no_metadata of
           None \<Rightarrow> None
         | Some vc \<Rightarrow> map_option (set_name name) (accepted (map_column env mode name nullable m kc vc))))"
| "column_of env mode name (KStruct fs) nullable m =
    (case columns_of env mode fs of
       None \<Rightarrow> None
     | Some cs \<Rightarrow> map_option (set_name name) (accepted (struct_column env mode name nullable m cs)))"
| "columns_of env mode [] = Some []"
| "columns_of env mode (f # fs) =
    (case f of KField name t nullable m \<Rightarrow>
      (case column_of env mode name t nullable m of
         None \<Rightarrow> None
       | Some c \<Rightarrow> map_option ((#) c) (columns_of env mode fs)))"

section \<open>The walk computes the specification\<close>

definition visitor_ok :: "DeltaColumnMappingMode \<Rightarrow> schema_visitor \<Rightarrow> bool" where
  "visitor_ok mode st \<longleftrightarrow> sv_mode st = mode \<and> sv_error st = None \<and> sv_refused_type st = [] \<and>
     (\<forall>i. sv_next_id st \<le> i \<longrightarrow> sv_lists st i = None)"

definition append_column :: "schema_visitor \<Rightarrow> nat \<Rightarrow> column_def \<Rightarrow> schema_visitor" where
  "append_column st i c = AppendToList st i (cd_name c) c"

interpretation svl: inflight_lists sv_lists "visitor_ok mode" MakeFieldListImpl append_column TakeFieldList
  for mode
proof (unfold_locales, goal_cases)
  case (1 st i st')
  then show ?case by (auto simp: MakeFieldListImpl_def visitor_ok_def)
next
  case (2 st i xs x)
  then have "i < sv_next_id st" by (auto simp: visitor_ok_def not_le [symmetric])
  moreover have "set_name (cd_name x) x = x" by (cases x) simp
  ultimately show ?case using 2 by (auto simp: append_column_def AppendToList_def visitor_ok_def)
next
  case (3 st i xs)
  then show ?case by (auto simp: TakeFieldList_def visitor_ok_def)
qed

lemma finish_column_appends:
  assumes "visitor_ok mode st" "sv_lists st i = Some xs" "accepted r = Some c"
  shows "svl.appended mode st i [set_name name c] (finish_column st i name r)"
proof -
  have "finish_column st i name r = append_column st i (set_name name c)"
    using assms(3) by (cases r; cases c) (auto simp: finish_column_def append_column_def accepted_def
        record_first_def AppendToList_def split: if_splits option.splits)
  then show ?thesis using svl.appended_append [OF assms(1,2)] by simp
qed

lemma ExtendRefusedPath_ok [simp]: "visitor_ok mode st \<Longrightarrow> ExtendRefusedPath st c s n b = st"
  by (simp add: ExtendRefusedPath_def visitor_ok_def)

lemma visitor_ok_mode: "visitor_ok mode st \<Longrightarrow> sv_mode st = mode"
  by (simp add: visitor_ok_def)

lemma visit_container:
  assumes "visitor_ok mode st" "sv_lists st sib = Some xs" "MakeFieldListImpl st = (i, st1)"
    and "svl.appended mode st1 i cs st2"
  obtains st3 where "TakeFieldList st2 i = (cs, st3)" "visitor_ok mode st3" "sv_lists st3 sib = Some xs"
    and "\<And>ys s. svl.appended mode st3 sib ys s \<Longrightarrow> svl.appended mode st sib ys s"
proof -
  obtain st3 where "TakeFieldList st2 i = (cs, st3)" "visitor_ok mode st3" "sv_lists st3 = sv_lists st"
    using svl.take_after_children [OF assms(1,3,4)] by blast
  then show ?thesis using that assms(2) svl.appended_same_lists by metis
qed

lemma VisitArray_appends:
  assumes "visitor_ok mode st" "sv_lists st sib = Some xs" "MakeFieldListImpl st = (i, st1)"
    and "svl.appended mode st1 i [ec] st2" "accepted (list_column env mode name nullable m ec) = Some c"
  shows "svl.appended mode st sib [set_name name c] (VisitArray env st2 sib name nullable m i)"
proof -
  obtain st3 where st3: "TakeFieldList st2 i = ([ec], st3)" "visitor_ok mode st3" "sv_lists st3 sib = Some xs"
    and app: "\<And>ys s. svl.appended mode st3 sib ys s \<Longrightarrow> svl.appended mode st sib ys s"
    using visit_container [OF assms(1-4)] by metis
  show ?thesis using st3 app [OF finish_column_appends [OF st3(2,3) assms(5)]]
    by (simp add: VisitArray_def HasChildren_def visitor_ok_mode)
qed

lemma VisitMap_appends:
  assumes "visitor_ok mode st" "sv_lists st sib = Some xs" "MakeFieldListImpl st = (i, st1)"
    and "svl.appended mode st1 i [kc, vc] st2"
    and "accepted (map_column env mode name nullable m kc vc) = Some c"
  shows "svl.appended mode st sib [set_name name c] (VisitMap env st2 sib name nullable m i)"
proof -
  obtain st3 where st3: "TakeFieldList st2 i = ([kc, vc], st3)" "visitor_ok mode st3" "sv_lists st3 sib = Some xs"
    and app: "\<And>ys s. svl.appended mode st3 sib ys s \<Longrightarrow> svl.appended mode st sib ys s"
    using visit_container [OF assms(1-4)] by metis
  show ?thesis using st3 app [OF finish_column_appends [OF st3(2,3) assms(5)]]
    by (simp add: VisitMap_def HasChildren_def visitor_ok_mode)
qed

lemma VisitStruct_appends:
  assumes "visitor_ok mode st" "sv_lists st sib = Some xs" "MakeFieldListImpl st = (i, st1)"
    and "svl.appended mode st1 i cs st2" "accepted (struct_column env mode name nullable m cs) = Some c"
  shows "svl.appended mode st sib [set_name name c] (VisitStruct env st2 sib name nullable m i)"
proof -
  obtain st3 where st3: "TakeFieldList st2 i = (cs, st3)" "visitor_ok mode st3" "sv_lists st3 sib = Some xs"
    and app: "\<And>ys s. svl.appended mode st3 sib ys s \<Longrightarrow> svl.appended mode st sib ys s"
    using visit_container [OF assms(1-4)] by metis
  show ?thesis using st3 app [OF finish_column_appends [OF st3(2,3) assms(5)]]
    by (simp add: VisitStruct_def visitor_ok_mode)
qed

lemma walk_appends:
  "visitor_ok mode st \<Longrightarrow> sv_lists st sib = Some xs \<Longrightarrow> column_of env mode name t nullable m = Some c \<Longrightarrow>
     svl.appended mode st sib [c] (walk_type env st sib name t nullable m)"
  "visitor_ok mode st \<Longrightarrow> sv_lists st sib = Some xs \<Longrightarrow> columns_of env mode fs = Some cs \<Longrightarrow>
     svl.appended mode st sib cs (walk_fields env st sib fs)"
  "visitor_ok mode st \<Longrightarrow> sv_lists st sib = Some xs \<Longrightarrow> columns_of env mode [f] = Some cs \<Longrightarrow>
     svl.appended mode st sib cs (walk_field env st sib f)"
proof (induction env st sib name t nullable m and env st sib fs and env st sib f
    arbitrary: xs c and xs cs and xs cs rule: walk_type_walk_fields_walk_field.induct)
  case (1 env st sib name v nullable m)
  then show ?case
    by (auto simp: VisitSimpleTypeImpl_def visitor_ok_mode intro!: finish_column_appends)
next
  case (2 env st sib name p s nullable m)
  then show ?case
    by (auto simp: VisitDecimal_def Let_def visitor_ok_mode intro!: finish_column_appends)
next
  case (3 env st sib name nullable m)
  then show ?case
    by (auto simp: VisitVariant_def visitor_ok_mode intro!: finish_column_appends)
next
  case (8 env st sib name e contains_null nullable m)
  obtain i st1 where mk: "MakeFieldListImpl st = (i, st1)" by fastforce
  obtain ec lc where ec: "column_of env mode ''array_element'' e contains_null no_metadata = Some ec"
    and lc: "accepted (list_column env mode name nullable m ec) = Some lc" "c = set_name name lc"
    using "8.prems"(3) by (auto split: option.splits)
  then show ?case
    using VisitArray_appends [OF "8.prems"(1,2) mk _ lc(1)] "8.IH" [OF mk [symmetric] refl]
      svl.new_list [OF "8.prems"(1) mk] mk by simp
next
  case (9 env st sib name k v contains_null nullable m)
  obtain i st1 where mk: "MakeFieldListImpl st = (i, st1)" by fastforce
  let ?st2 = "walk_type env st1 i ''map_key'' k False no_metadata"
  let ?st3 = "walk_type env ?st2 i ''map_value'' v contains_null no_metadata"
  obtain kc vc mc where kc: "column_of env mode ''map_key'' k False no_metadata = Some kc"
    and vc: "column_of env mode ''map_value'' v contains_null no_metadata = Some vc"
    and mc: "accepted (map_column env mode name nullable m kc vc) = Some mc" "c = set_name name mc"
    using "9.prems"(3) by (auto split: option.splits)
  have a1: "svl.appended mode st1 i [kc] ?st2"
    using "9.IH"(1) [OF mk [symmetric] refl] svl.new_list [OF "9.prems"(1) mk] kc by blast
  have "svl.appended mode ?st2 i [vc] ?st3"
    using "9.IH"(2) [OF mk [symmetric] refl refl] svl.appended_wf [OF a1] svl.appended_list [OF a1]
      svl.new_list [OF "9.prems"(1) mk] vc by blast
  then have "svl.appended mode st1 i [kc, vc] ?st3" using svl.appended_trans [OF a1] by simp
  then show ?case using VisitMap_appends [OF "9.prems"(1,2) mk _ mc(1)] mc(2) mk by simp
next
  case (10 env st sib name fs nullable m)
  obtain i st1 where mk: "MakeFieldListImpl st = (i, st1)" by fastforce
  obtain cs sc where cs: "columns_of env mode fs = Some cs"
    and sc: "accepted (struct_column env mode name nullable m cs) = Some sc" "c = set_name name sc"
    using "10.prems"(3) by (auto split: option.splits)
  then show ?case
    using VisitStruct_appends [OF "10.prems"(1,2) mk _ sc(1)] "10.IH" [OF mk [symmetric] refl]
      svl.new_list [OF "10.prems"(1) mk] mk by simp
next
  case (11 env st sib)
  then show ?case using svl.appended_refl by fastforce
next
  case (12 env st sib f fs)
  then obtain c cs' where c: "columns_of env mode [f] = Some [c]" "columns_of env mode fs = Some cs'" "cs = c # cs'"
    by (auto split: kernel_field.splits option.splits)
  have a: "svl.appended mode st sib [c] (walk_field env st sib f)"
    using "12.IH"(1) [OF "12.prems"(1,2) c(1)] .
  then have "svl.appended mode (walk_field env st sib f) sib cs' (walk_fields env (walk_field env st sib f) sib fs)"
    using "12.IH"(2) [OF svl.appended_wf [OF a] svl.appended_list [OF a "12.prems"(2)] c(2)] by blast
  then show ?case using svl.appended_trans [OF a] c(3) by simp
next
  case (13 env st sib name t nullable m)
  then show ?case by (auto split: option.splits)
qed simp_all

lemma visitor_ok_initial: "visitor_ok mode (initial_visitor mode)"
  by (simp add: visitor_ok_def initial_visitor_def)

lemma walk_schema_columns:
  assumes "columns_of env mode schema = Some cols"
  shows "ToColumnDefinitions (walk_schema env) schema mode = Inr cols"
proof -
  obtain i st1 where mk: "MakeFieldListImpl (initial_visitor mode) = (i, st1)" by fastforce
  have "visitor_ok mode st1" "sv_lists st1 i = Some []"
    using svl.new_list [OF visitor_ok_initial mk] by auto
  then have a: "svl.appended mode st1 i cols (walk_fields env st1 i schema)"
    using walk_appends(2) assms by blast
  then have "sv_error (walk_fields env st1 i schema) = None"
    using svl.appended_wf by (auto simp: visitor_ok_def)
  moreover have "sv_lists (walk_fields env st1 i schema) i = Some cols"
    using svl.appended_list [OF a] \<open>sv_lists st1 i = Some []\<close> by simp
  ultimately show ?thesis
    using mk by (simp add: ToColumnDefinitions_def walk_schema_def TakeFieldList_def)
qed

section \<open>Field ids in id mode\<close>

text \<open>Every field of a struct, the top-level columns included, has an id in its metadata and the casts read
  numbers; a type that can be read is one without refused parts.\<close>

lemma first_error_None [simp]: "first_error a b = None \<longleftrightarrow> a = None \<and> b = None"
  by (cases a) (auto simp: first_error_def)

lemma ApplyDeltaColumnMapping_keeps:
  assumes "ApplyDeltaColumnMapping env mode m col = (e, col')"
  shows "cd_type col' = cd_type col \<and> cd_children col' = cd_children col \<and> cd_name col' = cd_name col \<and>
    cd_nullable col' = cd_nullable col"
  using assms
  by (auto simp: ApplyDeltaColumnMapping_def Let_def split: if_splits option.splits metadata_value.splits)

lemma ApplyNestedFieldIds_keeps:
  "cd_type (snd (ApplyNestedFieldIds env mode m p c sfx)) = cd_type c"
  "cd_children (snd (ApplyNestedFieldIds env mode m p c sfx)) = cd_children c"
  by (auto simp: ApplyNestedFieldIds_def Let_def split: option.splits metadata_value.splits)

lemma ApplyNestedFieldIds_mapped:
  "fields_mapped True c \<Longrightarrow> fields_mapped True (snd (ApplyNestedFieldIds env MODE_ID m p c sfx))"
  by (cases c)
    (auto simp: ApplyNestedFieldIds_def Let_def split: option.splits metadata_value.splits)

lemma ApplyNestedFieldIdsBelow_own:
  "cd_type (snd (ApplyNestedFieldIdsBelow env mode m f c path)) = cd_type c"
  "cd_identifier (snd (ApplyNestedFieldIdsBelow env mode m f c path)) = cd_identifier c"
  by (subst ApplyNestedFieldIdsBelow.simps, simp add: Let_def)+

lemma ApplyNestedFieldIdsBelow_mapped:
  "fields_mapped b c \<Longrightarrow> fields_mapped b (snd (ApplyNestedFieldIdsBelow env MODE_ID m f c path))"
proof (induction env "MODE_ID" m f c path arbitrary: b rule: ApplyNestedFieldIdsBelow.induct)
  case (1 env m f c path)
  consider "is_list (cd_type c)" | "is_map (cd_type c)" | "\<not> is_list (cd_type c)" "\<not> is_map (cd_type c)"
    by blast
  then show ?case
  proof cases
    case 1
    then obtain e where e: "cd_children c = [e]" "fields_mapped True e"
      using "1.prems" by (auto simp: fields_mapped_alt [of _ c] length_Suc_conv is_list_def)
    then show ?thesis
      using 1 "1.prems" "1.hyps"(1) [OF _ refl, of True] ApplyNestedFieldIds_mapped [of e]
      by (auto simp: ApplyNestedFieldIdsBelow.simps [of _ _ _ _ c] Let_def fields_mapped_alt [of b] is_list_def)
  next
    case 2
    then obtain k v where kv: "cd_children c = [k, v]" "fields_mapped True k" "fields_mapped True v"
      using "1.prems"
      by (auto simp: fields_mapped_alt [of _ c] length_Suc_conv is_map_def numeral_2_eq_2)
    then show ?thesis
      using 2 "1.prems" "1.hyps"(2) [OF _ _ refl, of True] "1.hyps"(3) [OF _ _ refl refl refl, of True]
        ApplyNestedFieldIds_mapped [of k] ApplyNestedFieldIds_mapped [of v]
      by (auto simp: ApplyNestedFieldIdsBelow.simps [of _ _ _ _ c] Let_def fields_mapped_alt [of b] is_map_def)
  next
    case 3
    then show ?thesis using "1.prems" by (simp add: ApplyNestedFieldIdsBelow.simps [of _ _ _ _ c])
  qed
qed

fun ids_present :: "cast_env \<Rightarrow> kernel_type \<Rightarrow> bool"
and field_ids_present :: "cast_env \<Rightarrow> kernel_field \<Rightarrow> bool" where
  "ids_present env (KArray e _) = ids_present env e"
| "ids_present env (KMap k v _) = (ids_present env k \<and> ids_present env v)"
| "ids_present env (KStruct fs) = list_all (field_ids_present env) fs"
| "ids_present env _ = True"
| "field_ids_present env (KField name t nullable m) = (mapping_id env m \<noteq> None \<and> ids_present env t)"

lemma mapping_id_no_metadata [simp]: "mapping_id env no_metadata = None"
  by (simp add: mapping_id_def FetchFromMetadataMap_def no_metadata_def)

lemma ApplyDeltaColumnMapping_identifier:
  assumes "accepted (ApplyDeltaColumnMapping env MODE_ID m col) = Some col'" "cd_identifier col = Id_Null"
  shows "cd_identifier col' = (case mapping_id env m of Some (MV_Bigint n) \<Rightarrow> Id_Integer n | _ \<Rightarrow> Id_Null) \<and>
    (mapping_id env m \<noteq> None \<longrightarrow> (\<exists>n. mapping_id env m = Some (MV_Bigint n)))"
proof -
  let ?i = "mapping_id env m"
  have "\<not> bad_mapping_id ?i" using assms(1)
    by (auto simp: accepted_def ApplyDeltaColumnMapping_def Let_def split: if_splits)
  then consider "?i = None" | n where "?i = Some (MV_Bigint n)"
    by (cases ?i rule: bad_mapping_id.cases) auto
  then show ?thesis
    using assms
    by cases (auto simp: accepted_def ApplyDeltaColumnMapping_def Let_def
        split: if_splits option.splits metadata_value.splits)
qed

text \<open>The two facts about the column of a field: its shape, and complete ids when it has one itself.\<close>

definition id_column :: "cast_env \<Rightarrow> metadata_map \<Rightarrow> column_def \<Rightarrow> bool" where
  "id_column env m c \<longleftrightarrow>
     fields_mapped (mapping_id env m = None) c \<and> (mapping_id env m \<noteq> None \<longrightarrow> filled c)"

lemma id_column_set_name: "id_column env m c \<Longrightarrow> id_column env m (set_name n c)"
  by (cases c) (auto simp: id_column_def filled_def)

lemma id_column_mapped: "id_column env m c \<Longrightarrow> fields_mapped True c"
  using fields_mapped_weaken [of c] by (cases "mapping_id env m = None") (auto simp: id_column_def)

lemma mapped_after_own_mapping:
  assumes "accepted (ApplyDeltaColumnMapping env MODE_ID m col) = Some col'"
    and "cd_identifier col = Id_Null" "fields_mapped True col"
  shows "fields_mapped (mapping_id env m = None) col'"
proof -
  have "cd_type col' = cd_type col \<and> cd_children col' = cd_children col"
    using ApplyDeltaColumnMapping_keeps [of env MODE_ID m col None col'] assms(1)
    by (cases "ApplyDeltaColumnMapping env MODE_ID m col") (auto simp: accepted_def split: if_splits)
  then show ?thesis
    using ApplyDeltaColumnMapping_identifier [OF assms(1,2)] assms(3)
    by (cases "mapping_id env m") (auto simp: fields_mapped_alt [of _ col] fields_mapped_alt [of _ col'])
qed

lemma id_column_leaf:
  assumes "accepted (ApplyDeltaColumnMapping env MODE_ID m col) = Some c"
    and "cd_identifier col = Id_Null" "cd_children col = []"
    and "\<not> is_list (cd_type col)" "\<not> is_map (cd_type col)"
  shows "id_column env m c"
proof -
  have keeps: "cd_type c = cd_type col \<and> cd_children c = cd_children col"
    using ApplyDeltaColumnMapping_keeps [of env MODE_ID m col None c] assms(1)
    by (cases "ApplyDeltaColumnMapping env MODE_ID m col") (auto simp: accepted_def split: if_splits)
  have "fields_mapped True col" using assms by (simp add: fields_mapped_alt)
  then have "fields_mapped (mapping_id env m = None) c"
    using mapped_after_own_mapping assms(1,2) by blast
  then show ?thesis
    using keeps assms(3) ApplyDeltaColumnMapping_identifier [OF assms(1,2)]
    by (auto simp: id_column_def filled_def HasFieldIdsRecursive_alt has_field_id_def)
qed

lemma id_column_container:
  assumes "accepted (map_container env MODE_ID m col) = Some c"
    and "cd_identifier col = Id_Null" "fields_mapped True col" "\<not> is_struct (cd_type col)"
  shows "id_column env m c"
proof -
  obtain col1 where r1: "ApplyDeltaColumnMapping env MODE_ID m col = (None, col1)"
    using assms(1) by (cases "ApplyDeltaColumnMapping env MODE_ID m col")
      (auto simp: map_container_def Let_def accepted_def split: if_splits sum.splits)
  let ?c2 = "snd (ApplyNestedFieldIdsBelow env MODE_ID m col1 col1 [])"
  have fill: "FillContainerChildIds (get_int32 env) ?c2 = Inr c"
    using assms(1) r1 by (auto simp: map_container_def Let_def accepted_def split: if_splits sum.splits)
  have acc: "accepted (ApplyDeltaColumnMapping env MODE_ID m col) = Some col1"
    using r1 by (simp add: accepted_def)
  have mapped: "fields_mapped (mapping_id env m = None) ?c2"
    using ApplyNestedFieldIdsBelow_mapped mapped_after_own_mapping [OF acc assms(2,3)] by blast
  show ?thesis
  proof (cases "mapping_id env m")
    case None
    then have "cd_identifier ?c2 = Id_Null" "\<not> is_struct (cd_type ?c2)"
      using ApplyDeltaColumnMapping_identifier [OF acc assms(2)] assms(4)
        ApplyDeltaColumnMapping_keeps [OF r1]
      by (auto simp: ApplyNestedFieldIdsBelow_own)
    then show ?thesis using fill mapped None FillContainerChildIds_unmapped by (simp add: id_column_def)
  next
    case (Some v)
    then show ?thesis
      using FillContainerChildIds_complete [of ?c2 "get_int32 env"] mapped fill
      by (auto simp: id_column_def filled_def)
  qed
qed

lemma id_column_list:
  assumes "accepted (list_column env MODE_ID name nullable m ec) = Some c" "fields_mapped True ec"
  shows "id_column env m c"
proof -
  have "fields_mapped True (set_default (Some (LIST (cd_type ec)))
      (set_children [set_name ''list'' ec] (new_column name (LIST (cd_type ec)) nullable)))"
    using assms(2) by (cases ec) (simp add: new_column_def)
  then show ?thesis
    using assms(1) id_column_container unfolding list_column_def Let_def by force
qed

lemma id_column_map:
  assumes "accepted (map_column env MODE_ID name nullable m kc vc) = Some c"
    and "fields_mapped True kc" "fields_mapped True vc"
  shows "id_column env m c"
proof -
  have "fields_mapped True (set_default (Some (MAP (cd_type kc) (cd_type vc)))
      (set_children [set_name ''key'' kc, set_name ''value'' vc]
        (new_column name (MAP (cd_type kc) (cd_type vc)) nullable)))"
    using assms(2,3) by (cases kc; cases vc) (simp add: new_column_def)
  then show ?thesis
    using assms(1) id_column_container unfolding map_column_def Let_def by force
qed

lemma id_column_struct:
  assumes "accepted (struct_column env MODE_ID name nullable m cs) = Some c" "list_all filled cs"
  shows "id_column env m c"
proof -
  let ?t = "STRUCT (map (\<lambda>c. (cd_name c, cd_type c)) cs)"
  let ?col = "set_default (Some ?t) (set_children cs (new_column name ?t nullable))"
  have acc: "accepted (ApplyDeltaColumnMapping env MODE_ID m ?col) = Some c"
    using assms(1) by (simp add: struct_column_def Let_def)
  have keeps: "cd_children c = cs"
    using ApplyDeltaColumnMapping_keeps [of env MODE_ID m ?col None c] acc
    by (cases "ApplyDeltaColumnMapping env MODE_ID m ?col") (auto simp: accepted_def split: if_splits)
  have "list_all (fields_mapped False) cs" using assms(2) by (auto simp: filled_def list_all_iff)
  then have "fields_mapped True ?col" by (simp add: new_column_def)
  then have "fields_mapped (mapping_id env m = None) c" using mapped_after_own_mapping acc by simp
  then show ?thesis
    using keeps assms(2) ApplyDeltaColumnMapping_identifier [OF acc]
    by (auto simp: id_column_def filled_def HasFieldIdsRecursive_alt [of c] has_field_id_def list_all_iff)
qed

lemma id_column_simple:
  assumes "map_option (set_name name) (accepted (ApplyDeltaColumnMapping env MODE_ID m col)) = Some c"
    and "cd_identifier col = Id_Null" "cd_children col = []"
    and "\<not> is_list (cd_type col)" "\<not> is_map (cd_type col)"
  shows "id_column env m c"
  using assms id_column_leaf [OF _ assms(2-5)] id_column_set_name by auto

lemma CreateSchemaVisitor_leaf: "\<not> is_list (CreateSchemaVisitor v)" "\<not> is_map (CreateSchemaVisitor v)"
  by (cases v; simp)+

lemma columns_have_ids:
  "column_of env mode name t nullable m = Some c \<Longrightarrow> mode = MODE_ID \<Longrightarrow> ids_present env t \<Longrightarrow> id_column env m c"
  "columns_of env mode fs = Some cs \<Longrightarrow> mode = MODE_ID \<Longrightarrow> list_all (field_ids_present env) fs \<Longrightarrow>
     list_all filled cs"
proof (induction env mode name t nullable m and env mode fs arbitrary: c and cs
    rule: column_of_columns_of.induct)
  case (1 env mode name v nullable m)
  then show ?case
    using id_column_simple [of name env m "new_column name (CreateSchemaVisitor v) nullable"]
    by (simp add: CreateSchemaVisitor_leaf)
next
  case (2 env mode name p s nullable m)
  then show ?case
    using id_column_simple [of name env m "set_default (Some (DECIMAL p s)) (new_column name (DECIMAL p s) nullable)"]
    by simp
next
  case (3 env mode name nullable m)
  then show ?case using id_column_simple [of name env m "new_column name VARIANT nullable"] by simp
next
  case (8 env mode name e contains_null nullable m)
  then obtain ec lc where "id_column env no_metadata ec"
    "accepted (list_column env mode name nullable m ec) = Some lc" "c = set_name name lc"
    by (auto split: option.splits)
  then show ?case
    using id_column_set_name id_column_list id_column_mapped "8.prems"(2) by metis
next
  case (9 env mode name k v contains_null nullable m)
  then obtain kc vc mc where "id_column env no_metadata kc" "id_column env no_metadata vc"
    "accepted (map_column env mode name nullable m kc vc) = Some mc" "c = set_name name mc"
    by (auto split: option.splits) blast
  then show ?case
    using id_column_set_name id_column_map id_column_mapped "9.prems"(2) by metis
next
  case (10 env mode name fs nullable m)
  then obtain cs sc where "list_all filled cs"
    "accepted (struct_column env mode name nullable m cs) = Some sc" "c = set_name name sc"
    by (auto split: option.splits)
  then show ?case using id_column_set_name id_column_struct "10.prems"(2) by metis
next
  case (12 env mode f fs)
  then show ?case by (cases f) (auto simp: id_column_def split: option.splits)
qed simp_all

section \<open>Properties\<close>

text \<open>The traversal documented for ffi::visit\_schema.\<close>

definition documented_visit ::
  "cast_env \<Rightarrow> (kernel_field list \<Rightarrow> schema_visitor \<Rightarrow> nat \<times> schema_visitor) \<Rightarrow> bool" where
  "documented_visit env visit_schema \<longleftrightarrow> (\<forall>schema st. visit_schema schema st = walk_schema env schema st)"

lemma documented_visit_eq: "documented_visit env visit_schema \<Longrightarrow> visit_schema = walk_schema env"
  by (auto simp: documented_visit_def fun_eq_iff)

text \<open>C3. The callback machine computes the recursive translation of the schema: whenever every type of a
  schema is readable and its metadata well-formed, the walk of the kernel leaves no error and the
  columns it built are those the specification gives, in schema order, in every mapping mode.\<close>

theorem ToColumnDefinitions_refines_columns_of:
  assumes "documented_visit env visit_schema" and "columns_of env mode schema = Some cols"
  shows "ToColumnDefinitions visit_schema schema mode = Inr cols"
  using walk_schema_columns assms documented_visit_eq by blast

definition example_env :: cast_env where
  "example_env = \<lparr>cast_bigint = (\<lambda>s. if s = ''7'' then Some 7 else None),
     cast_integer = (\<lambda>s. None), get_int32 = (\<lambda>s. Inl (Err ConversionEx ''cast'' [s]))\<rparr>"

definition example_schema :: "kernel_field list" where
  "example_schema = [KField ''a'' (KSimple visit_long) True
     [''delta.columnMapping.id'' \<mapsto> (MetadataNumber, ''7'')]]"

lemma example_columns_NONE:
  "columns_of example_env MODE_NONE [KField ''a'' (KSimple visit_long) True no_metadata,
      KField ''s'' (KStruct [KField ''d'' (KDecimal 10 2) True no_metadata]) True no_metadata] =
    Some [ColumnDef ''a'' BIGINT [] True [] [] None Id_Null (Some BIGINT),
      ColumnDef ''s'' (STRUCT [(''d'', DECIMAL 10 2)])
        [ColumnDef ''d'' (DECIMAL 10 2) [] True [] [] None Id_Null (Some (DECIMAL 10 2))] True [] [] None
        Id_Null (Some (STRUCT [(''d'', DECIMAL 10 2)]))]"
  by (simp add: accepted_def ApplyDeltaColumnMapping_def struct_column_def new_column_def Let_def
      FetchFromMetadataMap_def no_metadata_def mapping_id_def)

theorem ToColumnDefinitions_refines_columns_of_witness:
  "ToColumnDefinitions (walk_schema example_env)
     [KField ''a'' (KSimple visit_long) True no_metadata,
      KField ''s'' (KStruct [KField ''d'' (KDecimal 10 2) True no_metadata]) True no_metadata] MODE_NONE =
   Inr [ColumnDef ''a'' BIGINT [] True [] [] None Id_Null (Some BIGINT),
      ColumnDef ''s'' (STRUCT [(''d'', DECIMAL 10 2)])
        [ColumnDef ''d'' (DECIMAL 10 2) [] True [] [] None Id_Null (Some (DECIMAL 10 2))] True [] [] None
        Id_Null (Some (STRUCT [(''d'', DECIMAL 10 2)]))]"
  using ToColumnDefinitions_refines_columns_of [OF _ example_columns_NONE]
  by (simp add: documented_visit_def)

text \<open>C16. In id mode, a schema whose struct fields all carry a column mapping id comes out of the visitor
  with an integer field id on every column at every depth, list elements, map keys and map values
  included, so ResolveByFieldId accepts it and never throws.\<close>

theorem id_mode_columns_resolve_by_field_id:
  assumes "documented_visit env visit_schema"
    and "columns_of env MODE_ID schema \<noteq> None" and "list_all (field_ids_present env) schema"
  shows "\<exists>cols. ToColumnDefinitions visit_schema schema MODE_ID = Inr cols \<and>
    list_all HasFieldIdsRecursive cols \<and> ResolveByFieldId cols MODE_ID = Inr True"
proof -
  obtain cols where cols: "columns_of env MODE_ID schema = Some cols" using assms(2) by auto
  then have "list_all HasFieldIdsRecursive cols"
    using columns_have_ids(2) [OF cols refl assms(3)] by (auto simp: filled_def list_all_iff)
  then show ?thesis
    using walk_schema_columns [OF cols] documented_visit_eq [OF assms(1)]
    by (auto simp: ResolveByFieldId_def bindr_eq_Inr forr_eq_Inr list_all_iff)
qed

lemma example_schema_readable:
  "columns_of example_env MODE_ID example_schema \<noteq> None" "list_all (field_ids_present example_env) example_schema"
  by (simp_all add: example_schema_def example_env_def accepted_def ApplyDeltaColumnMapping_def list_column_def
      map_container_def new_column_def Let_def FetchFromMetadataMap_def no_metadata_def mapping_id_def INT32_MAX_def
      ApplyNestedFieldIdsBelow.simps ApplyNestedFieldIds_def FillContainerChildIds.simps identifier_id_def
      fill_entries_def fill_identifier_def ContainerChildFieldId_def)

theorem id_mode_columns_resolve_by_field_id_witness:
  "\<exists>cols. ToColumnDefinitions (walk_schema example_env) example_schema MODE_ID = Inr cols \<and>
    list_all HasFieldIdsRecursive cols \<and> ResolveByFieldId cols MODE_ID = Inr True"
  using id_mode_columns_resolve_by_field_id [of example_env "walk_schema example_env", OF _ example_schema_readable]
  by (simp add: documented_visit_def)

end
