(* ===== verification/Schema_Roundtrip.thy ===== *)
theory Schema_Roundtrip
  imports Schema_Builder Schema_Visitor
begin

text \<open>
  What CREATE TABLE lowers to the kernel is what a later scan reads back: DeltaSchemaBuilder and
  KernelSchemaVisitor are inverse to each other, as the comments of both claim. The kernel's builder
  entry points are the parameter \<open>ffi\<close> of \<open>VisitField\<close>; \<open>kernel_builds\<close> states what is documented of them,
  with \<open>field_of\<close> the field the kernel keeps for an id.
\<close>

section \<open>What the builder entry points do\<close>

fun call_children :: "field_call \<Rightarrow> nat list" where
  "call_children (visit_field_struct ids) = ids"
| "call_children (visit_field_array e) = [e]"
| "call_children (visit_field_map k v) = [k, v]"
| "call_children (visit_field_variant p) = [p]"
| "call_children _ = []"

fun lookup_all :: "(nat \<Rightarrow> kernel_field option) \<Rightarrow> nat list \<Rightarrow> kernel_field list option" where
  "lookup_all f [] = Some []"
| "lookup_all f (i # is) =
    (case f i of None \<Rightarrow> None | Some x \<Rightarrow> map_option ((#) x) (lookup_all f is))"

fun call_type :: "(nat \<Rightarrow> kernel_field option) \<Rightarrow> field_call \<Rightarrow> kernel_type option" where
  "call_type f visit_field_boolean = Some (KSimple visit_boolean)"
| "call_type f visit_field_byte = Some (KSimple visit_byte)"
| "call_type f visit_field_short = Some (KSimple visit_short)"
| "call_type f visit_field_integer = Some (KSimple visit_integer)"
| "call_type f visit_field_long = Some (KSimple visit_long)"
| "call_type f visit_field_float = Some (KSimple visit_float)"
| "call_type f visit_field_double = Some (KSimple visit_double)"
| "call_type f visit_field_string = Some (KSimple visit_string)"
| "call_type f visit_field_binary = Some (KSimple visit_binary)"
| "call_type f visit_field_date = Some (KSimple visit_date)"
| "call_type f visit_field_timestamp = Some (KSimple visit_timestamp)"
| "call_type f visit_field_timestamp_ntz = Some (KSimple visit_timestamp_ntz)"
| "call_type f (visit_field_decimal w s) = Some (KDecimal w s)"
| "call_type f (visit_field_variant p) = (case f p of Some (KField _ (KStruct _) _ _) \<Rightarrow> Some KVariant | _ \<Rightarrow> None)"
| "call_type f (visit_field_struct ids) = map_option KStruct (lookup_all f ids)"
| "call_type f (visit_field_array e) =
    (case f e of Some (KField _ t nullable _) \<Rightarrow> Some (KArray t nullable) | None \<Rightarrow> None)"
| "call_type f (visit_field_map k v) =
    (case f k of Some (KField _ kt _ _) \<Rightarrow>
       (case f v of Some (KField _ vt nullable _) \<Rightarrow> Some (KMap kt vt nullable) | None \<Rightarrow> None)
     | None \<Rightarrow> None)"

definition kernel_builds :: "'s field_ffi \<Rightarrow> ('s \<Rightarrow> nat \<Rightarrow> kernel_field option) \<Rightarrow> bool" where
  "kernel_builds ffi field_of \<longleftrightarrow>
    (\<forall>st call name nullable i st'. ffi st call name nullable = Inr (i, st') \<longrightarrow>
       field_of st i = None \<and>
       (\<forall>kt. call_type (field_of st) call = Some kt \<longrightarrow>
          field_of st' i = Some (KField name kt nullable no_metadata)) \<and>
       (\<forall>j. j \<noteq> i \<and> j \<notin> set (call_children call) \<longrightarrow> field_of st' j = field_of st j))"

fun kernel_of :: "logical_type \<Rightarrow> kernel_type" where
  "kernel_of BOOLEAN = KSimple visit_boolean"
| "kernel_of TINYINT = KSimple visit_byte"
| "kernel_of SMALLINT = KSimple visit_short"
| "kernel_of INTEGER = KSimple visit_integer"
| "kernel_of BIGINT = KSimple visit_long"
| "kernel_of FLOAT = KSimple visit_float"
| "kernel_of DOUBLE = KSimple visit_double"
| "kernel_of VARCHAR = KSimple visit_string"
| "kernel_of BLOB = KSimple visit_binary"
| "kernel_of DATE = KSimple visit_date"
| "kernel_of TIMESTAMP_TZ = KSimple visit_timestamp"
| "kernel_of TIMESTAMP = KSimple visit_timestamp_ntz"
| "kernel_of (DECIMAL w s) = KDecimal w s"
| "kernel_of VARIANT = KVariant"
| "kernel_of (STRUCT fs) = KStruct (map (\<lambda>(n, t). KField n (kernel_of t) True no_metadata) fs)"
| "kernel_of (LIST t) = KArray (kernel_of t) True"
| "kernel_of (MAP k v) = KMap (kernel_of k) (kernel_of v) True"
| "kernel_of _ = KSimple visit_void"

abbreviation kernel_column :: "string \<times> logical_type \<Rightarrow> kernel_field" where
  "kernel_column c \<equiv> KField (fst c) (kernel_of (snd c)) True no_metadata"

lemma kernel_of_STRUCT [simp]: "kernel_of (STRUCT fs) = KStruct (map kernel_column fs)"
  by (simp add: case_prod_beta')

declare VisitField.simps [simp del] kernel_of.simps(15) [simp del]

section \<open>Lowering builds the kernel's form of the type\<close>

text \<open>What a lowering that made the fields \<open>ids\<close> leaves behind: they are new, they are what was asked for,
  and no field that existed before is touched.\<close>

definition built ::
  "('s \<Rightarrow> nat \<Rightarrow> kernel_field option) \<Rightarrow> 's \<Rightarrow> 's \<Rightarrow> nat list \<Rightarrow> kernel_field list \<Rightarrow> bool" where
  "built field_of st st' ids kfs \<longleftrightarrow>
     map (field_of st') ids = map Some kfs \<and> (\<forall>i \<in> set ids. field_of st i = None) \<and>
     (\<forall>j. field_of st j \<noteq> None \<longrightarrow> field_of st' j = field_of st j)"

lemma lookup_all_map: "map f ids = map Some kfs \<Longrightarrow> lookup_all f ids = Some kfs"
  by (induction ids arbitrary: kfs) auto

lemma built_nil: "built field_of st st [] []"
  by (simp add: built_def)

lemma built_append:
  assumes "built field_of st st1 is fs" "built field_of st1 st2 js gs"
  shows "built field_of st st2 (is @ js) (fs @ gs)"
proof -
  have "field_of st2 i = field_of st1 i" if "i \<in> set is" for i
  proof -
    have "field_of st1 i \<in> set (map (field_of st1) is)" using that by simp
    then have "field_of st1 i \<noteq> None" using assms(1) unfolding built_def by (metis ex_map_conv option.simps(3))
    then show ?thesis using assms(2) by (simp add: built_def)
  qed
  moreover have "field_of st j = None" if "j \<in> set js" for j
    using assms that unfolding built_def by metis
  ultimately show ?thesis using assms by (auto simp: built_def cong: map_cong)
qed

lemma call_builds:
  assumes "kernel_builds ffi field_of" "call_ffi ffi st1 call name nullable = Inr (i, st2)"
    and "built field_of st st1 (call_children call) kfs"
    and "call_type (field_of st1) call = Some kt"
  shows "built field_of st st2 [i] [KField name kt nullable no_metadata]"
proof -
  have ffi: "ffi st1 call name nullable = Inr (i, st2)"
    using assms(2) by (auto simp: call_ffi_def Unpack_def split: sum.splits option.splits)
  then have k: "field_of st1 i = None" "field_of st2 i = Some (KField name kt nullable no_metadata)"
    "\<And>j. j \<noteq> i \<Longrightarrow> j \<notin> set (call_children call) \<Longrightarrow> field_of st2 j = field_of st1 j"
    using assms(1,4) unfolding kernel_builds_def by blast+
  have old: "field_of st1 j = field_of st j \<and> j \<notin> set (call_children call)" if "field_of st j \<noteq> None" for j
    using assms(3) that unfolding built_def by metis
  then have "field_of st i = None" using k(1) by metis
  moreover have "field_of st2 j = field_of st j" if "field_of st j \<noteq> None" for j
    using old [OF that] k that by metis
  ultimately show ?thesis using k(2) by (simp add: built_def)
qed

lemma built_map_Some: "built field_of st st' ids kfs \<Longrightarrow> map (field_of st') ids = map Some kfs"
  by (simp add: built_def)

lemma call_builds_leaf:
  assumes "kernel_builds ffi field_of" "call_ffi ffi st call name nullable = Inr (i, st')"
    and "call_children call = []" "call_type (field_of st) call = Some kt"
  shows "built field_of st st' [i] [KField name kt nullable no_metadata]"
  using call_builds [OF assms(1,2), of st "[]"] assms(3,4) by (simp add: built_nil)

lemma VisitVariant_builds:
  assumes "bindr (call_ffi ffi st visit_field_binary ''metadata'' False) (\<lambda>(m, st1).
           bindr (call_ffi ffi st1 visit_field_binary ''value'' False) (\<lambda>(v, st2).
           bindr (call_ffi ffi st2 (visit_field_struct [m, v]) name False) (\<lambda>(p, st3).
           call_ffi ffi st3 (visit_field_variant p) name nullable))) = Inr (i, st')"
    and law: "kernel_builds ffi field_of"
  shows "built field_of st st' [i] [KField name KVariant nullable no_metadata]"
proof -
  obtain m st1 v st2 p st3 where c: "call_ffi ffi st visit_field_binary ''metadata'' False = Inr (m, st1)"
    "call_ffi ffi st1 visit_field_binary ''value'' False = Inr (v, st2)"
    "call_ffi ffi st2 (visit_field_struct [m, v]) name False = Inr (p, st3)"
    "call_ffi ffi st3 (visit_field_variant p) name nullable = Inr (i, st')"
    using assms(1) by (auto simp: bindr_eq_Inr)
  let ?b = "\<lambda>n. KField n (KSimple visit_binary) False no_metadata"
  have "built field_of st st1 [m] [?b ''metadata'']" using call_builds_leaf [OF law c(1)] by simp
  moreover have "built field_of st1 st2 [v] [?b ''value'']" using call_builds_leaf [OF law c(2)] by simp
  ultimately have b: "built field_of st st2 [m, v] [?b ''metadata'', ?b ''value'']"
    using built_append by fastforce
  then have "built field_of st st3 [p] [KField name (KStruct [?b ''metadata'', ?b ''value'']) False no_metadata]"
    using call_builds [OF law c(3)] built_map_Some [OF b] by simp
  then show ?thesis using call_builds [OF law c(4)] built_map_Some by fastforce
qed

lemma VisitField_builds:
  "VisitField ffi st name type nullable = Inr (i, st') \<Longrightarrow> kernel_builds ffi field_of \<Longrightarrow>
     built field_of st st' [i] [KField name (kernel_of type) nullable no_metadata]"
  "VisitChildren ffi st children = Inr (ids, st') \<Longrightarrow> kernel_builds ffi field_of \<Longrightarrow>
     built field_of st st' ids (map kernel_column children)"
proof (induction ffi st name type nullable and ffi st children arbitrary: i st' and ids st'
    rule: VisitField_VisitChildren.induct)
  case (1 ffi st name type nullable)
  have ok: "FindUnsupportedType type = None"
    using "1.prems"(1) by (subst (asm) VisitField.simps) (auto split: option.splits)
  show ?case
  proof (cases "is_struct type \<or> is_list type \<or> is_map type \<or> type = VARIANT")
    case False
    then show ?thesis
      using "1.prems" ok
      by (cases type) (auto simp: VisitField.simps intro: call_builds_leaf)
  next
    case True
    then consider (s) fs where "type = STRUCT fs" | (l) t where "type = LIST t"
      | (m) k v where "type = MAP k v" | (v) "type = VARIANT"
      by (cases type) auto
    then show ?thesis
    proof cases
      case s
      then obtain ids st1 where c: "VisitChildren ffi st fs = Inr (ids, st1)"
        "call_ffi ffi st1 (visit_field_struct ids) name nullable = Inr (i, st')"
        using "1.prems"(1) ok by (auto simp: VisitField.simps bindr_eq_Inr)
      have "built field_of st st1 ids (map kernel_column fs)" using "1.IH"(1) [OF ok s c(1) "1.prems"(2)] .
      then show ?thesis
        using call_builds [OF "1.prems"(2) c(2)] s
        by (simp add: lookup_all_map [OF built_map_Some])
    next
      case l
      then obtain e st1 where c: "VisitField ffi st ''element'' t True = Inr (e, st1)"
        "call_ffi ffi st1 (visit_field_array e) name nullable = Inr (i, st')"
        using "1.prems"(1) ok by (auto simp: VisitField.simps [of _ _ _ "LIST t"] bindr_eq_Inr)
      have b: "built field_of st st1 [e] [KField ''element'' (kernel_of t) True no_metadata]"
        using "1.IH"(2) [OF ok l c(1) "1.prems"(2)] .
      then show ?thesis
        using call_builds [OF "1.prems"(2) c(2)] l built_map_Some [OF b] by simp
    next
      case m
      then obtain j st1 w st2 where c: "VisitField ffi st ''key'' k False = Inr (j, st1)"
        "VisitField ffi st1 ''value'' v True = Inr (w, st2)"
        "call_ffi ffi st2 (visit_field_map j w) name nullable = Inr (i, st')"
        using "1.prems"(1) ok by (auto simp: VisitField.simps [of _ _ _ "MAP k v"] bindr_eq_Inr)
      have "built field_of st st1 [j] [KField ''key'' (kernel_of k) False no_metadata]"
        using "1.IH"(3) [OF ok m c(1) "1.prems"(2)] .
      moreover have "built field_of st1 st2 [w] [KField ''value'' (kernel_of v) True no_metadata]"
        using "1.IH"(4) [OF ok m c(1) refl c(2) "1.prems"(2)] .
      ultimately have b: "built field_of st st2 [j, w] [KField ''key'' (kernel_of k) False no_metadata,
          KField ''value'' (kernel_of v) True no_metadata]"
        using built_append by fastforce
      then show ?thesis
        using call_builds [OF "1.prems"(2) c(3)] m built_map_Some [OF b] by simp
    next
      case v
      then show ?thesis using "1.prems" ok VisitVariant_builds by (simp add: VisitField.simps)
    qed
  qed
next
  case (2 ffi st)
  then show ?case by (simp add: built_nil)
next
  case (3 ffi st name type children)
  then obtain j st1 js where "VisitField ffi st name type True = Inr (j, st1)"
    "VisitChildren ffi st1 children = Inr (js, st')" "ids = j # js"
    by (auto simp: bindr_eq_Inr)
  then show ?case
    using "3.IH"(1) [of j st1] "3.IH"(2) [of "(j, st1)" j st1 js st'] "3.prems"(2)
      built_append [of field_of st st1 "[j]" _ st' js] by fastforce
qed

section \<open>Reading back\<close>

lemma ApplyDeltaColumnMapping_plain:
  "ApplyDeltaColumnMapping env MODE_NONE no_metadata col = (None, set_default (Some (cd_type col)) col)"
  by (simp add: ApplyDeltaColumnMapping_def Let_def mapping_id_def FetchFromMetadataMap_def no_metadata_def)

lemma ApplyNestedFieldIdsBelow_NONE: "fst (ApplyNestedFieldIdsBelow env MODE_NONE m f c path) = None"
  by (induction env "MODE_NONE" m f c path rule: ApplyNestedFieldIdsBelow.induct)
    (subst ApplyNestedFieldIdsBelow.simps, auto simp: Let_def ApplyNestedFieldIds_def)

lemma map_container_plain:
  "\<exists>c. accepted (map_container env MODE_NONE no_metadata col) = Some c \<and> cd_type c = cd_type col"
  by (simp add: map_container_def Let_def ApplyDeltaColumnMapping_plain accepted_def
      ApplyNestedFieldIdsBelow_NONE ApplyNestedFieldIdsBelow_own)

text \<open>The column a storable type reads back as: same name, same type.\<close>

definition reads_as :: "column_def \<Rightarrow> string \<times> logical_type \<Rightarrow> bool" where
  "reads_as c nt \<longleftrightarrow> cd_name c = fst nt \<and> cd_type c = snd nt"

lemma column_of_kernel_of:
  "FindUnsupportedType type = None \<Longrightarrow>
     \<exists>c. column_of env MODE_NONE name (kernel_of type) nullable no_metadata = Some c \<and> reads_as c (name, type)"
  "FindUnsupportedChild n children = None \<Longrightarrow>
     \<exists>cs. columns_of env MODE_NONE (map kernel_column children) = Some cs \<and> list_all2 reads_as cs children"
proof (induction type and n children arbitrary: name nullable and rule: FindUnsupportedType_FindUnsupportedChild.induct)
  case (15 fs)
  then obtain cs where cs: "columns_of env MODE_NONE (map kernel_column fs) = Some cs" "list_all2 reads_as cs fs"
    by auto
  have "map (\<lambda>c. (cd_name c, cd_type c)) cs = fs"
    using cs(2) by (induction cs fs rule: list_all2_induct) (auto simp: reads_as_def)
  then show ?case using cs
    by (simp add: struct_column_def Let_def ApplyDeltaColumnMapping_plain accepted_def reads_as_def)
next
  case (16 t)
  then obtain e where "column_of env MODE_NONE ''array_element'' (kernel_of t) True no_metadata = Some e"
    "cd_type e = t" by (auto simp: reads_as_def)
  then show ?case
    using map_container_plain
    by (fastforce simp: list_column_def Let_def reads_as_def)
next
  case (17 k v)
  then obtain kc vc where "column_of env MODE_NONE ''map_key'' (kernel_of k) False no_metadata = Some kc"
    "column_of env MODE_NONE ''map_value'' (kernel_of v) True no_metadata = Some vc" "cd_type kc = k" "cd_type vc = v"
    by (fastforce simp: reads_as_def split: option.splits)
  then show ?case
    using map_container_plain
    by (fastforce simp: map_column_def Let_def reads_as_def)
next
  case (20 i n t cs)
  then obtain c where "column_of env MODE_NONE n (kernel_of t) True no_metadata = Some c" "reads_as c (n, t)"
    by (auto split: option.splits)
  then show ?case using 20 by (auto split: option.splits)
qed (auto simp: accepted_def ApplyDeltaColumnMapping_plain reads_as_def split: option.splits)

section \<open>Storable types are lowered without internal error\<close>

definition never_fails :: "'s field_ffi \<Rightarrow> bool" where
  "never_fails ffi \<longleftrightarrow> (\<forall>st call name nullable. \<exists>i st'. ffi st call name nullable = Inr (i, st'))"

lemma call_ffi_total: "never_fails ffi \<Longrightarrow> \<exists>i st'. call_ffi ffi st call name nullable = Inr (i, st')"
proof -
  assume "never_fails ffi"
  then obtain i st' where "ffi st call name nullable = Inr (i, st')" unfolding never_fails_def by blast
  then show ?thesis by (simp add: call_ffi_def Unpack_def)
qed

lemma bindr_total:
  "\<exists>i s. r = Inr (i, s) \<Longrightarrow> (\<And>i s. \<exists>j s'. f i s = Inr (j, s')) \<Longrightarrow> \<exists>j s'. bindr r (\<lambda>(i, s). f i s) = Inr (j, s')"
  by auto

lemma VisitField_storable:
  "FindUnsupportedType type = None \<Longrightarrow> never_fails ffi \<Longrightarrow>
     \<exists>i st'. VisitField ffi st name type nullable = Inr (i, st')"
  "FindUnsupportedChild n children = None \<Longrightarrow> never_fails ffi \<Longrightarrow>
     \<exists>ids st'. VisitChildren ffi st children = Inr (ids, st')"
proof (induction type and n children arbitrary: name nullable st and st
    rule: FindUnsupportedType_FindUnsupportedChild.induct)
  case 14
  then show ?case by (auto simp: VisitField.simps intro!: bindr_total call_ffi_total)
next
  case (15 fs)
  then show ?case
    by (auto simp: VisitField.simps [of _ _ _ "STRUCT fs"] intro!: bindr_total call_ffi_total)
next
  case (16 t)
  then show ?case
    by (auto simp: VisitField.simps [of _ _ _ "LIST t"] intro!: bindr_total call_ffi_total)
next
  case (17 k v)
  then show ?case
    by (auto simp: VisitField.simps [of _ _ _ "MAP k v"] split: option.splits
        intro!: bindr_total call_ffi_total)
next
  case (20 i name type children)
  then show ?case by (auto split: option.splits intro!: bindr_total)
qed (simp_all add: VisitField.simps call_ffi_total)

lemma storable_children:
  "FindUnsupportedChild n cs = None \<longleftrightarrow> list_all (\<lambda>c. FindUnsupportedType (snd c) = None) cs"
  by (induction cs arbitrary: n) (auto split: option.splits)

lemma VisitField_ok_storable:
  "VisitField ffi st name type nullable = Inr r \<Longrightarrow> FindUnsupportedType type = None"
  by (subst (asm) VisitField.simps) (auto split: option.splits)

lemma VisitChildren_ok_storable:
  "VisitChildren ffi st cs = Inr r \<Longrightarrow> list_all (\<lambda>c. FindUnsupportedType (snd c) = None) cs"
  by (induction cs arbitrary: st r) (auto simp: bindr_eq_Inr dest: VisitField_ok_storable)

lemma VisitChildren_error:
  "never_fails ffi \<Longrightarrow> VisitChildren ffi st cs = Inl e \<Longrightarrow>
     \<exists>c ref. c \<in> set cs \<and> FindUnsupportedType (snd c) = Some ref \<and> e = unsupported_column (fst c) ref"
proof (induction cs arbitrary: st)
  case (Cons c cs)
  obtain n t where c: "c = (n, t)" by fastforce
  show ?case
  proof (cases "FindUnsupportedType t")
    case None
    then obtain i st1 where v: "VisitField ffi st n t True = Inr (i, st1)"
      using VisitField_storable(1) [OF None Cons.prems(1)] by blast
    then have "VisitChildren ffi st1 cs = Inl e" using Cons.prems(2) c by (auto simp: bindr_eq_Inl)
    then show ?thesis using Cons.IH [OF Cons.prems(1)] by (metis list.set_intros(2))
  next
    case (Some ref)
    then have "VisitField ffi st n t True = Inl (unsupported_column n ref)" by (subst VisitField.simps) simp
    then have "e = unsupported_column (fst c) ref" using Cons.prems(2) c by auto
    then show ?thesis using c Some by (metis list.set_intros(1) snd_conv)
  qed
qed simp

abbreviation named_types :: "column_list \<Rightarrow> (string \<times> logical_type) list" where
  "named_types columns \<equiv> map (\<lambda>c. (col_name c, col_type c)) columns"

section \<open>Properties\<close>

text \<open>C4. A create/read round trip is lossless: when the schema builder lowers the columns of a CREATE TABLE
  without error, the root the kernel holds is a struct whose walk gives columns with the names and the
  types of the statement, in its order, nested types included.\<close>

theorem created_schema_reads_back:
  assumes "kernel_builds ffi field_of" and "documented_visit env visit_schema"
    and "build_error (Build ffi st columns) = None"
  shows "\<exists>st' schema cols. build_state (Build ffi st columns) = Some st' \<and>
     field_of st' (root_id (Build ffi st columns)) = Some (KField ''root'' (KStruct schema) False no_metadata) \<and>
     ToColumnDefinitions visit_schema schema MODE_NONE = Inr cols \<and>
     map (\<lambda>c. (cd_name c, cd_type c)) cols = map (\<lambda>c. (col_name c, col_type c)) columns"
proof -
  obtain ids st1 i st2 where v: "VisitChildren ffi st (named_types columns) = Inr (ids, st1)"
    and c: "call_ffi ffi st1 (visit_field_struct ids) ''root'' False = Inr (i, st2)"
    using assms(3) by (auto simp: Build_def bindr_def split: sum.splits)
  let ?schema = "map kernel_column (named_types columns)"
  have b: "built field_of st st1 ids ?schema" using VisitField_builds(2) [OF v assms(1)] .
  then have root: "field_of st2 i = Some (KField ''root'' (KStruct ?schema) False no_metadata)"
    using call_builds [OF assms(1) c] lookup_all_map [OF built_map_Some [OF b]] built_map_Some by fastforce
  obtain cols where cols: "columns_of env MODE_NONE ?schema = Some cols" "list_all2 reads_as cols (named_types columns)"
    using column_of_kernel_of(2) [of 0] VisitChildren_ok_storable [OF v] storable_children [of 0] by blast
  have "map (\<lambda>c. (cd_name c, cd_type c)) cols = named_types columns"
    using cols(2) by (induction rule: list_all2_induct) (auto simp: reads_as_def)
  moreover have "Build ffi st columns = \<lparr>root_id = i, build_error = None, build_state = Some st2\<rparr>"
    using v c by (simp add: Build_def)
  ultimately show ?thesis
    using root walk_schema_columns [OF cols(1)] documented_visit_eq [OF assms(2)] by auto
qed

text \<open>A kernel that keeps every field it is asked for, for the witnesses.\<close>

definition store_of :: "nat \<times> (nat \<Rightarrow> kernel_field option) \<Rightarrow> nat \<Rightarrow> kernel_field option" where
  "store_of st i = (if i < fst st then snd st i else None)"

definition store_ffi :: "(nat \<times> (nat \<Rightarrow> kernel_field option)) field_ffi" where
  "store_ffi st call name nullable =
    Inr (fst st, fst st + 1, (snd st)(fst st \<mapsto>
      KField name (case call_type (store_of st) call of Some kt \<Rightarrow> kt | None \<Rightarrow> KSimple visit_void)
        nullable no_metadata))"

lemma store_ffi_builds: "kernel_builds store_ffi store_of"
  by (auto simp: kernel_builds_def store_ffi_def store_of_def)

lemma store_ffi_never_fails: "never_fails store_ffi"
  by (auto simp: never_fails_def store_ffi_def)

definition example_columns :: column_list where
  "example_columns = [\<lparr>col_name = ''a'', col_type = LIST BIGINT, col_generated = False, col_default = False\<rparr>,
     \<lparr>col_name = ''v'', col_type = VARIANT, col_generated = False, col_default = False\<rparr>]"

theorem created_schema_reads_back_witness:
  "\<exists>st' schema cols. build_state (Build store_ffi (1, Map.empty) example_columns) = Some st' \<and>
     store_of st' (root_id (Build store_ffi (1, Map.empty) example_columns)) =
       Some (KField ''root'' (KStruct schema) False no_metadata) \<and>
     ToColumnDefinitions (walk_schema example_env) schema MODE_NONE = Inr cols \<and>
     map (\<lambda>c. (cd_name c, cd_type c)) cols = [(''a'', LIST BIGINT), (''v'', VARIANT)]"
proof -
  have "build_error (Build store_ffi (1, Map.empty) example_columns) = None"
    by (simp add: Build_def example_columns_def VisitField.simps call_ffi_def Unpack_def store_ffi_def)
  from created_schema_reads_back [OF store_ffi_builds _ this, of example_env "walk_schema example_env"]
  show ?thesis by (simp add: documented_visit_def example_columns_def)
qed

text \<open>FindUnsupportedType is the one list of storable types: while the kernel accepts every call, a
  table is lowered exactly when it accepts the type of every column, and otherwise the builder records
  a not-implemented error that names an offending column and returns the id 0. The internal error for a
  type the two disagree on cannot happen.\<close>

theorem Build_fails_only_for_unsupported_types:
  assumes "never_fails ffi"
  shows "(build_error (Build ffi st columns) = None \<longleftrightarrow>
       list_all (\<lambda>c. FindUnsupportedType (col_type c) = None) columns) \<and>
     (\<forall>e. build_error (Build ffi st columns) = Some e \<longrightarrow>
       root_id (Build ffi st columns) = 0 \<and>
       (\<exists>c ref. c \<in> set columns \<and> FindUnsupportedType (col_type c) = Some ref \<and>
         e = unsupported_column (col_name c) ref))"
proof (cases "VisitChildren ffi st (named_types columns)")
  case (Inl e)
  then show ?thesis
    using VisitChildren_error [OF assms Inl]
    by (fastforce simp: Build_def list_all_iff)
next
  case (Inr r)
  then obtain ids st1 where r: "r = (ids, st1)" by fastforce
  obtain i st2 where "call_ffi ffi st1 (visit_field_struct ids) ''root'' False = Inr (i, st2)"
    using call_ffi_total [OF assms] by blast
  then show ?thesis
    using Inr r VisitChildren_ok_storable [OF Inr] by (simp add: Build_def list_all_iff)
qed

theorem Build_fails_only_for_unsupported_types_witness:
  "build_error (Build store_ffi (1, Map.empty)
     [\<lparr>col_name = ''h'', col_type = LIST HUGEINT, col_generated = False, col_default = False\<rparr>]) =
   Some (unsupported_column ''h'' ([0], HUGEINT))"
  using Build_fails_only_for_unsupported_types [OF store_ffi_never_fails, of "(1, Map.empty)"
      "[\<lparr>col_name = ''h'', col_type = LIST HUGEINT, col_generated = False, col_default = False\<rparr>]"]
  by auto

end
