(* ===== verification/Attach.thy ===== *)
theory Attach
  imports Types
begin

text \<open>
  Time travel targets (delta\_time\_travel.hpp, delta\_catalog.cpp), the catalog an ATTACH makes
  (DeltaCatalog, DeltaCatalogAttach in delta\_extension.cpp), the filter pushdown modes (delta\_scan.cpp)
  and the catalog's own operations.

  Values, casts and timestamps are DuckDB's: a value is opaque and \<open>value_ops\<close> holds the operations on
  it the code calls. The clock of the transaction is \<open>now_ms\<close>.
\<close>

section \<open>Values and timestamps\<close>

record 'v value_ops =
  get_bool :: "'v \<Rightarrow> bool throws"
  get_string :: "'v \<Rightarrow> string throws"
  get_int64 :: "'v \<Rightarrow> int throws"
  cast_ubigint :: "'v \<Rightarrow> idx_t throws"
  cast_timestamp_tz :: "'v \<Rightarrow> int throws"
  ts_is_finite :: "int \<Rightarrow> bool"
  ts_epoch_ms :: "int \<Rightarrow> int"
  now_ms :: int

definition DeltaTimestampToEpochMs :: "'v value_ops \<Rightarrow> int \<Rightarrow> int throws" where
  "DeltaTimestampToEpochMs vo ts =
    (if \<not> ts_is_finite vo ts then Inl (Err InvalidInput ''Delta time travel requires a finite timestamp'' [])
     else Inr (ts_epoch_ms vo ts))"

definition DeltaRejectFutureTimestamp :: "'v value_ops \<Rightarrow> int \<Rightarrow> unit throws" where
  "DeltaRejectFutureTimestamp vo timestamp_ms =
     throw_if (timestamp_ms > now_ms vo)
       (Err InvalidInput ''Delta time travel does not accept future timestamp'' [])"

section \<open>Time travel targets\<close>

datatype time_travel_kind = LATEST | VERSION | AT_TIMESTAMP

record DeltaTimeTravelSpec =
  tt_kind :: time_travel_kind
  tt_version :: idx_t
  tt_timestamp :: int

definition LatestSpec :: DeltaTimeTravelSpec where
  "LatestSpec = \<lparr>tt_kind = LATEST, tt_version = INVALID_INDEX, tt_timestamp = 0\<rparr>"

definition FromVersion :: "idx_t \<Rightarrow> DeltaTimeTravelSpec" where
  "FromVersion version = LatestSpec\<lparr>tt_kind := VERSION, tt_version := version\<rparr>"

definition FromTimestamp :: "int \<Rightarrow> DeltaTimeTravelSpec" where
  "FromTimestamp timestamp = LatestSpec\<lparr>tt_kind := AT_TIMESTAMP, tt_timestamp := timestamp\<rparr>"

definition IsLatest :: "DeltaTimeTravelSpec \<Rightarrow> bool" where
  "IsLatest spec \<longleftrightarrow> tt_kind spec = LATEST"

definition IsVersion :: "DeltaTimeTravelSpec \<Rightarrow> bool" where
  "IsVersion spec \<longleftrightarrow> tt_kind spec = VERSION"

definition IsTimestamp :: "DeltaTimeTravelSpec \<Rightarrow> bool" where
  "IsTimestamp spec \<longleftrightarrow> tt_kind spec = AT_TIMESTAMP"

definition GetVersion :: "DeltaTimeTravelSpec \<Rightarrow> idx_t throws" where
  "GetVersion spec =
    (if \<not> IsVersion spec then Inl (Err InternalEx ''DeltaTimeTravelSpec::GetVersion on a spec that does not name a version'' [])
     else Inr (tt_version spec))"

definition GetTimestamp :: "DeltaTimeTravelSpec \<Rightarrow> int throws" where
  "GetTimestamp spec =
    (if \<not> IsTimestamp spec then Inl (Err InternalEx ''DeltaTimeTravelSpec::GetTimestamp on a spec that does not name a timestamp'' [])
     else Inr (tt_timestamp spec))"

definition FromAtClause :: "'v value_ops \<Rightarrow> string \<Rightarrow> 'v \<Rightarrow> DeltaTimeTravelSpec throws" where
  "FromAtClause vo unit val =
    (if unit = ''version'' then bindr (cast_ubigint vo val) (\<lambda>v. Inr (FromVersion v))
     else if unit = ''timestamp'' then bindr (cast_timestamp_tz vo val) (\<lambda>t. Inr (FromTimestamp t))
     else Inl (Err InvalidConfiguration ''Delta tables only support at_clause with unit version or timestamp'' []))"

section \<open>Filter pushdown modes\<close>

datatype DeltaFilterPushdownMode = PUSHDOWN_NONE | PUSHDOWN_ALL | CONSTANT_ONLY | DYNAMIC_ONLY

definition PushdownFromString :: "string_util \<Rightarrow> string \<Rightarrow> DeltaFilterPushdownMode throws" where
  "PushdownFromString su str =
    (let s = Lower su str
     in if s = ''none'' then Inr PUSHDOWN_NONE
        else if s = ''all'' then Inr PUSHDOWN_ALL
        else if s = ''constant_only'' then Inr CONSTANT_ONLY
        else if s = ''dynamic_only'' then Inr DYNAMIC_ONLY
        else Inl (Err InvalidInput ''Unknown Filter pushdown mode'' [str]))"

fun PushdownToString :: "DeltaFilterPushdownMode \<Rightarrow> string" where
  "PushdownToString PUSHDOWN_NONE = ''none''"
| "PushdownToString PUSHDOWN_ALL = ''all''"
| "PushdownToString DYNAMIC_ONLY = ''dynamic_only''"
| "PushdownToString CONSTANT_ONLY = ''constant_only''"

section \<open>The catalog\<close>

datatype AccessMode = AUTOMATIC | READ_ONLY | READ_WRITE

record ('v, 'f) DeltaCatalog =
  cat_name :: string
  cat_path :: string
  access_mode :: AccessMode
  use_cache :: bool
  use_specific_version :: idx_t
  has_specific_timestamp :: bool
  specific_timestamp :: int
  pushdown_partition_info :: bool
  filter_pushdown_mode :: DeltaFilterPushdownMode
  internal_table_name :: string
  child_catalog_mode :: bool
  parent_catalog_name :: string
  parent_catalog_schema :: string
  parent_commit :: bool
  commit_function :: "'f option"
  unity_table_id :: string
  catalog_log_tail :: "'v option"
  max_catalog_version :: int
  default_schema :: string

text \<open>The default pushdown mode is a constant of delta\_scan.hpp.\<close>

definition DEFAULT_PUSHDOWN_MODE :: DeltaFilterPushdownMode where
  "DEFAULT_PUSHDOWN_MODE = PUSHDOWN_ALL"

definition new_DeltaCatalog :: "string \<Rightarrow> string \<Rightarrow> AccessMode \<Rightarrow> ('v, 'f) DeltaCatalog" where
  "new_DeltaCatalog name path mode = \<lparr>
     cat_name = name, cat_path = path, access_mode = mode, use_cache = False,
     use_specific_version = INVALID_INDEX, has_specific_timestamp = False, specific_timestamp = 0,
     pushdown_partition_info = True, filter_pushdown_mode = DEFAULT_PUSHDOWN_MODE,
     internal_table_name = [], child_catalog_mode = False, parent_catalog_name = [],
     parent_catalog_schema = [], parent_commit = False, commit_function = None, unity_table_id = [],
     catalog_log_tail = None, max_catalog_version = - 1, default_schema = []\<rparr>"

definition exclusive_travel :: error where
  "exclusive_travel = Err InvalidInput ''ATTACH: version and timestamp are mutually exclusive'' []"

definition AttachOption ::
  "string_util \<Rightarrow> 'v value_ops \<Rightarrow> ('v, 'f) DeltaCatalog \<Rightarrow> string \<times> 'v \<Rightarrow> ('v, 'f) DeltaCatalog throws" where
  "AttachOption su vo res opt =
    (let option_name = fst opt; val = snd opt
     in if option_name = ''pin_snapshot'' then
          bindr (get_bool vo val) (\<lambda>b. Inr (res\<lparr>use_cache := b\<rparr>))
        else if option_name = ''pushdown_partition_info'' then
          bindr (get_bool vo val) (\<lambda>b. Inr (res\<lparr>pushdown_partition_info := b\<rparr>))
        else if option_name = ''pushdown_filters'' then
          bindr (get_string vo val) (\<lambda>s.
          bindr (PushdownFromString su s) (\<lambda>m. Inr (res\<lparr>filter_pushdown_mode := m\<rparr>)))
        else if option_name = ''version'' then
          bindr (throw_if (has_specific_timestamp res) exclusive_travel) (\<lambda>_.
          bindr (cast_ubigint vo val) (\<lambda>v.
          Inr (res\<lparr>use_cache := True, use_specific_version := v, access_mode := READ_ONLY\<rparr>)))
        else if option_name = ''timestamp'' then
          bindr (throw_if (use_specific_version res \<noteq> INVALID_INDEX) exclusive_travel) (\<lambda>_.
          bindr (cast_timestamp_tz vo val) (\<lambda>t.
          bindr (DeltaTimestampToEpochMs vo t) (\<lambda>ms.
          bindr (DeltaRejectFutureTimestamp vo ms) (\<lambda>_.
          Inr (res\<lparr>use_cache := True, has_specific_timestamp := True, specific_timestamp := t,
                 access_mode := READ_ONLY\<rparr>)))))
        else if option_name = ''internal_table_name'' then
          bindr (get_string vo val) (\<lambda>s. Inr (res\<lparr>internal_table_name := s\<rparr>))
        else if option_name = ''child_catalog_mode'' then
          bindr (get_bool vo val) (\<lambda>b. Inr (res\<lparr>child_catalog_mode := b\<rparr>))
        else if option_name = ''parent_catalog'' then
          bindr (get_string vo val) (\<lambda>s. Inr (res\<lparr>parent_catalog_name := s\<rparr>))
        else if option_name = ''parent_catalog_schema'' then
          bindr (get_string vo val) (\<lambda>s. Inr (res\<lparr>parent_catalog_schema := s\<rparr>))
        else if option_name = ''parent_commit'' then
          bindr (get_bool vo val) (\<lambda>b. Inr (res\<lparr>parent_commit := b\<rparr>))
        else if option_name = ''log_tail'' then Inr (res\<lparr>catalog_log_tail := Some val\<rparr>)
        else if option_name = ''max_catalog_version'' then
          bindr (get_int64 vo val) (\<lambda>n. Inr (res\<lparr>max_catalog_version := n\<rparr>))
        else if option_name = ''unity_table_id'' then
          bindr (get_string vo val) (\<lambda>s. Inr (res\<lparr>unity_table_id := s\<rparr>))
        else Inl (Err BinderEx ''Unrecognized option for Delta attach'' [option_name]))"

definition DEFAULT_SCHEMA :: string where
  "DEFAULT_SCHEMA = ''main''"

text \<open>\<open>get_function catalog schema name\<close> is CatalogEntryRetriever::GetEntry of the parent catalog: the entry,
  if any, with whether it is a table function (and not a table macro).\<close>

definition DeltaCatalogAttach ::
  "string_util \<Rightarrow> 'v value_ops \<Rightarrow> (string \<Rightarrow> string \<Rightarrow> string \<Rightarrow> (bool \<times> 'f) option) \<Rightarrow>
   string \<Rightarrow> string \<Rightarrow> AccessMode \<Rightarrow> (string \<times> 'v) list \<Rightarrow> ('v, 'f) DeltaCatalog throws" where
  "DeltaCatalogAttach su vo get_function name path mode options =
    bindr (foldr_throws (AttachOption su vo)
        ((new_DeltaCatalog name path mode)\<lparr>internal_table_name := name\<rparr>) options) (\<lambda>res.
      if parent_commit res then
        (let schema = (if parent_catalog_schema res = [] then DEFAULT_SCHEMA else parent_catalog_schema res)
         in case get_function (parent_catalog_name res) schema ''__internal_delta_ccv2_commit_staged'' of
              Some (True, f) \<Rightarrow> Inr (res\<lparr>commit_function := Some f\<rparr>)
            | _ \<Rightarrow> Inl (Err InvalidInput ''Parent catalog has no commit function in schema''
                [parent_catalog_name res, ''__internal_delta_ccv2_commit_staged'', schema]))
      else Inr res)"

section \<open>Operations of the catalog\<close>

datatype OnEntryNotFound = RETURN_NULL | THROW_EXCEPTION

definition LookupSchema :: "string \<Rightarrow> OnEntryNotFound \<Rightarrow> bool throws" where
  "LookupSchema schema_name if_not_found =
    (if schema_name = DEFAULT_SCHEMA \<or> schema_name = [] then Inr True
     else case if_not_found of
       RETURN_NULL \<Rightarrow> Inr False
     | THROW_EXCEPTION \<Rightarrow> Inl (Err CatalogEx ''Schema does not exist'' [schema_name]))"

definition CreateSchema :: "unit throws" where
  "CreateSchema = Inl (Err BinderEx ''Delta tables do not support creating new schemas'' [])"

definition DropSchema :: "unit throws" where
  "DropSchema = Inl (Err BinderEx ''Delta tables do not support dropping schemas'' [])"

definition SupportsCreateTable :: "string list \<Rightarrow> error option" where
  "SupportsCreateTable sort_keys =
    (if sort_keys \<noteq> [] then Some (Err CatalogEx ''SORTED BY is not supported for tables in a delta catalog'' [])
     else None)"

definition GetDatabaseSize :: "('v, 'f) DeltaCatalog \<Rightarrow> unit throws" where
  "GetDatabaseSize cat =
     throw_if (default_schema cat = [])
       (Err InvalidInput ''Attempting to fetch the database size - but no database was provided'' [])"

definition UseCachedSnapshot :: "('v, 'f) DeltaCatalog \<Rightarrow> bool" where
  "UseCachedSnapshot cat = use_cache cat"

text \<open>What a Delta catalog refuses to plan.\<close>

definition PlanDelete :: "unit throws" where
  "PlanDelete = Inl (Err NotImplemented ''DeltaCatalog PlanDelete'' [])"

definition PlanUpdate :: "unit throws" where
  "PlanUpdate = Inl (Err NotImplemented ''DeltaCatalog PlanUpdate'' [])"

definition BindCreateIndex :: "unit throws" where
  "BindCreateIndex = Inl (Err NotImplemented ''DeltaCatalog BindCreateIndex'' [])"

section \<open>What an attached catalog satisfies\<close>

definition travel_ok :: "('v, 'f) DeltaCatalog \<Rightarrow> bool" where
  "travel_ok cat \<longleftrightarrow>
     (has_specific_timestamp cat \<longrightarrow> use_specific_version cat = INVALID_INDEX) \<and>
     (has_specific_timestamp cat \<or> use_specific_version cat \<noteq> INVALID_INDEX \<longrightarrow> access_mode cat = READ_ONLY) \<and>
     default_schema cat = []"

lemma travel_ok_new: "travel_ok (new_DeltaCatalog name path mode)"
  by (simp add: travel_ok_def new_DeltaCatalog_def)

lemma AttachOption_travel_ok:
  assumes "AttachOption su vo res opt = Inr res'" "travel_ok res"
  shows "travel_ok res'"
proof -
  have E: "P" if "(if b then x else y) = Inr r" "x = Inr r \<Longrightarrow> P" "y = Inr r \<Longrightarrow> P"
    for b x y and r :: "('a, 'b) DeltaCatalog" and P
    using that by (cases b) auto
  show ?thesis using assms(1) unfolding AttachOption_def Let_def
    by (elim E; use assms(2) in \<open>clarsimp simp: travel_ok_def bindr_eq_Inr\<close>)
qed

lemma attach_options_travel_ok:
  assumes "foldr_throws (AttachOption su vo) res options = Inr res'" "travel_ok res"
  shows "travel_ok res'"
  using assms AttachOption_travel_ok by (rule foldr_throws_invariant)

definition attach_option_names :: "string list" where
  "attach_option_names = [''pin_snapshot'', ''pushdown_partition_info'', ''pushdown_filters'', ''version'',
     ''timestamp'', ''internal_table_name'', ''child_catalog_mode'', ''parent_catalog'',
     ''parent_catalog_schema'', ''parent_commit'', ''log_tail'', ''max_catalog_version'', ''unity_table_id'']"

lemma AttachOption_known: "AttachOption su vo res opt = Inr res' \<Longrightarrow> fst opt \<in> set attach_option_names"
  by (rule ccontr) (simp add: AttachOption_def Let_def attach_option_names_def)

lemma attach_options_known:
  "foldr_throws (AttachOption su vo) res options = Inr res' \<Longrightarrow>
     fst ` set options \<subseteq> set attach_option_names"
  by (induction options arbitrary: res) (auto simp: bindr_eq_Inr dest: AttachOption_known)

section \<open>Properties\<close>


definition nat_value_ops :: "nat value_ops" where
  "nat_value_ops = \<lparr>get_bool = (\<lambda>v. Inr (v \<noteq> 0)), get_string = (\<lambda>v. Inr []), get_int64 = (\<lambda>v. Inr (int v)),
     cast_ubigint = (\<lambda>v. Inr (of_nat v)), cast_timestamp_tz = (\<lambda>v. Inr (int v)),
     ts_is_finite = (\<lambda>_. True), ts_epoch_ms = (\<lambda>t. t div 1000), now_ms = 1000\<rparr>"

lemma attach_example:
  "DeltaCatalogAttach ascii_string_util nat_value_ops (\<lambda>_ _ _. None) ''t'' ''/t'' READ_WRITE
     [(''version'', 3), (''pin_snapshot'', 1)] =
   Inr ((new_DeltaCatalog ''t'' ''/t'' READ_ONLY)
     \<lparr>internal_table_name := ''t'', use_cache := True, use_specific_version := 3\<rparr>)"
  by (simp add: DeltaCatalogAttach_def AttachOption_def new_DeltaCatalog_def nat_value_ops_def)


text \<open>The names of the pushdown modes are their own inverse: every mode prints to a name that parses
  back to it, in any mixture of cases.\<close>

theorem PushdownFromString_ToString:
  assumes "string_util_laws su" and "map ascii_lower s = PushdownToString mode"
  shows "PushdownFromString su s = Inr mode"
  using assms by (cases mode) (simp_all add: PushdownFromString_def string_util_laws.Lower_law)

theorem PushdownFromString_ToString_witness:
  "PushdownFromString ascii_string_util ''Constant_Only'' = Inr CONSTANT_ONLY"
  using PushdownFromString_ToString [OF ascii.string_util_laws_axioms, of "''Constant_Only''" CONSTANT_ONLY]
  by simp

end
