(* ===== verification/Create_Table.thy ===== *)
theory Create_Table
  imports Attach Table_Properties Schema_Builder "HOL-Library.Char_ord" "HOL-Library.List_Lexorder"
    "HOL-Library.Product_Lexorder"
begin

text \<open>
  CREATE TABLE (delta\_create\_table.cpp): the checks that turn a statement into a
  \<open>DeltaCreateTableRequest\<close>, the refusals of unstorable columns, and the probes of the table directory.

  DuckDB's Path and FileSystem are the parameters \<open>po\<close> and \<open>fs\<close>; evaluating an option expression is the
  parameter \<open>evaluate\<close> (\<open>Inr None\<close> is SQL NULL); \<open>ident_eq\<close> is the comparison of identifiers.
\<close>

section \<open>Requests\<close>

record path_ops =
  path_base :: "string \<Rightarrow> string"
  path_path :: "string \<Rightarrow> string"
  path_is_local :: "string \<Rightarrow> bool"
  path_join :: "string \<Rightarrow> string \<Rightarrow> string"

datatype partition_key = ColumnRef bool string | OtherExpression

datatype constraint_type = NOT_NULL | OTHER_CONSTRAINT

datatype OnCreateConflict = ERROR_ON_CONFLICT | IGNORE_ON_CONFLICT | REPLACE_ON_CONFLICT | ALTER_ON_CONFLICT

record 'e CreateTableInfo =
  cti_table_name :: string
  cti_columns :: column_list
  cti_sort_keys :: "string list"
  cti_constraints :: "constraint_type list"
  cti_partition_keys :: "partition_key list"
  cti_options :: "(string \<times> 'e) list"
  cti_on_conflict :: OnCreateConflict

record DeltaCreateTableRequest =
  req_path :: string
  req_columns :: column_list
  req_partition_columns :: "string list"
  req_properties :: "(string \<times> string) list"
  req_data_change :: bool

section \<open>Options and partition columns\<close>

definition CanonicalTablePath :: "path_ops \<Rightarrow> string \<Rightarrow> string" where
  "CanonicalTablePath po path = path_base po path @ path_path po path"

definition ParseCreateTableOption :: "('e \<Rightarrow> string option throws) \<Rightarrow> 'e \<Rightarrow> string \<Rightarrow> string throws" where
  "ParseCreateTableOption evaluate expression name =
    bindr (evaluate expression) (\<lambda>v. case v of
      None \<Rightarrow> Inl (Err BinderEx ''NULL is not a valid value for Delta CREATE TABLE option'' [name])
    | Some s \<Rightarrow> Inr s)"

definition GetCreateTableOptions ::
  "('e \<Rightarrow> string option throws) \<Rightarrow> 'e CreateTableInfo \<Rightarrow> (string \<times> string) list throws" where
  "GetCreateTableOptions evaluate base =
     mapr (\<lambda>opt. bindr (ParseCreateTableOption evaluate (snd opt) (fst opt)) (\<lambda>v. Inr (fst opt, v)))
       (cti_options base)"

fun partition_key_name :: "partition_key \<Rightarrow> string throws" where
  "partition_key_name OtherExpression =
     Inl (Err BinderEx ''Delta CREATE TABLE only supports plain column names in PARTITIONED BY'' [])"
| "partition_key_name (ColumnRef qualified name) =
    (if qualified then Inl (Err BinderEx ''Delta CREATE TABLE does not support qualified partition columns'' [name])
     else Inr name)"

definition GetCreateTablePartitionColumns :: "'e CreateTableInfo \<Rightarrow> string list throws" where
  "GetCreateTablePartitionColumns base = mapr partition_key_name (cti_partition_keys base)"

definition ThrowIfPartitionTypeUnwritable :: "string \<Rightarrow> logical_type \<Rightarrow> string \<Rightarrow> unit throws" where
  "ThrowIfPartitionTypeUnwritable column_name type statement =
     throw_if (type = BLOB)
       (Err NotImplemented ''does not support partitioning on a column of type BLOB'' [statement, column_name])"

fun ResolvePartitionKeys ::
  "string_util \<Rightarrow> column_list \<Rightarrow> string \<Rightarrow> string \<Rightarrow> string list \<Rightarrow> string list \<Rightarrow> string list throws" where
  "ResolvePartitionKeys su columns statement clause result [] = Inr result"
| "ResolvePartitionKeys su columns statement clause result (key # keys) =
    (case find (\<lambda>column. CIEquals su (col_name column) key) columns of
       None \<Rightarrow> Inl (Err BinderEx ''names a column which the table does not have'' [statement, clause, key])
     | Some match \<Rightarrow>
         (let name = col_name match
          in bindr (ThrowIfPartitionTypeUnwritable name (col_type match) statement) (\<lambda>_.
             bindr (throw_if (name \<in> set result)
                      (Err BinderEx ''names a column twice'' [statement, clause, name])) (\<lambda>_.
             ResolvePartitionKeys su columns statement clause (result @ [name]) keys))))"

definition ResolvePartitionColumns ::
  "string_util \<Rightarrow> column_list \<Rightarrow> string list \<Rightarrow> string \<Rightarrow> string \<Rightarrow> string list throws" where
  "ResolvePartitionColumns su columns keys statement clause =
     ResolvePartitionKeys su columns statement clause [] keys"

text \<open>The loop over the properties with its erase: \<open>kept\<close> is the part before the index.\<close>

fun TakeLocationLoop ::
  "string_util \<Rightarrow> path_ops \<Rightarrow> string \<Rightarrow> string \<Rightarrow> string \<Rightarrow> bool \<Rightarrow> (string \<times> string) list
     \<Rightarrow> (string \<times> string) list \<Rightarrow> (string \<times> string) list throws" where
  "TakeLocationLoop su po target target_name statement has_location kept [] = Inr kept"
| "TakeLocationLoop su po target target_name statement has_location kept (p # ps) =
    (if CIEquals su (fst p) ''path'' then
       Inl (Err BinderEx ''names the destination with location, not path'' [statement])
     else if \<not> CIEquals su (fst p) ''location'' then
       TakeLocationLoop su po target target_name statement has_location (kept @ [p]) ps
     else if has_location then Inl (Err BinderEx ''location is given twice'' [statement])
     else if CanonicalTablePath po (snd p) \<noteq> CanonicalTablePath po target then
       Inl (Err NotImplemented ''can only create a table at the target''
         [statement, target_name, target, snd p])
     else TakeLocationLoop su po target target_name statement True kept ps)"

definition TakeLocationProperty ::
  "string_util \<Rightarrow> path_ops \<Rightarrow> (string \<times> string) list \<Rightarrow> string \<Rightarrow> string \<Rightarrow> string
     \<Rightarrow> (string \<times> string) list throws" where
  "TakeLocationProperty su po properties target target_name statement =
     TakeLocationLoop su po target target_name statement False [] properties"

section \<open>Binding a CREATE TABLE\<close>

definition ThrowIfColumnHasExpression :: "column_definition \<Rightarrow> unit throws" where
  "ThrowIfColumnHasExpression column =
    bindr (throw_if (col_generated column)
      (Err NotImplemented ''Delta CREATE TABLE does not support generated columns'' [col_name column])) (\<lambda>_.
    throw_if (col_default column)
      (Err NotImplemented ''Delta CREATE TABLE does not support DEFAULT values'' [col_name column]))"

definition ThrowIfConstrained :: "constraint_type list \<Rightarrow> unit throws" where
  "ThrowIfConstrained constraints =
    (case constraints of
       [] \<Rightarrow> Inr ()
     | NOT_NULL # _ \<Rightarrow> Inl (Err NotImplemented ''Delta CREATE TABLE does not support NOT NULL constraints'' [])
     | OTHER_CONSTRAINT # _ \<Rightarrow> Inl (Err NotImplemented ''Delta CREATE TABLE does not support constraints'' []))"

definition BindDeltaCreateTable ::
  "string_util \<Rightarrow> path_ops \<Rightarrow> (string list \<Rightarrow> string \<Rightarrow> string) \<Rightarrow> (string \<Rightarrow> string \<Rightarrow> bool) \<Rightarrow>
   ('e \<Rightarrow> string option throws) \<Rightarrow> ('v, 'f) DeltaCatalog \<Rightarrow> 'e CreateTableInfo \<Rightarrow> DeltaCreateTableRequest throws" where
  "BindDeltaCreateTable su po cand ident_eq evaluate catalog base =
    bindr (throw_if (access_mode catalog = READ_ONLY)
      (Err InvalidInput ''Can not create a table in a read only Delta catalog'' [])) (\<lambda>_.
    bindr (throw_if (\<not> ident_eq (cti_table_name base) (cat_name catalog) \<and>
                     cti_table_name base \<noteq> internal_table_name catalog)
      (Err NotImplemented ''Delta CREATE TABLE must use the attached name'' [cat_name catalog, cti_table_name base])) (\<lambda>_.
    bindr (forr ThrowIfColumnHasExpression (cti_columns base)) (\<lambda>_.
    bindr (throw_if (cti_sort_keys base \<noteq> [])
      (Err CatalogEx ''SORTED BY is not supported for tables in a delta catalog'' [])) (\<lambda>_.
    bindr (ThrowIfConstrained (cti_constraints base)) (\<lambda>_.
    bindr (GetCreateTablePartitionColumns base) (\<lambda>keys.
    bindr (ResolvePartitionColumns su (cti_columns base) keys ''Delta CREATE TABLE'' ''PARTITIONED BY'') (\<lambda>partition_columns.
    bindr (GetCreateTableOptions evaluate base) (\<lambda>options.
    bindr (TakeLocationProperty su po options (cat_path catalog) ''the attached path'' ''Delta CREATE TABLE'') (\<lambda>properties.
    bindr (forr (\<lambda>p. ThrowIfUnknownDeltaKey su cand (fst p) ''Delta CREATE TABLE'') properties) (\<lambda>_.
    bindr (throw_if (cti_on_conflict base = REPLACE_ON_CONFLICT)
      (Err NotImplemented ''Delta tables do not support CREATE OR REPLACE TABLE'' [])) (\<lambda>_.
    Inr \<lparr>req_path = cat_path catalog, req_columns = cti_columns base,
          req_partition_columns = partition_columns, req_properties = sort properties,
          req_data_change = False\<rparr>)))))))))))"

section \<open>Columns that cannot be written\<close>

definition ThrowIfDeltaCannotStore :: "column_list \<Rightarrow> string \<Rightarrow> string \<Rightarrow> unit throws" where
  "ThrowIfDeltaCannotStore columns statement hint =
     forr (\<lambda>column. case FindUnsupportedType (col_type column) of
         None \<Rightarrow> Inr ()
       | Some _ \<Rightarrow> Inl (Err NotImplemented ''does not support column: Delta has no such type''
           [statement, col_name column, hint])) columns"

text \<open>\<open>contains_variant\<close> is TypeVisitor::Contains(type, VARIANT), which looks at every nested type.\<close>

definition ThrowIfVariantIsNested :: "(logical_type \<Rightarrow> bool) \<Rightarrow> column_list \<Rightarrow> string \<Rightarrow> unit throws" where
  "ThrowIfVariantIsNested contains_variant columns statement =
     forr (\<lambda>column. throw_if (col_type column \<noteq> VARIANT \<and> contains_variant (col_type column))
       (Err NotImplemented ''does not support column with a nested VARIANT yet'' [statement, col_name column])) columns"

fun HoldsMapWithListKey :: "logical_type \<Rightarrow> bool" where
  "HoldsMapWithListKey (STRUCT children) = list_ex (\<lambda>child. HoldsMapWithListKey (snd child)) children"
| "HoldsMapWithListKey (LIST child) = HoldsMapWithListKey child"
| "HoldsMapWithListKey (MAP key_type value_type) =
    (is_list key_type \<or> HoldsMapWithListKey key_type \<or> HoldsMapWithListKey value_type)"
| "HoldsMapWithListKey _ = False"

definition ThrowIfMapKeyIsList :: "column_list \<Rightarrow> string \<Rightarrow> unit throws" where
  "ThrowIfMapKeyIsList columns statement =
     forr (\<lambda>column. throw_if (HoldsMapWithListKey (col_type column))
       (Err NotImplemented ''does not support column: a MAP with a LIST key'' [statement, col_name column])) columns"

section \<open>The table directory\<close>

record file_system =
  fs_directory_exists :: "string \<Rightarrow> bool"
  fs_glob :: "string \<Rightarrow> string list"

definition DeltaTableExistsAt :: "path_ops \<Rightarrow> file_system \<Rightarrow> string \<Rightarrow> bool" where
  "DeltaTableExistsAt po fs path =
    (let log_path = path_join po path ''_delta_log''
     in if path_is_local po path then fs_directory_exists fs log_path
        else fs_glob fs (path_join po log_path ''**'') \<noteq> [])"

text \<open>Whether the call created the directory, with the file system after it; \<open>mkdirs\<close> is
  CreateDirectoriesRecursive.\<close>

definition EnsureTableDirectory ::
  "path_ops \<Rightarrow> (file_system \<Rightarrow> string \<Rightarrow> file_system) \<Rightarrow> file_system \<Rightarrow> string \<Rightarrow> bool \<times> file_system" where
  "EnsureTableDirectory po mkdirs fs path =
    (if \<not> path_is_local po path then (False, fs)
     else if fs_directory_exists fs path then (False, fs)
     else (True, mkdirs fs path))"

section \<open>Lemmas\<close>

definition resolves_to :: "string_util \<Rightarrow> column_list \<Rightarrow> string \<Rightarrow> string \<Rightarrow> bool" where
  "resolves_to su columns key name \<longleftrightarrow>
    (\<exists>c. find (\<lambda>column. CIEquals su (col_name column) key) columns = Some c \<and>
         name = col_name c \<and> col_type c \<noteq> BLOB)"

lemma ResolvePartitionKeys_iff:
  "distinct acc \<Longrightarrow> ResolvePartitionKeys su columns st cl acc keys = Inr res \<longleftrightarrow>
     (\<exists>names. res = acc @ names \<and> list_all2 (resolves_to su columns) keys names \<and> distinct (acc @ names))"
proof (induction keys arbitrary: acc)
  case (Cons key keys)
  show ?case
  proof (cases "find (\<lambda>column. CIEquals su (col_name column) key) columns")
    case None
    then show ?thesis by (auto simp: list_all2_Cons1 resolves_to_def)
  next
    case (Some c)
    show ?thesis
    proof (cases "col_type c = BLOB \<or> col_name c \<in> set acc")
      case True
      then show ?thesis using Some
        by (auto simp: list_all2_Cons1 resolves_to_def ThrowIfPartitionTypeUnwritable_def Let_def bindr_throw_if)
    next
      case False
      then show ?thesis using Some Cons.prems Cons.IH [of "acc @ [col_name c]"]
        by (auto simp: list_all2_Cons1 resolves_to_def ThrowIfPartitionTypeUnwritable_def Let_def bindr_throw_if)
    qed
  qed
qed auto

lemma resolves_to_column:
  "resolves_to su columns key name \<Longrightarrow>
     \<exists>c \<in> set columns. col_name c = name \<and> CIEquals su name key \<and> col_type c \<noteq> BLOB"
  by (auto simp: resolves_to_def find_Some_iff)

definition is_location :: "string_util \<Rightarrow> string \<times> string \<Rightarrow> bool" where
  "is_location su p = CIEquals su (fst p) ''location''"

definition is_path :: "string_util \<Rightarrow> string \<times> string \<Rightarrow> bool" where
  "is_path su p = CIEquals su (fst p) ''path''"

lemma TakeLocationLoop_iff:
  "TakeLocationLoop su po target tn st has kept ps = Inr res \<longleftrightarrow>
     (\<forall>p \<in> set ps. \<not> is_path su p) \<and>
     length (filter (is_location su) ps) + (if has then 1 else 0) \<le> 1 \<and>
     (\<forall>p \<in> set (filter (\<lambda>p. \<not> is_path su p \<and> is_location su p) ps).
        CanonicalTablePath po (snd p) = CanonicalTablePath po target) \<and>
     res = kept @ filter (\<lambda>p. \<not> is_location su p) ps"
proof (induction ps arbitrary: has kept)
  case (Cons p ps)
  show ?case
    using Cons.IH [of has "kept @ [p]"] Cons.IH [of True kept]
    by (auto simp: is_path_def is_location_def)
qed auto

section \<open>Properties\<close>

text \<open>PARTITIONED BY is resolved exactly: it succeeds if and only if every key matches a column of the
  table case-insensitively whose type is not BLOB and no column is named twice, and then gives, in the
  order of the keys, the columns' own spelling of their names.\<close>

theorem ResolvePartitionColumns_spec:
  "ResolvePartitionColumns su columns keys st cl = Inr names \<longleftrightarrow>
     list_all2 (resolves_to su columns) keys names \<and> distinct names"
  using ResolvePartitionKeys_iff [of "[]"] by (simp add: ResolvePartitionColumns_def)

text \<open>The location property is taken out exactly: the properties pass if and only if none is called
  path, at most one is called location (in any case) and it names the target after normalisation; what
  is left is the other properties, unchanged and in their order.\<close>

theorem TakeLocationProperty_spec:
  "TakeLocationProperty su po properties target target_name st = Inr rest \<longleftrightarrow>
     list_all (\<lambda>p. \<not> is_path su p) properties \<and>
     length (filter (is_location su) properties) \<le> 1 \<and>
     list_all (\<lambda>p. CanonicalTablePath po (snd p) = CanonicalTablePath po target)
       (filter (is_location su) properties) \<and>
     rest = filter (\<lambda>p. \<not> is_location su p) properties"
  by (auto simp: TakeLocationProperty_def TakeLocationLoop_iff list_all_iff)

text \<open>C23. What a bound CREATE TABLE guarantees before any kernel call: the catalog is writable and the name
  is the attached one; no column has a default or is generated, and there is no SORTED BY, no
  constraint and no OR REPLACE; the partition columns are distinct columns of the table; and the
  properties are sorted, hold neither path nor location, and every key in the delta namespace is a
  known key spelled exactly.\<close>

theorem BindDeltaCreateTable_guarantees:
  assumes "string_util_laws su"
    and "BindDeltaCreateTable su po cand ident_eq evaluate catalog base = Inr req"
  shows "access_mode catalog \<noteq> READ_ONLY \<and>
    (ident_eq (cti_table_name base) (cat_name catalog) \<or> cti_table_name base = internal_table_name catalog) \<and>
    (\<forall>c \<in> set (req_columns req). \<not> col_generated c \<and> \<not> col_default c) \<and>
    cti_sort_keys base = [] \<and> cti_constraints base = [] \<and> cti_on_conflict base \<noteq> REPLACE_ON_CONFLICT \<and>
    req_path req = cat_path catalog \<and> req_columns req = cti_columns base \<and>
    distinct (req_partition_columns req) \<and>
    set (req_partition_columns req) \<subseteq> col_name ` set (req_columns req) \<and>
    sorted (req_properties req) \<and>
    (\<forall>p \<in> set (req_properties req). \<not> is_path su p \<and> \<not> is_location su p \<and>
       (is_prefix ''delta.'' (map ascii_lower (fst p)) \<longrightarrow> fst p \<in> set KnownKeys))"
proof -
  obtain keys pcols options props where
    checks: "access_mode catalog \<noteq> READ_ONLY"
      "ident_eq (cti_table_name base) (cat_name catalog) \<or> cti_table_name base = internal_table_name catalog"
      "forr ThrowIfColumnHasExpression (cti_columns base) = Inr ()" "cti_sort_keys base = []"
      "ThrowIfConstrained (cti_constraints base) = Inr ()" "cti_on_conflict base \<noteq> REPLACE_ON_CONFLICT"
    and pcols: "ResolvePartitionColumns su (cti_columns base) keys ''Delta CREATE TABLE'' ''PARTITIONED BY'' = Inr pcols"
    and props: "TakeLocationProperty su po options (cat_path catalog) ''the attached path'' ''Delta CREATE TABLE'' = Inr props"
    and known: "forr (\<lambda>p. ThrowIfUnknownDeltaKey su cand (fst p) ''Delta CREATE TABLE'') props = Inr ()"
    and req: "req = \<lparr>req_path = cat_path catalog, req_columns = cti_columns base,
      req_partition_columns = pcols, req_properties = sort props, req_data_change = False\<rparr>"
    using assms(2) by (auto simp: BindDeltaCreateTable_def bindr_eq_Inr)
  have "distinct pcols" "list_all2 (resolves_to su (cti_columns base)) keys pcols"
    using pcols ResolvePartitionKeys_iff [of "[]"] by (auto simp: ResolvePartitionColumns_def)
  moreover from this(2) have "set pcols \<subseteq> col_name ` set (cti_columns base)"
    by (induction rule: list_all2_induct) (auto dest!: resolves_to_column)
  moreover have "cti_constraints base = []"
    using checks(5) by (auto simp: ThrowIfConstrained_def split: list.splits constraint_type.splits)
  moreover have "\<forall>c \<in> set (cti_columns base). \<not> col_generated c \<and> \<not> col_default c"
    using checks(3) by (auto simp: forr_eq_Inr ThrowIfColumnHasExpression_def bindr_throw_if split: if_splits)
  moreover have "\<forall>p \<in> set props. \<not> is_path su p \<and> \<not> is_location su p \<and>
      (is_prefix ''delta.'' (map ascii_lower (fst p)) \<longrightarrow> fst p \<in> set KnownKeys)"
    using props known string_util_laws.ThrowIfUnknownDeltaKey_ok [OF assms(1)]
    by (auto simp: TakeLocationProperty_def TakeLocationLoop_iff forr_eq_Inr)
  ultimately show ?thesis using checks req by simp
qed

definition example_path_ops :: path_ops where
  "example_path_ops = \<lparr>path_base = (\<lambda>_. []), path_path = (\<lambda>p. p), path_is_local = (\<lambda>_. True),
     path_join = (\<lambda>a b. a @ ''/'' @ b)\<rparr>"

definition example_info :: "string CreateTableInfo" where
  "example_info = \<lparr>cti_table_name = ''t'',
     cti_columns = [\<lparr>col_name = ''Part'', col_type = INTEGER, col_generated = False, col_default = False\<rparr>],
     cti_sort_keys = [], cti_constraints = [], cti_partition_keys = [ColumnRef False ''part''],
     cti_options = [(''owner'', ''me''), (''Location'', ''/t'')], cti_on_conflict = ERROR_ON_CONFLICT\<rparr>"

lemma bind_example:
  "BindDeltaCreateTable ascii_string_util example_path_ops (\<lambda>_ _. []) (=) (\<lambda>s. Inr (Some s))
     (new_DeltaCatalog ''t'' ''/t'' READ_WRITE :: (nat, unit) DeltaCatalog) example_info =
   Inr \<lparr>req_path = ''/t'', req_columns = cti_columns example_info, req_partition_columns = [''Part''],
     req_properties = [(''owner'', ''me'')], req_data_change = False\<rparr>"
  by (simp add: BindDeltaCreateTable_def example_info_def example_path_ops_def new_DeltaCatalog_def
      ThrowIfColumnHasExpression_def ThrowIfConstrained_def GetCreateTablePartitionColumns_def
      ResolvePartitionColumns_def ThrowIfPartitionTypeUnwritable_def GetCreateTableOptions_def
      ParseCreateTableOption_def TakeLocationProperty_def CanonicalTablePath_def ThrowIfUnknownDeltaKey_def
      IsDeltaKey_def ascii_string_util_def Let_def)

theorem BindDeltaCreateTable_guarantees_witness:
  "access_mode (new_DeltaCatalog ''t'' ''/t'' READ_WRITE :: (nat, unit) DeltaCatalog) \<noteq> READ_ONLY \<and>
   distinct [''Part''] \<and> set [''Part''] \<subseteq> col_name ` set (cti_columns example_info)"
  using BindDeltaCreateTable_guarantees [OF ascii.string_util_laws_axioms bind_example] by simp

end
