(* ===== verification/Write_Metadata.thy ===== *)
theory Write_Metadata
  imports Types Paths Schema_Builder
begin

text \<open>
  The add actions of written files (delta\_transaction.cpp): the statistics of a file, given per column
  path, become a tree of \<open>StatNode\<close>s and then the nested \<open>stats\<close> value; WriteMetaData makes one row per
  file, with its path relative to the table and percent-encoded. The structures of delta\_insert.hpp
  that describe a written file are here too.

  \<open>is_nested\<close> (LogicalType::IsNested), the comparison \<open>ident_eq\<close> of identifiers and the casts of values are
  DuckDB's. The map of a tree is an association list: its order is that of insertion.
\<close>

section \<open>Written files\<close>

record DeltaColumnStats =
  st_min :: string
  st_max :: string
  st_null_count :: nat
  st_num_values :: nat
  st_column_size_bytes :: nat
  st_contains_nan :: bool
  st_has_null_count :: bool
  st_has_num_values :: bool
  st_has_min :: bool
  st_has_max :: bool
  st_has_contains_nan :: bool
  st_root_type :: logical_type

record DeltaPartition =
  partition_column :: string
  partition_value :: "string option"

record DeltaDataFile =
  df_file_name :: string
  df_row_count :: nat
  df_file_size_bytes :: nat
  df_footer_size :: nat
  df_partition_values :: "DeltaPartition list"
  df_last_modified :: int
  df_column_stats :: "(string list \<times> DeltaColumnStats) list"

record type_ops =
  is_nested :: "logical_type \<Rightarrow> bool"
  ident_eq :: "string \<Rightarrow> string \<Rightarrow> bool"

section \<open>The tree of statistics\<close>

text \<open>A node that was only default-constructed on the way to a leaf has no entry.\<close>

datatype StatNode = StatNode "(DeltaColumnStats \<times> logical_type) option" "(string \<times> StatNode) list"

fun node_entry :: "StatNode \<Rightarrow> (DeltaColumnStats \<times> logical_type) option" where
  "node_entry (StatNode e cs) = e"

fun node_children :: "StatNode \<Rightarrow> (string \<times> StatNode) list" where
  "node_children (StatNode e cs) = cs"

fun ParseInnerType :: "type_ops \<Rightarrow> logical_type \<Rightarrow> string list \<Rightarrow> logical_type throws" where
  "ParseInnerType tys root_type [] =
    (if is_nested tys root_type then Inl (Err InternalEx ''Invalid stats name: empty'' [])
     else if is_struct root_type then Inl (Err InternalEx ''index out of bounds'' [])
     else Inr root_type)"
| "ParseInnerType tys root_type (n # ns) =
    (if is_struct root_type then
       (case find (\<lambda>child. ident_eq tys (fst child) n) (struct_fields root_type) of
          Some child \<Rightarrow> ParseInnerType tys (snd child) ns
        | None \<Rightarrow> Inl (Err InternalEx ''Invalid stats name: did not find expected child'' [n]))
     else Inr root_type)"

text \<open>Replacing the value under a key of the map, which is there.\<close>

fun put_child :: "string \<Rightarrow> StatNode \<Rightarrow> (string \<times> StatNode) list \<Rightarrow> (string \<times> StatNode) list" where
  "put_child k v [] = [(k, v)]"
| "put_child k v ((k', v') # kvs) = (if k = k' then (k, v) # kvs else (k', v') # put_child k v kvs)"

fun ParseStatsType ::
  "type_ops \<Rightarrow> string list \<Rightarrow> string list \<Rightarrow> DeltaColumnStats \<Rightarrow> (string \<times> StatNode) list
     \<Rightarrow> (string \<times> StatNode) list throws" where
  "ParseStatsType tys name [] stats output = Inl (Err InternalEx ''Invalid stats name: empty'' [])"
| "ParseStatsType tys name (n # ns) stats output =
    (case map_of output n of
       Some node \<Rightarrow>
         if ns = [] then Inl (Err InternalEx ''Invalid stats name: duplicate leaf'' [n])
         else bindr (ParseStatsType tys name ns stats (node_children node)) (\<lambda>children.
              Inr (put_child n (StatNode (node_entry node) children) output))
     | None \<Rightarrow>
         if ns = [] then
           bindr (ParseInnerType tys (st_root_type stats) (drop 1 name)) (\<lambda>type.
           Inr (put_child n (StatNode (Some (stats, type)) []) output))
         else
           bindr (ParseStatsType tys name ns stats []) (\<lambda>children.
           Inr (put_child n (StatNode None children) output)))"

definition stats_tree ::
  "type_ops \<Rightarrow> (string list \<times> DeltaColumnStats) list \<Rightarrow> (string \<times> StatNode) list throws" where
  "stats_tree tys column_stats =
     foldr_throws (\<lambda>tree (name, stats). ParseStatsType tys name name stats tree) [] column_stats"

section \<open>The value of the statistics\<close>

datatype stats_field = FIELD_MIN | FIELD_MAX | FIELD_NULL_COUNT

datatype 'v stats_value =
    SV_Struct "(string \<times> 'v stats_value) list"
  | SV_Cast 'v logical_type
  | SV_Null logical_type
  | SV_Bigint nat
  | SV_Boolean bool

text \<open>A node without children that is no leaf cannot arise (every node is made for a leaf at or below it);
  the code would read its default statistics, which hold nothing, at the default type.\<close>

definition leaf_value ::
  "(string \<Rightarrow> logical_type \<Rightarrow> 'v throws) \<Rightarrow> stats_field \<Rightarrow> (DeltaColumnStats \<times> logical_type) option
     \<Rightarrow> 'v stats_value throws" where
  "leaf_value cast field entry =
    (case entry of
       None \<Rightarrow> Inr (SV_Null (if field = FIELD_NULL_COUNT then BIGINT else OTHER_TYPE ''INVALID''))
     | Some (stats, type) \<Rightarrow>
         (case field of
            FIELD_MIN \<Rightarrow> if st_has_min stats then bindr (cast (st_min stats) type) (\<lambda>v. Inr (SV_Cast v type))
                         else Inr (SV_Null type)
          | FIELD_MAX \<Rightarrow> if st_has_max stats then bindr (cast (st_max stats) type) (\<lambda>v. Inr (SV_Cast v type))
                         else Inr (SV_Null type)
          | FIELD_NULL_COUNT \<Rightarrow> Inr (if st_has_null_count stats then SV_Bigint (st_null_count stats)
                                     else SV_Null BIGINT)))"

fun CreateValueFromStatNodes ::
  "(string \<Rightarrow> logical_type \<Rightarrow> 'v throws) \<Rightarrow> stats_field \<Rightarrow> (string \<times> StatNode) list
     \<Rightarrow> (string \<times> 'v stats_value) list throws"
and StatNodeValue ::
  "(string \<Rightarrow> logical_type \<Rightarrow> 'v throws) \<Rightarrow> stats_field \<Rightarrow> StatNode \<Rightarrow> 'v stats_value throws" where
  "CreateValueFromStatNodes cast field [] = Inr []"
| "CreateValueFromStatNodes cast field ((name, node) # tree) =
    bindr (StatNodeValue cast field node) (\<lambda>v.
    bindr (CreateValueFromStatNodes cast field tree) (\<lambda>vs. Inr ((name, v) # vs)))"
| "StatNodeValue cast field (StatNode entry children) =
    (if children = [] then leaf_value cast field entry
     else bindr (CreateValueFromStatNodes cast field children) (\<lambda>vs. Inr (SV_Struct vs)))"

fun value_type :: "'v stats_value \<Rightarrow> logical_type" where
  "value_type (SV_Struct vs) = STRUCT (map (\<lambda>(n, v). (n, value_type v)) vs)"
| "value_type (SV_Cast v t) = t"
| "value_type (SV_Null t) = t"
| "value_type (SV_Bigint n) = BIGINT"
| "value_type (SV_Boolean b) = BOOLEAN"

definition CreateStatsValue ::
  "type_ops \<Rightarrow> (string \<Rightarrow> logical_type \<Rightarrow> 'v throws) \<Rightarrow> DeltaDataFile \<Rightarrow> bool \<Rightarrow> 'v stats_value throws" where
  "CreateStatsValue tys cast file tight_bounds =
    (if df_column_stats file = [] then
       Inr (SV_Struct [(''numRecords'', SV_Bigint (df_row_count file)), (''tightBounds'', SV_Boolean tight_bounds)])
     else
       bindr (stats_tree tys (df_column_stats file)) (\<lambda>tree.
       bindr (CreateValueFromStatNodes cast FIELD_NULL_COUNT tree) (\<lambda>nulls.
       bindr (CreateValueFromStatNodes cast FIELD_MIN tree) (\<lambda>mins.
       bindr (CreateValueFromStatNodes cast FIELD_MAX tree) (\<lambda>maxs.
       Inr (SV_Struct [(''numRecords'', SV_Bigint (df_row_count file)), (''nullCount'', SV_Struct nulls),
         (''minValues'', SV_Struct mins), (''maxValues'', SV_Struct maxs),
         (''tightBounds'', SV_Boolean tight_bounds)]))))))"

definition GetStatsType ::
  "type_ops \<Rightarrow> (string \<Rightarrow> logical_type \<Rightarrow> 'v throws) \<Rightarrow> DeltaDataFile option \<Rightarrow> logical_type throws" where
  "GetStatsType tys cast file =
    (case file of
       Some f \<Rightarrow>
         if df_column_stats f = [] then
           Inr (STRUCT [(''numRecords'', BIGINT), (''tightBounds'', BOOLEAN)])
         else
           bindr (stats_tree tys (df_column_stats f)) (\<lambda>tree.
           bindr (CreateValueFromStatNodes cast FIELD_NULL_COUNT tree) (\<lambda>nulls.
           bindr (CreateValueFromStatNodes cast FIELD_MIN tree) (\<lambda>mins.
           bindr (CreateValueFromStatNodes cast FIELD_MAX tree) (\<lambda>maxs.
           Inr (STRUCT [(''numRecords'', BIGINT), (''nullCount'', value_type (SV_Struct nulls)),
             (''minValues'', value_type (SV_Struct mins)), (''maxValues'', value_type (SV_Struct maxs)),
             (''tightBounds'', BOOLEAN)])))))
     | None \<Rightarrow> Inr (STRUCT [(''numRecords'', BIGINT), (''tightBounds'', BOOLEAN)]))"

section \<open>Add actions\<close>

record 'v add_row =
  row_path :: string
  row_partition_values :: "(string \<times> string option) list"
  row_size :: nat
  row_modification_time :: int
  row_stats :: "'v stats_value"

record 'v write_metadata =
  buffer_types :: "logical_type list"
  rows :: "'v add_row list"

text \<open>The path of a file relative to the table: what follows the table path, without leading slashes. A
  file name shorter than the table path would be read past its end.\<close>

definition relative_file_name :: "string \<Rightarrow> string \<Rightarrow> string throws" where
  "relative_file_name table_path file_name =
    (if length file_name < length table_path then Inl (Err UndefinedBehaviour ''file name shorter than the table path'' [])
     else Inr (dropWhile (\<lambda>c. c = CHR ''/'') (drop (length table_path) file_name)))"

definition AppendRow ::
  "type_ops \<Rightarrow> (string \<Rightarrow> logical_type \<Rightarrow> 'v throws) \<Rightarrow> (int \<Rightarrow> int) \<Rightarrow> string \<Rightarrow> (string \<times> string option) list
     \<Rightarrow> DeltaDataFile \<Rightarrow> 'v add_row throws" where
  "AppendRow tys cast epoch_ms path values file =
    bindr (CreateStatsValue tys cast file True) (\<lambda>stats.
    Inr \<lparr>row_path = path, row_partition_values = values, row_size = df_file_size_bytes file,
          row_modification_time = epoch_ms (df_last_modified file), row_stats = stats\<rparr>)"

definition WriteMetaData ::
  "string_util \<Rightarrow> type_ops \<Rightarrow> (string \<Rightarrow> logical_type \<Rightarrow> 'v throws) \<Rightarrow> (int \<Rightarrow> int) \<Rightarrow> string
     \<Rightarrow> DeltaDataFile list \<Rightarrow> 'v write_metadata throws" where
  "WriteMetaData su tys cast epoch_ms table_path outstanding_appends =
    bindr (GetStatsType tys cast (case outstanding_appends of [] \<Rightarrow> None | f # _ \<Rightarrow> Some f)) (\<lambda>stats_type.
    bindr (mapr (\<lambda>file.
        bindr (relative_file_name table_path (df_file_name file)) (\<lambda>name.
        AppendRow tys cast epoch_ms (EncodePathAsUri su name)
          (map (\<lambda>p. (partition_column p, partition_value p)) (df_partition_values file)) file))
      outstanding_appends) (\<lambda>rs.
    Inr \<lparr>buffer_types = [VARCHAR, MAP VARCHAR VARCHAR, BIGINT, BIGINT, stats_type], rows = rs\<rparr>))"

text \<open>ToArrow copies the rows into a DataChunk, cell by cell. The chunk has room for a whole vector; its first rows are exported, as
  many as there are add actions, under the names of the columns. The conversion of the chunk to Arrow is DuckDB's; trace messages
  are left out.\<close>

datatype 'v add_cell =
  AC_Varchar string | AC_Map "(string \<times> string option) list" | AC_Size nat | AC_Time int | AC_Stats "'v stats_value"

record 'v add_chunk =
  ac_types :: "logical_type list"
  ac_names :: "string list"
  ac_columns :: "'v add_cell option list list"

definition GetNames :: "string list" where
  "GetNames = [''path'', ''partitionValues'', ''size'', ''modificationTime'', ''stats'']"

definition SetValue :: "nat \<Rightarrow> nat \<Rightarrow> 'a \<Rightarrow> 'a option list list \<Rightarrow> 'a option list list" where
  "SetValue column row v buffer = buffer[column := (buffer ! column)[row := Some v]]"

fun fill_buffer :: "nat \<Rightarrow> 'v add_row list \<Rightarrow> 'v add_cell option list list \<Rightarrow> 'v add_cell option list list" where
  "fill_buffer i [] buffer = buffer"
| "fill_buffer i (r # rs) buffer =
    fill_buffer (Suc i) rs
      (SetValue 4 i (AC_Stats (row_stats r))
      (SetValue 3 i (AC_Time (row_modification_time r))
      (SetValue 2 i (AC_Size (row_size r))
      (SetValue 1 i (AC_Map (row_partition_values r))
      (SetValue 0 i (AC_Varchar (row_path r)) buffer)))))"

definition ToArrow :: "nat \<Rightarrow> 'v write_metadata \<Rightarrow> 'v add_chunk" where
  "ToArrow standard_vector_size m =
    (let n = length (rows m); capacity = max n standard_vector_size;
         buffer = fill_buffer 0 (rows m) (replicate (length (buffer_types m)) (replicate capacity None))
     in \<lparr>ac_types = buffer_types m, ac_names = GetNames, ac_columns = map (take n) buffer\<rparr>)"

text \<open>\<open>get_engine_data\<close> is the conversion of the chunk to Arrow and the kernel call that takes it.\<close>

definition CreateAddFilesEngineData ::
  "string_util \<Rightarrow> type_ops \<Rightarrow> (string \<Rightarrow> logical_type \<Rightarrow> 'v throws) \<Rightarrow> (int \<Rightarrow> int) \<Rightarrow> nat
     \<Rightarrow> ('v add_chunk \<Rightarrow> string option + 'd) \<Rightarrow> string \<Rightarrow> DeltaDataFile list \<Rightarrow> 'd throws" where
  "CreateAddFilesEngineData su tys cast epoch_ms vector_size get_engine_data table_path files =
    bindr (WriteMetaData su tys cast epoch_ms table_path files) (\<lambda>m. Unpack (get_engine_data (ToArrow vector_size m)))"

section \<open>The tree as a map from paths\<close>

fun node_at :: "string list \<Rightarrow> (string \<times> StatNode) list \<Rightarrow> StatNode option" where
  "node_at [] tree = None"
| "node_at (n # ns) tree =
    (case map_of tree n of
       None \<Rightarrow> None
     | Some node \<Rightarrow> if ns = [] then Some node else node_at ns (node_children node))"

definition stat_at :: "(string \<times> StatNode) list \<Rightarrow> string list \<Rightarrow> (DeltaColumnStats \<times> logical_type) option" where
  "stat_at tree path = (case node_at path tree of Some node \<Rightarrow> node_entry node | None \<Rightarrow> None)"

lemma node_at_Nil [simp]: "node_at path [] = None"
  by (cases path) auto

lemma map_of_put_child [simp]: "map_of (put_child k v kvs) = (map_of kvs)(k \<mapsto> v)"
  by (induction k v kvs rule: put_child.induct) auto

lemma node_at_put_child:
  "node_at (n # ns) (put_child k v kvs) =
    (if n = k then (if ns = [] then Some v else node_at ns (node_children v)) else node_at (n # ns) kvs)"
  by simp

lemma stat_at_Cons:
  "stat_at tree (n # ns) =
    (case map_of tree n of None \<Rightarrow> None
     | Some node \<Rightarrow> if ns = [] then node_entry node else stat_at (node_children node) ns)"
  by (simp add: stat_at_def split: option.splits)

text \<open>The interface of the tree: inserting under a new key adds exactly its entry.\<close>

locale entry_store =
  fixes empty :: 't
    and lookup :: "'t \<Rightarrow> 'k \<Rightarrow> 'e option"
    and insert :: "'t \<Rightarrow> 'k \<Rightarrow> 'v \<Rightarrow> 't throws"
    and entry :: "'k \<Rightarrow> 'v \<Rightarrow> 'e throws"
  assumes lookup_empty: "lookup empty = Map.empty"
    and insert_law: "insert t k v = Inr t' \<Longrightarrow>
      \<exists>e. entry k v = Inr e \<and> lookup t k = None \<and> lookup t' = (lookup t)(k \<mapsto> e)"
begin

lemma fold_insert:
  "foldr_throws (\<lambda>t (k, v). insert t k v) t kvs = Inr t' \<Longrightarrow>
     distinct (map fst kvs) \<and> (\<forall>k \<in> fst ` set kvs. lookup t k = None) \<and>
     (\<forall>(k, v) \<in> set kvs. \<exists>e. entry k v = Inr e \<and> lookup t' k = Some e) \<and>
     (\<forall>k. k \<notin> fst ` set kvs \<longrightarrow> lookup t' k = lookup t k)"
proof (induction kvs arbitrary: t)
  case (Cons kv kvs)
  obtain k v where kv: "kv = (k, v)" by fastforce
  then obtain t1 where t1: "insert t k v = Inr t1" and rest: "foldr_throws (\<lambda>t (k, v). insert t k v) t1 kvs = Inr t'"
    using Cons.prems by (auto simp: bindr_eq_Inr)
  obtain e where e: "entry k v = Inr e" "lookup t k = None" "lookup t1 = (lookup t)(k \<mapsto> e)"
    using insert_law [OF t1] by blast
  note IH = Cons.IH [OF rest]
  have "k \<notin> fst ` set kvs" using IH e(3) by auto
  then show ?case using IH e kv by (auto split: if_splits)
qed simp

lemma fold_empty:
  "foldr_throws (\<lambda>t (k, v). insert t k v) empty kvs = Inr t' \<Longrightarrow>
     distinct (map fst kvs) \<and> (\<forall>(k, v) \<in> set kvs. \<exists>e. entry k v = Inr e \<and> lookup t' k = Some e) \<and>
     (\<forall>k. k \<notin> fst ` set kvs \<longrightarrow> lookup t' k = None)"
  using fold_insert [of empty] by (simp add: lookup_empty)

end

definition stats_entry ::
  "type_ops \<Rightarrow> string list \<Rightarrow> DeltaColumnStats \<Rightarrow> (DeltaColumnStats \<times> logical_type) throws" where
  "stats_entry tys name stats =
     bindr (ParseInnerType tys (st_root_type stats) (drop 1 name)) (\<lambda>type. Inr (stats, type))"

lemma ParseStatsType_inserts:
  "ParseStatsType tys name path stats tree = Inr tree' \<Longrightarrow>
     \<exists>e. stats_entry tys name stats = Inr e \<and> stat_at tree path = None \<and>
         stat_at tree' = (stat_at tree)(path \<mapsto> e)"
proof (induction tys name path stats tree arbitrary: tree' rule: ParseStatsType.induct)
  case (2 tys name n ns stats out)
  show ?case
  proof (cases "ns = []")
    case True
    then obtain type where "map_of out n = None" "ParseInnerType tys (st_root_type stats) (drop 1 name) = Inr type"
      "tree' = put_child n (StatNode (Some (stats, type)) []) out"
      using "2.prems" by (auto simp: bindr_eq_Inr split: option.splits)
    moreover have "stat_at [] ms = None" for ms by (cases ms) (auto simp: stat_at_def)
    ultimately show ?thesis using True
      by (auto simp: stats_entry_def fun_eq_iff neq_Nil_conv stat_at_Cons split: option.splits)
        (case_tac x; auto simp: stat_at_Cons stat_at_def split: option.splits)+
  next
    case False
    let ?sub = "case map_of out n of Some node \<Rightarrow> node_children node | None \<Rightarrow> []"
    let ?old = "case map_of out n of Some node \<Rightarrow> node_entry node | None \<Rightarrow> None"
    obtain children where c: "ParseStatsType tys name ns stats ?sub = Inr children"
      "tree' = put_child n (StatNode ?old children) out"
      using "2.prems" False by (auto simp: bindr_eq_Inr split: option.splits)
    have "\<exists>e. stats_entry tys name stats = Inr e \<and> stat_at ?sub ns = None \<and>
      stat_at children = (stat_at ?sub)(ns \<mapsto> e)"
    proof (cases "map_of out n")
      case None
      then show ?thesis using "2.IH"(1) [OF None False] c(1) unfolding None by (simp only: option.case)
    next
      case (Some node)
      then show ?thesis using "2.IH"(2) [OF Some False] c(1) unfolding Some by (simp only: option.case)
    qed
    then obtain e where e: "stats_entry tys name stats = Inr e" "stat_at ?sub ns = None"
      "stat_at children = (stat_at ?sub)(ns \<mapsto> e)" by blast
    have "stat_at tree' q = ((stat_at out)(n # ns \<mapsto> e)) q" for q
    proof (cases q)
      case (Cons m ms)
      then show ?thesis using c(2) e(3) False
        by (cases "map_of out n") (auto simp: stat_at_Cons stat_at_def [of "[]"] split: option.splits list.splits)
    qed (auto simp: stat_at_def)
    then show ?thesis using e False by (auto simp: stat_at_Cons split: option.splits)
  qed
qed simp

interpretation stats_store: entry_store
  "[]" stat_at "\<lambda>tree name stats. ParseStatsType tys name name stats tree" "stats_entry tys" for tys
proof (unfold_locales, goal_cases)
  case 1
  have "stat_at [] q = None" for q by (cases q) (auto simp: stat_at_def)
  then show ?case by auto
qed (fact ParseStatsType_inserts)

section \<open>Properties\<close>

text \<open>C15. No statistic is lost or mixed up: when the statistics of a file become a tree, no column path was
  given twice, every path holds exactly the statistics given for it at the type found by following it
  through the column's type, and nothing else is in the tree.\<close>

theorem stats_tree_holds_the_statistics:
  assumes "stats_tree tys column_stats = Inr tree"
  shows "distinct (map fst column_stats) \<and>
    (\<forall>(path, stats) \<in> set column_stats. \<exists>type.
       ParseInnerType tys (st_root_type stats) (drop 1 path) = Inr type \<and> stat_at tree path = Some (stats, type)) \<and>
    (\<forall>path. path \<notin> fst ` set column_stats \<longrightarrow> stat_at tree path = None)"
  using stats_store.fold_empty [OF assms [unfolded stats_tree_def]]
  by (fastforce simp: stats_entry_def bindr_eq_Inr)

definition example_stats :: DeltaColumnStats where
  "example_stats = \<lparr>st_min = ''1'', st_max = ''9'', st_null_count = 0, st_num_values = 3, st_column_size_bytes = 12,
     st_contains_nan = False, st_has_null_count = True, st_has_num_values = True, st_has_min = True,
     st_has_max = True, st_has_contains_nan = False,
     st_root_type = STRUCT [(''a'', INTEGER), (''b'', BIGINT)]\<rparr>"

definition example_type_ops :: type_ops where
  "example_type_ops = \<lparr>is_nested = (\<lambda>t. is_struct t \<or> is_list t \<or> is_map t), ident_eq = (=)\<rparr>"

lemma stats_tree_example:
  "stats_tree example_type_ops [([''s'', ''a''], example_stats), ([''s'', ''b''], example_stats)] =
    Inr [(''s'', StatNode None [(''a'', StatNode (Some (example_stats, INTEGER)) []),
      (''b'', StatNode (Some (example_stats, BIGINT)) [])])]"
  by (simp add: stats_tree_def example_stats_def example_type_ops_def)

theorem stats_tree_holds_the_statistics_witness:
  "distinct (map fst [([''s'', ''a''], example_stats), ([''s'', ''b''], example_stats)]) \<and>
   stat_at [(''s'', StatNode None [(''a'', StatNode (Some (example_stats, INTEGER)) []),
      (''b'', StatNode (Some (example_stats, BIGINT)) [])])] [''s''] = None"
  using stats_tree_holds_the_statistics [OF stats_tree_example] by simp

lemma WriteMetaData_rows:
  "WriteMetaData su tys cast epoch_ms table_path files = Inr m \<Longrightarrow>
     list_all2 (\<lambda>file row. \<exists>name. relative_file_name table_path (df_file_name file) = Inr name \<and>
       row_path row = EncodePathAsUri su name) files (rows m)"
  unfolding WriteMetaData_def
  by (auto simp: bindr_eq_Inr mapr_eq_Inr AppendRow_def intro: list.rel_mono_strong)

section \<open>What is handed to the kernel\<close>

text \<open>Every column of the exported chunk has one cell for each add action, in the order of the actions.\<close>

definition row_cells :: "'v add_row \<Rightarrow> 'v add_cell list" where
  "row_cells r = [AC_Varchar (row_path r), AC_Map (row_partition_values r), AC_Size (row_size r),
     AC_Time (row_modification_time r), AC_Stats (row_stats r)]"

lemma fill_buffer_column:
  "\<forall>j<5. i + length rs \<le> length (buffer ! j) \<Longrightarrow> length buffer = 5 \<Longrightarrow>
    length (fill_buffer i rs buffer) = 5 \<and>
    (\<forall>j<5. take (i + length rs) (fill_buffer i rs buffer ! j) = take i (buffer ! j) @ map (\<lambda>r. Some (row_cells r ! j)) rs)"
proof (induction i rs buffer rule: fill_buffer.induct)
  case (2 i r rs buffer)
  define b where "b = SetValue 4 i (AC_Stats (row_stats r)) (SetValue 3 i (AC_Time (row_modification_time r))
    (SetValue 2 i (AC_Size (row_size r)) (SetValue 1 i (AC_Map (row_partition_values r)) (SetValue 0 i (AC_Varchar (row_path r)) buffer))))"
  have "length b = 5" using "2.prems" by (simp add: b_def SetValue_def)
  moreover have col: "\<forall>j<5. b ! j = (buffer ! j)[i := Some (row_cells r ! j)]"
    using "2.prems"(2) by (simp add: b_def SetValue_def row_cells_def All_less_Suc2 numeral_eq_Suc nth_list_update)
  moreover have "\<forall>j<5. Suc i + length rs \<le> length (b ! j)" using "2.prems" col by simp
  ultimately have "length (fill_buffer (Suc i) rs b) = 5 \<and> (\<forall>j<5. take (Suc i + length rs) (fill_buffer (Suc i) rs b ! j) =
      take (Suc i) (b ! j) @ map (\<lambda>r. Some (row_cells r ! j)) rs)"
    using "2.IH" [folded b_def] by simp
  moreover have "fill_buffer i (r # rs) buffer = fill_buffer (Suc i) rs b" by (simp add: b_def)
  moreover have "\<forall>j<5. take (Suc i) (b ! j) = take i (buffer ! j) @ [Some (row_cells r ! j)]"
    using "2.prems" col by (auto simp: take_Suc_conv_app_nth)
  ultimately show ?case by simp
qed simp

lemma ToArrow_columns:
  assumes "length (buffer_types m) = 5"
  shows "ac_columns (ToArrow n m) = map (\<lambda>j. map (\<lambda>r. Some (row_cells r ! j)) (rows m)) [0..<5]"
proof -
  let ?b = "fill_buffer 0 (rows m) (replicate 5 (replicate (max (length (rows m)) n) None))"
  have "length ?b = 5 \<and> (\<forall>j<5. take (length (rows m)) (?b ! j) = map (\<lambda>r. Some (row_cells r ! j)) (rows m))"
    using fill_buffer_column [of 0 "rows m" "replicate 5 (replicate (max (length (rows m)) n) None)"] by simp
  then show ?thesis by (auto simp: ToArrow_def assms Let_def intro: nth_equalityI)
qed

lemma WriteMetaData_types: "WriteMetaData su tys cast epoch_ms table_path files = Inr m \<Longrightarrow> length (buffer_types m) = 5"
  by (auto simp: WriteMetaData_def bindr_eq_Inr)

text \<open>A file in the table's directory, at any depth. The path of its add action is what follows the directory, encoded,
  and resolves to the file for every root that spells the directory with any number of slashes at its end.\<close>

definition under_base :: "string \<Rightarrow> string \<Rightarrow> bool" where
  "under_base base f \<longleftrightarrow> take (Suc (length base)) f = base @ ''/'' \<and> take 1 (drop (Suc (length base)) f) \<noteq> ''/''"

lemma under_baseE:
  assumes "under_base base f"
  obtains rel where "f = base @ ''/'' @ rel" "rel = [] \<or> hd rel \<noteq> CHR ''/''" "drop (Suc (length base)) f = rel"
proof -
  have "f = base @ ''/'' @ drop (Suc (length base)) f"
    using assms append_take_drop_id [of "Suc (length base)" f] by (simp add: under_base_def)
  then show ?thesis
    using that assms by (cases "drop (Suc (length base)) f") (auto simp: under_base_def)
qed

lemma add_path_resolves:
  assumes "string_util_laws su" and "under_base base f" and "RTrim su root ''/'' = base" and "CHR ''%'' \<notin> set root"
  shows "ResolveAddPath su junk root (EncodePathAsUri su (drop (Suc (length base)) f)) = ToDuckDBPath su f"
  using assms(2) string_util_laws.resolve_encoded [OF assms(1) _ assms(4)] assms(3) by (auto elim!: under_baseE)

lemma WriteMetaData_paths:
  assumes "WriteMetaData su tys cast epoch_ms table_path files = Inr m"
    and "table_path = base \<or> table_path = base @ ''/''" and "\<forall>f \<in> set files. under_base base (df_file_name f)"
  shows "map row_path (rows m) = map (\<lambda>f. EncodePathAsUri su (drop (Suc (length base)) (df_file_name f))) files"
proof -
  have "name = drop (Suc (length base)) f" if "under_base base f" "relative_file_name table_path f = Inr name" for f name
    using that(1)
  proof (rule under_baseE)
    fix rel assume rel: "f = base @ ''/'' @ rel" "rel = [] \<or> hd rel \<noteq> CHR ''/''" "drop (Suc (length base)) f = rel"
    then show ?thesis using that(2) assms(2) by (cases rel) (auto simp: relative_file_name_def)
  qed
  then have "list_all2 (\<lambda>f row. row_path row = EncodePathAsUri su (drop (Suc (length base)) (df_file_name f))) files (rows m)"
    using WriteMetaData_rows [OF assms(1)] assms(3) by (auto intro: list.rel_mono_strong)
  then show ?thesis by (induction rule: list_all2_induct) auto
qed

lemma CreateAddFilesEngineData_chunk:
  fixes d :: 'e
  assumes "CreateAddFilesEngineData su tys cast epoch_ms n get_engine_data table_path files = Inr d"
    and "table_path = base \<or> table_path = base @ ''/''" and "\<forall>f \<in> set files. under_base base (df_file_name f)"
  obtains chunk where "get_engine_data chunk = Inr d" and "ac_names chunk = GetNames"
    and "ac_columns chunk ! 0 = map (\<lambda>f. Some (AC_Varchar (EncodePathAsUri su (drop (Suc (length base)) (df_file_name f))))) files"
proof -
  have unpack: "r = Inr v" if "Unpack r = Inr v" for r :: "string option + 'e" and v
    using that by (cases r) (auto simp: Unpack_def split: option.splits)
  obtain m where m: "WriteMetaData su tys cast epoch_ms table_path files = Inr m" "get_engine_data (ToArrow n m) = Inr d"
    using assms(1) unpack by (auto simp: CreateAddFilesEngineData_def bindr_eq_Inr)
  have "ac_columns (ToArrow n m) ! 0 = map (\<lambda>p. Some (AC_Varchar p)) (map row_path (rows m))"
    unfolding ToArrow_columns [OF WriteMetaData_types [OF m(1)]] by (simp add: row_cells_def)
  then show ?thesis
    using that [of "ToArrow n m"] m(2) unfolding WriteMetaData_paths [OF m(1) assms(2,3)] by (simp add: ToArrow_def Let_def comp_def)
qed

text \<open>The table path is cut from a file name by its length alone. A table path that is spelled longer than the directory the files are
  written to and a slash takes the difference from their names.\<close>

lemma longer_spelling_cuts_the_name:
  assumes "length table_path = Suc (length base) + k" and "k \<le> length rel"
  shows "relative_file_name table_path (base @ ''/'' @ rel) = Inr (dropWhile (\<lambda>c. c = CHR ''/'') (drop k rel))"
  using assms by (simp add: relative_file_name_def)

definition example_file :: DeltaDataFile where
  "example_file = \<lparr>df_file_name = ''/t/p=a:b/f 1.parquet'', df_row_count = 3, df_file_size_bytes = 100,
     df_footer_size = 10, df_partition_values = [], df_last_modified = 0, df_column_stats = []\<rparr>"

end
