(* ===== verification/Create_Transaction.thy ===== *)
theory Create_Transaction
  imports Create_Table Write_Metadata Schema_Visitor
begin

text \<open>
  DeltaCreateTableTransaction (delta\_create\_table.cpp): a kernel create-table transaction from its build
  to its commit. The kernel's handles and entry points are the parameter \<open>ck\<close>. A handle that a call
  consumes is not used again; \<open>ct_transaction\<close> is the handle of the open transaction, \<open>None\<close> once it is
  consumed.
\<close>

section \<open>Kernel entry points\<close>

datatype partition_value_arg =
    PV_Null nat nat nat
  | PV_Bool | PV_Byte | PV_Short | PV_Int | PV_Long | PV_Float | PV_Double | PV_String | PV_Binary
  | PV_Date | PV_Timestamp | PV_Timestamp_Ntz | PV_Decimal nat nat

record ('s, 'b, 'c, 't, 'm, 'w, 'd) create_kernel =
  ck_schema_ffi :: "'s field_ffi"
  ck_schema_state :: 's
  ck_new_builder :: "string \<Rightarrow> 's build_result \<Rightarrow> bool \<Rightarrow> string option + 'b"
  ck_with_partition_columns :: "'b \<Rightarrow> string list \<Rightarrow> string option + 'b"
  ck_with_table_property :: "'b \<Rightarrow> string \<Rightarrow> string \<Rightarrow> string option + 'b"
  ck_build :: "'b \<Rightarrow> string option + 't"
  ck_build_with_committer :: "'b \<Rightarrow> 'c \<Rightarrow> string option + 't"
  ck_value_map_new :: 'm
  ck_value_map_insert :: "'m \<Rightarrow> string \<Rightarrow> partition_value_arg \<Rightarrow> string option + 'm"
  ck_unpartitioned_context :: "'t \<Rightarrow> string option + 'w"
  ck_partitioned_context :: "'t \<Rightarrow> 'm \<Rightarrow> string option + 'w"
  ck_write_schema :: "'w \<Rightarrow> kernel_field list"
  ck_physical_write_schema :: "'w \<Rightarrow> kernel_field list"
  ck_partition_values :: "'w \<Rightarrow> (string \<times> string \<times> bool) list"
  ck_add_files :: "'t \<Rightarrow> 'd \<Rightarrow> 't"
  ck_commit :: "'t \<Rightarrow> string option + idx_t"

record 't DeltaCreateTableTransaction =
  ct_path :: string
  ct_data_change :: bool
  ct_added_files :: nat
  ct_partition_columns :: "string list"
  ct_partition_types :: "logical_type list"
  ct_materialized :: bool
  ct_columns :: column_list
  ct_transaction :: "'t option"

section \<open>Construction\<close>

definition partition_types_of :: "column_list \<Rightarrow> string list \<Rightarrow> logical_type list" where
  "partition_types_of columns partition_columns =
     concat (map (\<lambda>p. case find (\<lambda>c. col_name c = p) columns of Some c \<Rightarrow> [col_type c] | None \<Rightarrow> [])
       partition_columns)"

text \<open>A failure of the kernel's builder is replaced by the schema builder's own error when there is one.\<close>

definition start_builder ::
  "('s, 'b, 'c, 't, 'm, 'w, 'd) create_kernel \<Rightarrow> DeltaCreateTableRequest \<Rightarrow> 'b throws" where
  "start_builder ck request =
    (let schema = Build (ck_schema_ffi ck) (ck_schema_state ck) (req_columns request)
     in case Unpack (ck_new_builder ck (req_path request) schema (req_data_change request)) of
          Inr b \<Rightarrow> Inr b
        | Inl e \<Rightarrow> (case build_error schema of Some se \<Rightarrow> Inl se | None \<Rightarrow> Inl e))"

text \<open>\<open>engine\<close> is CreateDeltaEngine, \<open>committer\<close> the factory of a catalog's committer, if one was given.\<close>

definition new_DeltaCreateTableTransaction ::
  "('s, 'b, 'c, 't, 'm, 'w, 'd) create_kernel \<Rightarrow> (string \<Rightarrow> unit throws) \<Rightarrow> 'c throws option
     \<Rightarrow> DeltaCreateTableRequest \<Rightarrow> 't DeltaCreateTableTransaction throws" where
  "new_DeltaCreateTableTransaction ck engine committer request =
    bindr (engine (req_path request)) (\<lambda>_.
    bindr (start_builder ck request) (\<lambda>b0.
    bindr (if req_partition_columns request = [] then Inr b0
           else Unpack (ck_with_partition_columns ck b0 (req_partition_columns request))) (\<lambda>b1.
    bindr (foldr_throws (\<lambda>b p. Unpack (ck_with_table_property ck b (fst p) (snd p))) b1
             (req_properties request)) (\<lambda>b2.
    bindr (case committer of
             Some factory \<Rightarrow> bindr factory (\<lambda>c. Unpack (ck_build_with_committer ck b2 c))
           | None \<Rightarrow> Unpack (ck_build ck b2)) (\<lambda>t.
    Inr \<lparr>ct_path = req_path request, ct_data_change = req_data_change request, ct_added_files = 0,
          ct_partition_columns = req_partition_columns request,
          ct_partition_types = partition_types_of (req_columns request) (req_partition_columns request),
          ct_materialized = False, ct_columns = req_columns request, ct_transaction = Some t\<rparr>)))))"

section \<open>The columns to write\<close>

fun NullTypeTag :: "logical_type \<Rightarrow> nat throws" where
  "NullTypeTag BOOLEAN = Inr 0"
| "NullTypeTag TINYINT = Inr 1"
| "NullTypeTag SMALLINT = Inr 2"
| "NullTypeTag INTEGER = Inr 3"
| "NullTypeTag BIGINT = Inr 4"
| "NullTypeTag FLOAT = Inr 5"
| "NullTypeTag DOUBLE = Inr 6"
| "NullTypeTag VARCHAR = Inr 7"
| "NullTypeTag BLOB = Inr 8"
| "NullTypeTag DATE = Inr 9"
| "NullTypeTag TIMESTAMP_TZ = Inr 10"
| "NullTypeTag TIMESTAMP = Inr 11"
| "NullTypeTag (DECIMAL w s) = Inr 12"
| "NullTypeTag _ = Inl (Err NotImplemented ''Delta partition column of this type is not supported'' [])"

fun InsertMarkerValue :: "logical_type \<Rightarrow> partition_value_arg throws" where
  "InsertMarkerValue BOOLEAN = Inr PV_Bool"
| "InsertMarkerValue TINYINT = Inr PV_Byte"
| "InsertMarkerValue SMALLINT = Inr PV_Short"
| "InsertMarkerValue INTEGER = Inr PV_Int"
| "InsertMarkerValue BIGINT = Inr PV_Long"
| "InsertMarkerValue FLOAT = Inr PV_Float"
| "InsertMarkerValue DOUBLE = Inr PV_Double"
| "InsertMarkerValue VARCHAR = Inr PV_String"
| "InsertMarkerValue BLOB = Inr PV_Binary"
| "InsertMarkerValue DATE = Inr PV_Date"
| "InsertMarkerValue TIMESTAMP_TZ = Inr PV_Timestamp"
| "InsertMarkerValue TIMESTAMP = Inr PV_Timestamp_Ntz"
| "InsertMarkerValue (DECIMAL w s) = Inr (PV_Decimal w s)"
| "InsertMarkerValue _ = Inl (Err NotImplemented ''Delta partition column of this type is not supported'' [])"

definition null_marker :: "logical_type \<Rightarrow> partition_value_arg throws" where
  "null_marker type =
    bindr (NullTypeTag type) (\<lambda>tag. Inr (case type of DECIMAL w s \<Rightarrow> PV_Null tag w s | _ \<Rightarrow> PV_Null tag 0 0))"

definition insert_partition_values ::
  "('s, 'b, 'c, 't, 'm, 'w, 'd) create_kernel \<Rightarrow> 't DeltaCreateTableTransaction \<Rightarrow> nat option \<Rightarrow> 'm throws" where
  "insert_partition_values ck txn marked =
     foldr_throws (\<lambda>m i.
       bindr (if marked = Some i then InsertMarkerValue (ct_partition_types txn ! i)
              else null_marker (ct_partition_types txn ! i)) (\<lambda>v.
       Unpack (ck_value_map_insert ck m (ct_partition_columns txn ! i) v)))
       (ck_value_map_new ck) [0..<length (ct_partition_columns txn)]"

definition write_context_for ::
  "('s, 'b, 'c, 't, 'm, 'w, 'd) create_kernel \<Rightarrow> 't DeltaCreateTableTransaction \<Rightarrow> 't \<Rightarrow> nat option \<Rightarrow> 'w throws" where
  "write_context_for ck txn t marked =
    (if ct_partition_columns txn = [] then Unpack (ck_unpartitioned_context ck t)
     else bindr (insert_partition_values ck txn marked) (\<lambda>m. Unpack (ck_partitioned_context ck t m)))"

definition VisitPartitionName :: "(string \<times> string \<times> bool) list \<Rightarrow> string list" where
  "VisitPartitionName values = map fst (filter (\<lambda>(key, value, is_null). \<not> is_null) values)"

definition partition_physical_name ::
  "('s, 'b, 'c, 't, 'm, 'w, 'd) create_kernel \<Rightarrow> 't DeltaCreateTableTransaction \<Rightarrow> 't \<Rightarrow> bool \<Rightarrow> nat \<Rightarrow> string throws" where
  "partition_physical_name ck txn t mapped i =
    (if \<not> mapped then Inr (ct_partition_columns txn ! i)
     else bindr (write_context_for ck txn t (Some i)) (\<lambda>w.
       (case VisitPartitionName (ck_partition_values ck w) of
          [name] \<Rightarrow> Inr name
        | _ \<Rightarrow> Inl (Err InternalEx ''Delta create transaction reported the wrong number of physical names''
             [ct_partition_columns txn ! i]))))"

definition partition_index :: "string \<Rightarrow> string list \<Rightarrow> nat option" where
  "partition_index name names = map_of (zip names [0..<length names]) name"

text \<open>Back into table order: a partition column where the table has it, the data columns as the kernel
  lists them.\<close>

fun assemble_columns ::
  "bool \<Rightarrow> string list \<Rightarrow> string list \<Rightarrow> column_def option list \<Rightarrow> column_list \<Rightarrow> column_def list
     \<Rightarrow> column_def list throws" where
  "assemble_columns mapped pcols pnames pphysical [] data_columns =
    (if data_columns \<noteq> [] then
       Inl (Err InternalEx ''Delta create transaction write schema has columns the table does not'' [])
     else Inr [])"
| "assemble_columns mapped pcols pnames pphysical (column # columns) data_columns =
    (case partition_index (col_name column) pcols of
       Some i \<Rightarrow>
        (let c0 = new_column (col_name column) (col_type column) True;
             c = (if mapped then
                    (case pphysical ! i of
                       Some p \<Rightarrow> set_field_id (cd_field_id p) (set_physical_name (pnames ! i) c0)
                     | None \<Rightarrow> set_physical_name (pnames ! i) c0)
                  else c0)
         in bindr (assemble_columns mapped pcols pnames pphysical columns data_columns) (\<lambda>rest. Inr (c # rest)))
     | None \<Rightarrow>
        (case data_columns of
           [] \<Rightarrow> Inl (Err InternalEx ''Delta create transaction write schema does not list column in table order'' [col_name column])
         | d # ds \<Rightarrow>
             if cd_name d \<noteq> col_name column then
               Inl (Err InternalEx ''Delta create transaction write schema does not list column in table order'' [col_name column])
             else bindr (assemble_columns mapped pcols pnames pphysical columns ds) (\<lambda>rest. Inr (d # rest))))"

text \<open>\<open>visit_schema\<close> is the kernel's schema walk.\<close>

definition GetWriteColumns ::
  "('s, 'b, 'c, 't, 'm, 'w, 'd) create_kernel \<Rightarrow> (kernel_field list \<Rightarrow> schema_visitor \<Rightarrow> nat \<times> schema_visitor)
     \<Rightarrow> 't DeltaCreateTableTransaction \<Rightarrow> (column_def list \<times> 't DeltaCreateTableTransaction) throws" where
  "GetWriteColumns ck visit_schema txn =
    (case ct_transaction txn of
       None \<Rightarrow> Inl (Err InternalEx ''DeltaCreateTableTransaction::GetWriteColumns after the transaction was consumed'' [])
     | Some t \<Rightarrow>
        bindr (write_context_for ck txn t None) (\<lambda>w.
        bindr (ToColumnDefinitions visit_schema (ck_write_schema ck w) MODE_NONE) (\<lambda>data_columns.
        bindr (ToColumnDefinitions visit_schema (ck_physical_write_schema ck w) MODE_NONE) (\<lambda>physical_columns.
          (let mapped = list_ex IsColumnMapped data_columns;
               pcols = ct_partition_columns txn
           in bindr (mapr (partition_physical_name ck txn t mapped) [0..<length pcols]) (\<lambda>pnames.
             (let pphysical = map (\<lambda>n. find (\<lambda>p. cd_name p = n) physical_columns) pnames;
                  materialized = length (filter (\<lambda>p. p \<noteq> None) pphysical)
              in if materialized \<noteq> 0 \<and> materialized \<noteq> length pcols then
                   Inl (Err InternalEx ''Delta create transaction physical schema holds some of the partition columns'' [])
                 else bindr (assemble_columns mapped pcols pnames pphysical (ct_columns txn) data_columns) (\<lambda>result.
                   Inr (result, txn\<lparr>ct_materialized := pcols \<noteq> [] \<and> materialized = length pcols\<rparr>)))))))))"

section \<open>Adding files and committing\<close>

text \<open>\<open>engine_data\<close> is CreateAddFilesEngineData at the normalised table path.\<close>

definition CT_AddFiles ::
  "('s, 'b, 'c, 't, 'm, 'w, 'd) create_kernel \<Rightarrow> (string \<Rightarrow> DeltaDataFile list \<Rightarrow> 'd throws)
     \<Rightarrow> 't DeltaCreateTableTransaction \<Rightarrow> DeltaDataFile list \<Rightarrow> 't DeltaCreateTableTransaction throws" where
  "CT_AddFiles ck engine_data txn files =
    (case ct_transaction txn of
       None \<Rightarrow> Inl (Err InternalEx ''DeltaCreateTableTransaction::AddFiles after the transaction was consumed'' [])
     | Some t \<Rightarrow>
        if files = [] then Inr txn
        else bindr (engine_data (ct_path txn) files) (\<lambda>d.
             Inr (txn\<lparr>ct_transaction := Some (ck_add_files ck t d),
                   ct_added_files := ct_added_files txn + length files\<rparr>)))"

text \<open>Commit consumes the transaction before it calls the kernel, so on an error too.\<close>

definition CT_Commit ::
  "('s, 'b, 'c, 't, 'm, 'w, 'd) create_kernel \<Rightarrow> 't DeltaCreateTableTransaction
     \<Rightarrow> idx_t throws \<times> 't DeltaCreateTableTransaction" where
  "CT_Commit ck txn =
    (case ct_transaction txn of
       None \<Rightarrow> (Inl (Err InternalEx ''DeltaCreateTableTransaction::Commit after the transaction was consumed'' []), txn)
     | Some t \<Rightarrow> (Unpack (ck_commit ck t), txn\<lparr>ct_transaction := None\<rparr>))"

section \<open>Lemmas and properties\<close>

lemma assemble_columns_names:
  "assemble_columns mapped pcols pnames pphysical columns data_columns = Inr cols \<Longrightarrow>
     map cd_name cols = map col_name columns \<and>
     filter (\<lambda>c. cd_name c \<notin> set pcols) cols = filter (\<lambda>c. cd_name c \<notin> set pcols) data_columns \<and>
     map cd_name data_columns = filter (\<lambda>n. n \<notin> set pcols) (map col_name columns)"
proof (induction mapped pcols pnames pphysical columns data_columns arbitrary: cols
    rule: assemble_columns.induct)
  case (2 mapped pcols pnames pphysical column columns data_columns)
  have index: "partition_index (col_name column) pcols = None \<longleftrightarrow> col_name column \<notin> set pcols"
    by (auto simp: partition_index_def map_of_eq_None_iff set_zip in_set_conv_nth image_iff)
  show ?case
  proof (cases "partition_index (col_name column) pcols")
    case None
    then obtain d ds rest where "data_columns = d # ds" "cd_name d = col_name column"
      "assemble_columns mapped pcols pnames pphysical columns ds = Inr rest" "cols = d # rest"
      using "2.prems" by (auto simp: bindr_eq_Inr split: list.splits if_splits)
    then show ?thesis using "2.IH"(1) [OF None] None index by auto
  next
    case (Some i)
    then obtain c rest where "assemble_columns mapped pcols pnames pphysical columns data_columns = Inr rest"
      "cols = c # rest" "cd_name c = col_name column"
      using "2.prems" by (auto simp: bindr_eq_Inr Let_def split: option.splits if_splits)
    moreover have "col_name column \<in> set pcols" using Some index by (metis option.distinct(1))
    ultimately show ?thesis using "2.IH"(2) [OF Some refl refl] by auto
  qed
qed (auto split: if_splits)

text \<open>The columns a create transaction writes are the columns of the statement in table order: the
  kernel's data columns appear unchanged and in their order, exactly the columns that are not partition
  columns, and each partition column stands where the table has it.\<close>

theorem GetWriteColumns_in_table_order:
  assumes "GetWriteColumns ck visit_schema txn = Inr (cols, txn')"
  shows "map cd_name cols = map col_name (ct_columns txn) \<and>
    (\<exists>w data. ToColumnDefinitions visit_schema (ck_write_schema ck w) MODE_NONE = Inr data \<and>
       map cd_name data = filter (\<lambda>n. n \<notin> set (ct_partition_columns txn)) (map col_name (ct_columns txn)) \<and>
       filter (\<lambda>c. cd_name c \<notin> set (ct_partition_columns txn)) cols = data)"
proof -
  obtain w data mapped pnames pphysical where
    data: "ToColumnDefinitions visit_schema (ck_write_schema ck w) MODE_NONE = Inr data"
    and a: "assemble_columns mapped (ct_partition_columns txn) pnames pphysical (ct_columns txn) data = Inr cols"
    using assms
    by (auto simp: GetWriteColumns_def bindr_eq_Inr Let_def split: option.splits if_splits)
  note names = assemble_columns_names [OF a]
  have "set (map cd_name data) \<inter> set (ct_partition_columns txn) = {}" using names by auto
  then have "filter (\<lambda>c. cd_name c \<notin> set (ct_partition_columns txn)) data = data"
    by (auto simp: filter_id_conv)
  then show ?thesis using names data by metis
qed

definition example_kernel :: "(nat, unit, unit, unit, unit, unit, unit) create_kernel" where
  "example_kernel = \<lparr>ck_schema_ffi = (\<lambda>_ _ _ _. Inl None), ck_schema_state = 0, ck_new_builder = (\<lambda>_ _ _. Inr ()),
     ck_with_partition_columns = (\<lambda>_ _. Inr ()), ck_with_table_property = (\<lambda>_ _ _. Inr ()),
     ck_build = (\<lambda>_. Inr ()), ck_build_with_committer = (\<lambda>_ _. Inr ()), ck_value_map_new = (),
     ck_value_map_insert = (\<lambda>_ _ _. Inr ()), ck_unpartitioned_context = (\<lambda>_. Inr ()),
     ck_partitioned_context = (\<lambda>_ _. Inr ()),
     ck_write_schema = (\<lambda>_. [KField ''a'' (KSimple visit_long) True no_metadata]),
     ck_physical_write_schema = (\<lambda>_. [KField ''a'' (KSimple visit_long) True no_metadata]),
     ck_partition_values = (\<lambda>_. []), ck_add_files = (\<lambda>_ _. ()), ck_commit = (\<lambda>_. Inr 0)\<rparr>"

definition example_txn :: "unit DeltaCreateTableTransaction" where
  "example_txn = \<lparr>ct_path = ''/t'', ct_data_change = True, ct_added_files = 0, ct_partition_columns = [''p''],
     ct_partition_types = [INTEGER], ct_materialized = False,
     ct_columns = [\<lparr>col_name = ''p'', col_type = INTEGER, col_generated = False, col_default = False\<rparr>,
       \<lparr>col_name = ''a'', col_type = BIGINT, col_generated = False, col_default = False\<rparr>],
     ct_transaction = Some ()\<rparr>"

lemma example_write_schema:
  "ToColumnDefinitions (walk_schema example_env) [KField ''a'' (KSimple visit_long) True no_metadata] MODE_NONE =
     Inr [ColumnDef ''a'' BIGINT [] True [] [] None Id_Null (Some BIGINT)]"
  by (rule walk_schema_columns)
    (simp add: accepted_def ApplyDeltaColumnMapping_def new_column_def Let_def FetchFromMetadataMap_def
      no_metadata_def mapping_id_def)

lemma write_columns_example:
  "GetWriteColumns example_kernel (walk_schema example_env) example_txn =
     Inr ([new_column ''p'' INTEGER True, ColumnDef ''a'' BIGINT [] True [] [] None Id_Null (Some BIGINT)],
       example_txn)"
  by (simp add: GetWriteColumns_def example_kernel_def example_txn_def write_context_for_def
      insert_partition_values_def null_marker_def Unpack_def example_write_schema IsColumnMapped_def
      partition_physical_name_def partition_index_def Let_def)

theorem GetWriteColumns_in_table_order_witness:
  "map cd_name [new_column ''p'' INTEGER True, ColumnDef ''a'' BIGINT [] True [] [] None Id_Null (Some BIGINT)] =
     map col_name (ct_columns example_txn)"
  using GetWriteColumns_in_table_order [OF write_columns_example] by simp

lemma NullTypeTag_type:
  "NullTypeTag t = Inr n \<Longrightarrow> FindUnsupportedType t = None \<and>
     (n = 12 \<and> (\<exists>w s. t = DECIMAL w s) \<or>
      n < 12 \<and> t = [BOOLEAN, TINYINT, SMALLINT, INTEGER, BIGINT, FLOAT, DOUBLE, VARCHAR, BLOB, DATE, TIMESTAMP_TZ, TIMESTAMP] ! n)"
  by (cases t rule: NullTypeTag.cases) auto

lemma NullTypeTag_iff_marker: "(\<exists>n. NullTypeTag t = Inr n) \<longleftrightarrow> (\<exists>v. InsertMarkerValue t = Inr v)"
  by (cases t rule: NullTypeTag.cases) auto

text \<open>The markers for partition values agree: a null of a type can be tagged exactly when a marker value
  of it can be made, every such type is one the schema builder can store, and two different scalar types
  never share a tag.\<close>

theorem NullTypeTag_agrees_with_InsertMarkerValue:
  "((\<exists>n. NullTypeTag t = Inr n) \<longleftrightarrow> (\<exists>v. InsertMarkerValue t = Inr v)) \<and>
   (NullTypeTag t = Inr n \<longrightarrow> n \<le> 12 \<and> FindUnsupportedType t = None \<and>
      (\<forall>t'. NullTypeTag t' = Inr n \<longrightarrow> t' = t \<or> (\<exists>w s w' s'. t = DECIMAL w s \<and> t' = DECIMAL w' s')))"
proof -
  have "t' = t \<or> (\<exists>w s w' s'. t = DECIMAL w s \<and> t' = DECIMAL w' s')"
    if "NullTypeTag t = Inr n" "NullTypeTag t' = Inr n" for t'
    using NullTypeTag_type [OF that(1)] NullTypeTag_type [OF that(2)] by auto
  then show ?thesis using NullTypeTag_iff_marker [of t] NullTypeTag_type [of t n] by (auto simp del: NullTypeTag.simps)
qed

theorem NullTypeTag_agrees_with_InsertMarkerValue_witness:
  "(12 :: nat) \<le> 12 \<and> FindUnsupportedType (DECIMAL 10 2) = None \<and> (\<exists>v. InsertMarkerValue (DECIMAL 10 2) = Inr v)"
  using NullTypeTag_agrees_with_InsertMarkerValue [of "DECIMAL 10 2" 12] by simp

text \<open>A create transaction commits at most once: Commit consumes it whether the kernel accepts the
  commit or not, and afterwards Commit, AddFiles and GetWriteColumns all fail without reaching the
  kernel and leave the transaction as it is.\<close>

theorem CT_Commit_consumes_the_transaction:
  "let txn' = snd (CT_Commit ck txn)
   in ct_transaction txn' = None \<and> (\<exists>e. CT_Commit ck' txn' = (Inl e, txn')) \<and>
     (\<exists>e. CT_AddFiles ck' engine_data txn' files = Inl e) \<and> (\<exists>e. GetWriteColumns ck' visit_schema txn' = Inl e)"
  by (auto simp: CT_Commit_def CT_AddFiles_def GetWriteColumns_def Let_def split: option.splits)

end
