(* ===== verification/Transaction.thy ===== *)
theory Transaction
  imports Attach Write_Metadata Column_Def
begin

text \<open>
  DeltaTransaction (delta\_transaction.cpp): the state a DuckDB transaction keeps for one attached Delta
  table, its operations, and the commit callback of catalog-managed tables.

  The kernel and the file system are the parameters \<open>tk\<close>: handles are opaque, the world \<open>'w\<close> holds the files
  and the log. An operation that throws keeps the changes it made before it threw, so operations
  return the result together with the state. The kernel's commit runs the callback at most once, with the
  staged commit as its request.
\<close>

section \<open>State\<close>

datatype transaction_state = TRANSACTION_NOT_YET_STARTED | TRANSACTION_STARTED | TRANSACTION_FINISHED

record table_entry =
  te_path :: string
  te_version :: idx_t
  te_kernel :: kernel_snapshot
  te_columns :: "column_def list"

record commit_request =
  rq_file_name :: string
  rq_version :: int
  rq_timestamp :: int
  rq_file_size :: int
  rq_modification_time :: int

record ('k, 'f, 'x) DeltaTransaction =
  dt_table_entry :: "'x table_entry_scheme option"
  dt_versioned_entries :: "idx_t \<Rightarrow> 'x table_entry_scheme option"
  dt_timestamp_versions :: "int \<Rightarrow> idx_t option"
  dt_state :: transaction_state
  dt_access_mode :: AccessMode
  dt_outstanding_appends :: "DeltaDataFile list"
  dt_kernel_transaction :: "'k option"
  dt_write_entry :: "'x table_entry_scheme option"
  dt_app_versions :: "(string \<times> idx_t \<times> int option) list"
  dt_parent_commit :: bool
  dt_commit_function :: "'f option"
  dt_unity_table_id :: string
  dt_current_context :: bool
  dt_parent_table_entry :: bool
  dt_active_error :: "error option"

record ('k, 'f, 'b, 'c, 'd, 'w, 'x) transaction_kernel =
  tk_new_builder :: "'x table_entry_scheme \<Rightarrow> string option + 'b"
  tk_committer :: "string \<Rightarrow> string option + 'c"
  tk_build :: "'b \<Rightarrow> string option + 'k"
  tk_build_with_committer :: "'b \<Rightarrow> 'c \<Rightarrow> string option + 'k"
  tk_add_files :: "'k \<Rightarrow> 'd \<Rightarrow> 'k"
  tk_app_id_version :: "'x table_entry_scheme \<Rightarrow> string \<Rightarrow> string option + int option"
  tk_with_transaction_id :: "'k \<Rightarrow> string \<Rightarrow> int \<Rightarrow> string option + 'k"
  tk_staged_commit :: "'k \<Rightarrow> 'w \<Rightarrow> commit_request option option"
  tk_commit :: "'k \<Rightarrow> 'w \<Rightarrow> string option \<Rightarrow> (string option + unit) \<times> 'w"
  tk_last_modified :: "'w \<Rightarrow> string \<Rightarrow> int throws"
  tk_try_remove :: "'w \<Rightarrow> string \<Rightarrow> unit throws \<times> 'w"
  tk_engine_data :: "string \<Rightarrow> DeltaDataFile list \<Rightarrow> 'd throws"
  tk_invoke_commit :: "'f \<Rightarrow> commit_request \<Rightarrow> bool throws"
  tk_client_alive :: bool

section \<open>Construction\<close>

definition new_DeltaTransaction :: "('v, 'f) DeltaCatalog \<Rightarrow> ('k, 'f, 'x) DeltaTransaction" where
  "new_DeltaTransaction catalog = \<lparr>
     dt_table_entry = None, dt_versioned_entries = Map.empty, dt_timestamp_versions = Map.empty,
     dt_state = TRANSACTION_NOT_YET_STARTED, dt_access_mode = access_mode catalog,
     dt_outstanding_appends = [], dt_kernel_transaction = None, dt_write_entry = None, dt_app_versions = [],
     dt_parent_commit = parent_commit catalog, dt_commit_function = commit_function catalog,
     dt_unity_table_id = unity_table_id catalog, dt_current_context = False, dt_parent_table_entry = False,
     dt_active_error = None\<rparr>"

definition DT_Start :: "('k, 'f, 'x) DeltaTransaction \<Rightarrow> ('k, 'f, 'x) DeltaTransaction" where
  "DT_Start txn = txn\<lparr>dt_state := TRANSACTION_NOT_YET_STARTED\<rparr>"

section \<open>Writing\<close>

definition CreateCatalogCommitter ::
  "('k, 'f, 'b, 'c, 'd, 'w, 'x) transaction_kernel \<Rightarrow> ('k, 'f, 'x) DeltaTransaction \<Rightarrow> string \<Rightarrow> 'c throws" where
  "CreateCatalogCommitter tk txn table_path =
     Unpack (tk_committer tk (if dt_unity_table_id txn = [] then table_path else dt_unity_table_id txn))"

definition build_kernel_transaction ::
  "('k, 'f, 'b, 'c, 'd, 'w, 'x) transaction_kernel \<Rightarrow> ('k, 'f, 'x) DeltaTransaction \<Rightarrow> 'x table_entry_scheme \<Rightarrow> 'k throws" where
  "build_kernel_transaction tk txn entry =
    bindr (throw_if (\<not> dt_parent_commit txn \<and> IsCatalogManaged (te_kernel entry))
      (Err InvalidInput ''Table is a catalog-managed Delta table'' [te_path entry])) (\<lambda>_.
    bindr (Unpack (tk_new_builder tk entry)) (\<lambda>b.
    if dt_parent_commit txn then
      bindr (CreateCatalogCommitter tk txn (te_path entry)) (\<lambda>c. Unpack (tk_build_with_committer tk b c))
    else Unpack (tk_build tk b)))"

definition InitializeTransaction ::
  "('k, 'f, 'b, 'c, 'd, 'w, 'x) transaction_kernel \<Rightarrow> ('k, 'f, 'x) DeltaTransaction
     \<Rightarrow> unit throws \<times> ('k, 'f, 'x) DeltaTransaction" where
  "InitializeTransaction tk txn =
    (let txn1 = txn\<lparr>dt_current_context := True\<rparr>
     in if dt_access_mode txn1 = READ_ONLY then
          (Inl (Err InvalidInput ''Can not append to a read only table'' []), txn1)
        else
         (let txn2 = txn1\<lparr>dt_state := TRANSACTION_STARTED\<rparr>
          in case dt_table_entry txn2 of
               None \<Rightarrow> (Inl (Err UndefinedBehaviour ''no table entry'' []), txn2)
             | Some entry \<Rightarrow>
                 (case build_kernel_transaction tk txn2 entry of
                    Inl e \<Rightarrow> (Inl e, txn2)
                  | Inr k \<Rightarrow> (Inr (), txn2\<lparr>dt_kernel_transaction := Some k, dt_write_entry := Some entry\<rparr>))))"

definition touch_files ::
  "('k, 'f, 'b, 'c, 'd, 'w, 'x) transaction_kernel \<Rightarrow> 'w \<Rightarrow> DeltaDataFile list \<Rightarrow> DeltaDataFile list throws" where
  "touch_files tk w files =
     mapr (\<lambda>f. bindr (tk_last_modified tk w (df_file_name f)) (\<lambda>t. Inr (f\<lparr>df_last_modified := t\<rparr>))) files"

text \<open>When a file cannot be opened the appended files stay in the list; the times read before it are not
  kept here, since nothing reads them once the statement has failed.\<close>

definition DT_Append ::
  "('k, 'f, 'b, 'c, 'd, 'w, 'x) transaction_kernel \<Rightarrow> 'w \<Rightarrow> ('k, 'f, 'x) DeltaTransaction \<Rightarrow> DeltaDataFile list
     \<Rightarrow> unit throws \<times> ('k, 'f, 'x) DeltaTransaction" where
  "DT_Append tk w txn append_files =
    (case (if dt_state txn = TRANSACTION_NOT_YET_STARTED then InitializeTransaction tk txn else (Inr (), txn)) of
       (Inl e, txn1) \<Rightarrow> (Inl e, txn1)
     | (Inr _, txn1) \<Rightarrow>
        (let txn2 = txn1\<lparr>dt_outstanding_appends := dt_outstanding_appends txn1 @ append_files\<rparr>
         in case touch_files tk w append_files of
              Inl e \<Rightarrow> (Inl e, txn2)
            | Inr new_files \<Rightarrow>
               (let txn3 = txn1\<lparr>dt_outstanding_appends := dt_outstanding_appends txn1 @ new_files\<rparr>
                in if append_files = [] then (Inr (), txn3)
                   else (case (dt_table_entry txn3, dt_kernel_transaction txn3) of
                      (Some entry, Some k) \<Rightarrow>
                        (case tk_engine_data tk (te_path entry) new_files of
                           Inl e \<Rightarrow> (Inl e, txn3)
                         | Inr d \<Rightarrow> (Inr (), txn3\<lparr>dt_kernel_transaction := Some (tk_add_files tk k d)\<rparr>))
                    | _ \<Rightarrow> (Inl (Err UndefinedBehaviour ''no kernel transaction'' []), txn3)))))"

text \<open>\<open>unordered_map::insert\<close> keeps the entry of a key that is there already.\<close>

definition SetTransactionVersion ::
  "('k, 'f, 'x) DeltaTransaction \<Rightarrow> string \<Rightarrow> idx_t \<Rightarrow> int option \<Rightarrow> ('k, 'f, 'x) DeltaTransaction" where
  "SetTransactionVersion txn app_id new_version expected =
    (if map_of (dt_app_versions txn) app_id = None
     then txn\<lparr>dt_app_versions := dt_app_versions txn @ [(app_id, new_version, expected)]\<rparr> else txn)"

definition HasOutstandingAppends :: "('k, 'f, 'x) DeltaTransaction \<Rightarrow> bool" where
  "HasOutstandingAppends txn \<longleftrightarrow> dt_outstanding_appends txn \<noteq> []"

section \<open>Ending\<close>

fun remove_files ::
  "('k, 'f, 'b, 'c, 'd, 'w, 'x) transaction_kernel \<Rightarrow> 'w \<Rightarrow> string list \<Rightarrow> unit throws \<times> 'w" where
  "remove_files tk w [] = (Inr (), w)"
| "remove_files tk w (f # fs) =
    (case tk_try_remove tk w f of (Inl e, w1) \<Rightarrow> (Inl e, w1) | (Inr _, w1) \<Rightarrow> remove_files tk w1 fs)"

definition CleanUpFiles ::
  "('k, 'f, 'b, 'c, 'd, 'w, 'x) transaction_kernel \<Rightarrow> 'w \<Rightarrow> ('k, 'f, 'x) DeltaTransaction
     \<Rightarrow> unit throws \<times> ('k, 'f, 'x) DeltaTransaction \<times> 'w" where
  "CleanUpFiles tk w txn =
    (case (if tk_client_alive tk then remove_files tk w (map df_file_name (dt_outstanding_appends txn))
           else (Inr (), w)) of
       (Inl e, w1) \<Rightarrow> (Inl e, txn, w1)
     | (Inr _, w1) \<Rightarrow> (Inr (), txn\<lparr>dt_outstanding_appends := []\<rparr>, w1))"

text \<open>The check of one registered application version. When reading the version fails and no version was
  expected, the code goes on with a variable the failed call did not set: its value is \<open>junk\<close>.\<close>

definition app_version_matches ::
  "('k, 'f, 'b, 'c, 'd, 'w, 'x) transaction_kernel \<Rightarrow> int option \<Rightarrow> 'x table_entry_scheme \<Rightarrow> string \<Rightarrow> int option \<Rightarrow> bool" where
  "app_version_matches tk junk entry app_id expected =
    (case tk_app_id_version tk entry app_id of
       Inl _ \<Rightarrow> if expected \<noteq> None then False else junk = expected
     | Inr actual \<Rightarrow> actual = expected)"

definition INT64_MAX :: nat where
  "INT64_MAX = 9223372036854775807"

text \<open>The loop over the registered versions, with the handle left in the transaction: a mismatch leaves it
  there, the call that consumes it does not. The cast of the new version to int64 is an argument of that
  call, next to the release of the handle.\<close>

fun register_app_versions ::
  "('k, 'f, 'b, 'c, 'd, 'w, 'x) transaction_kernel \<Rightarrow> int option \<Rightarrow> 'x table_entry_scheme \<Rightarrow> 'k \<Rightarrow> (string \<times> idx_t \<times> int option) list
     \<Rightarrow> unit throws \<times> 'k option" where
  "register_app_versions tk junk entry k [] = (Inr (), Some k)"
| "register_app_versions tk junk entry k ((app_id, new_version, expected) # apps) =
    (if \<not> app_version_matches tk junk entry app_id expected then
       (Inl (Err TransactionEx ''DeltaTransaction version did not match the expected previous version'' [app_id]), Some k)
     else if unat new_version > INT64_MAX then (Inl (Err InternalEx ''integer cast out of range'' []), None)
     else (case Unpack (tk_with_transaction_id tk k app_id (int (unat new_version))) of
             Inl e \<Rightarrow> (Inl e, None)
           | Inr k1 \<Rightarrow> register_app_versions tk junk entry k1 apps))"

text \<open>The callback of a catalog-managed commit: the error text it hands to the kernel, if any, and the error
  it stores in the transaction.\<close>

definition CommitCallback ::
  "('k, 'f, 'b, 'c, 'd, 'w, 'x) transaction_kernel \<Rightarrow> ('k, 'f, 'x) DeltaTransaction \<Rightarrow> commit_request option
     \<Rightarrow> string option \<times> error option" where
  "CommitCallback tk txn request =
    (case
      bindr (throw_if (\<not> dt_current_context txn)
        (Err InternalEx ''No current client context in Catalog Commit Callback'' [])) (\<lambda>_.
      bindr (throw_if (dt_write_entry txn = None) (Err InternalEx ''No write entry in Catalog Commit Callback'' [])) (\<lambda>_.
      bindr (throw_if (\<not> dt_parent_table_entry txn)
        (Err InternalEx ''No parent table entry in Catalog Commit Callback'' [])) (\<lambda>_.
      case request of
        None \<Rightarrow> Inl (Err InternalEx ''CommitCallback received request without commit_info'' [])
      | Some rq \<Rightarrow>
          (case dt_commit_function txn of
             None \<Rightarrow> Inl (Err InternalEx ''No commit function found in Catalog Commit Callback'' [])
           | Some f \<Rightarrow> tk_invoke_commit tk f rq))))
     of Inl e \<Rightarrow> (Some (err_message e), Some e)
      | Inr committed \<Rightarrow> (if committed then None else Some ''Commit conflict'', dt_active_error txn))"

definition kernel_commit ::
  "('k, 'f, 'b, 'c, 'd, 'w, 'x) transaction_kernel \<Rightarrow> 'w \<Rightarrow> ('k, 'f, 'x) DeltaTransaction \<Rightarrow> 'k
     \<Rightarrow> unit throws \<times> ('k, 'f, 'x) DeltaTransaction \<times> 'w" where
  "kernel_commit tk w txn k =
    (let (answer, active) = (case tk_staged_commit tk k w of
           None \<Rightarrow> (None, dt_active_error txn)
         | Some request \<Rightarrow> CommitCallback tk txn request);
         txn1 = txn\<lparr>dt_active_error := active, dt_kernel_transaction := None\<rparr>;
         (r, w1) = tk_commit tk k w answer
     in (case Unpack r of
           Inr _ \<Rightarrow> (Inr (), txn1, w1)
         | Inl e \<Rightarrow> ((case active of Some a \<Rightarrow> Inl a | None \<Rightarrow> Inl e), txn1, w1)))"

definition DT_Commit ::
  "('k, 'f, 'b, 'c, 'd, 'w, 'x) transaction_kernel \<Rightarrow> int option \<Rightarrow> 'w \<Rightarrow> ('k, 'f, 'x) DeltaTransaction
     \<Rightarrow> unit throws \<times> ('k, 'f, 'x) DeltaTransaction \<times> 'w" where
  "DT_Commit tk junk w txn =
    (if dt_state txn \<noteq> TRANSACTION_STARTED then (Inr (), txn, w)
     else
      (let txn1 = txn\<lparr>dt_state := TRANSACTION_FINISHED\<rparr>
       in if dt_outstanding_appends txn1 = [] then (Inr (), txn1, w)
          else (case (dt_table_entry txn1, dt_kernel_transaction txn1) of
             (Some entry, Some k) \<Rightarrow>
               (case register_app_versions tk junk entry k (dt_app_versions txn1) of
                  (Inl e, k1) \<Rightarrow> (Inl e, txn1\<lparr>dt_kernel_transaction := k1\<rparr>, w)
                | (Inr _, Some k1) \<Rightarrow> kernel_commit tk w txn1 k1
                | (Inr _, None) \<Rightarrow> (Inl (Err UndefinedBehaviour ''no kernel transaction'' []), txn1, w))
           | _ \<Rightarrow> (Inl (Err UndefinedBehaviour ''no kernel transaction'' []), txn1, w))))"

definition DT_Rollback ::
  "('k, 'f, 'b, 'c, 'd, 'w, 'x) transaction_kernel \<Rightarrow> 'w \<Rightarrow> ('k, 'f, 'x) DeltaTransaction
     \<Rightarrow> unit throws \<times> ('k, 'f, 'x) DeltaTransaction \<times> 'w" where
  "DT_Rollback tk w txn =
    (if dt_state txn = TRANSACTION_STARTED
     then CleanUpFiles tk w (txn\<lparr>dt_state := TRANSACTION_FINISHED\<rparr>)
     else (Inr (), txn, w))"

section \<open>Snapshots of the transaction\<close>

definition GetTableEntry :: "('k, 'f, 'x) DeltaTransaction \<Rightarrow> idx_t \<Rightarrow> 'x table_entry_scheme option" where
  "GetTableEntry txn version =
    (if version = INVALID_INDEX then dt_table_entry txn
     else case dt_versioned_entries txn version of
       Some e \<Rightarrow> Some e
     | None \<Rightarrow>
        (case dt_table_entry txn of
           Some e \<Rightarrow> if te_version e = version then Some e else None
         | None \<Rightarrow> None))"

definition GetTimestampVersion ::
  "'v value_ops \<Rightarrow> ('k, 'f, 'x) DeltaTransaction \<Rightarrow> int \<Rightarrow> idx_t option throws" where
  "GetTimestampVersion vo txn timestamp =
     bindr (DeltaTimestampToEpochMs vo timestamp) (\<lambda>ms. Inr (dt_timestamp_versions txn ms))"

text \<open>\<open>emplace\<close> keeps the version a timestamp was resolved to first.\<close>

definition SetTimestampVersion ::
  "'v value_ops \<Rightarrow> ('k, 'f, 'x) DeltaTransaction \<Rightarrow> int \<Rightarrow> idx_t \<Rightarrow> (idx_t \<times> ('k, 'f, 'x) DeltaTransaction) throws" where
  "SetTimestampVersion vo txn timestamp version =
    bindr (DeltaTimestampToEpochMs vo timestamp) (\<lambda>ms.
      case dt_timestamp_versions txn ms of
        Some v \<Rightarrow> Inr (v, txn)
      | None \<Rightarrow> Inr (version, txn\<lparr>dt_timestamp_versions := (dt_timestamp_versions txn)(ms \<mapsto> version)\<rparr>))"

text \<open>\<open>create\<close> is DeltaSchemaEntry::CreateTableEntry.\<close>

definition InitializeTableEntry ::
  "(idx_t \<Rightarrow> 'x table_entry_scheme throws) \<Rightarrow> ('k, 'f, 'x) DeltaTransaction \<Rightarrow> idx_t
     \<Rightarrow> ('x table_entry_scheme \<times> ('k, 'f, 'x) DeltaTransaction) throws" where
  "InitializeTableEntry create txn version =
    (if version = INVALID_INDEX then
       (case dt_table_entry txn of
          Some e \<Rightarrow> Inr (e, txn)
        | None \<Rightarrow> bindr (create version) (\<lambda>e. Inr (e, txn\<lparr>dt_table_entry := Some e\<rparr>)))
     else
       (case dt_versioned_entries txn version of
          Some e \<Rightarrow> Inr (e, txn)
        | None \<Rightarrow> bindr (create version) (\<lambda>e.
            Inr (e, txn\<lparr>dt_versioned_entries := (dt_versioned_entries txn)(version \<mapsto> e)\<rparr>))))"

section \<open>Lemmas\<close>

lemma register_app_versions_ok:
  "register_app_versions tk junk entry k apps = (Inr (), r) \<Longrightarrow>
     r \<noteq> None \<and> (\<forall>(app_id, new_version, expected) \<in> set apps.
       app_version_matches tk junk entry app_id expected \<and> unat new_version \<le> INT64_MAX)"
proof (induction tk junk entry k apps rule: register_app_versions.induct)
  case (2 tk junk entry k app_id new_version expected apps)
  then obtain k1 where "Unpack (tk_with_transaction_id tk k app_id (int (unat new_version))) = Inr k1"
    "app_version_matches tk junk entry app_id expected" "unat new_version \<le> INT64_MAX"
    "register_app_versions tk junk entry k1 apps = (Inr (), r)"
    by (auto split: if_splits sum.splits)
  then show ?case using "2.IH" by auto
qed auto

lemma register_app_versions_some: "register_app_versions tk junk entry k apps = (Inr u, r) \<Longrightarrow> r \<noteq> None"
  using register_app_versions_ok by (metis old.unit.exhaust)

lemma kernel_commit_state:
  "kernel_commit tk w txn k = (r, txn', w') \<Longrightarrow>
     dt_state txn' = dt_state txn \<and> dt_outstanding_appends txn' = dt_outstanding_appends txn"
  by (auto simp: kernel_commit_def Let_def split: prod.splits sum.splits)

lemma CleanUpFiles_state:
  "CleanUpFiles tk w txn = (r, txn', w') \<Longrightarrow> dt_state txn' = dt_state txn"
  by (auto simp: CleanUpFiles_def split: prod.splits sum.splits if_splits)

lemma DT_Commit_finished:
  assumes "DT_Commit tk junk w txn = (r, txn', w')"
  shows "dt_state txn' \<noteq> TRANSACTION_STARTED"
proof (cases "dt_state txn = TRANSACTION_STARTED")
  case True
  then show ?thesis using assms
    by (auto simp: DT_Commit_def Let_def dest!: kernel_commit_state split: if_splits option.splits prod.splits sum.splits)
qed (use assms in \<open>simp add: DT_Commit_def\<close>)

lemma DT_Rollback_finished:
  "DT_Rollback tk w txn = (r, txn', w') \<Longrightarrow> dt_state txn' \<noteq> TRANSACTION_STARTED"
  by (auto simp: DT_Rollback_def dest: CleanUpFiles_state split: if_splits)

lemma ended_is_final:
  assumes "dt_state txn \<noteq> TRANSACTION_STARTED"
  shows "DT_Commit tk junk w txn = (Inr (), txn, w)" "DT_Rollback tk w txn = (Inr (), txn, w)"
  using assms by (simp_all add: DT_Commit_def DT_Rollback_def)

lemma remove_files_total:
  assumes "\<And>w f. fst (tk_try_remove tk w f) = Inr ()"
  shows "remove_files tk w fs = (Inr (), fold (\<lambda>f w. snd (tk_try_remove tk w f)) fs w)"
proof (induction fs arbitrary: w)
  case (Cons f fs)
  then show ?case using assms [of w f] by (cases "tk_try_remove tk w f") simp
qed simp

end
