(* ===== verification/Transaction_Machine.thy ===== *)
theory Transaction_Machine
  imports Transaction
begin

text \<open>
  The life of a DeltaTransaction as DuckDB drives it, as a step relation: statements read snapshots,
  register application versions and append files; a statement that throws invalidates the transaction,
  after which only a rollback is possible; a commit or a rollback ends it. The transaction manager
  (delta\_transaction\_manager.cpp) owns the running transactions.
\<close>

section \<open>Steps\<close>

record ('k, 'f, 'w, 'x) machine =
  m_txn :: "('k, 'f, 'x) DeltaTransaction"
  m_world :: 'w
  m_failed :: bool
  m_ended :: bool

definition started_machine :: "('v, 'f) DeltaCatalog \<Rightarrow> 'w \<Rightarrow> ('k, 'f, 'w, 'x) machine" where
  "started_machine catalog w = \<lparr>m_txn = DT_Start (new_DeltaTransaction catalog), m_world = w,
     m_failed = False, m_ended = False\<rparr>"

definition thrown :: "'e + 'a \<Rightarrow> bool" where
  "thrown r = (case r of Inl _ \<Rightarrow> True | Inr _ \<Rightarrow> False)"

text \<open>\<open>environment\<close>: data files are written and other writers commit while the transaction runs. An insert
  looks its table up before it appends, so appends happen on a table entry.\<close>

inductive txn_step ::
  "('k, 'f, 'b, 'c, 'd, 'w, 'x) transaction_kernel \<Rightarrow> 'v value_ops \<Rightarrow> ('k, 'f, 'w, 'x) machine \<Rightarrow> ('k, 'f, 'w, 'x) machine \<Rightarrow> bool"
  for tk vo where
  environment: "txn_step tk vo m (m\<lparr>m_world := w\<rparr>)"
| read: "\<not> m_failed m \<Longrightarrow> \<not> m_ended m \<Longrightarrow> InitializeTableEntry create (m_txn m) version = Inr (e, txn) \<Longrightarrow>
    txn_step tk vo m (m\<lparr>m_txn := txn\<rparr>)"
| resolve: "\<not> m_failed m \<Longrightarrow> \<not> m_ended m \<Longrightarrow> SetTimestampVersion vo (m_txn m) timestamp version = Inr (v, txn) \<Longrightarrow>
    txn_step tk vo m (m\<lparr>m_txn := txn\<rparr>)"
| set_version: "\<not> m_failed m \<Longrightarrow> \<not> m_ended m \<Longrightarrow>
    txn_step tk vo m (m\<lparr>m_txn := SetTransactionVersion (m_txn m) app_id new_version expected\<rparr>)"
| append: "\<not> m_failed m \<Longrightarrow> \<not> m_ended m \<Longrightarrow> dt_table_entry (m_txn m) \<noteq> None \<Longrightarrow>
    DT_Append tk (m_world m) (m_txn m) files = (r, txn) \<Longrightarrow>
    txn_step tk vo m (m\<lparr>m_txn := txn, m_failed := thrown r\<rparr>)"
| fail: "\<not> m_ended m \<Longrightarrow> txn_step tk vo m (m\<lparr>m_failed := True\<rparr>)"
| commit: "\<not> m_failed m \<Longrightarrow> \<not> m_ended m \<Longrightarrow> DT_Commit tk junk (m_world m) (m_txn m) = (r, txn, w) \<Longrightarrow>
    txn_step tk vo m (m\<lparr>m_txn := txn, m_world := w, m_failed := thrown r, m_ended := True\<rparr>)"
| rollback: "\<not> m_ended m \<Longrightarrow> DT_Rollback tk (m_world m) (m_txn m) = (r, txn, w) \<Longrightarrow>
    txn_step tk vo m (m\<lparr>m_txn := txn, m_world := w, m_failed := thrown r, m_ended := True\<rparr>)"

inductive_cases txn_stepE: "txn_step tk vo m m'"

section \<open>The invariant\<close>

definition may_write :: "('k, 'f, 'x) DeltaTransaction \<Rightarrow> bool" where
  "may_write txn \<longleftrightarrow> dt_access_mode txn \<noteq> READ_ONLY \<and>
    (\<exists>e. dt_table_entry txn = Some e \<and> (dt_parent_commit txn \<or> \<not> IsCatalogManaged (te_kernel e)))"

definition txn_inv :: "('k, 'f, 'w, 'x) machine \<Rightarrow> bool" where
  "txn_inv m \<longleftrightarrow> (let txn = m_txn m in
     (dt_state txn = TRANSACTION_NOT_YET_STARTED \<longrightarrow>
        dt_outstanding_appends txn = [] \<and> dt_kernel_transaction txn = None) \<and>
     (dt_kernel_transaction txn \<noteq> None \<longrightarrow> may_write txn) \<and>
     (dt_outstanding_appends txn \<noteq> [] \<longrightarrow> may_write txn) \<and>
     (dt_state txn = TRANSACTION_STARTED \<and> \<not> m_failed m \<longrightarrow> dt_kernel_transaction txn \<noteq> None) \<and>
     (dt_state txn = TRANSACTION_FINISHED \<longrightarrow> m_ended m))"

text \<open>What never changes once it is there: the snapshots the transaction reads and the versions its
  timestamps resolved to, and what the catalog fixed at the start.\<close>

definition stable :: "('k, 'f, 'w, 'x) machine \<Rightarrow> ('k, 'f, 'w, 'x) machine \<Rightarrow> bool" where
  "stable m m' \<longleftrightarrow>
     (\<forall>e. dt_table_entry (m_txn m) = Some e \<longrightarrow> dt_table_entry (m_txn m') = Some e) \<and>
     (\<forall>v e. dt_versioned_entries (m_txn m) v = Some e \<longrightarrow> dt_versioned_entries (m_txn m') v = Some e) \<and>
     (\<forall>t v. dt_timestamp_versions (m_txn m) t = Some v \<longrightarrow> dt_timestamp_versions (m_txn m') t = Some v) \<and>
     dt_access_mode (m_txn m') = dt_access_mode (m_txn m) \<and>
     dt_parent_commit (m_txn m') = dt_parent_commit (m_txn m)"

lemma InitializeTableEntry_effect:
  assumes "InitializeTableEntry create txn version = Inr (e, txn')"
  shows "\<exists>te ve. txn' = txn\<lparr>dt_table_entry := te, dt_versioned_entries := ve\<rparr> \<and>
    (dt_table_entry txn = None \<or> te = dt_table_entry txn) \<and> (dt_versioned_entries txn \<subseteq>\<^sub>m ve)"
proof -
  have "txn' = txn\<lparr>dt_table_entry := dt_table_entry txn', dt_versioned_entries := dt_versioned_entries txn'\<rparr> \<and>
    (dt_table_entry txn = None \<or> dt_table_entry txn' = dt_table_entry txn) \<and>
    dt_versioned_entries txn \<subseteq>\<^sub>m dt_versioned_entries txn'"
    using assms
    by (auto simp: InitializeTableEntry_def bindr_eq_Inr map_le_def split: if_splits option.splits)
  then show ?thesis by blast
qed

lemma SetTimestampVersion_effect:
  assumes "SetTimestampVersion vo txn timestamp version = Inr (v, txn')"
  shows "\<exists>ts. txn' = txn\<lparr>dt_timestamp_versions := ts\<rparr> \<and> dt_timestamp_versions txn \<subseteq>\<^sub>m ts"
proof -
  have "txn' = txn\<lparr>dt_timestamp_versions := dt_timestamp_versions txn'\<rparr> \<and>
    dt_timestamp_versions txn \<subseteq>\<^sub>m dt_timestamp_versions txn'"
    using assms by (auto simp: SetTimestampVersion_def bindr_eq_Inr map_le_def split: option.splits)
  then show ?thesis by blast
qed

lemma SetTransactionVersion_effect:
  "\<exists>apps. SetTransactionVersion txn app_id new_version expected = txn\<lparr>dt_app_versions := apps\<rparr>"
proof (cases "map_of (dt_app_versions txn) app_id = None")
  case False
  then have "SetTransactionVersion txn app_id new_version expected = txn\<lparr>dt_app_versions := dt_app_versions txn\<rparr>"
    by (simp add: SetTransactionVersion_def)
  then show ?thesis by blast
qed (auto simp: SetTransactionVersion_def)

text \<open>The fields that no writing or ending operation touches.\<close>

definition same_snapshots :: "('k, 'f, 'x) DeltaTransaction \<Rightarrow> ('k, 'f, 'x) DeltaTransaction \<Rightarrow> bool" where
  "same_snapshots txn txn' \<longleftrightarrow> dt_table_entry txn' = dt_table_entry txn \<and>
     dt_versioned_entries txn' = dt_versioned_entries txn \<and>
     dt_timestamp_versions txn' = dt_timestamp_versions txn \<and> dt_access_mode txn' = dt_access_mode txn \<and>
     dt_parent_commit txn' = dt_parent_commit txn"

lemma same_snapshots_may_write: "same_snapshots txn txn' \<Longrightarrow> may_write txn' = may_write txn"
  by (auto simp: same_snapshots_def may_write_def)

lemma InitializeTransaction_effect:
  assumes "InitializeTransaction tk txn = (r, txn')" "dt_kernel_transaction txn = None"
  shows "same_snapshots txn txn' \<and> dt_outstanding_appends txn' = dt_outstanding_appends txn \<and>
    (dt_kernel_transaction txn' \<noteq> None \<longleftrightarrow> r = Inr ()) \<and> (r = Inr () \<longrightarrow> may_write txn') \<and>
    dt_state txn' \<in> {dt_state txn, TRANSACTION_STARTED}"
  using assms
  by (auto simp: InitializeTransaction_def Let_def same_snapshots_def may_write_def build_kernel_transaction_def
      bindr_throw_if split: if_splits option.splits sum.splits)

lemma touch_files_names: "touch_files tk w files = Inr new_files \<Longrightarrow> map df_file_name new_files = map df_file_name files"
  unfolding touch_files_def by (induction files arbitrary: new_files) (auto simp: bindr_eq_Inr)

lemma DT_Append_stages:
  assumes "DT_Append tk w txn files = (Inr (), txn1)" and "files \<noteq> []"
  obtains entry k new_files d where "dt_table_entry txn1 = Some entry" and "map df_file_name new_files = map df_file_name files"
    and "tk_engine_data tk (te_path entry) new_files = Inr d" and "dt_kernel_transaction txn1 = Some (tk_add_files tk k d)"
    and "\<exists>old. dt_outstanding_appends txn1 = old @ new_files"
  using assms touch_files_names [of tk w files]
  by (auto simp: DT_Append_def Let_def split: if_splits option.splits sum.splits prod.splits)

lemma DT_Append_started:
  assumes "DT_Append tk w txn files = (r, txn')" "dt_state txn \<noteq> TRANSACTION_NOT_YET_STARTED"
    and "dt_kernel_transaction txn \<noteq> None"
  shows "same_snapshots txn txn' \<and> dt_state txn' = dt_state txn \<and> dt_kernel_transaction txn' \<noteq> None"
  using assms
  by (auto simp: DT_Append_def Let_def same_snapshots_def split: if_splits option.splits sum.splits prod.splits)

lemma DT_Append_not_started:
  assumes "DT_Append tk w txn files = (r, txn')" "dt_state txn = TRANSACTION_NOT_YET_STARTED"
    and "dt_kernel_transaction txn = None" "dt_outstanding_appends txn = []"
  shows "same_snapshots txn txn' \<and> dt_state txn' \<noteq> TRANSACTION_FINISHED \<and>
    (dt_kernel_transaction txn' \<noteq> None \<longrightarrow> may_write txn') \<and>
    (dt_outstanding_appends txn' \<noteq> [] \<longrightarrow> may_write txn') \<and>
    (dt_state txn' = TRANSACTION_NOT_YET_STARTED \<longrightarrow> dt_outstanding_appends txn' = [] \<and> dt_kernel_transaction txn' = None) \<and>
    (\<not> thrown r \<longrightarrow> dt_kernel_transaction txn' \<noteq> None)"
proof -
  obtain ri txn1 where i: "InitializeTransaction tk txn = (ri, txn1)" by fastforce
  note eff = InitializeTransaction_effect [OF i assms(3)]
  show ?thesis
  proof (cases ri)
    case (Inl e)
    then have "r = Inl e" "txn' = txn1" using assms i by (auto simp: DT_Append_def)
    then show ?thesis using eff Inl assms by (auto simp: thrown_def)
  next
    case (Inr u)
    then have k: "same_snapshots txn txn1" "may_write txn1" "dt_kernel_transaction txn1 \<noteq> None"
      "dt_state txn1 = TRANSACTION_STARTED"
      using eff i by (auto simp: InitializeTransaction_def Let_def split: if_splits option.splits sum.splits)
    have "DT_Append tk w txn1 files = (r, txn')"
      using assms(1,2) i Inr k(4) by (simp add: DT_Append_def)
    from DT_Append_started [OF this] k
    have "same_snapshots txn1 txn'" "dt_state txn' = TRANSACTION_STARTED" "dt_kernel_transaction txn' \<noteq> None"
      by auto
    then show ?thesis using k same_snapshots_may_write [of txn1 txn']
      by (auto simp: same_snapshots_def)
  qed
qed

lemma kernel_commit_effect:
  "kernel_commit tk w txn k = (r, txn', w') \<Longrightarrow>
     same_snapshots txn txn' \<and> dt_kernel_transaction txn' = None \<and>
     dt_outstanding_appends txn' = dt_outstanding_appends txn \<and> dt_state txn' = dt_state txn"
  by (auto simp: kernel_commit_def Let_def same_snapshots_def split: prod.splits sum.splits)

lemma DT_Commit_effect:
  assumes "DT_Commit tk junk w txn = (r, txn', w')"
  shows "same_snapshots txn txn' \<and> dt_outstanding_appends txn' = dt_outstanding_appends txn \<and>
    (dt_kernel_transaction txn = None \<longrightarrow> dt_kernel_transaction txn' = None) \<and>
    (dt_state txn' = TRANSACTION_NOT_YET_STARTED \<longrightarrow> txn' = txn)"
proof (cases "dt_state txn = TRANSACTION_STARTED \<and> dt_outstanding_appends txn \<noteq> []")
  case True
  show ?thesis
  proof (cases "\<exists>e k. dt_table_entry txn = Some e \<and> dt_kernel_transaction txn = Some k")
    case False
    then show ?thesis using True assms
      by (auto simp: DT_Commit_def Let_def same_snapshots_def split: option.splits)
  next
    case ek: True
    then obtain e k where ek: "dt_table_entry txn = Some e" "dt_kernel_transaction txn = Some k" by blast
    obtain rr k1 where reg: "register_app_versions tk junk e k (dt_app_versions txn) = (rr, k1)" by fastforce
    show ?thesis
    proof (cases rr)
      case (Inl err)
      then show ?thesis using True ek reg assms by (auto simp: DT_Commit_def Let_def same_snapshots_def)
    next
      case (Inr u)
      then obtain k2 where "k1 = Some k2" using register_app_versions_some reg by (metis not_None_eq)
      then have "kernel_commit tk w (txn\<lparr>dt_state := TRANSACTION_FINISHED\<rparr>) k2 = (r, txn', w')"
        using True ek reg Inr assms by (simp add: DT_Commit_def Let_def)
      from kernel_commit_effect [OF this] show ?thesis using ek by (auto simp: same_snapshots_def)
    qed
  qed
next
  case False
  then show ?thesis using assms by (auto simp: DT_Commit_def Let_def same_snapshots_def split: if_splits)
qed

lemma DT_Rollback_effect:
  assumes "DT_Rollback tk w txn = (r, txn', w')"
  shows "same_snapshots txn txn' \<and> dt_outstanding_appends txn' \<in> {dt_outstanding_appends txn, []} \<and>
    dt_kernel_transaction txn' = dt_kernel_transaction txn \<and>
    (dt_state txn' = TRANSACTION_NOT_YET_STARTED \<longrightarrow> txn' = txn)"
  using assms
  by (auto simp: DT_Rollback_def CleanUpFiles_def same_snapshots_def split: if_splits prod.splits sum.splits)

lemma ended_inv:
  assumes "txn_inv m" "same_snapshots (m_txn m) txn'"
    and "dt_outstanding_appends txn' \<in> {dt_outstanding_appends (m_txn m), []}"
    and "dt_kernel_transaction (m_txn m) = None \<longrightarrow> dt_kernel_transaction txn' = None"
    and "dt_state txn' = TRANSACTION_NOT_YET_STARTED \<longrightarrow> txn' = m_txn m"
    and "dt_state txn' \<noteq> TRANSACTION_STARTED"
  shows "txn_inv (m\<lparr>m_txn := txn', m_world := w, m_failed := b, m_ended := True\<rparr>)"
  using assms same_snapshots_may_write [OF assms(2)] by (auto simp: txn_inv_def Let_def)

lemma append_inv:
  assumes "txn_inv m" "\<not> m_failed m" "\<not> m_ended m" "DT_Append tk w (m_txn m) files = (r, txn')"
  shows "txn_inv (m\<lparr>m_txn := txn', m_failed := thrown r\<rparr>) \<and> same_snapshots (m_txn m) txn'"
proof (cases "dt_state (m_txn m) = TRANSACTION_NOT_YET_STARTED")
  case True
  then show ?thesis
    using DT_Append_not_started [OF assms(4) True] assms(1) by (auto simp: txn_inv_def Let_def)
next
  case False
  then have st: "dt_state (m_txn m) = TRANSACTION_STARTED" "dt_kernel_transaction (m_txn m) \<noteq> None"
    using assms by (cases "dt_state (m_txn m)"; auto simp: txn_inv_def Let_def)+
  note eff = DT_Append_started [OF assms(4) False st(2)]
  then have "may_write txn'" using assms(1) st(2) same_snapshots_may_write by (auto simp: txn_inv_def Let_def)
  then show ?thesis using eff st by (auto simp: txn_inv_def Let_def)
qed

lemma entry_inv:
  assumes "txn_inv m" and "txn = (m_txn m)\<lparr>dt_table_entry := te, dt_versioned_entries := ve\<rparr>"
    and "dt_table_entry (m_txn m) = None \<or> te = dt_table_entry (m_txn m)"
  shows "txn_inv (m\<lparr>m_txn := txn\<rparr>)"
  using assms(3,1,2) by (elim disjE) (simp_all add: txn_inv_def Let_def may_write_def, force)

lemma txn_step_inv: "txn_inv m \<Longrightarrow> txn_step tk vo m m' \<Longrightarrow> txn_inv m'"
proof (erule txn_stepE, goal_cases)
  case (2 create version e txn)
  then obtain te ve where "txn = (m_txn m)\<lparr>dt_table_entry := te, dt_versioned_entries := ve\<rparr>"
    "dt_table_entry (m_txn m) = None \<or> te = dt_table_entry (m_txn m)"
    using InitializeTableEntry_effect by blast
  then show ?case using 2(1,2) by (simp add: entry_inv)
next
  case (3 timestamp version v txn)
  then obtain ts where "txn = (m_txn m)\<lparr>dt_timestamp_versions := ts\<rparr>"
    using SetTimestampVersion_effect by blast
  then show ?case using 3(1,2) by (auto simp: txn_inv_def Let_def may_write_def)
next
  case (4 app_id new_version expected)
  then obtain apps where "SetTransactionVersion (m_txn m) app_id new_version expected = (m_txn m)\<lparr>dt_app_versions := apps\<rparr>"
    using SetTransactionVersion_effect by blast
  then show ?case using 4(1,2) by (auto simp: txn_inv_def Let_def may_write_def)
next
  case (5 files r txn)
  then show ?case using append_inv [of m tk "m_world m"] by blast
next
  case (7 junk r txn w)
  have "txn_inv (m\<lparr>m_txn := txn, m_world := w, m_failed := thrown r, m_ended := True\<rparr>)"
    using DT_Commit_effect [OF 7(5)] DT_Commit_finished [OF 7(5)] by (intro ended_inv [OF 7(1)]) simp_all
  then show ?case using 7(2) by simp
next
  case (8 r txn w)
  have "txn_inv (m\<lparr>m_txn := txn, m_world := w, m_failed := thrown r, m_ended := True\<rparr>)"
    using DT_Rollback_effect [OF 8(4)] DT_Rollback_finished [OF 8(4)] by (intro ended_inv [OF 8(1)]) simp_all
  then show ?case using 8(2) by simp
qed (auto simp: txn_inv_def Let_def)

lemma same_snapshots_stable: "same_snapshots (m_txn m) (m_txn m') \<Longrightarrow> stable m m'"
  by (auto simp: same_snapshots_def stable_def)

lemma txn_step_stable: "txn_inv m \<Longrightarrow> txn_step tk vo m m' \<Longrightarrow> stable m m'"
proof (erule txn_stepE, goal_cases)
  case (2 create version e txn)
  then show ?case using InitializeTableEntry_effect [OF 2(5)] by (auto simp: stable_def map_le_def dom_def)
next
  case (3 timestamp version v txn)
  then show ?case using SetTimestampVersion_effect [OF 3(5)] by (auto simp: stable_def map_le_def dom_def)
next
  case (4 app_id new_version expected)
  then show ?case
    using SetTransactionVersion_effect [of "m_txn m" app_id new_version expected] by (auto simp: stable_def)
next
  case (5 files r txn)
  then show ?case using append_inv [of m tk "m_world m"] by (intro same_snapshots_stable) fastforce
next
  case (7 junk r txn w)
  then show ?case using DT_Commit_effect [OF 7(5)] by (intro same_snapshots_stable) auto
next
  case (8 r txn w)
  then show ?case using DT_Rollback_effect [OF 8(4)] by (intro same_snapshots_stable) auto
qed (auto simp: stable_def)

lemma started_machine_inv: "txn_inv (started_machine catalog w)"
  by (simp add: started_machine_def DT_Start_def new_DeltaTransaction_def txn_inv_def)

interpretation txn_system: transition_system
  "txn_step tk vo" "\<lambda>m. m = started_machine catalog w" txn_inv stable for tk vo catalog w
proof (unfold_locales, goal_cases)
  case (1 m)
  then show ?case by (simp add: started_machine_inv)
next
  case (2 s t)
  then show ?case by (rule txn_step_inv)
next
  case (3 s)
  then show ?case by (simp add: stable_def)
next
  case (4 s t u)
  then show ?case by (auto simp: stable_def)
next
  case (5 s t)
  then show ?case by (rule txn_step_stable)
qed

section \<open>The transaction manager\<close>

record ('k, 'f, 'x) DeltaTransactionManager =
  mgr_transactions :: "nat \<Rightarrow> ('k, 'f, 'x) DeltaTransaction option"
  mgr_next :: nat

definition StartTransaction ::
  "('v, 'f) DeltaCatalog \<Rightarrow> ('k, 'f, 'x) DeltaTransactionManager \<Rightarrow> nat \<times> ('k, 'f, 'x) DeltaTransactionManager" where
  "StartTransaction catalog mgr =
    (let txn = DT_Start (new_DeltaTransaction catalog)
     in (mgr_next mgr, mgr\<lparr>mgr_transactions := (mgr_transactions mgr)(mgr_next mgr \<mapsto> txn),
           mgr_next := mgr_next mgr + 1\<rparr>))"

definition HandleConflict ::
  "('k, 'f, 'b, 'c, 'd, 'w, 'x) transaction_kernel \<Rightarrow> 'w \<Rightarrow> ('k, 'f, 'x) DeltaTransaction \<Rightarrow> error
     \<Rightarrow> error \<times> ('k, 'f, 'x) DeltaTransaction \<times> 'w" where
  "HandleConflict tk w txn original =
    (case CleanUpFiles tk w txn of
       (Inr _, txn1, w1) \<Rightarrow> (original, txn1, w1)
     | (Inl e, txn1, w1) \<Rightarrow>
         (Err (err_kind original) ''Multiple exceptions happened'' [err_message original, err_message e], txn1, w1))"

text \<open>\<open>Some e\<close> is the error a failed commit reports.\<close>

definition CommitTransaction ::
  "('k, 'f, 'b, 'c, 'd, 'w, 'x) transaction_kernel \<Rightarrow> int option \<Rightarrow> 'w \<Rightarrow> ('k, 'f, 'x) DeltaTransactionManager \<Rightarrow> nat
     \<Rightarrow> (error option \<times> ('k, 'f, 'x) DeltaTransactionManager \<times> 'w) option" where
  "CommitTransaction tk junk w mgr i =
    (case mgr_transactions mgr i of
       None \<Rightarrow> None
     | Some txn \<Rightarrow> Some
        (case DT_Commit tk junk w txn of
           (Inr _, txn1, w1) \<Rightarrow> (None, mgr\<lparr>mgr_transactions := (mgr_transactions mgr)(i := None)\<rparr>, w1)
         | (Inl e, txn1, w1) \<Rightarrow>
             (case HandleConflict tk w1 txn1 e of
                (e', txn2, w2) \<Rightarrow> (Some e', mgr\<lparr>mgr_transactions := (mgr_transactions mgr)(i \<mapsto> txn2)\<rparr>, w2))))"

definition RollbackTransaction ::
  "('k, 'f, 'b, 'c, 'd, 'w, 'x) transaction_kernel \<Rightarrow> 'w \<Rightarrow> ('k, 'f, 'x) DeltaTransactionManager \<Rightarrow> nat
     \<Rightarrow> (unit throws \<times> ('k, 'f, 'x) DeltaTransactionManager \<times> 'w) option" where
  "RollbackTransaction tk w mgr i =
    (case mgr_transactions mgr i of
       None \<Rightarrow> None
     | Some txn \<Rightarrow> Some
        (case DT_Rollback tk w txn of
           (Inr _, txn1, w1) \<Rightarrow> (Inr (), mgr\<lparr>mgr_transactions := (mgr_transactions mgr)(i := None)\<rparr>, w1)
         | (Inl e, txn1, w1) \<Rightarrow> (Inl e, mgr\<lparr>mgr_transactions := (mgr_transactions mgr)(i \<mapsto> txn1)\<rparr>, w1)))"

text \<open>Checkpoint: the snapshot of the catalog's version, initialised if need be, handed to the kernel.\<close>

definition Checkpoint ::
  "(idx_t \<Rightarrow> 'x table_entry_scheme throws) \<Rightarrow> ('x table_entry_scheme \<Rightarrow> string option + unit) \<Rightarrow> ('v, 'f) DeltaCatalog
     \<Rightarrow> ('k, 'f, 'x) DeltaTransaction \<Rightarrow> ('k, 'f, 'x) DeltaTransaction throws" where
  "Checkpoint create checkpoint_snapshot catalog txn =
    bindr (InitializeTableEntry create txn (use_specific_version catalog)) (\<lambda>(entry, txn1).
    bindr (Unpack (checkpoint_snapshot entry)) (\<lambda>_. Inr txn1))"

section \<open>Properties\<close>

text \<open>A small instance for the witnesses: a kernel that accepts everything and counts the staged files, a file
  system that is the list of its files.\<close>

definition example_tk :: "(nat, unit, unit, unit, nat, string list, unit) transaction_kernel" where
  "example_tk = \<lparr>tk_new_builder = (\<lambda>_. Inr ()), tk_committer = (\<lambda>_. Inr ()), tk_build = (\<lambda>_. Inr 0),
     tk_build_with_committer = (\<lambda>_ _. Inr 0), tk_add_files = (+), tk_app_id_version = (\<lambda>_ _. Inr None),
     tk_with_transaction_id = (\<lambda>k _ _. Inr k), tk_staged_commit = (\<lambda>_ _. None),
     tk_commit = (\<lambda>_ w _. (Inr (), w)), tk_last_modified = (\<lambda>_ _. Inr 0),
     tk_try_remove = (\<lambda>w f. (Inr (), removeAll f w)), tk_engine_data = (\<lambda>_ fs. Inr (length fs)),
     tk_invoke_commit = (\<lambda>_ _. Inr True), tk_client_alive = True\<rparr>"

definition example_entry :: table_entry where
  "example_entry = \<lparr>te_path = ''/t/'', te_version = 3, te_kernel = \<lparr>configuration = [],
     protocol_min_reader = 1, protocol_features = []\<rparr>, te_columns = []\<rparr>"

definition example_start :: "(nat, unit, string list, unit) machine" where
  "example_start = started_machine (new_DeltaCatalog ''t'' ''/t'' READ_WRITE :: (nat, unit) DeltaCatalog) [''/t/p=a:b/f 1.parquet'']"

definition example_read :: "(nat, unit, string list, unit) machine" where
  "example_read = example_start\<lparr>m_txn := (m_txn example_start)\<lparr>dt_table_entry := Some example_entry\<rparr>\<rparr>"

definition example_appended :: "(nat, unit, string list, unit) machine" where
  "example_appended = example_read\<lparr>m_txn := (m_txn example_read)\<lparr>dt_current_context := True,
     dt_state := TRANSACTION_STARTED, dt_kernel_transaction := Some 1, dt_write_entry := Some example_entry,
     dt_outstanding_appends := [example_file]\<rparr>\<rparr>"

lemmas example_machine_defs = example_start_def example_read_def example_appended_def example_entry_def
  example_file_def example_tk_def started_machine_def DT_Start_def new_DeltaTransaction_def new_DeltaCatalog_def

lemma example_read_step: "txn_step example_tk nat_value_ops example_start example_read"
proof -
  have "InitializeTableEntry (\<lambda>_. Inr example_entry) (m_txn example_start) INVALID_INDEX =
      Inr (example_entry, (m_txn example_start)\<lparr>dt_table_entry := Some example_entry\<rparr>)"
    by (simp add: InitializeTableEntry_def example_machine_defs)
  from txn_step.read [OF _ _ this] show ?thesis
    unfolding example_read_def by (simp add: example_start_def started_machine_def)
qed

lemma example_append_step: "txn_step example_tk nat_value_ops example_read example_appended"
proof -
  have "DT_Append example_tk (m_world example_read) (m_txn example_read) [example_file] = (Inr (), m_txn example_appended)"
    by (simp add: DT_Append_def InitializeTransaction_def build_kernel_transaction_def touch_files_def Unpack_def
        IsCatalogManaged_def HasWriterFeature_def ReadProtocol_def example_machine_defs)
  from txn_step.append [OF _ _ _ this] show ?thesis
    by (simp add: thrown_def example_machine_defs)
qed

lemma example_reachable:
  "(txn_step example_tk nat_value_ops)\<^sup>*\<^sup>* example_start example_read"
  "(txn_step example_tk nat_value_ops)\<^sup>*\<^sup>* example_read example_appended"
  "(txn_step example_tk nat_value_ops)\<^sup>*\<^sup>* example_start example_appended"
  using example_read_step example_append_step by (auto intro: rtranclp_trans)

text \<open>C13. Nothing is ever staged that may not be written: in every reachable state of a transaction, a kernel
  transaction or a pending file exists only if the table was attached for writing and, unless commits go
  through the parent catalog, the table is not catalog-managed.\<close>

theorem staged_only_when_writable:
  assumes "(txn_step tk vo)\<^sup>*\<^sup>* (started_machine catalog w) m"
    and "dt_kernel_transaction (m_txn m) \<noteq> None \<or> dt_outstanding_appends (m_txn m) \<noteq> []"
  shows "dt_access_mode (m_txn m) \<noteq> READ_ONLY \<and>
    (\<exists>e. dt_table_entry (m_txn m) = Some e \<and>
       (dt_parent_commit (m_txn m) \<or> \<not> IsCatalogManaged (te_kernel e)))"
proof -
  have "txn_inv m" by (rule txn_system.reachable_inv [OF refl assms(1)])
  then show ?thesis using assms(2) by (auto simp: txn_inv_def Let_def may_write_def)
qed

theorem staged_only_when_writable_witness:
  "dt_access_mode (m_txn example_appended) \<noteq> READ_ONLY \<and>
    (\<exists>e. dt_table_entry (m_txn example_appended) = Some e \<and>
       (dt_parent_commit (m_txn example_appended) \<or> \<not> IsCatalogManaged (te_kernel e)))"
  using staged_only_when_writable [OF example_reachable(3) [unfolded example_start_def]]
  by (simp add: example_appended_def)

text \<open>C18. A transaction reads one snapshot: once it has read the table, or a version of it, or resolved a
  timestamp, every later state of the transaction has the same entry, the same entry for that version
  and the same version for that timestamp, whatever is committed meanwhile.\<close>

theorem snapshots_are_stable:
  assumes "(txn_step tk vo)\<^sup>*\<^sup>* (started_machine catalog w) m" and "(txn_step tk vo)\<^sup>*\<^sup>* m m'"
  shows "(dt_table_entry (m_txn m) = Some e \<longrightarrow> dt_table_entry (m_txn m') = Some e) \<and>
    (GetTableEntry (m_txn m) version = Some e' \<and> dt_versioned_entries (m_txn m) version = Some e' \<longrightarrow>
       GetTableEntry (m_txn m') version = GetTableEntry (m_txn m) version) \<and>
    (dt_timestamp_versions (m_txn m) ms = Some v \<longrightarrow> dt_timestamp_versions (m_txn m') ms = Some v)"
proof -
  have "stable m m'" by (rule txn_system.reachable_before [OF refl assms])
  then show ?thesis by (auto simp: stable_def GetTableEntry_def split: if_splits)
qed

theorem snapshots_are_stable_witness:
  "dt_table_entry (m_txn example_appended) = Some example_entry"
  using snapshots_are_stable [OF example_reachable(1) [unfolded example_start_def] example_reachable(2), of example_entry]
  by (simp add: example_read_def)

text \<open>C19. A running transaction that has not failed never touches a missing kernel transaction or table
  entry: its appends and its commit can fail, but not with an access to an object that is not there.\<close>

theorem running_transaction_has_its_handles:
  assumes "(txn_step tk vo)\<^sup>*\<^sup>* (started_machine catalog w) m" and "\<not> m_failed m" "\<not> m_ended m"
    and "dt_state (m_txn m) = TRANSACTION_STARTED"
  shows "\<exists>e k. dt_table_entry (m_txn m) = Some e \<and> dt_kernel_transaction (m_txn m) = Some k"
proof -
  have "txn_inv m" by (rule txn_system.reachable_inv [OF refl assms(1)])
  then show ?thesis using assms(2-) by (auto simp: txn_inv_def Let_def may_write_def)
qed

theorem running_transaction_has_its_handles_witness:
  "\<exists>e k. dt_table_entry (m_txn example_appended) = Some e \<and> dt_kernel_transaction (m_txn example_appended) = Some k"
  using running_transaction_has_its_handles [OF example_reachable(3) [unfolded example_start_def]]
  by (simp add: example_machine_defs)

text \<open>C20. A transaction ends once: after a commit, successful or not, or a rollback, further commits and
  rollbacks do nothing at all, neither to the transaction nor to the files and the log.\<close>

theorem ending_is_final:
  "(let (r, txn', w') = DT_Commit tk junk w txn
    in DT_Commit tk' junk' w'' txn' = (Inr (), txn', w'') \<and> DT_Rollback tk' w'' txn' = (Inr (), txn', w'')) \<and>
   (let (r, txn', w') = DT_Rollback tk w txn
    in DT_Commit tk' junk' w'' txn' = (Inr (), txn', w'') \<and> DT_Rollback tk' w'' txn' = (Inr (), txn', w''))"
  using DT_Commit_finished [of tk junk w txn] DT_Rollback_finished [of tk w txn] ended_is_final
  by (auto split: prod.splits)

text \<open>An append is refused when its transaction has not begun and cannot begin. The files of a refused append are not recorded; those of
  every other one are, whether it succeeds or not.\<close>

definition refused :: "('k, 'f, 'b, 'c, 'd, 'w, 'x) transaction_kernel \<Rightarrow> ('k, 'f, 'x) DeltaTransaction \<Rightarrow> bool" where
  "refused tk txn \<longleftrightarrow> dt_state txn = TRANSACTION_NOT_YET_STARTED \<and> (case fst (InitializeTransaction tk txn) of Inl e \<Rightarrow> True | Inr _ \<Rightarrow> False)"

lemma InitializeTransaction_pending:
  "InitializeTransaction tk txn = (r, txn1) \<Longrightarrow> dt_outstanding_appends txn1 = dt_outstanding_appends txn \<and>
     (r = Inr () \<longrightarrow> dt_state txn1 = TRANSACTION_STARTED)"
  by (auto simp: InitializeTransaction_def Let_def split: if_splits option.splits sum.splits)

lemma DT_Append_refused:
  assumes "refused tk txn"
  shows "DT_Append tk w txn files = InitializeTransaction tk txn"
  using assms by (cases "InitializeTransaction tk txn") (auto simp: refused_def DT_Append_def split: sum.splits)

lemma DT_Append_pending:
  assumes "DT_Append tk w txn files = (r, txn1)" and "dt_state txn \<noteq> TRANSACTION_NOT_YET_STARTED"
  shows "dt_state txn1 = dt_state txn \<and>
    map df_file_name (dt_outstanding_appends txn1) = map df_file_name (dt_outstanding_appends txn @ files)"
  using assms touch_files_names [of tk w files]
  by (cases "touch_files tk w files") (auto simp: DT_Append_def Let_def split: if_splits option.splits sum.splits)

lemma DT_Append_accepted:
  assumes "DT_Append tk w txn files = (r, txn1)" and "\<not> refused tk txn" and "dt_state txn \<noteq> TRANSACTION_FINISHED"
  shows "dt_state txn1 = TRANSACTION_STARTED \<and>
    map df_file_name (dt_outstanding_appends txn1) = map df_file_name (dt_outstanding_appends txn @ files)"
proof (cases "dt_state txn = TRANSACTION_NOT_YET_STARTED")
  case True
  obtain ri txn2 where i: "InitializeTransaction tk txn = (ri, txn2)" by fastforce
  then have "ri = Inr ()" using assms(2) True by (auto simp: refused_def split: sum.splits)
  note init = InitializeTransaction_pending [OF i]
  have "DT_Append tk w txn2 files = (r, txn1)"
    using assms(1) True i init \<open>ri = Inr ()\<close> by (simp add: DT_Append_def)
  then show ?thesis using DT_Append_pending [of tk w txn2 files r txn1] init \<open>ri = Inr ()\<close> by simp
next
  case False
  then show ?thesis using DT_Append_pending [OF assms(1)] assms(3) by (cases "dt_state txn") auto
qed

lemma rollback_pending:
  assumes "tk_client_alive tk" and "\<And>w f. fst (tk_try_remove tk w f) = Inr ()"
  shows "snd (snd (DT_Rollback tk w txn)) = (if dt_state txn = TRANSACTION_STARTED
     then fold (\<lambda>f w. snd (tk_try_remove tk w f)) (map df_file_name (dt_outstanding_appends txn)) w else w)"
  using assms remove_files_total [OF assms(2)] by (simp add: DT_Rollback_def CleanUpFiles_def)

lemma write_refusals:
  assumes "dt_state txn = TRANSACTION_NOT_YET_STARTED"
    and "dt_access_mode txn = READ_ONLY \<or>
      (\<exists>entry. dt_table_entry txn = Some entry \<and> IsCatalogManaged (te_kernel entry) \<and> \<not> dt_parent_commit txn)"
  shows "refused tk txn"
  using assms by (auto simp: refused_def InitializeTransaction_def Let_def build_kernel_transaction_def)

lemma register_app_versions_mismatch:
  "(app_id, new_version, expected) \<in> set apps \<Longrightarrow> tk_app_id_version tk entry app_id = Inr actual \<Longrightarrow>
     actual \<noteq> expected \<Longrightarrow> \<exists>e k'. register_app_versions tk junk entry k apps = (Inl e, k')"
  using register_app_versions_ok [of tk junk entry k apps]
  by (cases "register_app_versions tk junk entry k apps"; cases "fst (register_app_versions tk junk entry k apps)")
    (fastforce simp: app_version_matches_def)+

text \<open>C11. Idempotent writes: when an application registered a version with the version it expects to find,
  and the snapshot holds another one, the commit fails before the kernel commits anything, and the files
  and the log are as they were.\<close>

theorem app_version_conflict_stops_the_commit:
  assumes "dt_state txn = TRANSACTION_STARTED" "dt_outstanding_appends txn \<noteq> []"
    and "dt_table_entry txn = Some entry" "dt_kernel_transaction txn = Some k"
    and "(app_id, new_version, expected) \<in> set (dt_app_versions txn)"
    and "tk_app_id_version tk entry app_id = Inr actual" "actual \<noteq> expected"
  shows "\<exists>e txn'. DT_Commit tk junk w txn = (Inl e, txn', w)"
  using register_app_versions_mismatch [OF assms(5-7), of junk k] assms(1-4)
  by (auto simp: DT_Commit_def Let_def)

theorem app_version_conflict_stops_the_commit_witness:
  "\<exists>e txn'. DT_Commit example_tk None [] ((m_txn example_appended)\<lparr>dt_app_versions := [(''app'', 2, Some 1)]\<rparr>) =
     (Inl e, txn', [])"
  by (rule app_version_conflict_stops_the_commit [where entry = example_entry and k = 1 and app_id = "''app''"
        and new_version = 2 and expected = "Some 1" and actual = None])
    (simp_all add: example_machine_defs)



end
