(* ===== verification/Constraints.thy ===== *)
theory Constraints
  imports Column_Def
begin

text \<open>
  What a snapshot's columns demand of a write (delta\_multi\_file\_list.cpp, delta\_table\_entry.cpp): the widths
  of CHAR(n) and VARCHAR(n) columns, the NOT NULL constraints with their quoted paths, constraints inside
  arrays; the map of the constraints by top-level column of DeltaTableEntry; and the reader of quoted paths
  that the insert uses on them (delta\_insert.cpp). A path is written here and read there: the properties
  show that the reader inverts the writer.

  \<open>replace\<close> is StringUtil::Replace and \<open>try_cast\<close> the cast of a string to \<open>idx_t\<close>; a reader position inside
  the input is the rest of the input at that position.
\<close>

section \<open>Widths of strings\<close>

definition width_in_parens ::
  "string_util \<Rightarrow> (string \<Rightarrow> nat option) \<Rightarrow> string \<Rightarrow> string \<Rightarrow> nat option" where
  "width_in_parens su try_cast pre lower =
    (if last lower \<noteq> CHR '')'' then None
     else (let digits = substr lower (length pre) (length lower - length pre - 1)
           in if digits = [] then None
              else if \<not> list_all (CharacterIsDigit su) digits then None
              else (case try_cast digits of
                      None \<Rightarrow> None
                    | Some width \<Rightarrow> if width = 0 then None else Some width)))"

definition ParseCharVarcharWidth ::
  "string_util \<Rightarrow> (string \<Rightarrow> nat option) \<Rightarrow> string \<Rightarrow> nat option" where
  "ParseCharVarcharWidth su try_cast declared_type =
    (let lower = Lower su declared_type
     in if StartsWith su lower ''char('' then width_in_parens su try_cast ''char('' lower
        else if StartsWith su lower ''varchar('' then width_in_parens su try_cast ''varchar('' lower
        else None)"

fun HasNestedCharVarcharType :: "column_def list \<Rightarrow> bool" where
  "HasNestedCharVarcharType [] = False"
| "HasNestedCharVarcharType (ColumnDef n t cs nl cv p f i d # columns) =
    (cv \<noteq> [] \<or> HasNestedCharVarcharType cs \<or> HasNestedCharVarcharType columns)"

record DeltaStringWidthBound =
  column_index :: nat
  declared_type :: string
  max_length :: "nat option"

fun ExtractStringWidthBounds ::
  "string_util \<Rightarrow> (string \<Rightarrow> nat option) \<Rightarrow> nat \<Rightarrow> column_def list \<Rightarrow> DeltaStringWidthBound list" where
  "ExtractStringWidthBounds su try_cast col_id [] = []"
| "ExtractStringWidthBounds su try_cast col_id (c # cs) =
    (let nested = HasNestedCharVarcharType (cd_children c)
     in if cd_char_varchar_type c = [] \<and> \<not> nested then ExtractStringWidthBounds su try_cast (Suc col_id) cs
        else \<lparr>column_index = col_id, declared_type = cd_char_varchar_type c,
               max_length = (if \<not> nested \<and> cd_type c = VARCHAR
                             then ParseCharVarcharWidth su try_cast (cd_char_varchar_type c) else None)\<rparr>
             # ExtractStringWidthBounds su try_cast (Suc col_id) cs)"

section \<open>Constraints\<close>

type_synonym not_null_constraint = "nat \<times> string"

abbreviation quote_char :: char where
  "quote_char \<equiv> CHR 0x22"

definition constraint_path :: "(string \<Rightarrow> string \<Rightarrow> string \<Rightarrow> string) \<Rightarrow> string \<Rightarrow> string \<Rightarrow> string" where
  "constraint_path replace parent_path name =
    (let quoted = [quote_char] @ replace name [quote_char] [quote_char, quote_char] @ [quote_char]
     in if parent_path = [] then quoted else parent_path @ ''.'' @ quoted)"

definition constraint_index :: "nat option \<Rightarrow> nat \<Rightarrow> nat" where
  "constraint_index index col_id = (case index of None \<Rightarrow> col_id | Some k \<Rightarrow> k)"

function ExtractNotNullConstraints ::
  "(string \<Rightarrow> string \<Rightarrow> string \<Rightarrow> string) \<Rightarrow> column_def list \<Rightarrow> nat option \<Rightarrow> nat \<Rightarrow> string
     \<Rightarrow> not_null_constraint list" where
  "ExtractNotNullConstraints replace [] index col_id parent_path = []"
| "ExtractNotNullConstraints replace (ColumnDef n t cs nl cv p f i d # columns) index col_id parent_path =
    (if nl then [] else [(constraint_index index col_id, constraint_path replace parent_path n)]) @
    (if is_struct t
     then ExtractNotNullConstraints replace cs (Some (constraint_index index col_id)) 0
            (constraint_path replace parent_path n)
     else []) @
    ExtractNotNullConstraints replace columns index (if index = None then Suc col_id else col_id) parent_path"
  by pat_completeness auto
termination
  by (relation "measure (\<lambda>(_, columns, _). size_list size columns)") simp_all

fun is_array :: "logical_type \<Rightarrow> bool" where
  "is_array (ARRAY t n) = True"
| "is_array _ = False"

fun ExtractHasNullConstraintsInArrays :: "column_def list \<Rightarrow> bool" where
  "ExtractHasNullConstraintsInArrays [] = False"
| "ExtractHasNullConstraintsInArrays (ColumnDef n t cs nl cv p f i d # columns) =
    ((is_array t \<or> is_list t) \<and> \<not> nl \<or>
     (is_struct t \<or> is_map t \<or> is_list t \<or> is_array t) \<and> ExtractHasNullConstraintsInArrays cs \<or>
     ExtractHasNullConstraintsInArrays columns)"

definition ThrowOnUnsupportedFieldForInserting :: "bool \<Rightarrow> unit throws" where
  "ThrowOnUnsupportedFieldForInserting has_null_constraints_in_arrays =
    throw_if has_null_constraints_in_arrays
      (Err NotImplemented ''Inserting into a table with null constraints in arrays is not supported'' [])"

text \<open>\<open>case_insensitive_map_t\<close>: the first key that compares equal, and \<open>operator[]\<close> with a push onto the item.\<close>

type_synonym 'a ci_map = "(string \<times> 'a) list"

definition ci_find :: "string_util \<Rightarrow> 'a ci_map \<Rightarrow> string \<Rightarrow> 'a option" where
  "ci_find su m k = map_option snd (find (\<lambda>(k', _). CIEquals su k' k) m)"

fun ci_push :: "string_util \<Rightarrow> string \<Rightarrow> 'a \<Rightarrow> 'a list ci_map \<Rightarrow> 'a list ci_map" where
  "ci_push su k v [] = [(k, [v])]"
| "ci_push su k v ((k', vs) # m) =
    (if CIEquals su k' k then (k', vs @ [v]) # m else (k', vs) # ci_push su k v m)"

definition GetNotNullConstraints ::
  "string_util \<Rightarrow> string list \<Rightarrow> not_null_constraint list \<Rightarrow> not_null_constraint list ci_map" where
  "GetNotNullConstraints su column_names constraints =
     fold (\<lambda>constraint. ci_push su (column_names ! fst constraint) constraint) constraints []"

section \<open>Quoted paths\<close>

fun quoted_chars :: "string \<Rightarrow> string \<Rightarrow> (string \<times> string) throws" where
  "quoted_chars [] result = Inl (Err InvalidInput ''Failed to parse quoted value - unterminated quote'' [])"
| "quoted_chars (c # cs) result =
    (if c = quote_char then
       (if cs \<noteq> [] \<and> hd cs = quote_char then quoted_chars (tl cs) (result @ [quote_char])
        else Inr (result, cs))
     else quoted_chars cs (result @ [c]))"

definition ParseQuotedValue :: "string \<Rightarrow> (string \<times> string) throws" where
  "ParseQuotedValue input =
    (if input = [] \<or> hd input \<noteq> quote_char
     then Inl (Err InvalidInput ''Failed to parse quoted value - expected a quote'' [])
     else quoted_chars (tl input) [])"

lemma quoted_chars_rest: "quoted_chars cs acc = Inr (v, rest) \<Longrightarrow> length rest < length cs"
  by (induction cs acc rule: quoted_chars.induct) (auto split: if_splits simp: neq_Nil_conv)

lemma ParseQuotedValue_rest: "ParseQuotedValue input = Inr (v, rest) \<Longrightarrow> length rest < length input"
  by (cases input) (auto simp: ParseQuotedValue_def split: if_splits dest: quoted_chars_rest)

function ParseQuotedListLoop :: "char \<Rightarrow> string \<Rightarrow> string list \<Rightarrow> string list throws" where
  "ParseQuotedListLoop list_separator input result =
    bindr (ParseQuotedValue input) (\<lambda>(v, rest).
      if rest = [] then Inr (result @ [v])
      else if hd rest \<noteq> list_separator
      then Inl (Err InvalidInput ''Failed to parse list - expected a separator'' [[list_separator]])
      else ParseQuotedListLoop list_separator (tl rest) (result @ [v]))"
  by auto
termination
  by (relation "measure (\<lambda>(_, input, _). length input)") (auto dest: ParseQuotedValue_rest)

declare ParseQuotedListLoop.simps [simp del]

definition ParseQuotedList :: "string \<Rightarrow> char \<Rightarrow> string list throws" where
  "ParseQuotedList input list_separator =
    (if input = [] then Inr [] else ParseQuotedListLoop list_separator input [])"

section \<open>The reader inverts the writer\<close>

definition double_quotes :: "string \<Rightarrow> string" where
  "double_quotes s = concat (map (\<lambda>c. if c = quote_char then [quote_char, quote_char] else [c]) s)"

definition quoted_name :: "string \<Rightarrow> string" where
  "quoted_name s = [quote_char] @ double_quotes s @ [quote_char]"

fun quoted_path :: "char \<Rightarrow> string list \<Rightarrow> string" where
  "quoted_path sep [] = []"
| "quoted_path sep [n] = quoted_name n"
| "quoted_path sep (n # ns) = quoted_name n @ [sep] @ quoted_path sep ns"

lemma double_quotes_simps [simp]:
  "double_quotes [] = []"
  "double_quotes (c # s) = (if c = quote_char then quote_char # quote_char # double_quotes s else c # double_quotes s)"
  by (simp_all add: double_quotes_def)

lemma quoted_chars_double_quotes:
  "rest = [] \<or> hd rest \<noteq> quote_char \<Longrightarrow>
     quoted_chars (double_quotes s @ quote_char # rest) acc = Inr (acc @ s, rest)"
  by (induction s arbitrary: acc) auto

lemma ParseQuotedValue_quoted_name:
  "rest = [] \<or> hd rest \<noteq> quote_char \<Longrightarrow> ParseQuotedValue (quoted_name s @ rest) = Inr (s, rest)"
  using quoted_chars_double_quotes [of rest s "[]"]
  by (simp add: ParseQuotedValue_def quoted_name_def)

lemma quoted_path_not_Nil: "ns \<noteq> [] \<Longrightarrow> quoted_path sep ns \<noteq> []"
  by (cases "(sep, ns)" rule: quoted_path.cases) (auto simp: quoted_name_def)

lemma ParseQuotedListLoop_quoted_path:
  assumes "sep \<noteq> quote_char" "ns \<noteq> []"
  shows "ParseQuotedListLoop sep (quoted_path sep ns) acc = Inr (acc @ ns)"
  using assms
proof (induction sep ns arbitrary: acc rule: quoted_path.induct)
  case (2 sep n)
  then show ?case
    using ParseQuotedValue_quoted_name [of "[]" n] by (subst ParseQuotedListLoop.simps) simp
next
  case (3 sep n m ns)
  have "ParseQuotedListLoop sep (quoted_path sep (n # m # ns)) acc
      = ParseQuotedListLoop sep (quoted_path sep (m # ns)) (acc @ [n])"
    using 3 ParseQuotedValue_quoted_name [of "sep # quoted_path sep (m # ns)" n]
    by (subst ParseQuotedListLoop.simps) simp
  then show ?case using 3 by simp
qed simp

lemma ParseQuotedList_quoted_path:
  "sep \<noteq> quote_char \<Longrightarrow> ParseQuotedList (quoted_path sep ns) sep = Inr ns"
  by (cases "ns = []") (auto simp: ParseQuotedList_def ParseQuotedListLoop_quoted_path quoted_path_not_Nil)

lemma quoted_path_snoc:
  "ns \<noteq> [] \<Longrightarrow> quoted_path sep (ns @ [n]) = quoted_path sep ns @ [sep] @ quoted_name n"
  by (induction sep ns rule: quoted_path.induct) auto

text \<open>A field below a column, through structs only: \<open>field_below c ns d\<close> says that \<open>d\<close> is reached from \<open>c\<close>
  along the names \<open>ns\<close>, which start with the name of \<open>c\<close>.\<close>

inductive field_below :: "column_def \<Rightarrow> string list \<Rightarrow> column_def \<Rightarrow> bool" where
  here: "field_below c [cd_name c] c"
| below: "is_struct (cd_type c) \<Longrightarrow> c' \<in> set (cd_children c) \<Longrightarrow> field_below c' ns d
    \<Longrightarrow> field_below c (cd_name c # ns) d"

inductive_simps field_below_iff: "field_below c ns d"

definition doubles_quotes :: "(string \<Rightarrow> string \<Rightarrow> string \<Rightarrow> string) \<Rightarrow> bool" where
  "doubles_quotes replace \<longleftrightarrow> (\<forall>s. replace s [quote_char] [quote_char, quote_char] = double_quotes s)"

definition join_path :: "string list \<Rightarrow> string list \<Rightarrow> string" where
  "join_path parents ns = quoted_path CHR ''.'' (parents @ ns)"

lemma join_path_snoc:
  "quoted_path CHR ''.'' (parents @ [n]) =
     (if parents = [] then quoted_name n else quoted_path CHR ''.'' parents @ ''.'' @ quoted_name n)"
  by (simp add: quoted_path_snoc)

definition constraint_at :: "nat option \<Rightarrow> nat \<Rightarrow> nat \<Rightarrow> nat" where
  "constraint_at index col_id k = (case index of None \<Rightarrow> col_id + k | Some i \<Rightarrow> i)"

lemma constraint_at_simps [simp]:
  "constraint_at (Some i) col_id k = i" "constraint_at index col_id 0 = constraint_index index col_id"
  "constraint_at index (if index = None then Suc col_id else col_id) k = constraint_at index col_id (Suc k)"
  by (auto simp: constraint_at_def constraint_index_def split: option.splits)

lemma constraint_path_quoted_path:
  "doubles_quotes replace \<Longrightarrow>
     constraint_path replace (quoted_path CHR ''.'' parents) n = quoted_path CHR ''.'' (parents @ [n])"
  using quoted_path_not_Nil [of parents] join_path_snoc [of parents n]
  by (auto simp: doubles_quotes_def quoted_name_def constraint_path_def Let_def)

definition demanded ::
  "column_def \<Rightarrow> string list \<Rightarrow> string \<Rightarrow> bool" where
  "demanded c parents path \<longleftrightarrow>
     (\<exists>ns d. field_below c ns d \<and> \<not> cd_nullable d \<and> path = quoted_path CHR ''.'' (parents @ ns))"

lemma demanded_unfold:
  "demanded c parents path \<longleftrightarrow>
     \<not> cd_nullable c \<and> path = quoted_path CHR ''.'' (parents @ [cd_name c]) \<or>
     is_struct (cd_type c) \<and> (\<exists>c' \<in> set (cd_children c). demanded c' (parents @ [cd_name c]) path)"
  unfolding demanded_def by (subst field_below_iff) auto

lemma ExtractNotNullConstraints_iff:
  assumes "doubles_quotes replace"
  shows "(i, path) \<in> set (ExtractNotNullConstraints replace columns index col_id (quoted_path CHR ''.'' parents)) \<longleftrightarrow>
     (\<exists>k < length columns. i = constraint_at index col_id k \<and> demanded (columns ! k) parents path)"
  using assms
proof (induction replace columns index col_id "quoted_path CHR ''.'' parents" arbitrary: parents
    rule: ExtractNotNullConstraints.induct)
  case (1 replace index col_id)
  then show ?case by simp
next
  case (2 replace n t cs nl cv p f i' d columns index col_id)
  let ?c = "ColumnDef n t cs nl cv p f i' d"
  have inner: "is_struct t \<Longrightarrow> (i, path) \<in> set (ExtractNotNullConstraints replace cs
        (Some (constraint_index index col_id)) 0 (constraint_path replace (quoted_path CHR ''.'' parents) n)) \<longleftrightarrow>
     i = constraint_index index col_id \<and> (\<exists>c' \<in> set cs. demanded c' (parents @ [n]) path)"
    using "2.hyps"(1) [of "parents @ [n]"] "2.prems" nth_mem [of _ cs]
    by (auto simp: constraint_path_quoted_path in_set_conv_nth [of _ cs])
  have "(\<exists>k < length (?c # columns). i = constraint_at index col_id k \<and> demanded ((?c # columns) ! k) parents path) \<longleftrightarrow>
     (i = constraint_index index col_id \<and> demanded ?c parents path) \<or>
     (\<exists>k < length columns. i = constraint_at index col_id (Suc k) \<and> demanded (columns ! k) parents path)"
    by (auto simp: less_Suc_eq_0_disj)
  then show ?case
    using inner "2.hyps"(2) [of parents] "2.prems" demanded_unfold [of ?c parents path]
    by (auto simp: constraint_path_quoted_path)
qed

text \<open>C17. The NOT NULL constraints of a table are exactly the non-nullable fields that are reached from a
  top-level column through structs: a constraint carries the position of its top-level column and the
  quoted path of the field, and the reader the insert uses on that path gives the names of the field
  back, whatever characters they hold.\<close>
theorem ExtractNotNullConstraints_spec:
  assumes "doubles_quotes replace"
  shows "(i, path) \<in> set (ExtractNotNullConstraints replace columns None 0 []) \<longleftrightarrow>
    (\<exists>ns d. i < length columns \<and> field_below (columns ! i) ns d \<and> \<not> cd_nullable d \<and>
       path = quoted_path CHR ''.'' ns \<and> ParseQuotedList path CHR ''.'' = Inr ns)"
  using ExtractNotNullConstraints_iff [OF assms, of i path columns None 0 "[]"]
  by (auto simp: demanded_def constraint_at_def ParseQuotedList_quoted_path)

definition example_constrained :: column_def where
  "example_constrained = ColumnDef ''s'' (STRUCT [(''a.b'', INTEGER)])
     [ColumnDef ''a.b'' INTEGER [] False [] [] None Id_Null None] True [] [] None Id_Null None"

definition replace_quotes :: "string \<Rightarrow> string \<Rightarrow> string \<Rightarrow> string" where
  "replace_quotes s from to = concat (map (\<lambda>c. if [c] = from then to else [c]) s)"

lemma doubles_quotes_replace_quotes: "doubles_quotes replace_quotes"
  by (auto simp: doubles_quotes_def replace_quotes_def double_quotes_def intro!: arg_cong [where f = concat])

theorem ExtractNotNullConstraints_spec_witness:
  "\<exists>ns d. field_below example_constrained ns d \<and> \<not> cd_nullable d \<and>
     quoted_path CHR ''.'' [''s'', ''a.b''] = quoted_path CHR ''.'' ns \<and>
     ParseQuotedList (quoted_path CHR ''.'' [''s'', ''a.b'']) CHR ''.'' = Inr ns"
proof -
  have "(0, quoted_path CHR ''.'' [''s'', ''a.b'']) \<in>
      set (ExtractNotNullConstraints replace_quotes [example_constrained] None 0 [])"
    by (simp add: example_constrained_def constraint_index_def constraint_path_def replace_quotes_def quoted_name_def)
  then show ?thesis
    using ExtractNotNullConstraints_spec [OF doubles_quotes_replace_quotes, of 0 _ "[example_constrained]"]
    by simp
qed

lemma parenthesised_shape:
  assumes "pre \<noteq> []" "last pre \<noteq> CHR '')''"
  shows "is_prefix pre l \<and> last l = CHR '')'' \<and> substr l (length pre) (length l - length pre - 1) = ds \<longleftrightarrow>
    l = pre @ ds @ '')''"
proof
  assume *: "is_prefix pre l \<and> last l = CHR '')'' \<and> substr l (length pre) (length l - length pre - 1) = ds"
  then obtain r where r: "l = pre @ r" by (auto simp: is_prefix_iff prefix_def)
  have "r \<noteq> []" using * assms r by auto
  then have "last r = CHR '')''" using * r by simp
  with \<open>r \<noteq> []\<close> show "l = pre @ ds @ '')''"
    using * r append_butlast_last_id [of r] by (auto simp: substr_def butlast_conv_take)
qed (auto simp: is_prefix_iff substr_def)

lemma width_in_parens_iff:
  assumes "string_util_laws su" "is_prefix pre l" "pre \<noteq> []" "last pre \<noteq> CHR '')''"
  shows "width_in_parens su try_cast pre l = Some w \<longleftrightarrow>
    w \<noteq> 0 \<and> (\<exists>digits. l = pre @ digits @ '')'' \<and> digits \<noteq> [] \<and> list_all ascii_digit digits \<and> try_cast digits = Some w)"
proof -
  define ds where "ds = substr l (length pre) (length l - length pre - 1)"
  have "l = pre @ digits @ '')'' \<longleftrightarrow> last l = CHR '')'' \<and> digits = ds" for digits
    using parenthesised_shape [OF assms(3,4), of l digits] assms(2) ds_def by metis
  then show ?thesis
    unfolding width_in_parens_def Let_def ds_def [symmetric] string_util_laws.IsDigit_law [OF assms(1)]
    by (simp split: option.split) blast
qed

text \<open>A declared width is read exactly from a bare \<open>char(n)\<close> or \<open>varchar(n)\<close>, in any case of the letters:
  nothing else (a width inside a nested type, no digits, a width of zero or out of range) gives a
  bound.\<close>
theorem ParseCharVarcharWidth_spec:
  assumes "string_util_laws su"
  shows "ParseCharVarcharWidth su try_cast declared = Some w \<longleftrightarrow>
    w \<noteq> 0 \<and> (\<exists>pre digits. pre \<in> {''char('', ''varchar(''} \<and> map ascii_lower declared = pre @ digits @ '')'' \<and>
       digits \<noteq> [] \<and> list_all ascii_digit digits \<and> try_cast digits = Some w)"
proof -
  let ?l = "map ascii_lower declared"
  note unfolded = ParseCharVarcharWidth_def Let_def string_util_laws.Lower_law [OF assms]
    string_util_laws.StartsWith_law [OF assms]
  have no: "\<not> is_prefix pre ?l \<Longrightarrow> ?l \<noteq> pre @ r" for pre r
    by (auto simp: is_prefix_iff)
  have exclusive: "is_prefix ''char('' ?l \<Longrightarrow> \<not> is_prefix ''varchar('' ?l"
    by (cases ?l) auto
  consider "is_prefix ''char('' ?l" | "\<not> is_prefix ''char('' ?l" "is_prefix ''varchar('' ?l"
    | "\<not> is_prefix ''char('' ?l" "\<not> is_prefix ''varchar('' ?l" by blast
  then show ?thesis
  proof cases
    case 1
    then show ?thesis
      using width_in_parens_iff [OF assms, of "''char(''" ?l] no [OF exclusive] unfolding unfolded by auto
  next
    case 2
    then show ?thesis
      using width_in_parens_iff [OF assms, of "''varchar(''" ?l] no [OF 2(1)] unfolding unfolded by auto
  next
    case 3
    then show ?thesis using no [OF 3(1)] no [OF 3(2)] unfolding unfolded by auto
  qed
qed

definition try_cast_example :: "string \<Rightarrow> nat option" where
  "try_cast_example s = (if s = ''12'' then Some 12 else None)"

theorem ParseCharVarcharWidth_spec_witness:
  "ParseCharVarcharWidth ascii_string_util try_cast_example ''VarChar(12)'' = Some 12"
  by (subst ParseCharVarcharWidth_spec [OF ascii.string_util_laws_axioms])
    (auto simp: ascii_digit_def try_cast_example_def intro!: exI [of _ "''varchar(''"] exI [of _ "''12''"])

section \<open>The map of the constraints\<close>

context string_util_laws
begin

lemma ci_find_Nil [simp]: "ci_find su [] k = None"
  by (simp add: ci_find_def)

lemma ci_find_push:
  "ci_find su (ci_push su k v m) k' =
    (if CIEquals su k k'
     then Some ((case ci_find su m k' of None \<Rightarrow> [] | Some vs \<Rightarrow> vs) @ [v]) else ci_find su m k')"
proof (induction m)
  case Nil
  then show ?case by (simp add: ci_find_def)
next
  case (Cons kv m)
  obtain k'' vs where "kv = (k'', vs)" by (cases kv)
  then show ?case using Cons by (auto simp: ci_find_def CIEquals_law)
qed

lemma ci_find_fold_push:
  "ci_find su (fold (\<lambda>x. ci_push su (key x) x) xs m) k =
    (let hits = filter (\<lambda>x. CIEquals su (key x) k) xs
     in if hits = [] then ci_find su m k
        else Some ((case ci_find su m k of None \<Rightarrow> [] | Some vs \<Rightarrow> vs) @ hits))"
  by (induction xs arbitrary: m) (auto simp: ci_find_push Let_def split: option.splits)

lemma GetNotNullConstraints_find:
  "ci_find su (GetNotNullConstraints su names constraints) k =
    (let hits = filter (\<lambda>x. CIEquals su (names ! fst x) k) constraints
     in if hits = [] then None else Some hits)"
  using ci_find_fold_push [of "\<lambda>x. names ! fst x" constraints "[]" k]
  by (simp add: GetNotNullConstraints_def case_prod_beta Let_def)

end

end
