(* ===== verification/Insert_Sink.thy ===== *)
theory Insert_Sink
  imports Constraints Write_Metadata
begin

text \<open>
  The sink of an INSERT, a CREATE TABLE AS and a COPY TO (delta\_insert.cpp): the copy reports one row per
  file it wrote, with the statistics of its columns and its partition values as text; AddWrittenFiles
  parses them, enforces the NOT NULL constraints on the reported null counts, drops the statistics the log
  cannot nest, turns temporal partition values into the protocol's form and collects the files.

  Parameters: StringUtil::ToUnsigned and the conversions of dates and timestamps (\<open>insert_ops\<close>).
\<close>

record timestamp_components =
  tc_year :: int
  tc_month :: nat
  tc_day :: nat
  tc_hour :: nat
  tc_minute :: nat
  tc_second :: nat
  tc_microsecond :: nat

record insert_ops =
  ToUnsigned :: "string \<Rightarrow> nat throws"
  TryConvertTimestampTZ :: "string \<Rightarrow> (int \<times> string) option"
  timestamp_is_finite :: "int \<Rightarrow> bool"
  GetComponents :: "int \<Rightarrow> timestamp_components"
  cast_date :: "string \<Rightarrow> int throws"
  date_is_finite :: "int \<Rightarrow> bool"
  ExtractYear :: "int \<Rightarrow> int"
  cast_timestamp :: "string \<Rightarrow> int throws"

section \<open>Statistics of a column\<close>

definition empty_stats :: DeltaColumnStats where
  "empty_stats = \<lparr>st_min = [], st_max = [], st_null_count = 0, st_num_values = 0, st_column_size_bytes = 0,
     st_contains_nan = False, st_has_null_count = False, st_has_num_values = False, st_has_min = False,
     st_has_max = False, st_has_contains_nan = False, st_root_type = OTHER_TYPE ''INVALID''\<rparr>"

definition ParseColumnStat :: "insert_ops \<Rightarrow> DeltaColumnStats \<Rightarrow> string \<times> string \<Rightarrow> DeltaColumnStats throws" where
  "ParseColumnStat ops st stat =
    (let (stats_name, stats_value) = stat
     in if stats_name = ''min'' then Inr (st\<lparr>st_min := stats_value, st_has_min := True\<rparr>)
        else if stats_name = ''max'' then Inr (st\<lparr>st_max := stats_value, st_has_max := True\<rparr>)
        else if stats_name = ''null_count'' then
          bindr (ToUnsigned ops stats_value) (\<lambda>n. Inr (st\<lparr>st_has_null_count := True, st_null_count := n\<rparr>))
        else if stats_name = ''column_size_bytes'' then
          bindr (ToUnsigned ops stats_value) (\<lambda>n. Inr (st\<lparr>st_column_size_bytes := n\<rparr>))
        else if stats_name = ''has_nan'' then
          Inr (st\<lparr>st_has_contains_nan := True, st_contains_nan := (stats_value = ''true'')\<rparr>)
        else if stats_name = ''num_values'' then
          bindr (ToUnsigned ops stats_value) (\<lambda>n. Inr (st\<lparr>st_has_num_values := True, st_num_values := n\<rparr>))
        else if stats_name = ''min_is_exact'' \<or> stats_name = ''max_is_exact'' then Inr st
        else if stats_name = ''nan_count'' then Inr st
        else if stats_name = ''variant_type'' then Inr st
        else Inl (Err NotImplemented ''Unsupported stats type in DeltaInsert::Sink()'' [stats_name]))"

definition ParseColumnStats :: "insert_ops \<Rightarrow> (string \<times> string) list \<Rightarrow> DeltaColumnStats throws" where
  "ParseColumnStats ops col_stats = foldr_throws (ParseColumnStat ops) empty_stats col_stats"

section \<open>The names and types of a column in the files\<close>

definition out_of_range :: error where
  "out_of_range = Err InternalEx ''Attempted to access index within vector out of range'' []"

definition WrittenName :: "column_def \<Rightarrow> string" where
  "WrittenName col = (if cd_physical_name col = [] then cd_name col else cd_physical_name col)"

fun WrittenType :: "column_def \<Rightarrow> logical_type throws" where
  "WrittenType (ColumnDef n t cs nl cv p f i d) =
    (if is_struct t then
       bindr (mapr (\<lambda>child. bindr (WrittenType child) (\<lambda>ty. Inr (WrittenName child, ty))) cs) (\<lambda>fs. Inr (STRUCT fs))
     else if is_list t then
       (case cs of child # _ \<Rightarrow> bindr (WrittenType child) (\<lambda>ty. Inr (LIST ty)) | [] \<Rightarrow> Inl out_of_range)
     else if is_map t then
       (case cs of
          k # v # _ \<Rightarrow> bindr (WrittenType k) (\<lambda>kt. bindr (WrittenType v) (\<lambda>vt. Inr (MAP kt vt)))
        | _ \<Rightarrow> Inl out_of_range)
     else Inr t)"

fun WrittenPathLoop :: "string \<Rightarrow> column_def \<Rightarrow> string list \<Rightarrow> string list throws" where
  "WrittenPathLoop column current [] = Inr []"
| "WrittenPathLoop column current (n # ns) =
    (case find (\<lambda>child. cd_name child = n) (cd_children current) of
       None \<Rightarrow> Inl (Err InternalEx ''Delta column has no field'' [column, n])
     | Some next \<Rightarrow> bindr (WrittenPathLoop column next ns) (\<lambda>rest. Inr (WrittenName next # rest)))"

definition WrittenPath :: "column_def \<Rightarrow> string list \<Rightarrow> string list throws" where
  "WrittenPath col logical_path =
     bindr (WrittenPathLoop (cd_name col) col (drop 1 logical_path)) (\<lambda>rest. Inr (WrittenName col # rest))"

text \<open>\<open>StatsPathLoop\<close> walks the path from its second component on.\<close>

fun StatsPathLoop :: "type_ops \<Rightarrow> logical_type \<Rightarrow> string list \<Rightarrow> bool" where
  "StatsPathLoop tys current [] = (\<not> is_nested tys current)"
| "StatsPathLoop tys current (n # ns) =
    (if \<not> is_struct current then False
     else (case find (\<lambda>child. ident_eq tys (fst child) n) (struct_fields current) of
             Some child \<Rightarrow> StatsPathLoop tys (snd child) ns
           | None \<Rightarrow> True))"

definition StatsPathIsRecordable :: "type_ops \<Rightarrow> logical_type \<Rightarrow> string list \<Rightarrow> bool" where
  "StatsPathIsRecordable tys column_type path = StatsPathLoop tys column_type (drop 1 path)"

section \<open>Partition values\<close>

definition ThrowIfPartitionValueOutOfRange ::
  "string \<Rightarrow> string \<Rightarrow> string \<Rightarrow> bool \<Rightarrow> int \<Rightarrow> bool \<Rightarrow> unit throws" where
  "ThrowIfPartitionValueOutOfRange column_name copy_value type_name is_finite year in_utc =
    bindr (throw_if (\<not> is_finite)
      (Err InvalidInput ''Delta partition column cannot hold the value: must be finite''
         [column_name, copy_value, type_name])) (\<lambda>_.
    throw_if (year < 1 \<or> 9999 < year)
      (Err InvalidInput ''Delta partition column cannot hold the value: must lie in the years 0001 to 9999''
         [column_name, copy_value, type_name, if in_utc then '' (UTC)'' else '''']))"

text \<open>The \<open>%0wd\<close> conversion of a number below \<open>10 ^ w\<close>: its decimal digits, padded with zeros. It is only applied
  to numbers in that range.\<close>

definition digit_char :: "nat \<Rightarrow> char" where
  "digit_char n = char_of (48 + n mod 10)"

fun padded :: "nat \<Rightarrow> nat \<Rightarrow> string" where
  "padded 0 n = []"
| "padded (Suc w) n = padded w (n div 10) @ [digit_char n]"

definition DeltaTimestampPartitionValue :: "insert_ops \<Rightarrow> string \<Rightarrow> string \<Rightarrow> string throws" where
  "DeltaTimestampPartitionValue ops copy_value column_name =
    (case TryConvertTimestampTZ ops copy_value of
       None \<Rightarrow> Inl (Err InternalEx ''Delta partition column: cannot read back the partition value'' [column_name, copy_value])
     | Some (instant, zone) \<Rightarrow>
         if zone \<noteq> [] then
           Inl (Err InternalEx ''Delta partition column: cannot read back the partition value'' [column_name, copy_value])
         else
           (let is_finite = timestamp_is_finite ops instant;
                parts = GetComponents ops instant;
                year = (if is_finite then tc_year parts else 0)
            in bindr (ThrowIfPartitionValueOutOfRange column_name copy_value ''timestamp'' is_finite year True) (\<lambda>_.
               Inr (padded 4 (nat year) @ ''-'' @ padded 2 (tc_month parts) @ ''-'' @ padded 2 (tc_day parts) @
                    ''T'' @ padded 2 (tc_hour parts) @ '':'' @ padded 2 (tc_minute parts) @ '':'' @
                    padded 2 (tc_second parts) @ ''.'' @ padded 6 (tc_microsecond parts) @ ''Z''))))"

definition ThrowIfNaiveTemporalPartitionValueOutOfRange ::
  "insert_ops \<Rightarrow> logical_type \<Rightarrow> string \<Rightarrow> string \<Rightarrow> unit throws" where
  "ThrowIfNaiveTemporalPartitionValueOutOfRange ops type copy_value column_name =
    (if type = DATE then
       bindr (cast_date ops copy_value) (\<lambda>date.
         let is_finite = date_is_finite ops date
         in ThrowIfPartitionValueOutOfRange column_name copy_value ''date'' is_finite
              (if is_finite then ExtractYear ops date else 0) False)
     else
       bindr (cast_timestamp ops copy_value) (\<lambda>timestamp.
         let is_finite = timestamp_is_finite ops timestamp
         in ThrowIfPartitionValueOutOfRange column_name copy_value ''timestamp_ntz'' is_finite
              (if is_finite then tc_year (GetComponents ops timestamp) else 0) False))"

section \<open>Collecting the written files\<close>

record DeltaInsertGlobalState =
  gs_table_name :: string
  gs_written_files :: "DeltaDataFile list"
  gs_columns :: "column_def list"
  gs_column_mapped :: bool
  gs_insert_count :: idx_t
  gs_not_null_constraints :: "not_null_constraint list ci_map"

record written_row =
  wr_file_name :: string
  wr_row_count :: nat
  wr_file_size :: nat
  wr_footer_size :: nat
  wr_column_stats :: "(string \<times> (string \<times> string) list) list"
  wr_partition_info :: "(string \<times> string option) list option"

definition new_DeltaInsertGlobalState ::
  "string_util \<Rightarrow> string \<Rightarrow> column_def list \<Rightarrow> bool \<Rightarrow> not_null_constraint list \<Rightarrow> bool
     \<Rightarrow> DeltaInsertGlobalState throws" where
  "new_DeltaInsertGlobalState su table_name columns column_mapped constraints constraints_in_arrays =
    bindr (ThrowOnUnsupportedFieldForInserting constraints_in_arrays) (\<lambda>_.
      Inr \<lparr>gs_table_name = table_name, gs_written_files = [], gs_columns = columns,
            gs_column_mapped = column_mapped, gs_insert_count = 0,
            gs_not_null_constraints = GetNotNullConstraints su (map cd_name columns) constraints\<rparr>)"

definition new_create_GlobalState :: "string \<Rightarrow> column_def list \<Rightarrow> bool \<Rightarrow> DeltaInsertGlobalState" where
  "new_create_GlobalState table_name columns column_mapped =
    \<lparr>gs_table_name = table_name, gs_written_files = [], gs_columns = columns,
     gs_column_mapped = column_mapped, gs_insert_count = 0, gs_not_null_constraints = []\<rparr>"

definition AnyColumnMapped :: "column_def list \<Rightarrow> bool" where
  "AnyColumnMapped columns = list_ex IsColumnMapped columns"

definition FindWrittenColumn :: "DeltaInsertGlobalState \<Rightarrow> string \<Rightarrow> column_def option" where
  "FindWrittenColumn gs written_name =
     find (\<lambda>col. (if gs_column_mapped gs then WrittenName col else cd_name col) = written_name) (gs_columns gs)"

definition constraint_violated :: "DeltaInsertGlobalState \<Rightarrow> column_def \<Rightarrow> string list \<Rightarrow> string \<Rightarrow> unit throws" where
  "constraint_violated gs column column_names path =
    bindr (ParseQuotedList path CHR ''.'') (\<lambda>logical_path.
    bindr (if gs_column_mapped gs then WrittenPath column logical_path else Inr logical_path) (\<lambda>written_path.
    throw_if (column_names = written_path)
      (Err ConstraintEx ''NOT NULL constraint failed'' (gs_table_name gs # logical_path))))"

definition check_not_null ::
  "string_util \<Rightarrow> DeltaInsertGlobalState \<Rightarrow> column_def \<Rightarrow> string list \<Rightarrow> unit throws" where
  "check_not_null su gs column column_names =
    (case ci_find su (gs_not_null_constraints gs) (cd_name column) of
       None \<Rightarrow> Inr ()
     | Some constraints \<Rightarrow>
         bindr (throw_if (length column_names = 1)
           (Err ConstraintEx ''NOT NULL constraint failed'' [gs_table_name gs, cd_name column])) (\<lambda>_.
         forr (\<lambda>(i, path). constraint_violated gs column column_names path) constraints))"

definition add_column_stats ::
  "string_util \<Rightarrow> type_ops \<Rightarrow> insert_ops \<Rightarrow> DeltaInsertGlobalState \<Rightarrow> (string list \<times> DeltaColumnStats) list
     \<Rightarrow> string \<times> (string \<times> string) list \<Rightarrow> (string list \<times> DeltaColumnStats) list throws" where
  "add_column_stats su tys ops gs acc entry =
    bindr (ParseQuotedList (fst entry) CHR ''.'') (\<lambda>column_names.
    bindr (ParseColumnStats ops (snd entry)) (\<lambda>stats.
    bindr (if column_names = [] then Inl out_of_range else Inr (hd column_names)) (\<lambda>first_name.
    (case FindWrittenColumn gs first_name of
       None \<Rightarrow> Inl (Err InternalEx ''Column not found in table'' (gs_table_name gs # column_names))
     | Some column \<Rightarrow>
         bindr (if gs_column_mapped gs then WrittenType column else Inr (cd_type column)) (\<lambda>coltype.
         bindr (if st_has_null_count stats \<and> 0 < st_null_count stats
                then check_not_null su gs column column_names else Inr ()) (\<lambda>_.
         Inr (if \<not> StatsPathIsRecordable tys coltype column_names then acc
              else acc @ [(column_names, stats\<lparr>st_root_type := coltype\<rparr>)])))))))"

definition add_partition_value ::
  "insert_ops \<Rightarrow> DeltaInsertGlobalState \<Rightarrow> string \<times> string option \<Rightarrow> DeltaPartition throws" where
  "add_partition_value ops gs entry =
    (case snd entry of
       None \<Rightarrow> Inr \<lparr>partition_column = fst entry, partition_value = None\<rparr>
     | Some value \<Rightarrow>
         (case FindWrittenColumn gs (fst entry) of
            None \<Rightarrow> Inl (Err InternalEx ''Partition column not found in table'' [fst entry, gs_table_name gs])
          | Some column \<Rightarrow>
              if cd_type column = TIMESTAMP_TZ then
                bindr (DeltaTimestampPartitionValue ops value (cd_name column)) (\<lambda>v.
                Inr \<lparr>partition_column = fst entry, partition_value = Some v\<rparr>)
              else if cd_type column = DATE \<or> cd_type column = TIMESTAMP then
                bindr (ThrowIfNaiveTemporalPartitionValueOutOfRange ops (cd_type column) value (cd_name column)) (\<lambda>_.
                Inr \<lparr>partition_column = fst entry, partition_value = Some value\<rparr>)
              else Inr \<lparr>partition_column = fst entry, partition_value = Some value\<rparr>))"

definition written_file ::
  "string_util \<Rightarrow> type_ops \<Rightarrow> insert_ops \<Rightarrow> DeltaInsertGlobalState \<Rightarrow> written_row \<Rightarrow> DeltaDataFile throws" where
  "written_file su tys ops gs row =
    bindr (foldr_throws (add_column_stats su tys ops gs) [] (wr_column_stats row)) (\<lambda>stats.
    bindr (case wr_partition_info row of None \<Rightarrow> Inr [] | Some ps \<Rightarrow> mapr (add_partition_value ops gs) ps) (\<lambda>parts.
    Inr \<lparr>df_file_name = wr_file_name row, df_row_count = wr_row_count row,
          df_file_size_bytes = wr_file_size row, df_footer_size = wr_footer_size row,
          df_partition_values = parts, df_last_modified = 0, df_column_stats = stats\<rparr>))"

definition AddWrittenFiles ::
  "string_util \<Rightarrow> type_ops \<Rightarrow> insert_ops \<Rightarrow> DeltaInsertGlobalState \<Rightarrow> written_row list
     \<Rightarrow> DeltaInsertGlobalState throws" where
  "AddWrittenFiles su tys ops gs chunk =
    foldr_throws (\<lambda>gs row.
      bindr (written_file su tys ops gs row) (\<lambda>file.
      Inr (gs\<lparr>gs_insert_count := gs_insert_count gs + word_of_nat (wr_row_count row),
               gs_written_files := gs_written_files gs @ [file]\<rparr>))) gs chunk"

text \<open>The sink is called with one chunk after another; GetDataInternal returns the number of rows inserted.\<close>

definition Sink ::
  "string_util \<Rightarrow> type_ops \<Rightarrow> insert_ops \<Rightarrow> DeltaInsertGlobalState \<Rightarrow> written_row list list
     \<Rightarrow> DeltaInsertGlobalState throws" where
  "Sink su tys ops gs chunks = foldr_throws (AddWrittenFiles su tys ops) gs chunks"

definition GetDataInternal :: "DeltaInsertGlobalState \<Rightarrow> int" where
  "GetDataInternal gs = sint (gs_insert_count gs)"

section \<open>The sink collects every file and counts every row\<close>

text \<open>Only the count and the list of files change.\<close>

definition same_table :: "DeltaInsertGlobalState \<Rightarrow> DeltaInsertGlobalState \<Rightarrow> bool" where
  "same_table gs gs' \<longleftrightarrow> (\<exists>n fs. gs' = gs\<lparr>gs_insert_count := n, gs_written_files := fs\<rparr>)"

lemma same_table_refl: "same_table gs gs"
  unfolding same_table_def
  by (rule exI [of _ "gs_insert_count gs"], rule exI [of _ "gs_written_files gs"]) simp

lemma same_table_trans: "same_table a b \<Longrightarrow> same_table b c \<Longrightarrow> same_table a c"
  unfolding same_table_def by (elim exE) (simp, blast)

lemma collected_irrelevant [simp]:
  "FindWrittenColumn (gs\<lparr>gs_insert_count := n, gs_written_files := fs\<rparr>) = FindWrittenColumn gs"
  "constraint_violated (gs\<lparr>gs_insert_count := n, gs_written_files := fs\<rparr>) = constraint_violated gs"
  by (intro ext, simp add: FindWrittenColumn_def constraint_violated_def)+

lemma collected_irrelevant2 [simp]:
  "check_not_null su (gs\<lparr>gs_insert_count := n, gs_written_files := fs\<rparr>) = check_not_null su gs"
  "add_partition_value ops (gs\<lparr>gs_insert_count := n, gs_written_files := fs\<rparr>) = add_partition_value ops gs"
  by (intro ext, simp add: check_not_null_def add_partition_value_def split: option.split)+

lemma collected_irrelevant3 [simp]:
  "add_column_stats su tys ops (gs\<lparr>gs_insert_count := n, gs_written_files := fs\<rparr>) = add_column_stats su tys ops gs"
  by (intro ext) (simp add: add_column_stats_def cong: option.case_cong if_cong)

lemma written_file_same:
  "same_table gs gs' \<Longrightarrow> written_file su tys ops gs' row = written_file su tys ops gs row"
  by (auto simp: same_table_def written_file_def cong: option.case_cong)

lemma AddWrittenFiles_spec:
  assumes "AddWrittenFiles su tys ops gs chunk = Inr gs'"
  shows "same_table gs gs' \<and>
    gs_insert_count gs' = gs_insert_count gs + word_of_nat (sum_list (map wr_row_count chunk)) \<and>
    (\<exists>files. gs_written_files gs' = gs_written_files gs @ files \<and>
       list_all2 (\<lambda>row file. written_file su tys ops gs row = Inr file) chunk files)"
  using assms
proof (induction chunk arbitrary: gs)
  case Nil
  then show ?case by (simp add: AddWrittenFiles_def same_table_refl)
next
  case (Cons row chunk)
  from Cons.prems obtain data_file where data_file: "written_file su tys ops gs row = Inr data_file"
    and rest: "AddWrittenFiles su tys ops (gs\<lparr>gs_insert_count := gs_insert_count gs + word_of_nat (wr_row_count row),
               gs_written_files := gs_written_files gs @ [data_file]\<rparr>) chunk = Inr gs'" (is "AddWrittenFiles _ _ _ ?gs _ = _")
    by (auto simp: AddWrittenFiles_def bindr_eq_Inr)
  have same: "same_table gs ?gs" unfolding same_table_def by blast
  obtain files where "gs_written_files gs' = gs_written_files gs @ data_file # files"
    "list_all2 (\<lambda>row file. written_file su tys ops gs row = Inr file) chunk files"
    using Cons.IH [OF rest] written_file_same [OF same] by auto
  then show ?case
    using Cons.IH [OF rest] data_file same same_table_trans [OF same]
    by (auto intro!: exI [of _ "data_file # files"])
qed

lemma Sink_spec:
  assumes "Sink su tys ops gs chunks = Inr gs'"
  shows "same_table gs gs' \<and>
    gs_insert_count gs' = gs_insert_count gs + word_of_nat (sum_list (map wr_row_count (concat chunks))) \<and>
    (\<exists>files. gs_written_files gs' = gs_written_files gs @ files \<and>
       list_all2 (\<lambda>row file. written_file su tys ops gs row = Inr file) (concat chunks) files)"
proof -
  have "Sink su tys ops gs chunks = AddWrittenFiles su tys ops gs (concat chunks)"
    unfolding Sink_def AddWrittenFiles_def
    by (induction chunks arbitrary: gs) (simp_all add: foldr_throws_append)
  then show ?thesis using AddWrittenFiles_spec assms by simp
qed

lemma list_all2_Ex: "list_all2 P xs ys \<Longrightarrow> x \<in> set xs \<Longrightarrow> \<exists>y. P x y"
  by (induction rule: list_all2_induct) auto

lemma Sink_written_file:
  "Sink su tys ops gs chunks = Inr gs' \<Longrightarrow> row \<in> set (concat chunks) \<Longrightarrow> \<exists>f. written_file su tys ops gs row = Inr f"
  using Sink_spec [of su tys ops gs chunks gs'] list_all2_Ex [of _ "concat chunks" _ row] by blast

lemma written_file_name: "written_file su tys ops gs row = Inr file \<Longrightarrow>
    df_file_name file = wr_file_name row \<and> df_row_count file = wr_row_count row"
  by (auto simp: written_file_def bindr_eq_Inr)

lemma Sink_names:
  assumes "Sink su tys ops gs chunks = Inr gs'" and "gs_written_files gs = []"
  shows "map df_file_name (gs_written_files gs') = map wr_file_name (concat chunks)"
proof -
  obtain files where files: "gs_written_files gs' = files" "list_all2 (\<lambda>row file. written_file su tys ops gs row = Inr file) (concat chunks) files"
    using Sink_spec [OF assms(1)] assms(2) by auto
  from files(2) have "map df_file_name files = map wr_file_name (concat chunks)" by induction (auto dest: written_file_name)
  then show ?thesis using files(1) by simp
qed

text \<open>C14. The sink hands on exactly one data file per file the copy reported, in the order of the reports and
  across chunks, with its name and row count; the reported number of rows is the sum of the row counts
  of all files, modulo \<open>2 ^ 64\<close>.\<close>
theorem Sink_collects_every_file:
  assumes "Sink su tys ops (gs\<lparr>gs_written_files := [], gs_insert_count := 0\<rparr>) chunks = Inr gs'"
  shows "map (\<lambda>f. (df_file_name f, df_row_count f)) (gs_written_files gs') =
      map (\<lambda>r. (wr_file_name r, wr_row_count r)) (concat chunks) \<and>
    uint (gs_insert_count gs') = int (sum_list (map wr_row_count (concat chunks))) mod 2 ^ 64"
proof -
  obtain files where files: "gs_written_files gs' = files"
      "list_all2 (\<lambda>row file. written_file su tys ops (gs\<lparr>gs_written_files := [], gs_insert_count := 0\<rparr>) row = Inr file)
         (concat chunks) files"
    and count: "gs_insert_count gs' = word_of_nat (sum_list (map wr_row_count (concat chunks)))"
    using Sink_spec [OF assms] by auto
  have "map (\<lambda>f. (df_file_name f, df_row_count f)) files = map (\<lambda>r. (wr_file_name r, wr_row_count r)) (concat chunks)"
    using files(2) by induction (auto dest: written_file_name)
  then show ?thesis using files(1) count by (simp only: unsigned_of_nat take_bit_eq_mod) (simp add: zmod_int)
qed

section \<open>NOT NULL is enforced\<close>

lemma foldr_throws_all:
  "foldr_throws f s xs = Inr s' \<Longrightarrow> x \<in> set xs \<Longrightarrow> \<exists>s1 s2. f s1 x = Inr s2"
  by (induction xs arbitrary: s) (auto simp: bindr_eq_Inr)

lemma add_column_stats_checks:
  assumes "add_column_stats su tys ops gs acc (cname, stats) = Inr acc'"
    and "ParseQuotedList cname CHR ''.'' = Inr names" "FindWrittenColumn gs (hd names) = Some column"
    and "ParseColumnStats ops stats = Inr st" "st_has_null_count st" "0 < st_null_count st"
  shows "check_not_null su gs column names = Inr ()"
  using assms by (auto simp: add_column_stats_def bindr_eq_Inr split: if_splits)

lemma check_not_null_ok:
  assumes "check_not_null su gs column names = Inr ()"
    and "ci_find su (gs_not_null_constraints gs) (cd_name column) = Some constraints" "(i, path) \<in> set constraints"
    and "ParseQuotedList path CHR ''.'' = Inr logical"
    and "(if gs_column_mapped gs then WrittenPath column logical else Inr logical) = Inr written"
  shows "names \<noteq> written"
proof -
  have "constraint_violated gs column names path = Inr ()"
    using assms(1-3) by (auto simp: check_not_null_def bindr_eq_Inr forr_eq_Inr dest!: bspec)
  then show ?thesis using assms(4,5) by (simp add: constraint_violated_def bindr_eq_Inr)
qed

text \<open>C1. An INSERT that passes the sink wrote no NULL into a NOT NULL field: for a snapshot's columns and
  the constraints extracted from them, take any field of a column reached through structs that is not
  nullable. No file whose copy reported a positive null count for that field, under the path the file
  gives it (the physical names on a column-mapped table, the logical ones otherwise), passes.\<close>
theorem not_null_is_enforced:
  assumes su: "string_util_laws su" and rep: "doubles_quotes replace"
    and gs: "new_DeltaInsertGlobalState su table columns mapped
               (ExtractNotNullConstraints replace columns None 0 []) arrays = Inr gs"
    and sink: "Sink su tys ops gs chunks = Inr gs'"
    and row: "row \<in> set (concat chunks)"
    and stats: "(quoted_path CHR ''.'' written, stats) \<in> set (wr_column_stats row)"
    and col: "i < length columns" "FindWrittenColumn gs (hd written) = Some (columns ! i)"
    and field: "field_below (columns ! i) logical d" "\<not> cd_nullable d"
    and path: "(if mapped then WrittenPath (columns ! i) logical else Inr logical) = Inr written"
    and counts: "ParseColumnStats ops stats = Inr st" "st_has_null_count st"
  shows "st_null_count st = 0"
proof (rule ccontr)
  assume "st_null_count st \<noteq> 0"
  have gs_def: "gs_column_mapped gs = mapped"
    "gs_not_null_constraints gs = GetNotNullConstraints su (map cd_name columns) (ExtractNotNullConstraints replace columns None 0 [])"
    using gs by (auto simp: new_DeltaInsertGlobalState_def bindr_eq_Inr)
  obtain data_file where "written_file su tys ops gs row = Inr data_file"
    using Sink_written_file [OF sink row] by blast
  then obtain st1 where "foldr_throws (add_column_stats su tys ops gs) [] (wr_column_stats row) = Inr st1"
    by (auto simp: written_file_def bindr_eq_Inr)
  then obtain acc acc' where "add_column_stats su tys ops gs acc (quoted_path CHR ''.'' written, stats) = Inr acc'"
    using foldr_throws_all [of "add_column_stats su tys ops gs"] stats by blast
  then have ok: "check_not_null su gs (columns ! i) written = Inr ()"
    using add_column_stats_checks col(2) counts \<open>st_null_count st \<noteq> 0\<close> by (simp add: ParseQuotedList_quoted_path)
  let ?c = "(i, quoted_path CHR ''.'' logical)"
  have "?c \<in> set (ExtractNotNullConstraints replace columns None 0 [])"
    using ExtractNotNullConstraints_iff [OF rep, of i _ columns None 0 "[]"] col(1) field
    by (auto simp: demanded_def constraint_at_def)
  then have hit: "?c \<in> set (filter (\<lambda>x. CIEquals su (map cd_name columns ! fst x) (cd_name (columns ! i)))
      (ExtractNotNullConstraints replace columns None 0 []))"
    using col(1) string_util_laws.CIEquals_refl [OF su] by simp
  then have "filter (\<lambda>x. CIEquals su (map cd_name columns ! fst x) (cd_name (columns ! i)))
      (ExtractNotNullConstraints replace columns None 0 []) \<noteq> []" by (metis empty_iff empty_set)
  then have "ci_find su (gs_not_null_constraints gs) (cd_name (columns ! i)) =
      Some (filter (\<lambda>x. CIEquals su (map cd_name columns ! fst x) (cd_name (columns ! i)))
        (ExtractNotNullConstraints replace columns None 0 []))"
    using string_util_laws.GetNotNullConstraints_find [OF su, of "map cd_name columns"] gs_def(2)
    by (simp only: Let_def if_False)
  then show False
    using check_not_null_ok [OF ok _ hit, of logical written] path gs_def(1)
    by (simp add: ParseQuotedList_quoted_path)
qed

section \<open>Recorded statistics can be nested\<close>

lemma StatsPathLoop_ParseInnerType:
  assumes "StatsPathLoop tys t path" and nested: "\<And>u. is_struct u \<Longrightarrow> is_nested tys u"
  shows "case ParseInnerType tys t path of
     Inr leaf \<Rightarrow> \<not> is_nested tys leaf
   | Inl e \<Rightarrow> (\<exists>n \<in> set path. e = Err InternalEx ''Invalid stats name: did not find expected child'' [n])"
  using assms
proof (induction tys t path rule: StatsPathLoop.induct)
  case (1 tys current)
  then have "\<not> is_nested tys current" "\<not> is_struct current" by auto
  then show ?case by simp
next
  case (2 tys current n ns)
  then have "is_struct current" by (cases "is_struct current") simp_all
  show ?case
  proof (cases "find (\<lambda>child. ident_eq tys (fst child) n) (struct_fields current)")
    case None
    then show ?thesis using \<open>is_struct current\<close> by simp
  next
    case (Some child)
    then have "case ParseInnerType tys (snd child) ns of
         Inr leaf \<Rightarrow> \<not> is_nested tys leaf
       | Inl e \<Rightarrow> (\<exists>n \<in> set ns. e = Err InternalEx ''Invalid stats name: did not find expected child'' [n])"
      using "2.IH" [OF _ Some] "2.prems" \<open>is_struct current\<close> by simp
    then show ?thesis using Some \<open>is_struct current\<close>
      by (cases "ParseInnerType tys (snd child) ns") auto
  qed
qed

lemma add_column_stats_shape:
  assumes "add_column_stats su tys ops gs acc x = Inr acc'"
  shows "acc' = acc \<or> (\<exists>names st t. acc' = acc @ [(names, st\<lparr>st_root_type := t\<rparr>)] \<and> StatsPathIsRecordable tys t names)"
  using assms unfolding add_column_stats_def
  by (auto simp: bindr_def split: if_splits option.splits sum.splits)

definition all_recordable :: "type_ops \<Rightarrow> (string list \<times> DeltaColumnStats) list \<Rightarrow> bool" where
  "all_recordable tys acc \<longleftrightarrow> (\<forall>p \<in> set acc. StatsPathIsRecordable tys (st_root_type (snd p)) (fst p))"

lemma add_column_stats_recordable:
  assumes "all_recordable tys acc" "add_column_stats su tys ops gs acc x = Inr acc'"
  shows "all_recordable tys acc'"
  using add_column_stats_shape [OF assms(2)] assms(1) unfolding all_recordable_def by auto

text \<open>The statistics a file records are ones the log's statistics tree can hold: the walk the tree builder
  makes along the path of a recorded column ends on a scalar type, or reports the component of the path
  that names no field of the table; it never stops on a list, map or struct.\<close>
theorem recorded_stats_can_be_nested:
  assumes wf: "written_file su tys ops gs row = Inr f"
    and recorded: "(path, st) \<in> set (df_column_stats f)"
    and nested: "\<And>u. is_struct u \<Longrightarrow> is_nested tys u"
  shows "case ParseInnerType tys (st_root_type st) (drop 1 path) of
     Inr leaf \<Rightarrow> \<not> is_nested tys leaf
   | Inl e \<Rightarrow> (\<exists>n \<in> set (drop 1 path). e = Err InternalEx ''Invalid stats name: did not find expected child'' [n])"
proof -
  obtain stats where folded: "foldr_throws (add_column_stats su tys ops gs) [] (wr_column_stats row) = Inr stats"
    and stats: "df_column_stats f = stats"
    using wf by (auto simp: written_file_def bindr_eq_Inr)
  have "all_recordable tys stats"
    by (rule foldr_throws_invariant [OF folded])
      (auto simp: all_recordable_def [of _ "[]"] intro: add_column_stats_recordable)
  then have "StatsPathLoop tys (st_root_type st) (drop 1 path)"
    using recorded stats by (auto simp: StatsPathIsRecordable_def all_recordable_def)
  then show ?thesis using StatsPathLoop_ParseInnerType nested by blast
qed

section \<open>Timestamps as partition values\<close>

fun digits_value :: "string \<Rightarrow> nat \<Rightarrow> nat" where
  "digits_value [] acc = acc"
| "digits_value (c # cs) acc = digits_value cs (10 * acc + (of_char c - 48))"

definition read_digits :: "string \<Rightarrow> nat \<Rightarrow> nat \<Rightarrow> nat" where
  "read_digits s pos w = digits_value (substr s pos w) 0"

lemma padded_length [simp]: "length (padded w n) = w"
  by (induction w arbitrary: n) auto

lemma of_digit_char [simp]: "of_char (digit_char n) = 48 + n mod 10"
  by (simp add: digit_char_def)

lemma digits_value_append: "digits_value (xs @ ys) acc = digits_value ys (digits_value xs acc)"
  by (induction xs arbitrary: acc) auto

lemma digits_value_padded: "n < 10 ^ w \<Longrightarrow> digits_value (padded w n) 0 = n"
proof (induction w arbitrary: n)
  case (Suc w)
  then have "n div 10 < 10 ^ w" by (simp add: less_mult_imp_div_less mult.commute)
  then show ?case using Suc by (simp add: digits_value_append)
qed simp

definition components_in_range :: "timestamp_components \<Rightarrow> bool" where
  "components_in_range tc \<longleftrightarrow> tc_month tc < 100 \<and> tc_day tc < 100 \<and> tc_hour tc < 100 \<and> tc_minute tc < 100 \<and>
     tc_second tc < 100 \<and> tc_microsecond tc < 1000000"


section \<open>Concrete runs\<close>

definition example_components :: timestamp_components where
  "example_components = \<lparr>tc_year = 2024, tc_month = 2, tc_day = 29, tc_hour = 13, tc_minute = 5, tc_second = 9,
     tc_microsecond = 42\<rparr>"

definition example_insert_ops :: insert_ops where
  "example_insert_ops = \<lparr>ToUnsigned = (\<lambda>s. if s = ''0'' then Inr 0 else Inr 1),
     TryConvertTimestampTZ = (\<lambda>s. Some (0, [])), timestamp_is_finite = (\<lambda>_. True),
     GetComponents = (\<lambda>_. example_components), cast_date = (\<lambda>_. Inr 0), date_is_finite = (\<lambda>_. True),
     ExtractYear = (\<lambda>_. 1970), cast_timestamp = (\<lambda>_. Inr 0)\<rparr>"

definition example_row :: "string \<Rightarrow> nat \<Rightarrow> written_row" where
  "example_row name n = \<lparr>wr_file_name = name, wr_row_count = n, wr_file_size = 100, wr_footer_size = 10,
     wr_column_stats = [(quoted_path CHR ''.'' [''s'', ''a.b''], [(''null_count'', ''0'')])],
     wr_partition_info = None\<rparr>"

definition example_gs :: DeltaInsertGlobalState where
  "example_gs = \<lparr>gs_table_name = ''t'', gs_written_files = [], gs_columns = [example_constrained],
     gs_column_mapped = False, gs_insert_count = 0,
     gs_not_null_constraints = [(''s'', [(0, quoted_path CHR ''.'' [''s'', ''a.b''])])]\<rparr>"

definition example_written :: "string \<Rightarrow> nat \<Rightarrow> DeltaDataFile" where
  "example_written name n = \<lparr>df_file_name = name, df_row_count = n, df_file_size_bytes = 100, df_footer_size = 10,
     df_partition_values = [], df_last_modified = 0,
     df_column_stats = [([''s'', ''a.b''], empty_stats\<lparr>st_has_null_count := True, st_null_count := 0,
       st_root_type := cd_type example_constrained\<rparr>)]\<rparr>"

lemma example_written_file:
  "written_file ascii_string_util example_type_ops example_insert_ops example_gs (example_row name n) =
     Inr (example_written name n)"
  by (simp add: written_file_def example_row_def add_column_stats_def ParseQuotedList_quoted_path
      ParseColumnStats_def ParseColumnStat_def example_insert_ops_def FindWrittenColumn_def example_gs_def
      example_constrained_def StatsPathIsRecordable_def example_type_ops_def example_written_def empty_stats_def
      del: quoted_path.simps)

lemma example_Sink:
  "Sink ascii_string_util example_type_ops example_insert_ops example_gs
     [[example_row f1 3], [example_row f2 4]] =
   Inr (example_gs\<lparr>gs_insert_count := 7, gs_written_files := [example_written f1 3, example_written f2 4]\<rparr>)"
proof -
  have "example_gs = example_gs\<lparr>gs_insert_count := 0, gs_written_files := []\<rparr>" by (simp add: example_gs_def)
  moreover have "wr_row_count (example_row m n) = n" for m n by (simp add: example_row_def)
  moreover have "written_file ascii_string_util example_type_ops example_insert_ops
      (example_gs\<lparr>gs_insert_count := k, gs_written_files := fs\<rparr>) (example_row name n) = Inr (example_written name n)"
    for k fs name n
    using example_written_file written_file_same [of example_gs] unfolding same_table_def by metis
  ultimately show ?thesis
    by (simp add: Sink_def AddWrittenFiles_def example_written_file) (simp add: example_gs_def)
qed

theorem Sink_collects_every_file_witness:
  "map (\<lambda>f. (df_file_name f, df_row_count f)) [example_written ''f1'' 3, example_written ''f2'' 4] =
     map (\<lambda>r. (wr_file_name r, wr_row_count r)) [example_row ''f1'' 3, example_row ''f2'' 4]"
proof -
  have "example_gs\<lparr>gs_written_files := [], gs_insert_count := 0\<rparr> = example_gs" by (simp add: example_gs_def)
  then show ?thesis
    using Sink_collects_every_file [of ascii_string_util example_type_ops example_insert_ops example_gs
        "[[example_row ''f1'' 3], [example_row ''f2'' 4]]"] example_Sink by simp
qed

theorem not_null_is_enforced_witness:
  "st_null_count (empty_stats\<lparr>st_has_null_count := True, st_null_count := 0\<rparr>) = 0"
proof (rule not_null_is_enforced [OF ascii.string_util_laws_axioms doubles_quotes_replace_quotes, where
      columns = "[example_constrained]" and mapped = False and gs = example_gs and table = "''t''" and arrays = False
      and i = 0 and written = "[''s'', ''a.b'']" and logical = "[''s'', ''a.b'']"
      and d = "hd (cd_children example_constrained)" and row = "example_row ''f1'' 3"
      and stats = "[(''null_count'', ''0'')]"])
  show "new_DeltaInsertGlobalState ascii_string_util ''t'' [example_constrained] False
      (ExtractNotNullConstraints replace_quotes [example_constrained] None 0 []) False = Inr example_gs"
    by (simp add: new_DeltaInsertGlobalState_def ThrowOnUnsupportedFieldForInserting_def example_gs_def
        example_constrained_def GetNotNullConstraints_def constraint_index_def constraint_path_def
        replace_quotes_def quoted_name_def)
  show "field_below ([example_constrained] ! 0) [''s'', ''a.b''] (hd (cd_children example_constrained))"
    by (subst field_below_iff, simp add: example_constrained_def) (subst field_below_iff, simp)
  show "Sink ascii_string_util example_type_ops example_insert_ops example_gs
     [[example_row ''f1'' 3], [example_row ''f2'' 4]] =
     Inr (example_gs\<lparr>gs_insert_count := 7, gs_written_files := [example_written ''f1'' 3, example_written ''f2'' 4]\<rparr>)"
    by (rule example_Sink)
qed (simp_all add: example_row_def FindWrittenColumn_def example_gs_def example_constrained_def
    ParseColumnStats_def ParseColumnStat_def example_insert_ops_def)

theorem recorded_stats_can_be_nested_witness:
  "case ParseInnerType \<lparr>is_nested = is_struct, ident_eq = (=)\<rparr> (cd_type example_constrained) [''a.b''] of
     Inr leaf \<Rightarrow> \<not> is_struct leaf | Inl e \<Rightarrow> False"
proof -
  let ?tys = "\<lparr>is_nested = is_struct, ident_eq = (=)\<rparr>"
  have "written_file ascii_string_util ?tys example_insert_ops example_gs (example_row ''f1'' 3) =
     Inr (example_written ''f1'' 3)"
    by (simp add: written_file_def example_row_def add_column_stats_def ParseQuotedList_quoted_path
        ParseColumnStats_def ParseColumnStat_def example_insert_ops_def FindWrittenColumn_def example_gs_def
        example_constrained_def StatsPathIsRecordable_def example_written_def empty_stats_def
        del: quoted_path.simps)
  from recorded_stats_can_be_nested [OF this, of "[''s'', ''a.b'']"]
  show ?thesis by (simp add: example_written_def example_constrained_def)
qed


end
