(* ===== verification/Insert_Plan.thy ===== *)
theory Insert_Plan
  imports Insert_Sink Create_Transaction Transaction
begin

text \<open>
  Planning a write (delta\_insert.cpp): the projection between the query and the parquet copy (width checks,
  casts to the written types), the names, types and field ids of the files of a column-mapped table, the
  layout of the files, and the guards of INSERT, CREATE TABLE AS and COPY TO.

  \<open>tuple\<close> is LogicalType::TUPLE; a bound expression of DuckDB is one of the forms the plan builds. The
  parquet copy function and the operators are DuckDB's: the model is what the plan gives them.
\<close>

section \<open>Types and field ids of the files\<close>

fun UnnamedType :: "(logical_type list \<Rightarrow> logical_type) \<Rightarrow> logical_type \<Rightarrow> logical_type" where
  "UnnamedType tuple (STRUCT fs) = tuple (map (\<lambda>f. UnnamedType tuple (snd f)) fs)"
| "UnnamedType tuple (LIST t) = LIST (UnnamedType tuple t)"
| "UnnamedType tuple (MAP k v) = MAP (UnnamedType tuple k) (UnnamedType tuple v)"
| "UnnamedType tuple t = t"

datatype field_id_tree = Id_Leaf int | Id_Node "(string \<times> field_id_tree) list"

definition FIELD_ID_KEY :: string where
  "FIELD_ID_KEY = ''__duckdb_field_id''"

definition NumericCast_int32 :: "nat \<Rightarrow> int throws" where
  "NumericCast_int32 n =
    (if n < 2 ^ 31 then Inr (int n)
     else Inl (Err InternalEx ''Information loss on integer cast: value outside of target range'' []))"

definition own_id_value :: "nat option \<Rightarrow> field_id_tree option throws" where
  "own_id_value f = (case f of None \<Rightarrow> Inr None | Some n \<Rightarrow> bindr (NumericCast_int32 n) (\<lambda>k. Inr (Some (Id_Leaf k))))"

definition add_child :: "string \<times> field_id_tree option \<Rightarrow> (string \<times> field_id_tree) list" where
  "add_child p = (case snd p of None \<Rightarrow> [] | Some tree \<Rightarrow> [(fst p, tree)])"

definition finish_tree :: "field_id_tree option \<Rightarrow> (string \<times> field_id_tree) list \<Rightarrow> field_id_tree option" where
  "finish_tree own children =
    (if children = [] then own
     else Some (Id_Node ((case own of None \<Rightarrow> [] | Some t \<Rightarrow> [(FIELD_ID_KEY, t)]) @ children)))"

fun FieldIdTree :: "column_def \<Rightarrow> field_id_tree option throws" where
  "FieldIdTree (ColumnDef n t cs nl cv p f i d) =
    bindr (own_id_value f) (\<lambda>own.
    bindr (if is_struct t then mapr (\<lambda>child. bindr (FieldIdTree child) (\<lambda>tree. Inr (WrittenName child, tree))) cs
           else if is_list t then
             (case cs of child # _ \<Rightarrow> bindr (FieldIdTree child) (\<lambda>tree. Inr [(''element'', tree)])
              | [] \<Rightarrow> Inl out_of_range)
           else if is_map t then
             (case cs of
                k # v # _ \<Rightarrow> bindr (FieldIdTree k) (\<lambda>kt. bindr (FieldIdTree v) (\<lambda>vt. Inr [(''key'', kt), (''value'', vt)]))
              | _ \<Rightarrow> Inl out_of_range)
           else Inr []) (\<lambda>children.
    Inr (finish_tree own (concat (map add_child children)))))"

text \<open>The check of a column visits the fields in order, each field's own check before the next field.\<close>

fun ThrowIfFieldIdKeyIsWritten :: "string_util \<Rightarrow> column_def \<Rightarrow> unit throws" where
  "ThrowIfFieldIdKeyIsWritten su (ColumnDef n t cs nl cv p f i d) =
     forr (\<lambda>child.
       bindr (throw_if (is_struct t \<and> CIEquals su (WrittenName child) FIELD_ID_KEY)
         (Err NotImplemented ''Delta column has a field written under a name reserved for field ids''
            [n, WrittenName child])) (\<lambda>_.
       ThrowIfFieldIdKeyIsWritten su child)) cs"

fun ThrowIfStructFieldsDiffer :: "logical_type \<Rightarrow> column_def \<Rightarrow> unit throws"
and struct_fields_differ :: "(string \<times> logical_type) list \<Rightarrow> column_def list \<Rightarrow> unit throws" where
  "ThrowIfStructFieldsDiffer (STRUCT fs) col =
    (if map fst fs \<noteq> map cd_name (cd_children col) then
       Inl (Err InternalEx ''Delta column has fields in the catalog but not in the scan schema'' [cd_name col])
     else struct_fields_differ fs (cd_children col))"
| "ThrowIfStructFieldsDiffer (LIST t) col =
    (case cd_children col of c # _ \<Rightarrow> ThrowIfStructFieldsDiffer t c | [] \<Rightarrow> Inl out_of_range)"
| "ThrowIfStructFieldsDiffer (MAP k v) col =
    (case cd_children col of
       kc # vc # _ \<Rightarrow> bindr (ThrowIfStructFieldsDiffer k kc) (\<lambda>_. ThrowIfStructFieldsDiffer v vc)
     | [kc] \<Rightarrow> bindr (ThrowIfStructFieldsDiffer k kc) (\<lambda>_. Inl out_of_range)
     | [] \<Rightarrow> Inl out_of_range)"
| "ThrowIfStructFieldsDiffer _ col = Inr ()"
| "struct_fields_differ [] cs = Inr ()"
| "struct_fields_differ (f # fs) [] = Inr ()"
| "struct_fields_differ (f # fs) (c # cs) =
    bindr (ThrowIfStructFieldsDiffer (snd f) c) (\<lambda>_. struct_fields_differ fs cs)"

section \<open>The write schema of a column-mapped table\<close>

record write_schema =
  ws_names :: "string list"
  ws_types :: "logical_type list"
  ws_field_ids :: "(string \<times> field_id_tree) list"

definition map_write_column ::
  "string_util \<Rightarrow> column_def list \<Rightarrow> string \<Rightarrow> string \<times> logical_type
     \<Rightarrow> (string \<times> logical_type \<times> field_id_tree option) throws" where
  "map_write_column su schema table_name nt =
    (case find (\<lambda>col. cd_name col = fst nt) schema of
       None \<Rightarrow> Inl (Err InternalEx ''Delta column is missing from the write schema of table'' [fst nt, table_name])
     | Some col \<Rightarrow>
         bindr (ThrowIfStructFieldsDiffer (snd nt) col) (\<lambda>_.
         bindr (ThrowIfFieldIdKeyIsWritten su col) (\<lambda>_.
         bindr (WrittenType col) (\<lambda>ty.
         bindr (FieldIdTree col) (\<lambda>tree. Inr (WrittenName col, ty, tree))))))"

text \<open>\<open>by_logical_name\<close> keeps the first column of a name (emplace), as \<open>find\<close> does.\<close>

definition ApplyColumnMappingToWriteSchema ::
  "string_util \<Rightarrow> column_def list \<Rightarrow> string \<Rightarrow> string list \<Rightarrow> logical_type list \<Rightarrow> write_schema throws" where
  "ApplyColumnMappingToWriteSchema su schema table_name names types =
    (if \<not> AnyColumnMapped schema then Inr \<lparr>ws_names = names, ws_types = types, ws_field_ids = []\<rparr>
     else bindr (mapr (map_write_column su schema table_name) (zip names types)) (\<lambda>written.
       Inr \<lparr>ws_names = map fst written, ws_types = map (fst \<circ> snd) written,
             ws_field_ids = concat (map (\<lambda>w. add_child (fst w, snd (snd w))) written)\<rparr>))"

section \<open>The projection\<close>

datatype expression =
    BoundReference logical_type nat
  | WidthCheck expression string string nat
  | CastTo expression logical_type

text \<open>One chunk of a string column; \<open>codepoints\<close> is the number of code points of a value, \<open>None\<close> is NULL.\<close>

definition DeltaStringWidthCheck ::
  "('v \<Rightarrow> nat) \<Rightarrow> string \<Rightarrow> string \<Rightarrow> nat \<Rightarrow> 'v option list \<Rightarrow> 'v option list throws" where
  "DeltaStringWidthCheck codepoints column_name declared max_len chunk =
    bindr (forr (\<lambda>v. case v of
        None \<Rightarrow> Inr ()
      | Some s \<Rightarrow> throw_if (max_len < codepoints s)
          (Err InvalidInput ''Delta column is declared narrower than the value being written'' [column_name, declared])) chunk)
      (\<lambda>_. Inr chunk)"

text \<open>The name of the operator and what EXPLAIN shows of it: an INSERT has its table, a CREATE TABLE AS the path of the table to be.\<close>

definition GetName :: "string option \<Rightarrow> string" where
  "GetName table = (case table of Some name \<Rightarrow> ''DELTA_INSERT'' | None \<Rightarrow> ''DELTA_CREATE_TABLE_AS'')"

definition ParamsToString :: "string option \<Rightarrow> string \<Rightarrow> (string \<times> string) list" where
  "ParamsToString table create_path =
    (case table of Some name \<Rightarrow> [(''Table Name'', name)] | None \<Rightarrow> [(''Table Path'', create_path)])"

definition add_width_check ::
  "column_list \<Rightarrow> expression list \<Rightarrow> DeltaStringWidthBound \<Rightarrow> expression list throws" where
  "add_width_check columns expressions bound =
    (case max_length bound of
       None \<Rightarrow> Inl (Err NotImplemented ''Delta column declares a width which duckdb-delta cannot enforce on write yet''
                 [col_name (columns ! column_index bound), declared_type bound])
     | Some n \<Rightarrow>
         Inr (expressions[column_index bound :=
           WidthCheck (expressions ! column_index bound) (col_name (columns ! column_index bound)) (declared_type bound) n]))"

definition cast_to_written ::
  "(logical_type list \<Rightarrow> logical_type) \<Rightarrow> expression \<times> logical_type \<times> logical_type \<Rightarrow> expression" where
  "cast_to_written tuple e =
    (case e of (expr, type, written) \<Rightarrow>
       if type = written then expr else CastTo (CastTo expr (UnnamedType tuple type)) written)"

text \<open>\<open>Inr None\<close> is the child plan itself, \<open>Inr (Some es)\<close> a projection of the expressions over it.\<close>

definition PlanInsertProjection ::
  "(logical_type list \<Rightarrow> logical_type) \<Rightarrow> logical_type list \<Rightarrow> column_list \<Rightarrow> DeltaStringWidthBound list
     \<Rightarrow> logical_type list \<Rightarrow> expression list option throws" where
  "PlanInsertProjection tuple types columns width_bounds written_types =
    (if width_bounds = [] \<and> types = written_types then Inr None
     else if length types \<noteq> length columns then
       Inl (Err BinderEx ''Cannot write to Delta table: the insert produces a different number of columns than the table has'' [])
     else
       bindr (foldr_throws (add_width_check columns) (map (\<lambda>(t, i). BoundReference t i) (zip types [0..<length types]))
                width_bounds) (\<lambda>expressions.
       Inr (Some (map (cast_to_written tuple) (zip expressions (zip types written_types))))))"

section \<open>The copy\<close>

record DeltaWriteTarget =
  wt_path :: string
  wt_table_name :: string
  wt_write_columns :: "column_def list"
  wt_column_mapped :: bool
  wt_partition_columns :: "nat list"
  wt_write_partition_columns :: bool
  wt_hash_partition_directories :: bool
  wt_width_bounds :: "DeltaStringWidthBound list"
  wt_variant_shredding :: bool
  wt_write_uuid :: string

definition new_DeltaWriteTarget :: "string \<Rightarrow> string \<Rightarrow> DeltaWriteTarget" where
  "new_DeltaWriteTarget path table_name = \<lparr>wt_path = path, wt_table_name = table_name, wt_write_columns = [],
     wt_column_mapped = False, wt_partition_columns = [], wt_write_partition_columns = True,
     wt_hash_partition_directories = False, wt_width_bounds = [], wt_variant_shredding = False, wt_write_uuid = []\<rparr>"

record physical_copy =
  pc_names :: "string list"
  pc_types :: "logical_type list"
  pc_field_ids :: "(string \<times> field_id_tree) list"
  pc_unshredded :: "string list"
  pc_bound_names :: "string list"
  pc_bound_types :: "logical_type list"
  pc_filename_pattern :: "string option"
  pc_file_path :: string
  pc_partition_columns :: "nat list"
  pc_partition_output :: bool
  pc_write_empty_file :: bool
  pc_write_partition_columns :: bool
  pc_partition_path_types :: "logical_type list option"
  pc_hive_file_pattern :: bool
  pc_projection :: "expression list option"

text \<open>LogicalCopyToFile's selection of the columns that reach the files.\<close>

definition without_partitions :: "nat list \<Rightarrow> bool \<Rightarrow> 'a list \<Rightarrow> 'a list" where
  "without_partitions partitions write_partitions xs =
    (if write_partitions then xs
     else map snd (filter (\<lambda>(i, x). i \<notin> set partitions) (zip [0..<length xs] xs)))"

definition unshredded_columns :: "bool \<Rightarrow> write_schema \<Rightarrow> string list" where
  "unshredded_columns shredding ws =
    (if shredding then [] else map fst (filter (\<lambda>(n, t). t = VARIANT) (zip (ws_names ws) (ws_types ws))))"

definition PlanDeltaCopy ::
  "string_util \<Rightarrow> (logical_type list \<Rightarrow> logical_type) \<Rightarrow> path_ops \<Rightarrow> string \<Rightarrow> logical_type list \<Rightarrow> column_list
     \<Rightarrow> DeltaWriteTarget \<Rightarrow> physical_copy throws" where
  "PlanDeltaCopy su tuple po random_uuid child_types columns target =
    bindr (if wt_column_mapped target
           then ApplyColumnMappingToWriteSchema su (wt_write_columns target) (wt_table_name target)
                  (map col_name columns) (map col_type columns)
           else Inr \<lparr>ws_names = map col_name columns, ws_types = map col_type columns, ws_field_ids = []\<rparr>) (\<lambda>ws.
    bindr (PlanInsertProjection tuple child_types columns (wt_width_bounds target) (ws_types ws)) (\<lambda>projection.
      (let uuid = (if wt_write_uuid target = [] then random_uuid else wt_write_uuid target);
           partitioned = wt_partition_columns target \<noteq> [];
           path_types = (if partitioned \<and> wt_hash_partition_directories target
                         then Some (map (\<lambda>i. ws_types ws ! i) (wt_partition_columns target)) else None)
       in Inr \<lparr>pc_names = ws_names ws, pc_types = ws_types ws, pc_field_ids = ws_field_ids ws,
                pc_unshredded = unshredded_columns (wt_variant_shredding target) ws,
                pc_bound_names = without_partitions (wt_partition_columns target) (wt_write_partition_columns target) (ws_names ws),
                pc_bound_types = without_partitions (wt_partition_columns target) (wt_write_partition_columns target) (ws_types ws),
                pc_filename_pattern = (if partitioned then Some (''duckdb_'' @ uuid @ ''_{i}'') else None),
                pc_file_path = (if partitioned then wt_path target
                                else path_join po (wt_path target) (''duckdb-'' @ uuid @ ''.parquet'')),
                pc_partition_columns = wt_partition_columns target, pc_partition_output = partitioned,
                pc_write_empty_file = partitioned, pc_write_partition_columns = wt_write_partition_columns target,
                pc_partition_path_types = path_types, pc_hive_file_pattern = (path_types = None),
                pc_projection = projection\<rparr>)))"

text \<open>\<open>part-\<close> and 16 hexadecimal digits of the MD5 of the values, each after a unit separator; \<open>md5\<close> is DuckDB's.\<close>

definition DeltaPartitionDirectory :: "(string \<Rightarrow> string) \<Rightarrow> string list \<Rightarrow> string" where
  "DeltaPartitionDirectory md5 sql_values =
     ''part-'' @ substr (md5 (concat (map (\<lambda>v. CHR 0x1F # v) sql_values))) 0 16"

section \<open>INSERT\<close>

record write_snapshot =
  wsn_path :: string
  wsn_partition_columns :: "string list"
  wsn_columns :: "column_def list"
  wsn_uses_column_mapping :: bool
  wsn_width_bounds :: "DeltaStringWidthBound list"
  wsn_variant_shredding :: bool
  wsn_allows_defaults :: bool

record insert_statement =
  ins_return_chunk :: bool
  ins_on_conflict_throws :: bool
  ins_child_types :: "logical_type list"

fun position_of :: "string \<Rightarrow> nat \<Rightarrow> column_list \<Rightarrow> (nat \<times> logical_type) option" where
  "position_of name i [] = None"
| "position_of name i (c # cs) = (if col_name c = name then Some (i, col_type c) else position_of name (Suc i) cs)"

definition resolve_partition ::
  "column_list \<Rightarrow> string \<Rightarrow> nat list throws" where
  "resolve_partition columns p =
    (case position_of p 0 columns of
       None \<Rightarrow> Inr []
     | Some (j, type) \<Rightarrow> bindr (ThrowIfPartitionTypeUnwritable p type ''Delta INSERT'') (\<lambda>_. Inr [j]))"

definition insert_target ::
  "(string \<Rightarrow> string) \<Rightarrow> write_snapshot \<Rightarrow> string \<Rightarrow> column_list \<Rightarrow> DeltaWriteTarget throws" where
  "insert_target norm_path snapshot table_name columns =
    bindr (mapr (resolve_partition columns) (wsn_partition_columns snapshot)) (\<lambda>partitions.
    Inr ((new_DeltaWriteTarget (norm_path (wsn_path snapshot)) table_name)\<lparr>
       wt_partition_columns := concat partitions,
       wt_write_columns := (if wsn_uses_column_mapping snapshot then wsn_columns snapshot else []),
       wt_column_mapped := wsn_uses_column_mapping snapshot \<and> AnyColumnMapped (wsn_columns snapshot),
       wt_hash_partition_directories := wsn_uses_column_mapping snapshot,
       wt_width_bounds := wsn_width_bounds snapshot,
       wt_variant_shredding := wsn_variant_shredding snapshot\<rparr>))"

text \<open>\<open>lookup\<close> finds the table entry: the statement's own, or in child catalog mode the default table's. The
  parent table entry of the transaction is set when the catalog commits through a parent.\<close>

definition PlanInsert ::
  "string_util \<Rightarrow> (logical_type list \<Rightarrow> logical_type) \<Rightarrow> path_ops \<Rightarrow> (string \<Rightarrow> string) \<Rightarrow> (logical_type \<Rightarrow> bool)
     \<Rightarrow> string \<Rightarrow> ('v, 'f) DeltaCatalog \<Rightarrow> (string \<times> column_list \<times> write_snapshot) throws \<Rightarrow> insert_statement
     \<Rightarrow> physical_copy throws" where
  "PlanInsert su tuple po norm_path contains_variant random_uuid catalog lookup op =
    bindr (throw_if (ins_return_chunk op)
      (Err BinderEx ''RETURNING clause not yet supported for insertion into Delta table'' [])) (\<lambda>_.
    bindr (throw_if (\<not> ins_on_conflict_throws op)
      (Err BinderEx ''ON CONFLICT clause not yet supported for insertion into Delta table'' [])) (\<lambda>_.
    bindr (throw_if (UseCachedSnapshot catalog \<and> access_mode catalog \<noteq> READ_ONLY)
      (Err NotImplemented ''INSERT into a Delta table attached with PIN_SNAPSHOT is not supported'' [])) (\<lambda>_.
    bindr lookup (\<lambda>(name, columns, snapshot).
    bindr (throw_if (wsn_allows_defaults snapshot)
      (Err NotImplemented ''Delta table uses the allowColumnDefaults writer feature'' [name])) (\<lambda>_.
    bindr (ThrowIfVariantIsNested contains_variant columns ''Delta INSERT'') (\<lambda>_.
    bindr (insert_target norm_path snapshot name columns) (\<lambda>target.
    PlanDeltaCopy su tuple po random_uuid (ins_child_types op) columns target)))))))"

end
