(* ===== verification/Expression_Visitor.thy ===== *)
theory Expression_Visitor
  imports Inflight_Lists
begin

text \<open>
  KernelExpressionVisitor (delta\_utils.hpp, delta\_utils.cpp): the kernel walks one of its expressions and
  calls the visitor back for every node, children first; the visitor builds DuckDB's parsed expression in
  its field lists. Its consumers are UnpackTransformExpression and the reader of partition values.

  DuckDB's constants are the parameter \<open>ops\<close>: \<open>FromValue\<close> makes the expression of a value (a literal or a cast
  over a literal), \<open>CastLiteral\<close> casts a literal to a named type, \<open>HugeintToBigint\<close> casts a HUGEINT,
  \<open>MaxWidthInt64\<close> is Decimal::MAX\_WIDTH\_INT64, \<open>ToText\<close> prints an expression. An error made from a bare text has the kind \<open>KernelEx\<close>.
\<close>

section \<open>Parsed expressions\<close>

datatype dvalue =
    DV_Null | DV_Boolean bool | DV_Tinyint int | DV_Smallint int | DV_Integer int | DV_Bigint int
  | DV_Float nat | DV_Double nat | DV_Decimal int nat nat | DV_Varchar string | DV_Blob string
  | DV_Date int | DV_Timestamp int | DV_TimestampTZ int | DV_Map "(dvalue \<times> dvalue) list"

datatype comparison_type = COMPARE_LESSTHAN | COMPARE_GREATERTHAN | COMPARE_EQUAL | COMPARE_DISTINCT_FROM

datatype conjunction_type = CONJUNCTION_AND | CONJUNCTION_OR

datatype parsed_expression =
    ConstantExpr dvalue
  | CastExpr bool parsed_expression string
  | ColumnRefExpr string
  | ComparisonExpr comparison_type parsed_expression parsed_expression
  | ConjunctionExpr conjunction_type "parsed_expression list"
  | InExpr "parsed_expression list"
  | FunctionExpr string "parsed_expression list"
  | AliasedExpr string parsed_expression

record expression_ops =
  FromValue :: "dvalue \<Rightarrow> parsed_expression"
  CastLiteral :: "string \<Rightarrow> dvalue \<Rightarrow> dvalue option"
  HugeintToBigint :: "int \<Rightarrow> int throws"
  MaxWidthInt64 :: nat
  ToText :: "parsed_expression \<Rightarrow> string"

fun TryGetLiteralValue :: "expression_ops \<Rightarrow> parsed_expression \<Rightarrow> dvalue option" where
  "TryGetLiteralValue ops (ConstantExpr v) = Some v"
| "TryGetLiteralValue ops (CastExpr try_cast child type) =
    (case child of
       ConstantExpr v \<Rightarrow> if try_cast then None else CastLiteral ops type v
     | _ \<Rightarrow> None)"
| "TryGetLiteralValue ops (AliasedExpr a e) = TryGetLiteralValue ops e"
| "TryGetLiteralValue ops _ = None"

section \<open>The visitor\<close>

record expression_visitor =
  ev_lists :: "nat \<Rightarrow> parsed_expression list option"
  ev_next_id :: nat
  ev_error :: "error option"

definition new_expression_visitor :: expression_visitor where
  "new_expression_visitor = \<lparr>ev_lists = Map.empty, ev_next_id = 1, ev_error = None\<rparr>"

definition EV_MakeFieldListImpl :: "expression_visitor \<Rightarrow> nat \<times> expression_visitor" where
  "EV_MakeFieldListImpl st =
    (ev_next_id st, st\<lparr>ev_next_id := Suc (ev_next_id st), ev_lists := (ev_lists st)(ev_next_id st \<mapsto> [])\<rparr>)"

definition set_error :: "exception_type \<Rightarrow> string \<Rightarrow> expression_visitor \<Rightarrow> expression_visitor" where
  "set_error etype msg st = st\<lparr>ev_error := Some (Err etype msg [])\<rparr>"

definition EV_AppendToList :: "expression_visitor \<Rightarrow> nat \<Rightarrow> parsed_expression \<Rightarrow> expression_visitor" where
  "EV_AppendToList st i child =
    (case ev_lists st i of
       None \<Rightarrow> set_error KernelEx ''KernelExpressionVisitor::AppendToList could not find list'' st
     | Some xs \<Rightarrow> st\<lparr>ev_lists := (ev_lists st)(i \<mapsto> xs @ [child])\<rparr>)"

definition EV_TakeFieldList ::
  "expression_visitor \<Rightarrow> nat \<Rightarrow> parsed_expression list option \<times> expression_visitor" where
  "EV_TakeFieldList st i =
    (case ev_lists st i of
       None \<Rightarrow> (None, set_error KernelEx ''KernelExpressionVisitor::TakeFieldList could not find list'' st)
     | Some xs \<Rightarrow> (Some xs, st\<lparr>ev_lists := (ev_lists st)(i := None)\<rparr>))"

text \<open>The shape all callbacks with one list of children share: take it, return when it is missing.\<close>

definition with_children ::
  "expression_visitor \<Rightarrow> nat \<Rightarrow> (parsed_expression list \<Rightarrow> expression_visitor \<Rightarrow> expression_visitor) \<Rightarrow> expression_visitor" where
  "with_children st child_list_id f =
    (case EV_TakeFieldList st child_list_id of (None, st1) \<Rightarrow> st1 | (Some children, st1) \<Rightarrow> f children st1)"

section \<open>Callbacks for nodes with one list of children\<close>

definition append_function ::
  "string \<Rightarrow> expression_visitor \<Rightarrow> nat \<Rightarrow> nat \<Rightarrow> expression_visitor" where
  "append_function name st sib child_list_id =
     with_children st child_list_id (\<lambda>children st1. EV_AppendToList st1 sib (FunctionExpr name children))"

definition VisitAdditionExpression :: "expression_visitor \<Rightarrow> nat \<Rightarrow> nat \<Rightarrow> expression_visitor" where
  "VisitAdditionExpression = append_function ''+''"

definition VisitSubtractionExpression :: "expression_visitor \<Rightarrow> nat \<Rightarrow> nat \<Rightarrow> expression_visitor" where
  "VisitSubtractionExpression = append_function ''-''"

definition VisitDivideExpression :: "expression_visitor \<Rightarrow> nat \<Rightarrow> nat \<Rightarrow> expression_visitor" where
  "VisitDivideExpression = append_function ''/''"

definition VisitMultiplyExpression :: "expression_visitor \<Rightarrow> nat \<Rightarrow> nat \<Rightarrow> expression_visitor" where
  "VisitMultiplyExpression = append_function ''*''"

definition VisitCoalesceExpression :: "expression_visitor \<Rightarrow> nat \<Rightarrow> nat \<Rightarrow> expression_visitor" where
  "VisitCoalesceExpression st sib child_list_id =
     set_error NotImplemented ''Coalesce expression is not supported yet'' st"

definition VisitArrayLiteral :: "expression_visitor \<Rightarrow> nat \<Rightarrow> nat \<Rightarrow> expression_visitor" where
  "VisitArrayLiteral = append_function ''list_value''"

definition VisitStructExpression :: "expression_visitor \<Rightarrow> nat \<Rightarrow> nat \<Rightarrow> expression_visitor" where
  "VisitStructExpression = append_function ''struct_pack''"

definition VisitNotExpression :: "expression_visitor \<Rightarrow> nat \<Rightarrow> nat \<Rightarrow> expression_visitor" where
  "VisitNotExpression = append_function ''NOT''"

definition VisitIsNullExpression :: "expression_visitor \<Rightarrow> nat \<Rightarrow> nat \<Rightarrow> expression_visitor" where
  "VisitIsNullExpression st sib child_list_id =
     with_children st child_list_id (\<lambda>children st1.
       EV_AppendToList st1 sib (FunctionExpr ''IS'' (children @ [ConstantExpr DV_Null])))"

definition VisitOpaqueExpression :: "expression_visitor \<Rightarrow> nat \<Rightarrow> nat \<Rightarrow> expression_visitor" where
  "VisitOpaqueExpression = append_function ''delta_kernel_opaque_expression''"

definition VisitOpaquePredicate :: "expression_visitor \<Rightarrow> nat \<Rightarrow> nat \<Rightarrow> expression_visitor" where
  "VisitOpaquePredicate = append_function ''delta_kernel_opaque_predicate''"

definition VisitParseJsonExpression :: "expression_visitor \<Rightarrow> nat \<Rightarrow> nat \<Rightarrow> expression_visitor" where
  "VisitParseJsonExpression st sib child_list_id =
     set_error NotImplemented ''visit_parse_json not yet supported'' st"

definition VisitVariadicExpression ::
  "(parsed_expression list \<Rightarrow> parsed_expression) \<Rightarrow> expression_visitor \<Rightarrow> nat \<Rightarrow> nat \<Rightarrow> expression_visitor" where
  "VisitVariadicExpression make_expr st sib child_list_id =
    (case EV_TakeFieldList st child_list_id of
       (None, st1) \<Rightarrow> EV_AppendToList st1 sib (ConstantExpr (DV_Integer 42))
     | (Some children, st1) \<Rightarrow> EV_AppendToList st1 sib (make_expr children))"

definition VisitBinaryExpression ::
  "comparison_type \<Rightarrow> expression_visitor \<Rightarrow> nat \<Rightarrow> nat \<Rightarrow> expression_visitor" where
  "VisitBinaryExpression etype st sib child_list_id =
    (case EV_TakeFieldList st child_list_id of
       (None, st1) \<Rightarrow> EV_AppendToList st1 sib (ConstantExpr (DV_Integer 42))
     | (Some children, st1) \<Rightarrow>
        (case children of
           [lhs, rhs] \<Rightarrow> EV_AppendToList st1 sib (ComparisonExpr etype lhs rhs)
         | _ \<Rightarrow> set_error KernelEx ''INCORRECT SIZE IN VISIT_BINARY_EXPRESSION''
                 (EV_AppendToList st1 sib (ConstantExpr (DV_Integer 42)))))"

datatype node_op =
    Op_Array | Op_And | Op_Or | Op_Lt | Op_Gt | Op_Eq | Op_Distinct | Op_In | Op_Add | Op_Minus | Op_Multiply
  | Op_Divide | Op_Coalesce | Op_StructExpr | Op_Not | Op_IsNull | Op_OpaqueExpr | Op_OpaquePred | Op_ParseJson

text \<open>The table of CreateVisitor for these nodes.\<close>

fun node_callback :: "node_op \<Rightarrow> expression_visitor \<Rightarrow> nat \<Rightarrow> nat \<Rightarrow> expression_visitor" where
  "node_callback Op_Array = VisitArrayLiteral"
| "node_callback Op_And = VisitVariadicExpression (ConjunctionExpr CONJUNCTION_AND)"
| "node_callback Op_Or = VisitVariadicExpression (ConjunctionExpr CONJUNCTION_OR)"
| "node_callback Op_Lt = VisitBinaryExpression COMPARE_LESSTHAN"
| "node_callback Op_Gt = VisitBinaryExpression COMPARE_GREATERTHAN"
| "node_callback Op_Eq = VisitBinaryExpression COMPARE_EQUAL"
| "node_callback Op_Distinct = VisitBinaryExpression COMPARE_DISTINCT_FROM"
| "node_callback Op_In = VisitVariadicExpression InExpr"
| "node_callback Op_Add = VisitAdditionExpression"
| "node_callback Op_Minus = VisitSubtractionExpression"
| "node_callback Op_Multiply = VisitMultiplyExpression"
| "node_callback Op_Divide = VisitDivideExpression"
| "node_callback Op_Coalesce = VisitCoalesceExpression"
| "node_callback Op_StructExpr = VisitStructExpression"
| "node_callback Op_Not = VisitNotExpression"
| "node_callback Op_IsNull = VisitIsNullExpression"
| "node_callback Op_OpaqueExpr = VisitOpaqueExpression"
| "node_callback Op_OpaquePred = VisitOpaquePredicate"
| "node_callback Op_ParseJson = VisitParseJsonExpression"

section \<open>Callbacks for leaves\<close>

definition append_value :: "expression_ops \<Rightarrow> dvalue \<Rightarrow> expression_visitor \<Rightarrow> nat \<Rightarrow> expression_visitor" where
  "append_value ops v st sib = EV_AppendToList st sib (FromValue ops v)"

definition VisitPrimitiveLiteralBool :: "expression_ops \<Rightarrow> bool \<Rightarrow> expression_visitor \<Rightarrow> nat \<Rightarrow> expression_visitor" where
  "VisitPrimitiveLiteralBool ops v = append_value ops (DV_Boolean v)"

definition VisitPrimitiveLiteralByte :: "expression_ops \<Rightarrow> int \<Rightarrow> expression_visitor \<Rightarrow> nat \<Rightarrow> expression_visitor" where
  "VisitPrimitiveLiteralByte ops v = append_value ops (DV_Tinyint v)"

definition VisitPrimitiveLiteralShort :: "expression_ops \<Rightarrow> int \<Rightarrow> expression_visitor \<Rightarrow> nat \<Rightarrow> expression_visitor" where
  "VisitPrimitiveLiteralShort ops v = append_value ops (DV_Smallint v)"

definition VisitPrimitiveLiteralInt :: "expression_ops \<Rightarrow> int \<Rightarrow> expression_visitor \<Rightarrow> nat \<Rightarrow> expression_visitor" where
  "VisitPrimitiveLiteralInt ops v = append_value ops (DV_Integer v)"

definition VisitPrimitiveLiteralLong :: "expression_ops \<Rightarrow> int \<Rightarrow> expression_visitor \<Rightarrow> nat \<Rightarrow> expression_visitor" where
  "VisitPrimitiveLiteralLong ops v = append_value ops (DV_Bigint v)"

definition VisitPrimitiveLiteralFloat :: "expression_ops \<Rightarrow> nat \<Rightarrow> expression_visitor \<Rightarrow> nat \<Rightarrow> expression_visitor" where
  "VisitPrimitiveLiteralFloat ops v = append_value ops (DV_Float v)"

definition VisitPrimitiveLiteralDouble :: "expression_ops \<Rightarrow> nat \<Rightarrow> expression_visitor \<Rightarrow> nat \<Rightarrow> expression_visitor" where
  "VisitPrimitiveLiteralDouble ops v = append_value ops (DV_Double v)"

definition VisitTimestampLiteral :: "expression_ops \<Rightarrow> int \<Rightarrow> expression_visitor \<Rightarrow> nat \<Rightarrow> expression_visitor" where
  "VisitTimestampLiteral ops v = append_value ops (DV_TimestampTZ v)"

definition VisitTimestampNtzLiteral :: "expression_ops \<Rightarrow> int \<Rightarrow> expression_visitor \<Rightarrow> nat \<Rightarrow> expression_visitor" where
  "VisitTimestampNtzLiteral ops v = append_value ops (DV_Timestamp v)"

definition VisitDateLiteral :: "expression_ops \<Rightarrow> int \<Rightarrow> expression_visitor \<Rightarrow> nat \<Rightarrow> expression_visitor" where
  "VisitDateLiteral ops v = append_value ops (DV_Date v)"

definition VisitStringLiteral :: "string \<Rightarrow> expression_visitor \<Rightarrow> nat \<Rightarrow> expression_visitor" where
  "VisitStringLiteral v st sib = EV_AppendToList st sib (ConstantExpr (DV_Varchar v))"

definition VisitBinaryLiteral :: "expression_ops \<Rightarrow> string \<Rightarrow> expression_visitor \<Rightarrow> nat \<Rightarrow> expression_visitor" where
  "VisitBinaryLiteral ops v = append_value ops (DV_Blob v)"

definition VisitNullLiteral :: "expression_visitor \<Rightarrow> nat \<Rightarrow> expression_visitor" where
  "VisitNullLiteral st sib = EV_AppendToList st sib (ConstantExpr DV_Null)"

definition VisitDecimalLiteral ::
  "expression_ops \<Rightarrow> int \<Rightarrow> nat \<Rightarrow> nat \<Rightarrow> nat \<Rightarrow> expression_visitor \<Rightarrow> nat \<Rightarrow> expression_visitor" where
  "VisitDecimalLiteral ops value_ms value_ls precision scale st sib =
    (let hugeint = value_ms * 2 ^ 64 + int value_ls
     in case (if precision < MaxWidthInt64 ops then HugeintToBigint ops hugeint else Inr hugeint) of
          Inl e \<Rightarrow> st\<lparr>ev_error := Some e\<rparr>
        | Inr v \<Rightarrow> append_value ops (DV_Decimal v precision scale) st sib)"

definition VisitColumnExpression :: "string list \<Rightarrow> expression_visitor \<Rightarrow> nat \<Rightarrow> expression_visitor" where
  "VisitColumnExpression parts st sib =
    (case parts of
       [name] \<Rightarrow> EV_AppendToList st sib (ColumnRefExpr name)
     | _ \<Rightarrow> set_error NotImplemented ''Delta column references with a path of several parts are not supported'' st)"

definition VisitIntervalYearMonthLiteral :: "expression_visitor \<Rightarrow> nat \<Rightarrow> expression_visitor" where
  "VisitIntervalYearMonthLiteral st sib = set_error NotImplemented ''Delta interval literals are not supported'' st"

definition VisitIntervalDayTimeLiteral :: "expression_visitor \<Rightarrow> nat \<Rightarrow> expression_visitor" where
  "VisitIntervalDayTimeLiteral st sib = set_error NotImplemented ''Delta interval literals are not supported'' st"

definition VisitUnknown :: "string \<Rightarrow> expression_visitor \<Rightarrow> nat \<Rightarrow> expression_visitor" where
  "VisitUnknown name st sib = EV_AppendToList st sib (FunctionExpr ''delta_kernel_unknown'' [])"

datatype leaf =
    Leaf_Bool bool | Leaf_Byte int | Leaf_Short int | Leaf_Int int | Leaf_Long int | Leaf_Float nat | Leaf_Double nat
  | Leaf_Decimal int nat nat nat | Leaf_Timestamp int | Leaf_TimestampNtz int | Leaf_IntervalYearMonth int
  | Leaf_IntervalDayTime int | Leaf_Date int | Leaf_String string | Leaf_Binary string | Leaf_Null
  | Leaf_Column "string list" | Leaf_Unknown string

fun leaf_callback :: "expression_ops \<Rightarrow> leaf \<Rightarrow> expression_visitor \<Rightarrow> nat \<Rightarrow> expression_visitor" where
  "leaf_callback ops (Leaf_Bool v) = VisitPrimitiveLiteralBool ops v"
| "leaf_callback ops (Leaf_Byte v) = VisitPrimitiveLiteralByte ops v"
| "leaf_callback ops (Leaf_Short v) = VisitPrimitiveLiteralShort ops v"
| "leaf_callback ops (Leaf_Int v) = VisitPrimitiveLiteralInt ops v"
| "leaf_callback ops (Leaf_Long v) = VisitPrimitiveLiteralLong ops v"
| "leaf_callback ops (Leaf_Float v) = VisitPrimitiveLiteralFloat ops v"
| "leaf_callback ops (Leaf_Double v) = VisitPrimitiveLiteralDouble ops v"
| "leaf_callback ops (Leaf_Decimal ms ls p s) = VisitDecimalLiteral ops ms ls p s"
| "leaf_callback ops (Leaf_Timestamp v) = VisitTimestampLiteral ops v"
| "leaf_callback ops (Leaf_TimestampNtz v) = VisitTimestampNtzLiteral ops v"
| "leaf_callback ops (Leaf_IntervalYearMonth v) = VisitIntervalYearMonthLiteral"
| "leaf_callback ops (Leaf_IntervalDayTime v) = VisitIntervalDayTimeLiteral"
| "leaf_callback ops (Leaf_Date v) = VisitDateLiteral ops v"
| "leaf_callback ops (Leaf_String v) = VisitStringLiteral v"
| "leaf_callback ops (Leaf_Binary v) = VisitBinaryLiteral ops v"
| "leaf_callback ops Leaf_Null = VisitNullLiteral"
| "leaf_callback ops (Leaf_Column parts) = VisitColumnExpression parts"
| "leaf_callback ops (Leaf_Unknown name) = VisitUnknown name"

section \<open>Struct and map literals, struct patches\<close>

definition VisitStructLiteral :: "expression_ops \<Rightarrow> expression_visitor \<Rightarrow> nat \<Rightarrow> nat \<Rightarrow> nat \<Rightarrow> expression_visitor" where
  "VisitStructLiteral ops st sib key_list_id value_list_id =
    (let (keys, st1) = EV_TakeFieldList st key_list_id;
         (vals, st2) = EV_TakeFieldList st1 value_list_id
     in case (keys, vals) of
          (Some ks, Some vs) \<Rightarrow>
            if length vs \<noteq> length ks then set_error KernelEx ''Size of Keys and Values vector do not match'' st2
            else EV_AppendToList st2 sib (FunctionExpr ''struct_pack'' (map2 (\<lambda>k v. AliasedExpr (ToText ops k) v) ks vs))
        | _ \<Rightarrow> st2)"

definition literal_values :: "expression_ops \<Rightarrow> parsed_expression list \<Rightarrow> dvalue list option" where
  "literal_values ops es =
    (if list_all (\<lambda>e. TryGetLiteralValue ops e \<noteq> None) es then Some (map (the \<circ> TryGetLiteralValue ops) es) else None)"

text \<open>A key without a value, or a value without a key, is left to \<open>Value::MAP\<close>, which takes the keys and values
  pairwise.\<close>

definition VisitLiteralMap :: "expression_ops \<Rightarrow> expression_visitor \<Rightarrow> nat \<Rightarrow> nat \<Rightarrow> nat \<Rightarrow> expression_visitor" where
  "VisitLiteralMap ops st sib key_list_id value_list_id =
     with_children st key_list_id (\<lambda>ks st1.
     with_children st1 value_list_id (\<lambda>vs st2.
       (case literal_values ops ks of
          None \<Rightarrow> set_error KernelEx ''DuckDB only supports parsing Map literals that consist of constants'' st2
        | Some kvs \<Rightarrow>
            (case literal_values ops vs of
               None \<Rightarrow> set_error KernelEx ''DuckDB only supports parsing Map literals that consist of constants'' st2
             | Some vvs \<Rightarrow> append_value ops (DV_Map (zip kvs vvs)) st2 sib))))"

definition option_equals :: "string \<Rightarrow> parsed_expression \<Rightarrow> parsed_expression" where
  "option_equals name e = ComparisonExpr COMPARE_EQUAL (ColumnRefExpr name) e"

definition MakeStructPatchOp ::
  "string \<Rightarrow> string option \<Rightarrow> parsed_expression list \<Rightarrow> bool \<Rightarrow> bool \<Rightarrow> parsed_expression" where
  "MakeStructPatchOp patch_kind field_name insertions keep_input is_optional =
     FunctionExpr ''delta_transform_op'' (insertions @
       [option_equals ''keep_input'' (ConstantExpr (DV_Boolean keep_input)),
        option_equals ''optional'' (ConstantExpr (DV_Boolean is_optional)),
        option_equals ''field_name'' (case field_name of Some n \<Rightarrow> ConstantExpr (DV_Varchar n) | None \<Rightarrow> ConstantExpr DV_Null),
        option_equals ''kind'' (ConstantExpr (DV_Varchar patch_kind))])"

definition patch_children ::
  "parsed_expression list \<Rightarrow> parsed_expression list \<Rightarrow> parsed_expression list \<Rightarrow> parsed_expression list" where
  "patch_children prepended patches appended =
     (if prepended = [] then [] else [MakeStructPatchOp ''prepend'' None prepended False False]) @ patches @
     (if appended = [] then [] else [MakeStructPatchOp ''append'' None appended False False])"

definition VisitStructPatchExpression ::
  "expression_visitor \<Rightarrow> nat \<Rightarrow> nat \<Rightarrow> nat \<Rightarrow> nat \<Rightarrow> nat \<Rightarrow> expression_visitor" where
  "VisitStructPatchExpression st sib input_path_list_id prepended_list_id patch_list_id appended_list_id =
     with_children st patch_list_id (\<lambda>patches st1.
     with_children st1 prepended_list_id (\<lambda>prepended st2.
     with_children st2 appended_list_id (\<lambda>appended st3.
     with_children st3 input_path_list_id (\<lambda>input_path st4.
       (case input_path of
          [] \<Rightarrow> EV_AppendToList st4 sib
                 (FunctionExpr ''delta_kernel_transform_expression'' (patch_children prepended patches appended))
        | [p] \<Rightarrow> EV_AppendToList st4 sib
                 (FunctionExpr ''delta_kernel_transform_expression''
                    (patch_children prepended patches appended @ [option_equals ''input_path'' p]))
        | _ \<Rightarrow> set_error KernelEx ''Expected zero or one input path for struct patch expression'' st4)))))"

text \<open>The list id 0 means that there are no insertions.\<close>

definition VisitFieldPatch ::
  "expression_visitor \<Rightarrow> nat \<Rightarrow> string \<Rightarrow> nat \<Rightarrow> bool \<Rightarrow> bool \<Rightarrow> expression_visitor" where
  "VisitFieldPatch st sib field_name insertion_list_id keep_input is_optional =
    (if insertion_list_id = 0 then
       EV_AppendToList st sib (MakeStructPatchOp ''field'' (Some field_name) [] keep_input is_optional)
     else with_children st insertion_list_id (\<lambda>insertions st1.
       EV_AppendToList st1 sib (MakeStructPatchOp ''field'' (Some field_name) insertions keep_input is_optional)))"

section \<open>The walk of the kernel and its result\<close>

datatype kernel_expression =
    K_Leaf leaf
  | K_Node node_op "kernel_expression list"
  | K_StructLiteral "kernel_expression list" "kernel_expression list"
  | K_MapLiteral "kernel_expression list" "kernel_expression list"
  | K_FieldPatch string "kernel_expression list" bool bool
  | K_StructPatch "kernel_expression list" "kernel_expression list" "kernel_expression list" "kernel_expression list"

fun walk_expression :: "expression_ops \<Rightarrow> expression_visitor \<Rightarrow> nat \<Rightarrow> kernel_expression \<Rightarrow> expression_visitor"
and walk_list :: "expression_ops \<Rightarrow> expression_visitor \<Rightarrow> nat \<Rightarrow> kernel_expression list \<Rightarrow> expression_visitor" where
  "walk_expression ops st sib (K_Leaf l) = leaf_callback ops l st sib"
| "walk_expression ops st sib (K_Node op children) =
    (case EV_MakeFieldListImpl st of (i, st1) \<Rightarrow>
       node_callback op (walk_list ops st1 i children) sib i)"
| "walk_expression ops st sib (K_StructLiteral keys vals) =
    (case EV_MakeFieldListImpl st of (i, st1) \<Rightarrow>
     case EV_MakeFieldListImpl (walk_list ops st1 i keys) of (j, st2) \<Rightarrow>
       VisitStructLiteral ops (walk_list ops st2 j vals) sib i j)"
| "walk_expression ops st sib (K_MapLiteral keys vals) =
    (case EV_MakeFieldListImpl st of (i, st1) \<Rightarrow>
     case EV_MakeFieldListImpl (walk_list ops st1 i keys) of (j, st2) \<Rightarrow>
       VisitLiteralMap ops (walk_list ops st2 j vals) sib i j)"
| "walk_expression ops st sib (K_FieldPatch name insertions keep_input is_optional) =
    (if insertions = [] then VisitFieldPatch st sib name 0 keep_input is_optional
     else (case EV_MakeFieldListImpl st of (i, st1) \<Rightarrow>
       VisitFieldPatch (walk_list ops st1 i insertions) sib name i keep_input is_optional))"
| "walk_expression ops st sib (K_StructPatch input_path prepended patches appended) =
    (case EV_MakeFieldListImpl st of (i, st1) \<Rightarrow>
     case EV_MakeFieldListImpl (walk_list ops st1 i input_path) of (j, st2) \<Rightarrow>
     case EV_MakeFieldListImpl (walk_list ops st2 j prepended) of (k, st3) \<Rightarrow>
     case EV_MakeFieldListImpl (walk_list ops st3 k patches) of (l, st4) \<Rightarrow>
       VisitStructPatchExpression (walk_list ops st4 l appended) sib i j k l)"
| "walk_list ops st sib [] = st"
| "walk_list ops st sib (e # es) = walk_list ops (walk_expression ops st sib e) sib es"

definition walk_root :: "expression_ops \<Rightarrow> kernel_expression \<Rightarrow> expression_visitor \<Rightarrow> nat \<times> expression_visitor" where
  "walk_root ops e st = (case EV_MakeFieldListImpl st of (i, st1) \<Rightarrow> (i, walk_expression ops st1 i e))"

text \<open>\<open>visit\<close> is the kernel's visit\_expression, visit\_expression\_ref or visit\_predicate.\<close>

definition ToParsedExpression ::
  "(kernel_expression \<Rightarrow> expression_visitor \<Rightarrow> nat \<times> expression_visitor) \<Rightarrow> kernel_expression
     \<Rightarrow> parsed_expression list option throws" where
  "ToParsedExpression visit expression =
    (case visit expression new_expression_visitor of (result, st) \<Rightarrow>
     case ev_error st of
       Some e \<Rightarrow> Inl e
     | None \<Rightarrow> Inr (fst (EV_TakeFieldList st result)))"

definition UnpackTransformExpression :: "parsed_expression list \<Rightarrow> parsed_expression list throws" where
  "UnpackTransformExpression parsed =
    (case parsed of
       [root] \<Rightarrow>
        (case root of
           FunctionExpr name args \<Rightarrow>
             if name \<noteq> ''delta_kernel_transform_expression'' then
               Inl (Err IOEx ''Unexpected function of root expression returned by delta kernel'' [name])
             else Inr args
         | _ \<Rightarrow> Inl (Err IOEx ''Unexpected type of root expression returned by delta kernel'' []))
     | _ \<Rightarrow> Inl (Err IOEx ''Unexpected size of transformation expression returned by delta kernel'' []))"

section \<open>The expression a kernel expression denotes\<close>

text \<open>The abstract specification, by recursion on the kernel's expression; \<open>None\<close> is an expression the extension
  refuses.\<close>

fun leaf_result :: "expression_ops \<Rightarrow> leaf \<Rightarrow> parsed_expression option" where
  "leaf_result ops (Leaf_Bool v) = Some (FromValue ops (DV_Boolean v))"
| "leaf_result ops (Leaf_Byte v) = Some (FromValue ops (DV_Tinyint v))"
| "leaf_result ops (Leaf_Short v) = Some (FromValue ops (DV_Smallint v))"
| "leaf_result ops (Leaf_Int v) = Some (FromValue ops (DV_Integer v))"
| "leaf_result ops (Leaf_Long v) = Some (FromValue ops (DV_Bigint v))"
| "leaf_result ops (Leaf_Float v) = Some (FromValue ops (DV_Float v))"
| "leaf_result ops (Leaf_Double v) = Some (FromValue ops (DV_Double v))"
| "leaf_result ops (Leaf_Decimal ms ls p s) =
    (let v = ms * 2 ^ 64 + int ls
     in if p < MaxWidthInt64 ops
        then (case HugeintToBigint ops v of Inl e \<Rightarrow> None | Inr w \<Rightarrow> Some (FromValue ops (DV_Decimal w p s)))
        else Some (FromValue ops (DV_Decimal v p s)))"
| "leaf_result ops (Leaf_Timestamp v) = Some (FromValue ops (DV_TimestampTZ v))"
| "leaf_result ops (Leaf_TimestampNtz v) = Some (FromValue ops (DV_Timestamp v))"
| "leaf_result ops (Leaf_IntervalYearMonth v) = None"
| "leaf_result ops (Leaf_IntervalDayTime v) = None"
| "leaf_result ops (Leaf_Date v) = Some (FromValue ops (DV_Date v))"
| "leaf_result ops (Leaf_String v) = Some (ConstantExpr (DV_Varchar v))"
| "leaf_result ops (Leaf_Binary v) = Some (FromValue ops (DV_Blob v))"
| "leaf_result ops Leaf_Null = Some (ConstantExpr DV_Null)"
| "leaf_result ops (Leaf_Column parts) = (case parts of [name] \<Rightarrow> Some (ColumnRefExpr name) | _ \<Rightarrow> None)"
| "leaf_result ops (Leaf_Unknown name) = Some (FunctionExpr ''delta_kernel_unknown'' [])"

definition compare :: "comparison_type \<Rightarrow> parsed_expression list \<Rightarrow> parsed_expression option" where
  "compare etype children = (case children of [l, r] \<Rightarrow> Some (ComparisonExpr etype l r) | _ \<Rightarrow> None)"

fun node_result :: "node_op \<Rightarrow> parsed_expression list \<Rightarrow> parsed_expression option" where
  "node_result Op_Array cs = Some (FunctionExpr ''list_value'' cs)"
| "node_result Op_And cs = Some (ConjunctionExpr CONJUNCTION_AND cs)"
| "node_result Op_Or cs = Some (ConjunctionExpr CONJUNCTION_OR cs)"
| "node_result Op_Lt cs = compare COMPARE_LESSTHAN cs"
| "node_result Op_Gt cs = compare COMPARE_GREATERTHAN cs"
| "node_result Op_Eq cs = compare COMPARE_EQUAL cs"
| "node_result Op_Distinct cs = compare COMPARE_DISTINCT_FROM cs"
| "node_result Op_In cs = Some (InExpr cs)"
| "node_result Op_Add cs = Some (FunctionExpr ''+'' cs)"
| "node_result Op_Minus cs = Some (FunctionExpr ''-'' cs)"
| "node_result Op_Multiply cs = Some (FunctionExpr ''*'' cs)"
| "node_result Op_Divide cs = Some (FunctionExpr ''/'' cs)"
| "node_result Op_Coalesce cs = None"
| "node_result Op_StructExpr cs = Some (FunctionExpr ''struct_pack'' cs)"
| "node_result Op_Not cs = Some (FunctionExpr ''NOT'' cs)"
| "node_result Op_IsNull cs = Some (FunctionExpr ''IS'' (cs @ [ConstantExpr DV_Null]))"
| "node_result Op_OpaqueExpr cs = Some (FunctionExpr ''delta_kernel_opaque_expression'' cs)"
| "node_result Op_OpaquePred cs = Some (FunctionExpr ''delta_kernel_opaque_predicate'' cs)"
| "node_result Op_ParseJson cs = None"

definition struct_result :: "expression_ops \<Rightarrow> parsed_expression list \<Rightarrow> parsed_expression list \<Rightarrow> parsed_expression option" where
  "struct_result ops ks vs =
    (if length vs \<noteq> length ks then None
     else Some (FunctionExpr ''struct_pack'' (map2 (\<lambda>k v. AliasedExpr (ToText ops k) v) ks vs)))"

definition map_result :: "expression_ops \<Rightarrow> parsed_expression list \<Rightarrow> parsed_expression list \<Rightarrow> parsed_expression option" where
  "map_result ops ks vs =
    (case (literal_values ops ks, literal_values ops vs) of
       (Some kvs, Some vvs) \<Rightarrow> Some (FromValue ops (DV_Map (zip kvs vvs))) | _ \<Rightarrow> None)"

definition patch_result ::
  "parsed_expression list \<Rightarrow> parsed_expression list \<Rightarrow> parsed_expression list \<Rightarrow> parsed_expression list \<Rightarrow> parsed_expression option" where
  "patch_result input_path prepended patches appended =
    (if length input_path \<le> 1
     then Some (FunctionExpr ''delta_kernel_transform_expression''
       (patch_children prepended patches appended @ map (option_equals ''input_path'') input_path))
     else None)"

fun parse :: "expression_ops \<Rightarrow> kernel_expression \<Rightarrow> parsed_expression option"
and parse_list :: "expression_ops \<Rightarrow> kernel_expression list \<Rightarrow> parsed_expression list option" where
  "parse ops (K_Leaf l) = leaf_result ops l"
| "parse ops (K_Node op children) = Option.bind (parse_list ops children) (node_result op)"
| "parse ops (K_StructLiteral keys vals) =
    Option.bind (parse_list ops keys) (\<lambda>ks. Option.bind (parse_list ops vals) (\<lambda>vs. struct_result ops ks vs))"
| "parse ops (K_MapLiteral keys vals) =
    Option.bind (parse_list ops keys) (\<lambda>ks. Option.bind (parse_list ops vals) (\<lambda>vs. map_result ops ks vs))"
| "parse ops (K_FieldPatch name insertions keep_input is_optional) =
    map_option (\<lambda>is. MakeStructPatchOp ''field'' (Some name) is keep_input is_optional) (parse_list ops insertions)"
| "parse ops (K_StructPatch input_path prepended patches appended) =
    Option.bind (parse_list ops input_path) (\<lambda>ip. Option.bind (parse_list ops prepended) (\<lambda>pre.
    Option.bind (parse_list ops patches) (\<lambda>ps. Option.bind (parse_list ops appended) (\<lambda>app. patch_result ip pre ps app))))"
| "parse_list ops [] = Some []"
| "parse_list ops (e # es) =
    Option.bind (parse ops e) (\<lambda>p. Option.bind (parse_list ops es) (\<lambda>ps. Some (p # ps)))"

section \<open>The visitor keeps its lists\<close>

definition ev_wf :: "expression_visitor \<Rightarrow> bool" where
  "ev_wf st \<longleftrightarrow> ev_error st = None \<and> 0 < ev_next_id st \<and> (\<forall>i. ev_next_id st \<le> i \<longrightarrow> ev_lists st i = None)"

definition ev_take :: "expression_visitor \<Rightarrow> nat \<Rightarrow> parsed_expression list \<times> expression_visitor" where
  "ev_take st i = (case EV_TakeFieldList st i of (None, st1) \<Rightarrow> ([], st1) | (Some xs, st1) \<Rightarrow> (xs, st1))"

interpretation evl: inflight_lists ev_lists ev_wf EV_MakeFieldListImpl EV_AppendToList ev_take
proof (unfold_locales, goal_cases)
  case (1 st i st')
  then show ?case by (auto simp: EV_MakeFieldListImpl_def ev_wf_def)
next
  case (2 st i xs x)
  then have "i < ev_next_id st" unfolding ev_wf_def by (metis not_le option.distinct(1))
  then show ?case using 2 by (auto simp: EV_AppendToList_def ev_wf_def)
next
  case (3 st i xs)
  then show ?case by (auto simp: ev_take_def EV_TakeFieldList_def ev_wf_def)
qed

text \<open>An error stays: no callback clears it.\<close>

definition failed :: "expression_visitor \<Rightarrow> bool" where
  "failed st \<longleftrightarrow> ev_error st \<noteq> None"

lemma failed_make [simp]: "failed (snd (EV_MakeFieldListImpl st)) = failed st"
  by (simp add: EV_MakeFieldListImpl_def failed_def)

lemma failed_set_error [simp]: "failed (set_error k m st)"
  by (simp add: set_error_def failed_def)

lemma failed_append: "failed st \<Longrightarrow> failed (EV_AppendToList st i p)"
  by (simp add: EV_AppendToList_def failed_def set_error_def split: option.split)

lemma failed_take: "failed st \<Longrightarrow> failed (snd (EV_TakeFieldList st i))"
  by (simp add: EV_TakeFieldList_def failed_def set_error_def split: option.split)

lemma failed_with_children:
  "failed st \<Longrightarrow> (\<And>cs st1. failed st1 \<Longrightarrow> failed (f cs st1)) \<Longrightarrow> failed (with_children st i f)"
  using failed_take [of st i]
  by (cases "EV_TakeFieldList st i"; cases "fst (EV_TakeFieldList st i)") (auto simp: with_children_def)

lemmas failed_rules = failed_append failed_set_error failed_with_children

lemma failed_take_cases: "failed st \<Longrightarrow> EV_TakeFieldList st i = (r, st1) \<Longrightarrow> failed st1"
  using failed_take [of st i] by simp

lemmas leaf_defs = VisitPrimitiveLiteralBool_def VisitPrimitiveLiteralByte_def VisitPrimitiveLiteralShort_def
  VisitPrimitiveLiteralInt_def VisitPrimitiveLiteralLong_def VisitPrimitiveLiteralFloat_def
  VisitPrimitiveLiteralDouble_def VisitDecimalLiteral_def VisitTimestampLiteral_def VisitTimestampNtzLiteral_def
  VisitIntervalYearMonthLiteral_def VisitIntervalDayTimeLiteral_def VisitDateLiteral_def VisitStringLiteral_def
  VisitBinaryLiteral_def VisitNullLiteral_def VisitColumnExpression_def VisitUnknown_def append_value_def

lemma failed_leaf: "failed st \<Longrightarrow> failed (leaf_callback ops l st sib)"
  by (cases l) (simp_all add: leaf_defs
      failed_append Let_def failed_def [of "st\<lparr>ev_error := _\<rparr>"] split: sum.split list.split)

lemma failed_variadic:
  "failed st \<Longrightarrow> failed (VisitVariadicExpression f st sib i)" "failed st \<Longrightarrow> failed (VisitBinaryExpression t st sib i)"
  by (auto simp: VisitVariadicExpression_def VisitBinaryExpression_def failed_append
      split: prod.split option.split list.split dest: failed_take_cases)

lemmas node_defs = VisitAdditionExpression_def VisitSubtractionExpression_def VisitDivideExpression_def
  VisitMultiplyExpression_def VisitCoalesceExpression_def VisitArrayLiteral_def VisitStructExpression_def
  VisitNotExpression_def VisitIsNullExpression_def VisitOpaqueExpression_def VisitOpaquePredicate_def
  VisitParseJsonExpression_def append_function_def

lemma failed_node: "failed st \<Longrightarrow> failed (node_callback op st sib i)"
  by (cases op) (simp_all add: node_defs failed_variadic failed_rules)

lemma failed_struct_literal: "failed st \<Longrightarrow> failed (VisitStructLiteral ops st sib i j)"
proof -
  assume f: "failed st"
  obtain ks st1 where 1: "EV_TakeFieldList st i = (ks, st1)" by fastforce
  obtain vs st2 where 2: "EV_TakeFieldList st1 j = (vs, st2)" by fastforce
  have "failed st2" using failed_take_cases f 1 2 by blast
  then show ?thesis using 1 2 by (simp add: VisitStructLiteral_def failed_append split: option.split)
qed

lemma failed_map_literal: "failed st \<Longrightarrow> failed (VisitLiteralMap ops st sib i j)"
  unfolding VisitLiteralMap_def
  by (intro failed_with_children) (auto simp: append_value_def failed_append split: option.split)

lemma failed_field_patch: "failed st \<Longrightarrow> failed (VisitFieldPatch st sib n i k b)"
  by (simp add: VisitFieldPatch_def failed_rules)

lemma failed_struct_patch: "failed st \<Longrightarrow> failed (VisitStructPatchExpression st sib i j k l)"
  unfolding VisitStructPatchExpression_def
  by (intro failed_with_children) (auto simp: failed_append split: list.split)

lemma failed_make_cases: "EV_MakeFieldListImpl st = (i, st1) \<Longrightarrow> failed st1 = failed st"
  using failed_make [of st] by simp

lemma failed_walk:
  "failed st \<Longrightarrow> failed (walk_expression ops st sib e)"
  "failed st \<Longrightarrow> failed (walk_list ops st sib es)"
  by (induction ops st sib e and ops st sib es rule: walk_expression_walk_list.induct)
    (auto simp: failed_make_cases failed_leaf failed_node failed_struct_literal failed_map_literal failed_field_patch
      failed_struct_patch split: prod.split)

section \<open>The walk computes the expression\<close>

lemma failed_error [simp]: "failed (st\<lparr>ev_error := Some e\<rparr>)"
  by (simp add: failed_def)

lemma leaf_callback_result:
  "leaf_result ops l = Some p \<Longrightarrow> leaf_callback ops l st sib = EV_AppendToList st sib p"
  "leaf_result ops l = None \<Longrightarrow> failed (leaf_callback ops l st sib)"
  by (cases l; simp add: leaf_defs Let_def split: sum.splits list.splits if_splits)+

lemma take_some:
  "ev_lists st i = Some cs \<Longrightarrow> EV_TakeFieldList st i = (Some cs, st\<lparr>ev_lists := (ev_lists st)(i := None)\<rparr>)"
  by (simp add: EV_TakeFieldList_def)

lemma with_children_some:
  "ev_lists st i = Some cs \<Longrightarrow> with_children st i f = f cs (st\<lparr>ev_lists := (ev_lists st)(i := None)\<rparr>)"
  by (simp add: with_children_def take_some)

lemma compare_callback:
  assumes "ev_lists st i = Some cs"
  shows "compare t cs = Some p \<Longrightarrow>
      VisitBinaryExpression t st sib i = EV_AppendToList (st\<lparr>ev_lists := (ev_lists st)(i := None)\<rparr>) sib p"
    and "compare t cs = None \<Longrightarrow> failed (VisitBinaryExpression t st sib i)"
  by (simp_all add: VisitBinaryExpression_def take_some [OF assms] compare_def split: list.splits)

lemma node_callback_result:
  assumes "ev_lists st i = Some cs"
  shows "node_result op cs = Some p \<Longrightarrow>
      node_callback op st sib i = EV_AppendToList (st\<lparr>ev_lists := (ev_lists st)(i := None)\<rparr>) sib p"
    and "node_result op cs = None \<Longrightarrow> failed (node_callback op st sib i)"
  by (cases op; simp add: node_defs with_children_some [OF assms] VisitVariadicExpression_def take_some [OF assms]
      compare_callback [OF assms])+

text \<open>A list of children that was visited, next to the lists that were there before.\<close>

lemma list_after_children:
  assumes "ev_wf st" "EV_MakeFieldListImpl st = (i, st1)" "evl.appended st1 i ys st2"
  shows "ev_wf st2 \<and> ev_lists st i = None \<and> ev_lists st2 = (ev_lists st)(i \<mapsto> ys) \<and> i \<noteq> 0"
  using assms evl.make_law [OF assms(1,2)] evl.appended_wf [OF assms(3)]
  by (auto simp: evl.appended_def EV_MakeFieldListImpl_def ev_wf_def)

lemma append_appended:
  assumes "ev_wf st'" "ev_lists st sib = Some xs" "ev_lists st \<subseteq>\<^sub>m ev_lists st'" "L = ev_lists st"
  shows "evl.appended st sib [p] (EV_AppendToList (st'\<lparr>ev_lists := L\<rparr>) sib p)"
proof -
  have fresh: "ev_next_id st' \<le> j \<Longrightarrow> ev_lists st j = None" for j
    using assms(1,3) unfolding ev_wf_def map_le_def dom_def by (metis (mono_tags, lifting) mem_Collect_eq)
  then have "sib < ev_next_id st'" using assms(2) by (metis not_le option.distinct(1))
  then show ?thesis
    using assms fresh by (auto simp: evl.appended_def EV_AppendToList_def ev_wf_def)
qed

definition visits ::
  "expression_visitor \<Rightarrow> nat \<Rightarrow> parsed_expression list option \<Rightarrow> expression_visitor \<Rightarrow> bool" where
  "visits st sib r st' \<longleftrightarrow> (case r of Some ps \<Rightarrow> evl.appended st sib ps st' | None \<Rightarrow> failed st')"

lemma visits_simps [simp]:
  "visits st sib None st' = failed st'" "visits st sib (Some ps) st' = evl.appended st sib ps st'"
  by (simp_all add: visits_def)

lemma new_list_simps:
  assumes "ev_wf st" "EV_MakeFieldListImpl st = (i, st1)"
  shows "ev_wf st1" "ev_lists st1 i = Some []"
  using evl.new_list [OF assms] by simp_all

lemma visited_children:
  assumes "ev_wf st" "EV_MakeFieldListImpl st = (i, st1)" "visits st1 i r st2"
  obtains "r = None" "failed st2"
  | ys where "r = Some ys" "ev_wf st2" "ev_lists st i = None" "ev_lists st2 = (ev_lists st)(i \<mapsto> ys)" "i \<noteq> 0"
  using that assms list_after_children [OF assms(1,2)] by (cases r) auto

lemma struct_literal_visits:
  assumes "ev_wf st'" "ev_lists st sib = Some xs" "ev_lists st i = None" "ev_lists st j = None" "i \<noteq> j"
    and "ev_lists st' = (ev_lists st)(i \<mapsto> ks, j \<mapsto> vs)"
  shows "visits st sib (map_option (\<lambda>p. [p]) (struct_result ops ks vs)) (VisitStructLiteral ops st' sib i j)"
proof -
  have "ev_lists st = (ev_lists st')(i := None, j := None)" using assms(3-6) by (auto simp: fun_eq_iff)
  moreover have "ev_lists st \<subseteq>\<^sub>m ev_lists st'" using assms(3,4,6) by (auto simp: map_le_def)
  ultimately show ?thesis
    using append_appended [OF assms(1,2)] assms(5,6)
    by (auto simp: VisitStructLiteral_def EV_TakeFieldList_def struct_result_def)
qed

lemma map_literal_visits:
  assumes "ev_wf st'" "ev_lists st sib = Some xs" "ev_lists st i = None" "ev_lists st j = None" "i \<noteq> j"
    and "ev_lists st' = (ev_lists st)(i \<mapsto> ks, j \<mapsto> vs)"
  shows "visits st sib (map_option (\<lambda>p. [p]) (map_result ops ks vs)) (VisitLiteralMap ops st' sib i j)"
proof -
  have "ev_lists st = (ev_lists st')(i := None, j := None)" using assms(3-6) by (auto simp: fun_eq_iff)
  moreover have "ev_lists st \<subseteq>\<^sub>m ev_lists st'" using assms(3,4,6) by (auto simp: map_le_def)
  ultimately show ?thesis
    using append_appended [OF assms(1,2)] assms(5,6)
    by (auto simp: VisitLiteralMap_def with_children_some map_result_def append_value_def split: option.split)
qed

lemma struct_patch_visits:
  assumes "ev_wf st'" "ev_lists st sib = Some xs"
    and "ev_lists st i = None" "ev_lists st j = None" "ev_lists st k = None" "ev_lists st l = None" "distinct [i, j, k, l]"
    and lists: "ev_lists st' = (ev_lists st)(i \<mapsto> ip, j \<mapsto> pre, k \<mapsto> ps, l \<mapsto> app)"
  shows "visits st sib (map_option (\<lambda>p. [p]) (patch_result ip pre ps app)) (VisitStructPatchExpression st' sib i j k l)"
proof -
  let ?L = "(ev_lists st')(k := None, j := None, l := None, i := None)"
  have restored: "?L = ev_lists st" using assms(3-8) by (auto simp: fun_eq_iff)
  have le: "ev_lists st \<subseteq>\<^sub>m ev_lists st'" using assms(3-6,8) by (auto simp: map_le_def)
  have at: "ev_lists st' k = Some ps" "((ev_lists st')(k := None)) j = Some pre"
    "((ev_lists st')(k := None, j := None)) l = Some app" "((ev_lists st')(k := None, j := None, l := None)) i = Some ip"
    using assms(7) unfolding lists by simp_all
  have run: "VisitStructPatchExpression st' sib i j k l =
     (case ip of
        [] \<Rightarrow> EV_AppendToList (st'\<lparr>ev_lists := ?L\<rparr>) sib
               (FunctionExpr ''delta_kernel_transform_expression'' (patch_children pre ps app))
      | [p] \<Rightarrow> EV_AppendToList (st'\<lparr>ev_lists := ?L\<rparr>) sib
               (FunctionExpr ''delta_kernel_transform_expression'' (patch_children pre ps app @ [option_equals ''input_path'' p]))
      | _ \<Rightarrow> set_error KernelEx ''Expected zero or one input path for struct patch expression'' (st'\<lparr>ev_lists := ?L\<rparr>))"
    unfolding VisitStructPatchExpression_def using at by (simp add: with_children_some del: fun_upd_apply cong: list.case_cong)
  show ?thesis
    using append_appended [OF assms(1,2) le restored] unfolding run
    by (simp add: patch_result_def split: list.split)
qed

lemma node_visits:
  assumes "ev_wf st'" "ev_lists st sib = Some xs" "ev_lists st i = None" "ev_lists st' = (ev_lists st)(i \<mapsto> cs)"
  shows "visits st sib (map_option (\<lambda>p. [p]) (node_result op cs)) (node_callback op st' sib i)"
proof -
  have l: "ev_lists st' i = Some cs" using assms(4) by simp
  have "(ev_lists st')(i := None) = ev_lists st" using assms(3,4) by (auto simp: fun_eq_iff)
  moreover have "ev_lists st \<subseteq>\<^sub>m ev_lists st'" using assms(3,4) by (auto simp: map_le_def)
  ultimately show ?thesis
    using append_appended [OF assms(1,2)] node_callback_result [OF l, of op]
    by (cases "node_result op cs") auto
qed

lemma field_patch_visits:
  assumes "ev_wf st'" "ev_lists st sib = Some xs" "ev_lists st i = None" "ev_lists st' = (ev_lists st)(i \<mapsto> cs)" "i \<noteq> 0"
  shows "evl.appended st sib [MakeStructPatchOp ''field'' (Some n) cs k b] (VisitFieldPatch st' sib n i k b)"
proof -
  have l: "ev_lists st' i = Some cs" using assms(4) by simp
  have "(ev_lists st')(i := None) = ev_lists st" using assms(3,4) by (auto simp: fun_eq_iff)
  moreover have "ev_lists st \<subseteq>\<^sub>m ev_lists st'" using assms(3,4) by (auto simp: map_le_def)
  ultimately show ?thesis
    using append_appended [OF assms(1,2)] assms(5) l by (simp add: VisitFieldPatch_def with_children_some)
qed

lemma walk_visits:
  "ev_wf st \<Longrightarrow> ev_lists st sib = Some xs \<Longrightarrow>
     visits st sib (map_option (\<lambda>p. [p]) (parse ops e)) (walk_expression ops st sib e)"
  "ev_wf st \<Longrightarrow> ev_lists st sib = Some xs \<Longrightarrow> visits st sib (parse_list ops es) (walk_list ops st sib es)"
proof (induction ops st sib e and ops st sib es arbitrary: xs and xs rule: walk_expression_walk_list.induct)
  case (1 ops st sib l)
  then show ?case
    using leaf_callback_result [of ops l] evl.appended_append by (cases "leaf_result ops l") auto
next
  case (2 ops st sib op children)
  obtain i st1 where mk: "EV_MakeFieldListImpl st = (i, st1)" by fastforce
  show ?case
    using visited_children [OF "2.prems"(1) mk "2.IH" [OF mk [symmetric] new_list_simps [OF "2.prems"(1) mk]]]
  proof cases
    case 1
    then show ?thesis using mk by (simp add: failed_node)
  next
    case (2 ys)
    then show ?thesis using node_visits "2.prems"(2) mk by simp
  qed
next
  case (3 ops st sib keys vals)
  obtain i st1 where mk: "EV_MakeFieldListImpl st = (i, st1)" by fastforce
  obtain j st2 where mk2: "EV_MakeFieldListImpl (walk_list ops st1 i keys) = (j, st2)" by fastforce
  show ?case
    using visited_children [OF "3.prems"(1) mk "3.IH"(1) [OF mk [symmetric] new_list_simps [OF "3.prems"(1) mk]]]
  proof cases
    case 1
    then show ?thesis using mk mk2 by (simp add: failed_struct_literal failed_walk failed_make_cases)
  next
    case keys: (2 ks)
    show ?thesis
      using visited_children [OF keys(2) mk2 "3.IH"(2) [OF mk [symmetric] mk2 [symmetric] new_list_simps [OF keys(2) mk2]]]
    proof cases
      case 1
      then show ?thesis using mk mk2 keys by (simp add: failed_struct_literal)
    next
      case (2 vs)
      moreover have "i \<noteq> j" "ev_lists st j = None" using 2 keys by (auto split: if_splits)
      ultimately show ?thesis using struct_literal_visits [OF 2(2) "3.prems"(2) keys(3)] mk mk2 keys by simp
    qed
  qed
next
  case (4 ops st sib keys vals)
  obtain i st1 where mk: "EV_MakeFieldListImpl st = (i, st1)" by fastforce
  obtain j st2 where mk2: "EV_MakeFieldListImpl (walk_list ops st1 i keys) = (j, st2)" by fastforce
  show ?case
    using visited_children [OF "4.prems"(1) mk "4.IH"(1) [OF mk [symmetric] new_list_simps [OF "4.prems"(1) mk]]]
  proof cases
    case 1
    then show ?thesis using mk mk2 by (simp add: failed_map_literal failed_walk failed_make_cases)
  next
    case keys: (2 ks)
    show ?thesis
      using visited_children [OF keys(2) mk2 "4.IH"(2) [OF mk [symmetric] mk2 [symmetric] new_list_simps [OF keys(2) mk2]]]
    proof cases
      case 1
      then show ?thesis using mk mk2 keys by (simp add: failed_map_literal)
    next
      case (2 vs)
      moreover have "i \<noteq> j" "ev_lists st j = None" using 2 keys by (auto split: if_splits)
      ultimately show ?thesis using map_literal_visits [OF 2(2) "4.prems"(2) keys(3)] mk mk2 keys by simp
    qed
  qed
next
  case (5 ops st sib name insertions keep_input is_optional)
  show ?case
  proof (cases "insertions = []")
    case True
    then show ?thesis
      using evl.appended_append "5.prems" by (simp add: VisitFieldPatch_def)
  next
    case False
    obtain i st1 where mk: "EV_MakeFieldListImpl st = (i, st1)" by fastforce
    show ?thesis
      using visited_children [OF "5.prems"(1) mk "5.IH" [OF False mk [symmetric] new_list_simps [OF "5.prems"(1) mk]]]
    proof cases
      case 1
      then show ?thesis using mk False by (simp add: failed_field_patch)
    next
      case (2 ys)
      then show ?thesis using field_patch_visits "5.prems"(2) mk False by simp
    qed
  qed
next
  case (6 ops st sib input_path prepended patches appended)
  obtain i st1 where mk1: "EV_MakeFieldListImpl st = (i, st1)" by fastforce
  obtain j st2 where mk2: "EV_MakeFieldListImpl (walk_list ops st1 i input_path) = (j, st2)" by fastforce
  obtain k st3 where mk3: "EV_MakeFieldListImpl (walk_list ops st2 j prepended) = (k, st3)" by fastforce
  obtain l st4 where mk4: "EV_MakeFieldListImpl (walk_list ops st3 k patches) = (l, st4)" by fastforce
  note mks = mk1 mk2 mk3 mk4
  note IH = "6.IH"(1) [OF mk1 [symmetric]] "6.IH"(2) [OF mk1 [symmetric] mk2 [symmetric]]
    "6.IH"(3) [OF mk1 [symmetric] mk2 [symmetric] mk3 [symmetric]]
    "6.IH"(4) [OF mk1 [symmetric] mk2 [symmetric] mk3 [symmetric] mk4 [symmetric]]
  note fails = failed_struct_patch failed_walk failed_make_cases [OF mk2] failed_make_cases [OF mk3] failed_make_cases [OF mk4]
  show ?case
    using visited_children [OF "6.prems"(1) mk1 IH(1) [OF new_list_simps [OF "6.prems"(1) mk1]]]
  proof cases
    case 1
    then show ?thesis using mks by (simp add: fails)
  next
    case ip: (2 ip)
    show ?thesis using visited_children [OF ip(2) mk2 IH(2) [OF new_list_simps [OF ip(2) mk2]]]
    proof cases
      case 1
      then show ?thesis using mks ip(1) by (simp add: fails)
    next
      case pre: (2 pre)
      show ?thesis using visited_children [OF pre(2) mk3 IH(3) [OF new_list_simps [OF pre(2) mk3]]]
      proof cases
        case 1
        then show ?thesis using mks ip(1) pre(1) by (simp add: fails)
      next
        case ps: (2 ps)
        show ?thesis using visited_children [OF ps(2) mk4 IH(4) [OF new_list_simps [OF ps(2) mk4]]]
        proof cases
          case 1
          then show ?thesis using mks ip(1) pre(1) ps(1) by (simp add: fails)
        next
          case app: (2 app)
          have "distinct [i, j, k, l]" "ev_lists st j = None" "ev_lists st k = None" "ev_lists st l = None"
            using ip(3,4) pre(3,4) ps(3,4) app(3,4) by (auto split: if_splits)
          then show ?thesis
            using struct_patch_visits [OF app(2) "6.prems"(2) ip(3), of j k l ip pre ps app] mks ip(1,4) pre(1,4) ps(1,4) app(1,4)
            by simp
        qed
      qed
    qed
  qed
next
  case (7 ops st sib)
  then show ?case using evl.appended_refl by simp
next
  case (8 ops st sib e es)
  show ?case
  proof (cases "parse ops e")
    case None
    then show ?thesis using "8.IH"(1) [OF "8.prems"] failed_walk by simp
  next
    case (Some p)
    then have a: "evl.appended st sib [p] (walk_expression ops st sib e)" using "8.IH"(1) [OF "8.prems"] by simp
    have "visits (walk_expression ops st sib e) sib (parse_list ops es)
        (walk_list ops (walk_expression ops st sib e) sib es)"
      using "8.IH"(2) evl.appended_wf [OF a] evl.appended_list [OF a "8.prems"(2)] by blast
    then show ?thesis
      using Some evl.appended_trans [OF a] by (cases "parse_list ops es") auto
  qed
qed

text \<open>The traversal documented for the kernel's visit functions.\<close>

definition documented_expression_visit ::
  "expression_ops \<Rightarrow> (kernel_expression \<Rightarrow> expression_visitor \<Rightarrow> nat \<times> expression_visitor) \<Rightarrow> bool" where
  "documented_expression_visit ops visit \<longleftrightarrow> (\<forall>e st. visit e st = walk_root ops e st)"

lemma ToParsedExpression_visit:
  assumes "documented_expression_visit ops visit"
  shows ToParsedExpression_parsed: "parse ops e = Some p \<Longrightarrow> ToParsedExpression visit e = Inr (Some [p])"
    and ToParsedExpression_refused: "parse ops e = None \<Longrightarrow> \<exists>err. ToParsedExpression visit e = Inl err"
proof -
  obtain i st1 where mk: "EV_MakeFieldListImpl new_expression_visitor = (i, st1)" by fastforce
  have wf: "ev_wf new_expression_visitor" by (simp add: ev_wf_def new_expression_visitor_def)
  note new = new_list_simps [OF wf mk]
  have visited: "visits st1 i (map_option (\<lambda>p. [p]) (parse ops e)) (walk_expression ops st1 i e)"
    using walk_visits(1) [OF new] .
  have run: "visit e new_expression_visitor = (i, walk_expression ops st1 i e)"
    using assms mk by (simp add: documented_expression_visit_def walk_root_def)
  show "\<exists>err. ToParsedExpression visit e = Inl err" if "parse ops e = None"
    using that visited run by (auto simp: ToParsedExpression_def failed_def)
  show "ToParsedExpression visit e = Inr (Some [p])" if p: "parse ops e = Some p"
  proof -
    have a: "evl.appended st1 i [p] (walk_expression ops st1 i e)" using visited p by simp
    then have "ev_error (walk_expression ops st1 i e) = None" "ev_lists (walk_expression ops st1 i e) i = Some [p]"
      using evl.appended_wf [OF a] evl.appended_list [OF a new(2)] by (auto simp: ev_wf_def)
    then show ?thesis using p run by (simp add: ToParsedExpression_def EV_TakeFieldList_def)
  qed
qed

text \<open>C5. The callback machine computes the recursive translation of a kernel expression: an expression
  the extension supports comes back as its translation alone, with the operands in the kernel's order,
  and every other expression (an interval, COALESCE, JSON parsing, a column path of several parts, a
  comparison with a wrong number of operands, a map of other than constants, at any depth) is an error;
  no expression is translated in part.\<close>
theorem ToParsedExpression_refines_parse:
  assumes "documented_expression_visit ops visit"
  shows "case parse ops e of
      Some p \<Rightarrow> ToParsedExpression visit e = Inr (Some [p])
    | None \<Rightarrow> (\<exists>err. ToParsedExpression visit e = Inl err)"
  using ToParsedExpression_parsed [OF assms] ToParsedExpression_refused [OF assms] by (cases "parse ops e") auto

definition example_expression_ops :: expression_ops where
  "example_expression_ops = \<lparr>FromValue = ConstantExpr, CastLiteral = (\<lambda>t v. None), HugeintToBigint = Inr,
     MaxWidthInt64 = 18, ToText = (\<lambda>e. [])\<rparr>"

theorem ToParsedExpression_refines_parse_witness:
  "ToParsedExpression (walk_root example_expression_ops)
     (K_Node Op_Lt [K_Leaf (Leaf_Column [''a'']), K_Node Op_Add [K_Leaf (Leaf_Int 1), K_Leaf (Leaf_Decimal 0 2 5 1)]]) =
   Inr (Some [ComparisonExpr COMPARE_LESSTHAN (ColumnRefExpr ''a'')
     (FunctionExpr ''+'' [ConstantExpr (DV_Integer 1), ConstantExpr (DV_Decimal 2 5 1)])])"
  using ToParsedExpression_refines_parse [of example_expression_ops "walk_root example_expression_ops"
      "K_Node Op_Lt [K_Leaf (Leaf_Column [''a'']), K_Node Op_Add [K_Leaf (Leaf_Int 1), K_Leaf (Leaf_Decimal 0 2 5 1)]]"]
  by (simp add: documented_expression_visit_def example_expression_ops_def compare_def)

end
