(* ===== verification/Predicate_Visitor.thy ===== *)
theory Predicate_Visitor
  imports Expression_Visitor Column_Def "HOL-Library.AList"
begin

text \<open>
  PredicateVisitor (delta\_utils.hpp, delta\_utils.cpp): the filters DuckDB pushes into a scan become one kernel
  predicate, which the kernel uses to skip files. The kernel's predicates and expressions are opaque; its
  entry points are the parameter \<open>pk\<close>, next to the DuckDB functions on types and comparisons the visitor calls
  (FlipComparisonExpression, LogicalType::IsNested, whether decimals of a width are 128 bits wide). An id is valid, or the null id that ends an iteration, or the id
  \<open>~0\<close> the visitor returns for what it cannot express. The property that matters is that a row the query needs
  is never cut off: what the visitor cannot express it leaves out of a conjunction.
\<close>

section \<open>Filters\<close>

datatype compare_op =
    CMP_LT | CMP_LE | CMP_GT | CMP_GE | CMP_EQ | CMP_NE | CMP_BETWEEN | CMP_NOT_BETWEEN | CMP_IN | CMP_NOT_IN
  | CMP_DISTINCT | CMP_NOT_DISTINCT

datatype bound_operator = OPERATOR_IS_NULL | OPERATOR_IS_NOT_NULL | OTHER_OPERATOR string

text \<open>A bound filter expression, as far as the visitor looks into it. \<open>F_Function\<close> is a bound function with its name,
  the fields of its first argument's type when that is a struct, the index TryGetStructExtractChildIndex finds,
  and its arguments; \<open>F_Optional\<close> and \<open>F_SelectivityOptional\<close> are the functions of an optional filter with
  bind info, and the filter inside it, if any.\<close>

datatype filter_expression =
    F_Reference
  | F_Constant dvalue
  | F_Compare compare_op filter_expression filter_expression
  | F_Conjunction conjunction_type "filter_expression list"
  | F_Operator bound_operator "filter_expression list"
  | F_Optional "filter_expression option"
  | F_SelectivityOptional "filter_expression option"
  | F_Function string "string list option" "nat option" "filter_expression list"
  | F_Other

section \<open>The kernel\<close>

datatype 'a kernel_id = Null_Id | Invalid_Id | Valid_Id 'a

record ('e, 'p) predicate_kernel =
  pk_column :: "string list \<Rightarrow> string option + 'e kernel_id"
  pk_literal :: "dvalue \<Rightarrow> 'e kernel_id"
  pk_literal_string :: "string \<Rightarrow> string option + 'e kernel_id"
  pk_literal_decimal :: "64 word \<Rightarrow> 64 word \<Rightarrow> nat \<Rightarrow> nat \<Rightarrow> string option + 'e kernel_id"
  pk_compare :: "compare_op \<Rightarrow> 'e kernel_id \<Rightarrow> 'e kernel_id \<Rightarrow> 'p kernel_id"
  pk_is_null :: "'e kernel_id \<Rightarrow> 'p kernel_id"
  pk_not :: "'p kernel_id \<Rightarrow> 'p kernel_id"
  pk_and :: "'p kernel_id list \<Rightarrow> 'p kernel_id"
  pk_flip :: "compare_op \<Rightarrow> compare_op"
  pk_is_nested :: "logical_type \<Rightarrow> bool"
  pk_is_int128 :: "nat \<Rightarrow> bool"

definition kernel_error :: "string option \<Rightarrow> error" where
  "kernel_error e = Err IOEx (case e of None \<Rightarrow> ''Unknown Delta kernel error'' | Some m \<Rightarrow> m) []"

section \<open>Constants\<close>

text \<open>The two halves of a decimal's unscaled value: of a 128-bit value its own halves, of a narrower one the sign
  extension and the value.\<close>

definition decimal_halves :: "bool \<Rightarrow> int \<Rightarrow> 64 word \<times> 64 word" where
  "decimal_halves is_int128 v =
    (if is_int128 then (word_of_int (v div 2 ^ 64), word_of_int v)
     else (if v < 0 then - 1 else 0, word_of_int v))"

text \<open>The id of the constant, or the error of the kernel; a type that is not listed keeps the id \<open>~0\<close>.\<close>

fun VisitConstant :: "('e, 'p) predicate_kernel \<Rightarrow> dvalue \<Rightarrow> string option + 'e kernel_id" where
  "VisitConstant pk (DV_Bigint v) = Inr (pk_literal pk (DV_Bigint v))"
| "VisitConstant pk (DV_Integer v) = Inr (pk_literal pk (DV_Integer v))"
| "VisitConstant pk (DV_Smallint v) = Inr (pk_literal pk (DV_Smallint v))"
| "VisitConstant pk (DV_Tinyint v) = Inr (pk_literal pk (DV_Tinyint v))"
| "VisitConstant pk (DV_Float v) = Inr (pk_literal pk (DV_Float v))"
| "VisitConstant pk (DV_Double v) = Inr (pk_literal pk (DV_Double v))"
| "VisitConstant pk (DV_Boolean v) = Inr (pk_literal pk (DV_Boolean v))"
| "VisitConstant pk (DV_Date v) = Inr (pk_literal pk (DV_Date v))"
| "VisitConstant pk (DV_Varchar v) = pk_literal_string pk v"
| "VisitConstant pk (DV_Decimal v width scale) =
    (let (hi, lo) = decimal_halves (pk_is_int128 pk width) v in pk_literal_decimal pk hi lo width scale)"
| "VisitConstant pk (DV_Timestamp v) = Inr (pk_literal pk (DV_Timestamp v))"
| "VisitConstant pk (DV_TimestampTZ v) = Inr (pk_literal pk (DV_TimestampTZ v))"
| "VisitConstant pk _ = Inr Invalid_Id"

definition comparison_supported :: "compare_op \<Rightarrow> bool" where
  "comparison_supported op \<longleftrightarrow> op \<in> {CMP_LT, CMP_LE, CMP_GT, CMP_GE, CMP_EQ, CMP_NE}"

text \<open>The result of a visit: the id and \<open>error_data\<close> after it.\<close>

type_synonym 'p visit_result = "'p kernel_id \<times> error option"

definition VisitConstantFilter ::
  "('e, 'p) predicate_kernel \<Rightarrow> string list \<Rightarrow> compare_op \<Rightarrow> dvalue \<Rightarrow> error option \<Rightarrow> 'p visit_result" where
  "VisitConstantFilter pk col_path comparison value err =
    (case pk_column pk col_path of
       Inl e \<Rightarrow> (Invalid_Id, Some (kernel_error e))
     | Inr left \<Rightarrow>
        (case VisitConstant pk value of
           Inl e \<Rightarrow> (Invalid_Id, Some (kernel_error e))
         | Inr right \<Rightarrow>
             (if comparison_supported comparison then pk_compare pk comparison left right else Invalid_Id, err)))"

definition VisitIsNull ::
  "('e, 'p) predicate_kernel \<Rightarrow> string list \<Rightarrow> error option \<Rightarrow> 'p visit_result" where
  "VisitIsNull pk col_path err =
    (case pk_column pk col_path of
       Inl e \<Rightarrow> (Invalid_Id, Some (kernel_error e))
     | Inr inner \<Rightarrow> (pk_is_null pk inner, err))"

definition VisitIsNotNull ::
  "('e, 'p) predicate_kernel \<Rightarrow> string list \<Rightarrow> error option \<Rightarrow> 'p visit_result" where
  "VisitIsNotNull pk col_path err = (let (inner, err1) = VisitIsNull pk col_path err in (pk_not pk inner, err1))"

section \<open>Filter expressions\<close>

fun ResolveFilterColumnPath :: "filter_expression \<Rightarrow> string \<Rightarrow> string list option" where
  "ResolveFilterColumnPath F_Reference base = Some [base]"
| "ResolveFilterColumnPath (F_Function name names child_idx args) base =
    (if name \<noteq> ''struct_extract'' \<and> name \<noteq> ''struct_extract_at'' then None
     else (case args of
             [] \<Rightarrow> None
           | arg # _ \<Rightarrow>
              (case (names, child_idx) of
                 (Some fs, Some i) \<Rightarrow>
                   (case ResolveFilterColumnPath arg base of
                      None \<Rightarrow> None
                    | Some parent \<Rightarrow> Some (parent @ [fs ! i]))
               | _ \<Rightarrow> None)))"
| "ResolveFilterColumnPath _ base = None"

text \<open>The path of a filter's subject, unless it is a bare reference to a nested column.\<close>

definition subject_path :: "bool \<Rightarrow> string \<Rightarrow> filter_expression \<Rightarrow> string list option" where
  "subject_path base_is_nested column_name expr =
    (case ResolveFilterColumnPath expr column_name of
       None \<Rightarrow> None
     | Some path \<Rightarrow> if length path = 1 \<and> base_is_nested then None else Some path)"

fun constant_value :: "filter_expression \<Rightarrow> dvalue option" where
  "constant_value (F_Constant v) = Some v"
| "constant_value _ = None"

definition VisitComparison ::
  "('e, 'p) predicate_kernel \<Rightarrow> bool \<Rightarrow> string \<Rightarrow> compare_op \<Rightarrow> filter_expression \<Rightarrow> filter_expression
     \<Rightarrow> error option \<Rightarrow> 'p visit_result" where
  "VisitComparison pk base_is_nested column_name comparison left right err =
    (case (constant_value left, subject_path base_is_nested column_name right) of
       (Some v, Some path) \<Rightarrow> VisitConstantFilter pk path (pk_flip pk comparison) v err
     | _ \<Rightarrow>
        (case (constant_value right, subject_path base_is_nested column_name left) of
           (Some v, Some path) \<Rightarrow> VisitConstantFilter pk path comparison v err
         | _ \<Rightarrow> (Invalid_Id, err)))"

definition VisitOperator ::
  "('e, 'p) predicate_kernel \<Rightarrow> bool \<Rightarrow> string \<Rightarrow> bound_operator \<Rightarrow> filter_expression list \<Rightarrow> error option \<Rightarrow> 'p visit_result" where
  "VisitOperator pk base_is_nested column_name op children err =
    (case children of
       [child] \<Rightarrow>
        (case subject_path base_is_nested column_name child of
           None \<Rightarrow> (Invalid_Id, err)
         | Some path \<Rightarrow>
            (case op of
               OPERATOR_IS_NULL \<Rightarrow> VisitIsNull pk path err
             | OPERATOR_IS_NOT_NULL \<Rightarrow> VisitIsNotNull pk path err
             | OTHER_OPERATOR _ \<Rightarrow> (Invalid_Id, err)))
     | _ \<Rightarrow> (Invalid_Id, err))"

text \<open>The kernel draws the children of a conjunction from an iterator until it returns 0: a child whose id is 0
  ends the iteration, the children after it are not visited.\<close>

fun VisitFilterExpression ::
  "('e, 'p) predicate_kernel \<Rightarrow> bool \<Rightarrow> string \<Rightarrow> filter_expression \<Rightarrow> error option \<Rightarrow> 'p visit_result"
and visit_conjuncts ::
  "('e, 'p) predicate_kernel \<Rightarrow> bool \<Rightarrow> string \<Rightarrow> filter_expression list \<Rightarrow> error option
     \<Rightarrow> 'p kernel_id list \<times> error option" where
  "VisitFilterExpression pk nested column_name (F_Compare op l r) err = VisitComparison pk nested column_name op l r err"
| "VisitFilterExpression pk nested column_name (F_Conjunction ctype children) err =
    (if ctype \<noteq> CONJUNCTION_AND then (Invalid_Id, err)
     else (let (ids, err1) = visit_conjuncts pk nested column_name children err in (pk_and pk ids, err1)))"
| "VisitFilterExpression pk nested column_name (F_Operator op children) err = VisitOperator pk nested column_name op children err"
| "VisitFilterExpression pk nested column_name (F_Optional child) err =
    (case child of Some c \<Rightarrow> VisitFilterExpression pk nested column_name c err | None \<Rightarrow> (Invalid_Id, err))"
| "VisitFilterExpression pk nested column_name (F_SelectivityOptional child) err =
    (case child of Some c \<Rightarrow> VisitFilterExpression pk nested column_name c err | None \<Rightarrow> (Invalid_Id, err))"
| "VisitFilterExpression pk nested column_name _ err = (Invalid_Id, err)"
| "visit_conjuncts pk nested column_name [] err = ([], err)"
| "visit_conjuncts pk nested column_name (c # cs) err =
    (let (i, err1) = VisitFilterExpression pk nested column_name c err
     in if i = Null_Id then ([], err1)
        else (let (ids, err2) = visit_conjuncts pk nested column_name cs err1 in (i # ids, err2)))"

section \<open>The predicate of a scan\<close>

record predicate_visitor =
  pv_column_filters :: "(string \<times> filter_expression) list"
  pv_column_types :: "(string \<times> logical_type) list"

definition new_PredicateVisitor :: "column_def list \<Rightarrow> (nat \<times> filter_expression) list \<Rightarrow> predicate_visitor" where
  "new_PredicateVisitor columns filters =
    fold (\<lambda>(i, f) pv.
       \<lparr>pv_column_filters = AList.update (cd_name (columns ! i)) f (pv_column_filters pv),
        pv_column_types = AList.update (cd_name (columns ! i)) (cd_type (columns ! i)) (pv_column_types pv)\<rparr>)
      filters \<lparr>pv_column_filters = [], pv_column_types = []\<rparr>"

definition VisitFilter ::
  "('e, 'p) predicate_kernel \<Rightarrow> predicate_visitor \<Rightarrow> string \<Rightarrow> filter_expression \<Rightarrow> error option \<Rightarrow> 'p visit_result" where
  "VisitFilter pk pv column_name f err =
     VisitFilterExpression pk
       (case map_of (pv_column_types pv) column_name of None \<Rightarrow> False | Some t \<Rightarrow> pk_is_nested pk t) column_name f err"

fun visit_filters ::
  "('e, 'p) predicate_kernel \<Rightarrow> predicate_visitor \<Rightarrow> (string \<times> filter_expression) list \<Rightarrow> error option
     \<Rightarrow> 'p kernel_id list \<times> error option" where
  "visit_filters pk pv [] err = ([], err)"
| "visit_filters pk pv ((column_name, f) # fs) err =
    (let (i, err1) = VisitFilter pk pv column_name f err
     in if i = Null_Id then ([], err1)
        else (let (ids, err2) = visit_filters pk pv fs err1 in (i # ids, err2)))"

text \<open>\<open>column_filters\<close> is a hash map; \<open>iter\<close> is the order its iterator has.\<close>

definition VisitPredicate ::
  "('e, 'p) predicate_kernel \<Rightarrow> ((string \<times> filter_expression) list \<Rightarrow> (string \<times> filter_expression) list)
     \<Rightarrow> predicate_visitor \<Rightarrow> 'p visit_result" where
  "VisitPredicate pk iter pv =
    (let (ids, err) = visit_filters pk pv (iter (pv_column_filters pv)) None in (pk_and pk ids, err))"

section \<open>What filters and predicates mean\<close>

text \<open>The value of a column in a row, and its fields by position (DuckDB's struct\_extract) and by name (the
  kernel's column paths).\<close>

datatype nested = Scalar dvalue | Null_Value | Struct_Value "(string \<times> nested) list"

fun eval_subject :: "nested \<Rightarrow> filter_expression \<Rightarrow> nested" where
  "eval_subject v F_Reference = v"
| "eval_subject v (F_Constant c) = (if c = DV_Null then Null_Value else Scalar c)"
| "eval_subject v (F_Function name names (Some i) (arg # args)) =
    (case eval_subject v arg of Struct_Value kvs \<Rightarrow> snd (kvs ! i) | _ \<Rightarrow> Null_Value)"
| "eval_subject v _ = Null_Value"

fun lookup_path :: "nested \<Rightarrow> string list \<Rightarrow> nested" where
  "lookup_path v [] = v"
| "lookup_path (Struct_Value kvs) (n # ns) =
    (case map_of kvs n of None \<Rightarrow> Null_Value | Some w \<Rightarrow> lookup_path w ns)"
| "lookup_path _ (n # ns) = Null_Value"

text \<open>The static types of a struct access fit the value.\<close>

fun subject_typed :: "nested \<Rightarrow> filter_expression \<Rightarrow> bool" where
  "subject_typed v (F_Function name names child_idx (arg # args)) =
    (subject_typed v arg \<and>
     (case (names, child_idx) of
        (Some fs, Some i) \<Rightarrow> distinct fs \<and> i < length fs \<and>
          (case eval_subject v arg of Struct_Value kvs \<Rightarrow> map fst kvs = fs | Null_Value \<Rightarrow> True | Scalar c \<Rightarrow> False)
      | _ \<Rightarrow> True))"
| "subject_typed v _ = True"

text \<open>\<open>truth\<close> is the outcome of a comparison of two values that are not NULL; \<open>other\<close> is the outcome of a filter the
  visitor has no case for. An optional filter holds of every row the query needs.\<close>

fun passes ::
  "(compare_op \<Rightarrow> dvalue \<Rightarrow> dvalue \<Rightarrow> bool) \<Rightarrow> (filter_expression \<Rightarrow> nested \<Rightarrow> bool) \<Rightarrow> nested \<Rightarrow> filter_expression \<Rightarrow> bool" where
  "passes truth other v (F_Compare op l r) =
    (if comparison_supported op
     then (case (eval_subject v l, eval_subject v r) of (Scalar a, Scalar b) \<Rightarrow> truth op a b | _ \<Rightarrow> False)
     else other (F_Compare op l r) v)"
| "passes truth other v (F_Conjunction ctype cs) =
    (if ctype = CONJUNCTION_AND then (\<forall>c \<in> set cs. passes truth other v c) else (\<exists>c \<in> set cs. passes truth other v c))"
| "passes truth other v (F_Operator op cs) =
    (case (op, cs) of
       (OPERATOR_IS_NULL, [c]) \<Rightarrow> eval_subject v c = Null_Value
     | (OPERATOR_IS_NOT_NULL, [c]) \<Rightarrow> eval_subject v c \<noteq> Null_Value
     | _ \<Rightarrow> other (F_Operator op cs) v)"
| "passes truth other v (F_Optional c) = (case c of Some f \<Rightarrow> passes truth other v f | None \<Rightarrow> True)"
| "passes truth other v (F_SelectivityOptional c) = (case c of Some f \<Rightarrow> passes truth other v f | None \<Rightarrow> True)"
| "passes truth other v f = other f v"

text \<open>A decimal of a width that is not stored in 128 bits fits 64 bits.\<close>

fun constant_fits :: "('e, 'p) predicate_kernel \<Rightarrow> filter_expression \<Rightarrow> bool" where
  "constant_fits pk (F_Constant (DV_Decimal v width scale)) =
    (if pk_is_int128 pk width then - (2 ^ 127) \<le> v \<and> v < 2 ^ 127 else - (2 ^ 63) \<le> v \<and> v < 2 ^ 63)"
| "constant_fits pk _ = True"

fun filter_typed :: "('e, 'p) predicate_kernel \<Rightarrow> nested \<Rightarrow> filter_expression \<Rightarrow> bool" where
  "filter_typed pk v (F_Compare op l r) =
    (subject_typed v l \<and> subject_typed v r \<and> constant_fits pk l \<and> constant_fits pk r)"
| "filter_typed pk v (F_Conjunction ctype cs) = (\<forall>c \<in> set cs. filter_typed pk v c)"
| "filter_typed pk v (F_Operator op cs) = (\<forall>c \<in> set cs. subject_typed v c)"
| "filter_typed pk v (F_Optional c) = (case c of Some f \<Rightarrow> filter_typed pk v f | None \<Rightarrow> True)"
| "filter_typed pk v (F_SelectivityOptional c) = (case c of Some f \<Rightarrow> filter_typed pk v f | None \<Rightarrow> True)"
| "filter_typed pk v _ = True"

lemma lookup_path_append: "lookup_path v (ns @ ms) = lookup_path (lookup_path v ns) ms"
  by (induction v ns rule: lookup_path.induct) (auto split: option.split, (cases ms; simp)+)

lemma map_of_nth: "distinct (map fst kvs) \<Longrightarrow> i < length kvs \<Longrightarrow> map_of kvs (fst (kvs ! i)) = Some (snd (kvs ! i))"
  by (metis map_of_is_SomeI nth_mem prod.collapse)

lemma ResolveFilterColumnPath_value:
  "ResolveFilterColumnPath e base = Some path \<Longrightarrow> subject_typed v e \<Longrightarrow>
     \<exists>ns. path = base # ns \<and> eval_subject v e = lookup_path v ns"
proof (induction e base arbitrary: path rule: ResolveFilterColumnPath.induct)
  case (2 name names child_idx args base)
  then obtain arg rest fs i parent where e: "args = arg # rest" "names = Some fs" "child_idx = Some i"
    "ResolveFilterColumnPath arg base = Some parent" "path = parent @ [fs ! i]"
    "name = ''struct_extract'' \<or> name = ''struct_extract_at''"
    by (auto split: if_splits list.splits option.splits)
  then have "subject_typed v arg" using "2.prems" by simp
  then obtain ns where ns: "parent = base # ns" "eval_subject v arg = lookup_path v ns"
    using "2.IH" [OF _ e(1) _ e(2,3)] e by auto
  have "eval_subject v (F_Function name names child_idx args) = lookup_path v (ns @ [fs ! i])"
    using e "2.prems"(2) ns
    by (auto simp: lookup_path_append map_of_nth split: nested.splits)
  then show ?case using e ns by auto
qed simp_all

lemma subject_path_value:
  "subject_path nested base e = Some path \<Longrightarrow> subject_typed v e \<Longrightarrow>
     \<exists>ns. path = base # ns \<and> eval_subject v e = lookup_path v ns"
  by (auto simp: subject_path_def split: option.splits if_splits dest: ResolveFilterColumnPath_value)

lemma decimal_halves_value:
  assumes "decimal_halves wide v = (hi, lo)"
    and "if wide then - (2 ^ 127) \<le> v \<and> v < 2 ^ 127 else - (2 ^ 63) \<le> v \<and> v < 2 ^ 63"
  shows "sint hi * 2 ^ 64 + uint lo = v"
proof (cases wide)
  case True
  have bounds: "- (2 ^ 63) \<le> v div 2 ^ 64" "v div 2 ^ 64 < 2 ^ 63"
    using assms True by auto
  then have "sint (word_of_int (v div 2 ^ 64) :: 64 word) = v div 2 ^ 64"
    by (simp add: int_word_sint)
  then show ?thesis using assms True
    by (auto simp: decimal_halves_def uint_word_of_int)
next
  case False
  have "v mod 2 ^ 64 = v + 2 ^ 64" if "v < 0" "- (2 ^ 63) \<le> v"
    using that mod_pos_pos_trivial [of "v + 18446744073709551616" 18446744073709551616] by simp
  then show ?thesis using assms False
    by (auto simp: decimal_halves_def uint_word_of_int)
qed

text \<open>Every id of a conjunction is the id of one of the visited filters.\<close>

lemma visit_conjuncts_ids:
  "visit_conjuncts pk nst base fs err = (ids, err1) \<Longrightarrow> i \<in> set ids \<Longrightarrow>
     \<exists>f \<in> set fs. \<exists>e e1. VisitFilterExpression pk nst base f e = (i, e1)"
proof (induction fs arbitrary: err ids)
  case (Cons f fs)
  then show ?case by (auto split: prod.splits if_splits) blast+
qed simp

lemma visit_filters_ids:
  "visit_filters pk pv fs err = (ids, err1) \<Longrightarrow> i \<in> set ids \<Longrightarrow>
     \<exists>(n, f) \<in> set fs. \<exists>e e1. VisitFilter pk pv n f e = (i, e1)"
proof (induction fs arbitrary: err ids)
  case (Cons nf fs)
  then show ?case by (cases nf) (auto split: prod.splits if_splits, blast+)
qed simp

section \<open>The kernel's predicates\<close>

text \<open>What the visitor relies on: \<open>denotes e row\<close> is the value of a kernel expression, \<open>sat p row\<close> the three-valued outcome
  of a kernel predicate (None is unknown). A node built from an invalid one is not valid. A decimal literal is
  the signed number of its two halves.\<close>

locale predicate_semantics =
  fixes pk :: "('e, 'p) predicate_kernel"
    and denotes :: "'e \<Rightarrow> nested \<Rightarrow> nested"
    and sat :: "'p \<Rightarrow> nested \<Rightarrow> bool option"
    and truth :: "compare_op \<Rightarrow> dvalue \<Rightarrow> dvalue \<Rightarrow> bool"
  assumes column: "pk_column pk path = Inr (Valid_Id e) \<Longrightarrow> denotes e row = lookup_path row path"
    and literal: "pk_literal pk c = Valid_Id e \<Longrightarrow> denotes e row = Scalar c"
    and literal_string: "pk_literal_string pk s = Inr (Valid_Id e) \<Longrightarrow> denotes e row = Scalar (DV_Varchar s)"
    and literal_decimal: "pk_literal_decimal pk hi lo width scale = Inr (Valid_Id e) \<Longrightarrow>
      denotes e row = Scalar (DV_Decimal (sint hi * 2 ^ 64 + uint lo) width scale)"
    and compare: "pk_compare pk op l r = Valid_Id p \<Longrightarrow>
      \<exists>a b. l = Valid_Id a \<and> r = Valid_Id b \<and>
        (\<forall>x y. denotes a row = Scalar x \<longrightarrow> denotes b row = Scalar y \<longrightarrow> sat p row = Some (truth op x y))"
    and is_null: "pk_is_null pk inner = Valid_Id p \<Longrightarrow> \<exists>a. inner = Valid_Id a \<and> sat p row = Some (denotes a row = Null_Value)"
    and negation: "pk_not pk i = Valid_Id p \<Longrightarrow> \<exists>q. i = Valid_Id q \<and> sat p row = map_option Not (sat q row)"
    and conjunction: "pk_and pk ids = Valid_Id p \<Longrightarrow>
      (\<And>q. Valid_Id q \<in> set ids \<Longrightarrow> sat q row = Some True) \<Longrightarrow> sat p row = Some True"
    and flip: "comparison_supported (pk_flip pk op) \<longleftrightarrow> comparison_supported op"
      "comparison_supported op \<Longrightarrow> truth (pk_flip pk op) x y = truth op y x"
begin

lemma VisitConstant_denotes:
  "VisitConstant pk c = Inr (Valid_Id e) \<Longrightarrow> constant_fits pk (F_Constant c) \<Longrightarrow> denotes e row = Scalar c"
  by (cases "(pk, c)" rule: VisitConstant.cases)
     (auto simp: literal literal_string literal_decimal split: prod.splits dest!: decimal_halves_value)

lemma VisitConstantFilter_supported:
  "VisitConstantFilter pk path op c err = (Valid_Id p, err1) \<Longrightarrow> comparison_supported op"
  by (auto simp: VisitConstantFilter_def split: sum.splits if_splits)

lemma VisitConstantFilter_sat:
  assumes "VisitConstantFilter pk path op c err = (Valid_Id p, err1)"
    and "constant_fits pk (F_Constant c)" and "lookup_path row path = Scalar x"
  shows "sat p row = Some (truth op x c)"
  using assms compare [of op _ _ p row] VisitConstant_denotes column
  by (fastforce simp: VisitConstantFilter_def split: sum.splits if_splits)

lemma VisitIsNull_sat:
  "VisitIsNull pk path err = (Valid_Id p, err1) \<Longrightarrow> sat p row = Some (lookup_path row path = Null_Value)"
  using is_null column by (fastforce simp: VisitIsNull_def split: sum.splits)

lemma VisitIsNotNull_sat:
  assumes "VisitIsNotNull pk path err = (Valid_Id p, err1)"
  shows "sat p row = Some (lookup_path row path \<noteq> Null_Value)"
proof -
  obtain i err2 where "VisitIsNull pk path err = (i, err2)" "pk_not pk i = Valid_Id p"
    using assms by (auto simp: VisitIsNotNull_def split: prod.splits)
  moreover obtain q where "i = Valid_Id q" "sat p row = map_option Not (sat q row)"
    using negation calculation(2) by blast
  ultimately show ?thesis using VisitIsNull_sat by auto
qed

lemma subject_path_lookup:
  "subject_path nst base f = Some path \<Longrightarrow> subject_typed (lookup_path row [base]) f \<Longrightarrow>
     lookup_path row path = eval_subject (lookup_path row [base]) f"
  using subject_path_value [of nst base f path "lookup_path row [base]"]
  by (metis append_Cons append_Nil lookup_path_append)

lemma constant_value_eval: "constant_value f = Some c \<Longrightarrow> f = F_Constant c"
  by (cases f) auto

lemma VisitComparison_sat:
  assumes "VisitComparison pk nst base op l r err = (Valid_Id p, err1)"
    and "filter_typed pk (lookup_path row [base]) (F_Compare op l r)"
    and "passes truth other (lookup_path row [base]) (F_Compare op l r)"
  shows "sat p row = Some True"
proof -
  let ?v = "lookup_path row [base]"
  consider (flipped) c path where "l = F_Constant c" "subject_path nst base r = Some path"
      "VisitConstantFilter pk path (pk_flip pk op) c err = (Valid_Id p, err1)"
    | (plain) c path where "r = F_Constant c" "subject_path nst base l = Some path"
      "VisitConstantFilter pk path op c err = (Valid_Id p, err1)"
    using assms(1) unfolding VisitComparison_def
    by (auto split: option.splits dest: constant_value_eval)
  then show ?thesis
  proof cases
    case flipped
    have sup: "comparison_supported op"
      using VisitConstantFilter_supported [OF flipped(3)] flip(1) by simp
    then obtain x where x: "eval_subject ?v r = Scalar x" "truth op c x"
      using assms(3) flipped(1) by (auto split: nested.splits if_splits)
    then have "lookup_path row path = Scalar x"
      using subject_path_lookup flipped(2) assms(2) by simp
    then show ?thesis
      using VisitConstantFilter_sat [OF flipped(3)] assms(2) flipped(1) x(2) flip(2) [OF sup] by simp
  next
    case plain
    have sup: "comparison_supported op"
      using VisitConstantFilter_supported [OF plain(3)] .
    then obtain x where x: "eval_subject ?v l = Scalar x" "truth op x c"
      using assms(3) plain(1) by (auto split: nested.splits if_splits)
    then have "lookup_path row path = Scalar x"
      using subject_path_lookup plain(2) assms(2) by simp
    then show ?thesis
      using VisitConstantFilter_sat [OF plain(3)] assms(2) plain(1) x(2) by simp
  qed
qed

lemma VisitOperator_sat:
  assumes "VisitOperator pk nst base op cs err = (Valid_Id p, err1)"
    and "filter_typed pk (lookup_path row [base]) (F_Operator op cs)"
    and "passes truth other (lookup_path row [base]) (F_Operator op cs)"
  shows "sat p row = Some True"
proof -
  obtain c path where c: "cs = [c]" "subject_path nst base c = Some path"
    using assms(1) by (auto simp: VisitOperator_def split: list.splits option.splits)
  have v: "lookup_path row path = eval_subject (lookup_path row [base]) c"
    using subject_path_lookup [OF c(2)] assms(2) c(1) by simp
  show ?thesis
    using assms(1,3) c v VisitIsNull_sat VisitIsNotNull_sat
    by (auto simp: VisitOperator_def split: bound_operator.splits)
qed

lemma VisitFilterExpression_sat:
  "VisitFilterExpression pk nst base f err = (Valid_Id p, err1) \<Longrightarrow>
     filter_typed pk (lookup_path row [base]) f \<Longrightarrow> passes truth other (lookup_path row [base]) f \<Longrightarrow> sat p row = Some True"
proof (induction f arbitrary: p err err1)
  case (F_Compare op l r)
  then show ?case using VisitComparison_sat [of nst base op l r err p err1 row] by simp
next
  case (F_Operator op cs)
  then show ?case using VisitOperator_sat [of nst base op cs err p err1 row] by simp
next
  case (F_Conjunction ctype cs)
  then obtain ids where ids: "visit_conjuncts pk nst base cs err = (ids, err1)" "pk_and pk ids = Valid_Id p"
      "ctype = CONJUNCTION_AND"
    by (auto split: if_splits prod.splits)
  show ?case
  proof (rule conjunction [OF ids(2)])
    fix q assume "Valid_Id q \<in> set ids"
    then obtain c e e1 where "c \<in> set cs" "VisitFilterExpression pk nst base c e = (Valid_Id q, e1)"
      using visit_conjuncts_ids [OF ids(1)] by blast
    then show "sat q row = Some True" using F_Conjunction ids(3) by simp
  qed
qed (simp_all split: option.splits)

lemma visit_filters_sat:
  assumes "visit_filters pk pv fs err = (ids, err1)" and "Valid_Id q \<in> set ids"
    and "\<And>n f. (n, f) \<in> set fs \<Longrightarrow>
      filter_typed pk (lookup_path row [n]) f \<and> passes truth other (lookup_path row [n]) f"
  shows "sat q row = Some True"
proof -
  obtain n f e e1 where "(n, f) \<in> set fs" "VisitFilter pk pv n f e = (Valid_Id q, e1)"
    using visit_filters_ids [OF assms(1,2)] by blast
  then show ?thesis using VisitFilterExpression_sat assms(3) unfolding VisitFilter_def by blast
qed

lemma VisitPredicate_sat:
  assumes "VisitPredicate pk iter pv = (Valid_Id p, err)" and "set (iter (pv_column_filters pv)) = set (pv_column_filters pv)"
    and "\<And>n f. (n, f) \<in> set (pv_column_filters pv) \<Longrightarrow>
      filter_typed pk (lookup_path row [n]) f \<and> passes truth other (lookup_path row [n]) f"
  shows "sat p row = Some True"
proof -
  obtain ids where ids: "visit_filters pk pv (iter (pv_column_filters pv)) None = (ids, err)" "pk_and pk ids = Valid_Id p"
    using assms(1) by (auto simp: VisitPredicate_def split: prod.splits)
  show ?thesis using conjunction [OF ids(2)] visit_filters_sat [OF ids(1)] assms(2,3) by blast
qed

end

section \<open>A kernel of expression trees\<close>

text \<open>A kernel that keeps the trees it is asked to build and evaluates them with SQL's three-valued logic, refusing
  nodes with an invalid part. Values compare through a key.\<close>

datatype tree_expr = T_Column "string list" | T_Literal dvalue

datatype tree_pred = T_Compare compare_op tree_expr tree_expr | T_Is_Null tree_expr | T_Not tree_pred | T_And "tree_pred list"

fun tree_denotes :: "tree_expr \<Rightarrow> nested \<Rightarrow> nested" where
  "tree_denotes (T_Column path) row = lookup_path row path"
| "tree_denotes (T_Literal c) row = Scalar c"

fun key_truth :: "(dvalue \<Rightarrow> int) \<Rightarrow> compare_op \<Rightarrow> dvalue \<Rightarrow> dvalue \<Rightarrow> bool" where
  "key_truth k CMP_LT x y = (k x < k y)"
| "key_truth k CMP_LE x y = (k x \<le> k y)"
| "key_truth k CMP_GT x y = (k x > k y)"
| "key_truth k CMP_GE x y = (k x \<ge> k y)"
| "key_truth k CMP_EQ x y = (k x = k y)"
| "key_truth k CMP_NE x y = (k x \<noteq> k y)"
| "key_truth k _ x y = False"

fun tree_sat :: "(dvalue \<Rightarrow> int) \<Rightarrow> tree_pred \<Rightarrow> nested \<Rightarrow> bool option" where
  "tree_sat k (T_Compare op l r) row =
    (case (tree_denotes l row, tree_denotes r row) of (Scalar x, Scalar y) \<Rightarrow> Some (key_truth k op x y) | _ \<Rightarrow> None)"
| "tree_sat k (T_Is_Null e) row = Some (tree_denotes e row = Null_Value)"
| "tree_sat k (T_Not p) row = map_option Not (tree_sat k p row)"
| "tree_sat k (T_And ps) row =
    (if \<exists>p \<in> set ps. tree_sat k p row = Some False then Some False
     else if \<forall>p \<in> set ps. tree_sat k p row = Some True then Some True else None)"

fun flip_compare :: "compare_op \<Rightarrow> compare_op" where
  "flip_compare CMP_LT = CMP_GT"
| "flip_compare CMP_LE = CMP_GE"
| "flip_compare CMP_GT = CMP_LT"
| "flip_compare CMP_GE = CMP_LE"
| "flip_compare op = op"

fun map_id :: "('a \<Rightarrow> 'b) \<Rightarrow> 'a kernel_id \<Rightarrow> 'b kernel_id" where
  "map_id f (Valid_Id x) = Valid_Id (f x)"
| "map_id f _ = Null_Id"

fun valid_ids :: "'a kernel_id list \<Rightarrow> 'a list" where
  "valid_ids [] = []"
| "valid_ids (Valid_Id x # xs) = x # valid_ids xs"
| "valid_ids (_ # xs) = valid_ids xs"

fun is_nested_type :: "logical_type \<Rightarrow> bool" where
  "is_nested_type (STRUCT fs) = True"
| "is_nested_type (UNION fs) = True"
| "is_nested_type (LIST t) = True"
| "is_nested_type (ARRAY t n) = True"
| "is_nested_type (MAP k v) = True"
| "is_nested_type _ = False"

definition tree_kernel :: "(tree_expr, tree_pred) predicate_kernel" where
  "tree_kernel =
    \<lparr>pk_column = (\<lambda>path. Inr (Valid_Id (T_Column path))),
     pk_literal = (\<lambda>c. Valid_Id (T_Literal c)),
     pk_literal_string = (\<lambda>s. Inr (Valid_Id (T_Literal (DV_Varchar s)))),
     pk_literal_decimal = (\<lambda>hi lo w s. Inr (Valid_Id (T_Literal (DV_Decimal (sint hi * 2 ^ 64 + uint lo) w s)))),
     pk_compare = (\<lambda>op l r. case (l, r) of (Valid_Id a, Valid_Id b) \<Rightarrow> Valid_Id (T_Compare op a b) | _ \<Rightarrow> Null_Id),
     pk_is_null = map_id T_Is_Null,
     pk_not = map_id T_Not,
     pk_and = (\<lambda>ids. Valid_Id (T_And (valid_ids ids))),
     pk_flip = flip_compare,
     pk_is_nested = is_nested_type,
     pk_is_int128 = (\<lambda>width. 18 < width)\<rparr>"

lemma set_valid_ids: "x \<in> set (valid_ids xs) \<longleftrightarrow> Valid_Id x \<in> set xs"
  by (induction xs rule: valid_ids.induct) auto

lemma map_id_Valid: "map_id f i = Valid_Id y \<longleftrightarrow> (\<exists>x. i = Valid_Id x \<and> y = f x)"
  by (cases i) auto

interpretation tree: predicate_semantics tree_kernel tree_denotes "tree_sat k" "key_truth k" for k
proof
  fix op x y
  show "comparison_supported (pk_flip tree_kernel op) = comparison_supported op"
    by (cases op) (simp_all add: tree_kernel_def comparison_supported_def)
  show "comparison_supported op \<Longrightarrow> key_truth k (pk_flip tree_kernel op) x y = key_truth k op y x"
    by (cases op) (auto simp: tree_kernel_def comparison_supported_def)
qed (auto simp: tree_kernel_def map_id_Valid set_valid_ids split: kernel_id.splits)

lemma set_AList_update: "(n, f) \<in> set (AList.update k v xs) \<Longrightarrow> (n, f) = (k, v) \<or> (n, f) \<in> set xs"
  by (induction xs) (auto split: if_splits)

lemma new_PredicateVisitor_filters:
  "(n, f) \<in> set (pv_column_filters (new_PredicateVisitor columns filters)) \<Longrightarrow>
     \<exists>i. (i, f) \<in> set filters \<and> n = cd_name (columns ! i)"
proof -
  have "(n, f) \<in> set (pv_column_filters (fold (\<lambda>(i, f) pv.
       \<lparr>pv_column_filters = AList.update (cd_name (columns ! i)) f (pv_column_filters pv),
        pv_column_types = AList.update (cd_name (columns ! i)) (cd_type (columns ! i)) (pv_column_types pv)\<rparr>) fs pv)) \<Longrightarrow>
     (n, f) \<in> set (pv_column_filters pv) \<or> (\<exists>i. (i, f) \<in> set fs \<and> n = cd_name (columns ! i))" for fs pv
    by (induction fs arbitrary: pv) (fastforce dest: set_AList_update)+
  then show "(n, f) \<in> set (pv_column_filters (new_PredicateVisitor columns filters)) \<Longrightarrow> ?thesis"
    by (fastforce simp: new_PredicateVisitor_def)
qed

text \<open>C6. Data skipping is sound: whatever filters the query pushes down, a row that passes all of them satisfies the
  predicate the visitor builds for the kernel, so no file with such a row may be skipped. The filters may contain
  anything (disjunctions, functions, optional filters, unsupported constants and comparisons); \<open>predicate_semantics\<close>
  is what the kernel's entry points mean, \<open>iter\<close> the order in which the hash map of filters is iterated, \<open>other\<close> the
  outcome of the filters the visitor does not look into.\<close>

theorem VisitPredicate_keeps_every_needed_row:
  assumes "predicate_semantics pk denotes sat truth"
    and "VisitPredicate pk iter (new_PredicateVisitor columns filters) = (Valid_Id p, err)"
    and "\<And>fs. set (iter fs) = set fs"
    and "\<And>i f. (i, f) \<in> set filters \<Longrightarrow>
      filter_typed pk (lookup_path row [cd_name (columns ! i)]) f \<and>
      passes truth other (lookup_path row [cd_name (columns ! i)]) f"
  shows "sat p row = Some True"
  using predicate_semantics.VisitPredicate_sat [OF assms(1,2,3)] assms(4) new_PredicateVisitor_filters by blast

definition example_columns :: "column_def list" where
  "example_columns = [new_column ''id'' BIGINT True, new_column ''s'' (STRUCT [(''x'', DECIMAL 5 1)]) True]"

definition example_filters :: "(nat \<times> filter_expression) list" where
  "example_filters =
    [(0, F_Conjunction CONJUNCTION_AND
          [F_Compare CMP_LT (F_Constant (DV_Bigint 5)) F_Reference,
           F_Conjunction CONJUNCTION_OR [F_Compare CMP_EQ F_Reference (F_Constant (DV_Bigint 7))]]),
     (1, F_Compare CMP_EQ (F_Function ''struct_extract'' (Some [''x'']) (Some 0) [F_Reference]) (F_Constant (DV_Decimal (- 3) 5 1)))]"

definition example_row :: nested where
  "example_row = Struct_Value [(''id'', Scalar (DV_Bigint 7)), (''s'', Struct_Value [(''x'', Scalar (DV_Decimal (- 3) 5 1))])]"

definition example_key :: "dvalue \<Rightarrow> int" where
  "example_key v = (case v of DV_Bigint i \<Rightarrow> i | DV_Decimal i w s \<Rightarrow> i | _ \<Rightarrow> 0)"

lemma example_visit:
  "VisitPredicate tree_kernel rev (new_PredicateVisitor example_columns example_filters) =
    (Valid_Id (T_And [T_Compare CMP_EQ (T_Column [''s'', ''x'']) (T_Literal (DV_Decimal (- 3) 5 1)),
                      T_And [T_Compare CMP_GT (T_Column [''id'']) (T_Literal (DV_Bigint 5))]]), None)"
  by code_simp

theorem VisitPredicate_keeps_every_needed_row_witness:
  "tree_sat example_key (T_And [T_Compare CMP_EQ (T_Column [''s'', ''x'']) (T_Literal (DV_Decimal (- 3) 5 1)),
      T_And [T_Compare CMP_GT (T_Column [''id'']) (T_Literal (DV_Bigint 5))]]) example_row = Some True"
proof (rule VisitPredicate_keeps_every_needed_row [OF tree.predicate_semantics_axioms example_visit])
  fix i f assume "(i, f) \<in> set example_filters"
  then show "filter_typed tree_kernel (lookup_path example_row [cd_name (example_columns ! i)]) f \<and>
      passes (key_truth example_key) (\<lambda>f v. False) (lookup_path example_row [cd_name (example_columns ! i)]) f"
    by (auto simp: example_filters_def example_columns_def example_row_def example_key_def new_column_def
        comparison_supported_def tree_kernel_def)
qed simp

end
