(* ===== verification/Partition_Values.thy ===== *)
theory Partition_Values
  imports Expression_Visitor Column_Def "HOL-Library.Multiset"
begin

text \<open>
  FindPartitionValues (delta\_multi\_file\_list.cpp): the values of the partition columns of a data file, read from the
  transform expression of the kernel, which the expression visitor has translated to calls of delta\_transform\_op
  (MakeStructPatchOp). A value belongs to the column at the position the transform inserts it at.
\<close>

section \<open>Reading a transform\<close>

record transform_ops =
  ValueToString :: "dvalue \<Rightarrow> string"
  ValueToBool :: "dvalue \<Rightarrow> bool throws"

definition cast_error :: error where
  "cast_error = Err InternalEx ''Failed to cast expression to type - expression type mismatch'' []"

fun strip_alias :: "parsed_expression \<Rightarrow> parsed_expression" where
  "strip_alias (AliasedExpr a e) = strip_alias e"
| "strip_alias e = e"

definition CastFunction :: "parsed_expression \<Rightarrow> (string \<times> parsed_expression list) throws" where
  "CastFunction e = (case strip_alias e of FunctionExpr f args \<Rightarrow> Inr (f, args) | _ \<Rightarrow> Inl cast_error)"

record transform_op =
  op_kind :: string
  op_keep_input :: bool
  op_optional :: bool
  op_field_name :: "string option"
  op_values :: "dvalue list"

definition new_transform_op :: transform_op where
  "new_transform_op = \<lparr>op_kind = [], op_keep_input = False, op_optional = False, op_field_name = None, op_values = []\<rparr>"

definition read_named_argument ::
  "transform_ops \<Rightarrow> string \<Rightarrow> dvalue \<Rightarrow> transform_op \<Rightarrow> transform_op throws" where
  "read_named_argument tops name v op =
    (if name = ''kind'' then Inr (op\<lparr>op_kind := ValueToString tops v\<rparr>)
     else if name = ''keep_input'' then bindr (ValueToBool tops v) (\<lambda>b. Inr (op\<lparr>op_keep_input := b\<rparr>))
     else if name = ''optional'' then bindr (ValueToBool tops v) (\<lambda>b. Inr (op\<lparr>op_optional := b\<rparr>))
     else if name = ''field_name'' then
       Inr (if v \<noteq> DV_Null then op\<lparr>op_field_name := Some (ValueToString tops v)\<rparr> else op)
     else Inl (Err InternalEx ''Unexpected name for delta_transform_op returned by delta kernel'' [name]))"

definition read_argument ::
  "expression_ops \<Rightarrow> transform_ops \<Rightarrow> transform_op \<Rightarrow> parsed_expression \<Rightarrow> transform_op throws" where
  "read_argument ops tops op e =
    (case strip_alias e of
       ComparisonExpr COMPARE_EQUAL l r \<Rightarrow>
        (case strip_alias l of
           ColumnRefExpr name \<Rightarrow>
            (case TryGetLiteralValue ops r of
               None \<Rightarrow> Inl (Err InternalEx ''Unexpected value for delta_transform_op returned by delta kernel'' [ToText ops e])
             | Some v \<Rightarrow> read_named_argument tops name v op)
         | _ \<Rightarrow> Inl cast_error)
     | _ \<Rightarrow>
        (case TryGetLiteralValue ops e of
           None \<Rightarrow> Inl (Err NotImplemented ''Unexpected expression for delta_transform_op returned by delta kernel'' [ToText ops e])
         | Some v \<Rightarrow> Inr (op\<lparr>op_values := op_values op @ [v]\<rparr>)))"

definition read_transform_op ::
  "expression_ops \<Rightarrow> transform_ops \<Rightarrow> parsed_expression \<Rightarrow> transform_op throws" where
  "read_transform_op ops tops child =
    bindr (CastFunction child) (\<lambda>(f, args).
    if f \<noteq> ''delta_transform_op'' then
      Inl (Err IOEx ''Unexpected function for delta_transform_op returned by delta kernel'' [f])
    else foldr_throws (read_argument ops tops) new_transform_op args)"

definition kernel_name :: "bool \<Rightarrow> column_def \<Rightarrow> string" where
  "kernel_name mapped c = (if mapped \<and> cd_physical_name c \<noteq> [] then cd_physical_name c else cd_name c)"

definition find_kernel_name :: "string_util \<Rightarrow> bool \<Rightarrow> column_def list \<Rightarrow> string \<Rightarrow> nat option" where
  "find_kernel_name su mapped cols name =
     find (\<lambda>i. CIEquals su name (kernel_name mapped (cols ! i))) [0..<length cols]"

text \<open>None: the operation is skipped.\<close>

definition index_to_insert ::
  "string_util \<Rightarrow> bool \<Rightarrow> column_def list \<Rightarrow> transform_op \<Rightarrow> nat option throws" where
  "index_to_insert su mapped cols op =
    (if op_kind op = ''append'' then Inr (Some (length cols))
     else (case (op_kind op = ''field'', op_field_name op) of
        (True, Some name) \<Rightarrow>
         (case find_kernel_name su mapped cols name of
            Some i \<Rightarrow> Inr (Some (if op_keep_input op then i + 1 else i))
          | None \<Rightarrow>
              if op_optional op then Inr None
              else Inl (Err IOEx ''Delta kernel transform names column '%s', which is not in the table schema'' [name]))
      | _ \<Rightarrow> Inr (Some 0)))"

fun put_values :: "nat \<Rightarrow> dvalue list \<Rightarrow> (nat \<rightharpoonup> dvalue) \<Rightarrow> (nat \<rightharpoonup> dvalue)" where
  "put_values k [] res = res"
| "put_values k (v # vs) res = put_values (Suc k) vs (res(k \<mapsto> v))"

definition apply_transform_op ::
  "string_util \<Rightarrow> expression_ops \<Rightarrow> transform_ops \<Rightarrow> bool \<Rightarrow> column_def list
     \<Rightarrow> (nat \<rightharpoonup> dvalue) \<Rightarrow> parsed_expression \<Rightarrow> (nat \<rightharpoonup> dvalue) throws" where
  "apply_transform_op su ops tops mapped cols res child =
    bindr (read_transform_op ops tops child) (\<lambda>op.
    bindr (index_to_insert su mapped cols op) (\<lambda>index.
    Inr (case index of None \<Rightarrow> res | Some k \<Rightarrow> put_values k (op_values op) res)))"

definition FindPartitionValues ::
  "string_util \<Rightarrow> expression_ops \<Rightarrow> transform_ops \<Rightarrow> parsed_expression \<Rightarrow> column_def list \<Rightarrow> bool
     \<Rightarrow> (nat \<rightharpoonup> dvalue) throws" where
  "FindPartitionValues su ops tops transformation cols mapped =
    bindr (CastFunction transformation) (\<lambda>(f, args).
    if f \<noteq> ''delta_kernel_transform_expression'' then
      Inl (Err IOEx ''Unexpected function of root expression returned by delta kernel'' [f])
    else foldr_throws (apply_transform_op su ops tops mapped cols) Map.empty args)"

section \<open>What the operations of the visitor mean\<close>

definition transform_ops_ok :: "transform_ops \<Rightarrow> bool" where
  "transform_ops_ok tops \<longleftrightarrow> (\<forall>s. ValueToString tops (DV_Varchar s) = s) \<and> (\<forall>b. ValueToBool tops (DV_Boolean b) = Inr b)"

lemma TryGetLiteralValue_strip: "TryGetLiteralValue ops e = TryGetLiteralValue ops (strip_alias e)"
  by (induction e rule: strip_alias.induct) auto

lemma read_argument_value:
  "TryGetLiteralValue ops e = Some v \<Longrightarrow> read_argument ops tops op e = Inr (op\<lparr>op_values := op_values op @ [v]\<rparr>)"
  using TryGetLiteralValue_strip [of ops e]
  by (cases "strip_alias e") (auto simp: read_argument_def)

lemma read_arguments_values:
  "map (TryGetLiteralValue ops) es = map Some vs \<Longrightarrow>
     foldr_throws (read_argument ops tops) op es = Inr (op\<lparr>op_values := op_values op @ vs\<rparr>)"
proof (induction es arbitrary: vs op)
  case (Cons e es)
  then obtain v ws where "vs = v # ws" "TryGetLiteralValue ops e = Some v" "map (TryGetLiteralValue ops) es = map Some ws"
    by (cases vs) auto
  then show ?case using Cons.IH by (simp add: read_argument_value)
qed simp

lemma read_transform_op_Make:
  assumes "transform_ops_ok tops" and "map (TryGetLiteralValue ops) es = map Some vs"
  shows "read_transform_op ops tops (MakeStructPatchOp k n es keep opt) =
     Inr \<lparr>op_kind = k, op_keep_input = keep, op_optional = opt, op_field_name = n, op_values = vs\<rparr>"
  using assms(1) read_arguments_values [OF assms(2)]
  by (cases n) (simp_all add: read_transform_op_def CastFunction_def MakeStructPatchOp_def foldr_throws_append
      option_equals_def new_transform_op_def read_argument_def read_named_argument_def transform_ops_ok_def)

section \<open>The transform of a file\<close>

text \<open>The transform the kernel documents for a partitioned table: a value is inserted after the nearest column before
  it that the file has, values before every such column are prepended. \<open>layout\<close> gives each column of the table its
  partition value, None for a column the file has; a group is the position of a column and the values after it.\<close>

fun groups_at :: "nat \<Rightarrow> 'a option list \<Rightarrow> 'a list \<times> (nat \<times> 'a list) list" where
  "groups_at k [] = ([], [])"
| "groups_at k (Some l # r) = (case groups_at (Suc k) r of (pre, gs) \<Rightarrow> (l # pre, gs))"
| "groups_at k (None # r) =
    (case groups_at (Suc k) r of (pre, gs) \<Rightarrow> ([], if pre = [] then gs else (k, pre) # gs))"

definition group_patch :: "bool \<Rightarrow> bool \<Rightarrow> column_def list \<Rightarrow> nat \<times> leaf list \<Rightarrow> kernel_expression" where
  "group_patch mapped opt cols g = K_FieldPatch (kernel_name mapped (cols ! fst g)) (map K_Leaf (snd g)) True opt"

definition documented_transform ::
  "bool \<Rightarrow> bool \<Rightarrow> column_def list \<Rightarrow> leaf option list \<Rightarrow> kernel_expression \<Rightarrow> bool" where
  "documented_transform mapped opt cols layout e \<longleftrightarrow>
    (\<exists>gs. mset gs = mset (snd (groups_at 0 layout)) \<and>
       e = K_StructPatch [] (map K_Leaf (fst (groups_at 0 layout))) (map (group_patch mapped opt cols) gs) [])"

definition literal_of :: "expression_ops \<Rightarrow> leaf \<Rightarrow> dvalue option" where
  "literal_of ops l = Option.bind (leaf_result ops l) (TryGetLiteralValue ops)"

definition names_distinct :: "string_util \<Rightarrow> bool \<Rightarrow> column_def list \<Rightarrow> bool" where
  "names_distinct su mapped cols \<longleftrightarrow>
    (\<forall>i < length cols. \<forall>j < length cols.
       CIEquals su (kernel_name mapped (cols ! i)) (kernel_name mapped (cols ! j)) \<longrightarrow> i = j)"

lemma groups_at_entries:
  "set (enumerate k (fst (groups_at k layout))) \<union> (\<Union>(j, ls) \<in> set (snd (groups_at k layout)). set (enumerate (Suc j) ls)) =
     {(i, l). (i, Some l) \<in> set (enumerate k layout)}"
proof (induction k layout rule: groups_at.induct)
  case (2 k l r)
  have "{(i, l'). (i, Some l') \<in> set (enumerate k (Some l # r))} =
      insert (k, l) {(i, l'). (i, Some l') \<in> set (enumerate (Suc k) r)}" by auto
  then show ?case unfolding "2.IH" [symmetric] by (cases "groups_at (Suc k) r") simp
next
  case (3 k r)
  have "{(i, l'). (i, Some l') \<in> set (enumerate k (None # r))} = {(i, l'). (i, Some l') \<in> set (enumerate (Suc k) r)}"
    by auto
  then show ?case unfolding "3.IH" [symmetric] by (cases "groups_at (Suc k) r") auto
qed simp

lemma groups_at_inside:
  "(j, ls) \<in> set (snd (groups_at k layout)) \<Longrightarrow> k \<le> j \<and> j < k + length layout \<and> set ls \<subseteq> {l. Some l \<in> set layout}"
  "set (fst (groups_at k layout)) \<subseteq> {l. Some l \<in> set layout}"
  by (induction k layout arbitrary: j ls rule: groups_at.induct)
     (auto split: prod.splits if_splits dest: Suc_leD)

lemma graph_put_values:
  "Map.graph m \<union> set (enumerate k vs) \<subseteq> R \<Longrightarrow> single_valued R \<Longrightarrow>
     Map.graph (put_values k vs m) = Map.graph m \<union> set (enumerate k vs)"
proof (induction k vs m rule: put_values.induct)
  case (2 k v vs m)
  have "b = v" if "m k = Some b" for b
    using "2.prems" that single_valuedD [of R k b v] by (auto simp: Map.graph_def)
  then have "Map.graph (m(k \<mapsto> v)) = insert (k, v) (Map.graph m)"
    by (auto simp: Map.graph_def split: if_splits)
  then show ?case using "2.IH" "2.prems" by (simp del: fun_upd_apply)
qed simp

lemma parse_leaves:
  "\<forall>l \<in> set ls. literal_of ops l \<noteq> None \<Longrightarrow>
     \<exists>es. parse_list ops (map K_Leaf ls) = Some es \<and> map (TryGetLiteralValue ops) es = map (literal_of ops) ls"
  by (induction ls) (auto simp: literal_of_def Option.bind_eq_Some_conv)

lemma find_kernel_name_self:
  assumes "string_util_laws su" and "names_distinct su mapped cols" and "j < length cols"
  shows "find_kernel_name su mapped cols (kernel_name mapped (cols ! j)) = Some j"
proof -
  have "CIEquals su (kernel_name mapped (cols ! j)) (kernel_name mapped (cols ! i)) \<longleftrightarrow> i = j" if "i < length cols" for i
    using that assms string_util_laws.CIEquals_refl by (auto simp: names_distinct_def)
  then show ?thesis
    using assms(3) by (auto simp: find_kernel_name_def find_Some_iff intro!: exI [of _ j])
qed

lemma enumerate_nth_iff: "(i, x) \<in> set (enumerate 0 xs) \<longleftrightarrow> i < length xs \<and> xs ! i = x"
  by (auto simp: in_set_conv_nth enumerate_eq_zip)

lemma single_valued_enumerate: "single_valued (set (enumerate k xs))"
  by (auto simp: single_valued_def in_set_conv_nth enumerate_eq_zip)

text \<open>The parsed operation of a group, and what it does to the values found so far.\<close>

definition parsed_group ::
  "expression_ops \<Rightarrow> bool \<Rightarrow> bool \<Rightarrow> column_def list \<Rightarrow> nat \<times> leaf list \<Rightarrow> parsed_expression \<Rightarrow> bool" where
  "parsed_group ops mapped opt cols g e \<longleftrightarrow>
    (\<exists>es. map (TryGetLiteralValue ops) es = map (literal_of ops) (snd g) \<and>
       e = MakeStructPatchOp ''field'' (Some (kernel_name mapped (cols ! fst g))) es True opt)"

definition literals :: "expression_ops \<Rightarrow> leaf list \<Rightarrow> dvalue list" where
  "literals ops ls = map (the \<circ> literal_of ops) ls"

lemma literals_Some: "\<forall>l \<in> set ls. literal_of ops l \<noteq> None \<Longrightarrow> map (literal_of ops) ls = map Some (literals ops ls)"
  by (simp add: literals_def)

lemma parse_groups:
  "\<forall>g \<in> set gs. \<forall>l \<in> set (snd g). literal_of ops l \<noteq> None \<Longrightarrow>
     \<exists>es. parse_list ops (map (group_patch mapped opt cols) gs) = Some es \<and> list_all2 (parsed_group ops mapped opt cols) gs es"
proof (induction gs)
  case (Cons g gs)
  then obtain es where "parse_list ops (map (group_patch mapped opt cols) gs) = Some es"
    "list_all2 (parsed_group ops mapped opt cols) gs es" by auto
  moreover obtain vs where "parse_list ops (map K_Leaf (snd g)) = Some vs"
    "map (TryGetLiteralValue ops) vs = map (literal_of ops) (snd g)"
    using parse_leaves [of "snd g" ops] Cons.prems by auto
  moreover from this have "parsed_group ops mapped opt cols g
      (MakeStructPatchOp ''field'' (Some (kernel_name mapped (cols ! fst g))) vs True opt)"
    by (auto simp: parsed_group_def)
  moreover have "parse ops (group_patch mapped opt cols g) =
      Some (MakeStructPatchOp ''field'' (Some (kernel_name mapped (cols ! fst g))) vs True opt)"
    using calculation(3) by (simp add: group_patch_def)
  ultimately show ?case by simp
qed simp

lemma apply_parsed_group:
  assumes "string_util_laws su" and "transform_ops_ok tops" and "names_distinct su mapped cols"
    and "fst g < length cols" and "\<forall>l \<in> set (snd g). literal_of ops l \<noteq> None" and "parsed_group ops mapped opt cols g e"
  shows "apply_transform_op su ops tops mapped cols res e = Inr (put_values (Suc (fst g)) (literals ops (snd g)) res)"
proof -
  obtain es where es: "map (TryGetLiteralValue ops) es = map Some (literals ops (snd g))"
    "e = MakeStructPatchOp ''field'' (Some (kernel_name mapped (cols ! fst g))) es True opt"
    using assms(5,6) literals_Some by (auto simp: parsed_group_def)
  show ?thesis
    by (simp add: apply_transform_op_def es(2) read_transform_op_Make [OF assms(2) es(1)] index_to_insert_def
        find_kernel_name_self [OF assms(1,3,4)])
qed

lemma apply_parsed_groups:
  assumes "string_util_laws su" and "transform_ops_ok tops" and "names_distinct su mapped cols"
    and "\<forall>g \<in> set gs. fst g < length cols \<and> (\<forall>l \<in> set (snd g). literal_of ops l \<noteq> None)"
    and "list_all2 (parsed_group ops mapped opt cols) gs es"
  shows "foldr_throws (apply_transform_op su ops tops mapped cols) res es =
     Inr (fold (\<lambda>g. put_values (Suc (fst g)) (literals ops (snd g))) gs res)"
  using assms(5,4)
proof (induction gs es arbitrary: res rule: list_all2_induct)
  case (Cons g gs e es)
  then have "apply_transform_op su ops tops mapped cols res e = Inr (put_values (Suc (fst g)) (literals ops (snd g)) res)"
    using apply_parsed_group [OF assms(1-3)] by (meson list.set_intros(1))
  then show ?case using Cons by simp
qed simp

lemma graph_put_groups:
  assumes "single_valued R" and "Map.graph m \<union> (\<Union>g \<in> set gs. set (enumerate (Suc (fst g)) (vals g))) \<subseteq> R"
  shows "Map.graph (fold (\<lambda>g. put_values (Suc (fst g)) (vals g)) gs m) =
     Map.graph m \<union> (\<Union>g \<in> set gs. set (enumerate (Suc (fst g)) (vals g)))"
  using assms(2)
proof (induction gs arbitrary: m)
  case (Cons g gs)
  have "Map.graph (put_values (Suc (fst g)) (vals g) m) = Map.graph m \<union> set (enumerate (Suc (fst g)) (vals g))"
    using graph_put_values [OF _ assms(1)] Cons.prems by auto
  then show ?case using Cons by auto
qed simp

definition layout_values :: "expression_ops \<Rightarrow> leaf option list \<Rightarrow> (nat \<times> dvalue) set" where
  "layout_values ops layout = {(i, v). i < length layout \<and> Option.bind (layout ! i) (literal_of ops) = Some v}"

lemma single_valued_layout: "single_valued (layout_values ops layout)"
  by (auto simp: layout_values_def single_valued_def)

lemma enumerate_literals: "set (enumerate k (literals ops ls)) = (\<lambda>(i, l). (i, the (literal_of ops l))) ` set (enumerate k ls)"
  by (induction ls arbitrary: k) (auto simp: literals_def)

lemma layout_values_groups:
  assumes "\<forall>l. Some l \<in> set layout \<longrightarrow> literal_of ops l \<noteq> None"
  shows "set (enumerate 0 (literals ops (fst (groups_at 0 layout)))) \<union>
     (\<Union>g \<in> set (snd (groups_at 0 layout)). set (enumerate (Suc (fst g)) (literals ops (snd g)))) = layout_values ops layout"
    (is "?G = _")
proof -
  have "?G = (\<lambda>(i, l). (i, the (literal_of ops l))) ` {(i, l). (i, Some l) \<in> set (enumerate 0 layout)}"
    unfolding groups_at_entries [symmetric] by (auto simp: enumerate_literals image_Un image_UN split_beta)
  also have "\<dots> = layout_values ops layout"
  proof (rule set_eqI, clarify)
    fix i v
    have "(i, v) \<in> (\<lambda>(i, l). (i, the (literal_of ops l))) ` {(i, l). (i, Some l) \<in> set (enumerate 0 layout)} \<longleftrightarrow>
       (\<exists>l. i < length layout \<and> layout ! i = Some l \<and> v = the (literal_of ops l))"
      by (auto simp: enumerate_nth_iff image_iff)
    also have "\<dots> \<longleftrightarrow> (i, v) \<in> layout_values ops layout"
      using assms [rule_format, of "the (layout ! i)"] nth_mem [of i layout]
      by (cases "layout ! i") (auto simp: layout_values_def)
    finally show "(i, v) \<in> (\<lambda>(i, l). (i, the (literal_of ops l))) ` {(i, l). (i, Some l) \<in> set (enumerate 0 layout)} \<longleftrightarrow>
       (i, v) \<in> layout_values ops layout" .
  qed
  finally show ?thesis .
qed

lemma apply_prepended:
  assumes "transform_ops_ok tops" and "map (TryGetLiteralValue ops) es = map Some vs"
  shows "apply_transform_op su ops tops mapped cols res (MakeStructPatchOp ''prepend'' None es False False) =
    Inr (put_values 0 vs res)"
  using read_transform_op_Make [OF assms] by (simp add: apply_transform_op_def index_to_insert_def)

lemma FindPartitionValues_of_groups:
  assumes "string_util_laws su" and "transform_ops_ok tops" and "names_distinct su mapped cols"
    and len: "length layout = length cols" and lit: "\<forall>l. Some l \<in> set layout \<longrightarrow> literal_of ops l \<noteq> None"
    and gs: "set gs = set (snd (groups_at 0 layout))"
    and pre: "map (TryGetLiteralValue ops) pre = map (literal_of ops) (fst (groups_at 0 layout))"
    and es: "list_all2 (parsed_group ops mapped opt cols) gs es"
  shows "\<exists>m. FindPartitionValues su ops tops (FunctionExpr ''delta_kernel_transform_expression'' (patch_children pre es [])) cols mapped = Inr m \<and>
     Map.graph m = layout_values ops layout"
proof -
  let ?p = "fst (groups_at 0 layout)"
  let ?start = "put_values 0 (literals ops ?p) Map.empty"
  let ?m = "fold (\<lambda>g. put_values (Suc (fst g)) (literals ops (snd g))) gs ?start"
  have inside: "\<forall>g \<in> set gs. fst g < length cols \<and> (\<forall>l \<in> set (snd g). literal_of ops l \<noteq> None)"
    using groups_at_inside(1) [of _ _ 0 layout] lit len gs by (fastforce simp: subset_iff)
  have lp: "map (literal_of ops) ?p = map Some (literals ops ?p)"
    using groups_at_inside(2) [of 0 layout] lit by (intro literals_Some) auto
  have vals: "set (enumerate 0 (literals ops ?p)) \<union> (\<Union>g \<in> set gs. set (enumerate (Suc (fst g)) (literals ops (snd g)))) =
      layout_values ops layout"
    using layout_values_groups [OF lit] gs by simp
  have graph0: "Map.graph ?start = set (enumerate 0 (literals ops ?p))"
    using graph_put_values [of Map.empty 0 "literals ops ?p" "layout_values ops layout"] vals single_valued_layout by auto
  have "Map.graph ?m = layout_values ops layout"
    using graph_put_groups [OF single_valued_layout [of ops layout], of ?start "\<lambda>g. literals ops (snd g)" gs] vals graph0 by simp
  moreover have "foldr_throws (apply_transform_op su ops tops mapped cols) Map.empty (patch_children pre es []) = Inr ?m"
  proof (cases "pre = []")
    case True
    then have "?p = []" using pre by simp
    then show ?thesis using apply_parsed_groups [OF assms(1-3) inside es] True
      by (simp add: patch_children_def literals_def)
  next
    case False
    then show ?thesis
      using apply_parsed_groups [OF assms(1-3) inside es] apply_prepended [OF assms(2)] pre lp
      by (simp add: patch_children_def)
  qed
  ultimately show ?thesis by (simp add: FindPartitionValues_def CastFunction_def)
qed

text \<open>C10. The partition values of a file are the values its transform gives the partition columns: for every layout of
  partition columns among the columns of a table (first, last, next to each other or scattered), for the transform the
  kernel documents for it, in whatever order it lists the patches, the parsed transform gives each partition
  column its own value and no other column a value. With column mapping the kernel's names are the physical ones.\<close>

theorem FindPartitionValues_reads_transform_back:
  assumes "string_util_laws su" and "transform_ops_ok tops" and "documented_expression_visit ops visit"
    and "names_distinct su mapped cols" and "length layout = length cols"
    and "\<forall>l. Some l \<in> set layout \<longrightarrow> literal_of ops l \<noteq> None"
    and "documented_transform mapped opt cols layout e"
  shows "\<exists>p m. ToParsedExpression visit e = Inr (Some [p]) \<and> FindPartitionValues su ops tops p cols mapped = Inr m \<and>
     (\<forall>i < length cols. m i = Option.bind (layout ! i) (literal_of ops)) \<and> (\<forall>i \<ge> length cols. m i = None)"
proof -
  obtain gs where gs: "mset gs = mset (snd (groups_at 0 layout))"
    "e = K_StructPatch [] (map K_Leaf (fst (groups_at 0 layout))) (map (group_patch mapped opt cols) gs) []"
    using assms(7) by (auto simp: documented_transform_def)
  have set_gs: "set gs = set (snd (groups_at 0 layout))" using gs(1) by (metis set_mset_mset)
  obtain pre where pre: "parse_list ops (map K_Leaf (fst (groups_at 0 layout))) = Some pre"
    "map (TryGetLiteralValue ops) pre = map (literal_of ops) (fst (groups_at 0 layout))"
    using parse_leaves groups_at_inside(2) [of 0 layout] assms(6) by blast
  obtain es where es: "parse_list ops (map (group_patch mapped opt cols) gs) = Some es"
    "list_all2 (parsed_group ops mapped opt cols) gs es"
    using parse_groups [of gs ops mapped opt cols] groups_at_inside(1) [of _ _ 0 layout] assms(6) set_gs
    by (fastforce simp: subset_iff)
  let ?p = "FunctionExpr ''delta_kernel_transform_expression'' (patch_children pre es [])"
  have "parse ops e = Some ?p" using gs(2) pre(1) es(1) by (simp add: patch_result_def)
  then have "ToParsedExpression visit e = Inr (Some [?p])" by (rule ToParsedExpression_parsed [OF assms(3)])
  moreover obtain m where m: "FindPartitionValues su ops tops ?p cols mapped = Inr m" "Map.graph m = layout_values ops layout"
    using FindPartitionValues_of_groups [OF assms(1,2,4,5,6) set_gs pre(2) es(2)] by blast
  have "m i = Some v \<longleftrightarrow> i < length cols \<and> Option.bind (layout ! i) (literal_of ops) = Some v" for i v
    using m(2) assms(5) by (auto simp: Map.graph_def layout_values_def set_eq_iff)
  then have "(\<forall>i < length cols. m i = Option.bind (layout ! i) (literal_of ops)) \<and> (\<forall>i \<ge> length cols. m i = None)"
    by (metis linorder_not_less not_None_eq)
  ultimately show ?thesis using m(1) by blast
qed

definition example_transform_ops :: transform_ops where
  "example_transform_ops =
    \<lparr>ValueToString = (\<lambda>v. case v of DV_Varchar s \<Rightarrow> s | _ \<Rightarrow> []),
     ValueToBool = (\<lambda>v. case v of DV_Boolean b \<Rightarrow> Inr b | _ \<Rightarrow> Inl cast_error)\<rparr>"

definition partitioned_columns :: "column_def list" where
  "partitioned_columns = [new_column ''y'' INTEGER True, new_column ''a'' INTEGER True, new_column ''p'' VARCHAR True,
     new_column ''q'' VARCHAR True, new_column ''b'' INTEGER True]"

definition partitioned_layout :: "leaf option list" where
  "partitioned_layout = [Some (Leaf_Int 7), None, Some (Leaf_String ''x''), Some (Leaf_String ''z''), None]"

lemma names_distinct_example: "names_distinct ascii_string_util False partitioned_columns"
  by code_simp

lemma partitioned_literals: "\<forall>l. Some l \<in> set partitioned_layout \<longrightarrow> literal_of example_expression_ops l \<noteq> None"
  by (auto simp: partitioned_layout_def literal_of_def example_expression_ops_def)

lemma partitioned_transform:
  "documented_transform False False partitioned_columns partitioned_layout
      (K_StructPatch [] [K_Leaf (Leaf_Int 7)] [K_FieldPatch ''a'' [K_Leaf (Leaf_String ''x''), K_Leaf (Leaf_String ''z'')] True False] [])"
  by (auto simp: documented_transform_def partitioned_layout_def partitioned_columns_def group_patch_def kernel_name_def
      intro!: exI [of _ "[(1, [Leaf_String ''x'', Leaf_String ''z''])]"])

theorem FindPartitionValues_reads_transform_back_witness:
  "\<exists>p m. ToParsedExpression (walk_root example_expression_ops)
       (K_StructPatch [] [K_Leaf (Leaf_Int 7)] [K_FieldPatch ''a'' [K_Leaf (Leaf_String ''x''), K_Leaf (Leaf_String ''z'')] True False] [])
       = Inr (Some [p]) \<and>
     FindPartitionValues ascii_string_util example_expression_ops example_transform_ops p partitioned_columns False = Inr m \<and>
     m 0 = Some (DV_Integer 7) \<and> m 1 = None \<and> m 2 = Some (DV_Varchar ''x'') \<and> m 3 = Some (DV_Varchar ''z'') \<and> m 4 = None"
proof -
  have ok: "transform_ops_ok example_transform_ops" "length partitioned_layout = length partitioned_columns"
    "documented_expression_visit example_expression_ops (walk_root example_expression_ops)"
    by (simp_all add: transform_ops_ok_def example_transform_ops_def partitioned_layout_def partitioned_columns_def
        documented_expression_visit_def)
  have len: "length partitioned_columns = 5" by (simp add: partitioned_columns_def)
  have layout: "Option.bind (partitioned_layout ! 0) (literal_of example_expression_ops) = Some (DV_Integer 7)"
    "Option.bind (partitioned_layout ! 1) (literal_of example_expression_ops) = None"
    "Option.bind (partitioned_layout ! 2) (literal_of example_expression_ops) = Some (DV_Varchar ''x'')"
    "Option.bind (partitioned_layout ! 3) (literal_of example_expression_ops) = Some (DV_Varchar ''z'')"
    "Option.bind (partitioned_layout ! 4) (literal_of example_expression_ops) = None"
    by (simp_all add: partitioned_layout_def literal_of_def example_expression_ops_def)
  obtain p m where pm: "ToParsedExpression (walk_root example_expression_ops)
       (K_StructPatch [] [K_Leaf (Leaf_Int 7)] [K_FieldPatch ''a'' [K_Leaf (Leaf_String ''x''), K_Leaf (Leaf_String ''z'')] True False] [])
       = Inr (Some [p])"
     "FindPartitionValues ascii_string_util example_expression_ops example_transform_ops p partitioned_columns False = Inr m"
     "\<forall>i < length partitioned_columns. m i = Option.bind (partitioned_layout ! i) (literal_of example_expression_ops)"
    using FindPartitionValues_reads_transform_back [OF ascii.string_util_laws_axioms ok(1,3) names_distinct_example ok(2)
        partitioned_literals partitioned_transform] by blast
  have "m 0 = Some (DV_Integer 7)" "m 1 = None" "m 2 = Some (DV_Varchar ''x'')" "m 3 = Some (DV_Varchar ''z'')" "m 4 = None"
    using pm(3) [rule_format] layout len by auto
  then show ?thesis using pm(1,2) by blast
qed

end
