(* ===== verification/Snapshot.thy ===== *)
theory Snapshot
  imports Paths Schema_Builder Attach Column_Def Schema_Visitor Constraints Partition_Values Predicate_Visitor
begin

text \<open>
  DeltaMultiFileList (delta\_multi\_file\_list.cpp), first part: its state, the pinned version or timestamp, and how the
  kernel snapshot and the kernel scan it reads are made. The kernel is the record of parameters \<open>le\<close>; its snapshot builder is
  the configuration it has collected, the iterator over the scan is the list of the chunks it will yield. An
  operation that throws keeps what it changed before: operations return the result together with the state.
\<close>

section \<open>State\<close>

record file_metadata =
  md_snapshot_version :: idx_t
  md_file_number :: nat
  md_cardinality :: idx_t
  md_selection_vector :: "bool list option"
  md_partition_map :: "(string \<times> dvalue) list"
  md_transform :: "parsed_expression list option"

definition new_file_metadata :: file_metadata where
  "new_file_metadata = \<lparr>md_snapshot_version = INVALID_INDEX, md_file_number = unat INVALID_INDEX,
     md_cardinality = INVALID_INDEX, md_selection_vector = None, md_partition_map = [], md_transform = None\<rparr>"

text \<open>A file the kernel reports: its path in the log, the number of records if there are statistics, the outcome of
  fetching its deletion vector if it has one, and the transform.\<close>

record scan_entry =
  se_path :: string
  se_num_records :: "idx_t option"
  se_deletion_vector :: "(string option + bool list option) option"
  se_transform :: "kernel_expression option"

record scan_chunk =
  sc_entries :: "scan_entry list"
  sc_result :: "string option + bool"

type_synonym chunks = "(string option + scan_chunk) list"

record ('s, 'l) file_list =
  fl_path :: string
  fl_version :: idx_t
  fl_has_requested_timestamp :: bool
  fl_requested_timestamp_ms :: int
  fl_old_snapshot :: "'s option"
  fl_snapshot :: "'s option"
  fl_delta_log_path :: "'l option"
  fl_max_catalog_version :: int
  fl_initialized_snapshot :: bool
  fl_initialized_scan :: bool
  fl_files_exhausted :: bool
  fl_column_mapping_mode :: DeltaColumnMappingMode
  fl_global_columns :: "column_def list"
  fl_have_bound :: bool
  fl_table_filters :: "(nat \<times> filter_expression) list"
  fl_not_null_constraints :: "not_null_constraint list"
  fl_has_null_constraints_in_arrays :: bool
  fl_string_width_bounds :: "DeltaStringWidthBound list"
  fl_partitions :: "string list"
  fl_partition_ids :: "nat list"
  fl_root_path :: string
  fl_lazy_loaded_schema :: "column_def list"
  fl_resolve_by_field_id :: bool
  fl_scan_data :: chunks
  fl_resolved_files :: "string list"
  fl_metadata :: "file_metadata list"

section \<open>The kernel\<close>

datatype 's builder_base = Base_Path string | Base_Snapshot 's

record ('s, 'l) snapshot_builder =
  sb_base :: "'s builder_base"
  sb_version :: "idx_t option"
  sb_log_tail :: "'l option"
  sb_max_catalog_version :: "64 word option"

record ('s, 'l, 'c, 'e, 'p, 'v) list_env =
  le_su :: string_util
  le_junk :: "nat \<Rightarrow> 32 word"
  le_join :: "string \<Rightarrow> string \<Rightarrow> string"
  le_cwd :: string
  le_can_access :: "string \<Rightarrow> bool"
  le_values :: "'v value_ops"
  le_create_engine :: "string \<Rightarrow> unit throws"
  le_get_builder :: "'s builder_base \<Rightarrow> string option + unit"
  le_with_log_tail :: "'l \<Rightarrow> string option + unit"
  le_build :: "('s, 'l) snapshot_builder \<Rightarrow> string option + 's"
  le_version :: "'s \<Rightarrow> idx_t"
  le_as_of :: "'s \<Rightarrow> int \<Rightarrow> string option + idx_t \<times> int"
  le_table :: "'s \<Rightarrow> kernel_snapshot"
  le_schema :: "'s \<Rightarrow> kernel_field list"
  le_visit_schema :: "kernel_field list \<Rightarrow> schema_visitor \<Rightarrow> nat \<times> schema_visitor"
  le_predicates :: "('e, 'p) predicate_kernel"
  le_filter_order :: "(string \<times> filter_expression) list \<Rightarrow> (string \<times> filter_expression) list"
  le_scan :: "'s \<Rightarrow> 'p kernel_id \<Rightarrow> string option + 'c"
  le_table_root :: "'c \<Rightarrow> string"
  le_scan_data :: "'c \<Rightarrow> string option + chunks"
  le_partition_columns :: "'s \<Rightarrow> string list"
  le_scan_schema :: "'c \<Rightarrow> kernel_field list"
  le_expressions :: expression_ops
  le_transforms :: transform_ops
  le_visit_expression :: "kernel_expression \<Rightarrow> expression_visitor \<Rightarrow> nat \<times> expression_visitor"
  le_replace :: "string \<Rightarrow> string \<Rightarrow> string \<Rightarrow> string"
  le_cast_width :: "string \<Rightarrow> nat option"

text \<open>Run the next operation unless the one before threw.\<close>

definition and_then :: "'a throws \<times> 'st \<Rightarrow> ('a \<Rightarrow> 'st \<Rightarrow> 'b throws \<times> 'st) \<Rightarrow> 'b throws \<times> 'st" where
  "and_then r f = (case r of (Inl e, st) \<Rightarrow> (Inl e, st) | (Inr a, st) \<Rightarrow> f a st)"

lemma and_then_simps [simp, result_simps]:
  "and_then (Inl e, st) f = (Inl e, st)" "and_then (Inr a, st) f = f a st"
  by (simp_all add: and_then_def)

lemma and_then_eq_Inr: "and_then r f = (Inr b, st2) \<longleftrightarrow> (\<exists>a st1. r = (Inr a, st1) \<and> f a st1 = (Inr b, st2))"
  by (auto simp: and_then_def split: prod.splits sum.splits)

section \<open>Making a list\<close>

definition new_file_list ::
  "('s, 'l, 'c, 'e, 'p, 'v) list_env \<Rightarrow> string \<Rightarrow> idx_t \<Rightarrow> ('s, 'l) file_list option \<Rightarrow> ('s, 'l) file_list throws" where
  "new_file_list le path version previous =
    bindr (ToDeltaPath (le_su le) (le_join le) (le_cwd le) path) (\<lambda>p.
    if \<not> le_can_access le (ToDuckDBPath (le_su le) path)
    then Inl (Err PermissionEx ''Cannot access \"%s\" - file system operations are disabled by configuration'' [path])
    else Inr \<lparr>fl_path = p, fl_version = version, fl_has_requested_timestamp = False, fl_requested_timestamp_ms = 0,
      fl_old_snapshot = Option.bind previous fl_snapshot, fl_snapshot = None, fl_delta_log_path = None,
      fl_max_catalog_version = - 1, fl_initialized_snapshot = False, fl_initialized_scan = False,
      fl_files_exhausted = False, fl_column_mapping_mode = MODE_NONE, fl_global_columns = [], fl_have_bound = False,
      fl_table_filters = [], fl_not_null_constraints = [], fl_has_null_constraints_in_arrays = False,
      fl_string_width_bounds = [], fl_partitions = [], fl_partition_ids = [], fl_root_path = [],
      fl_lazy_loaded_schema = [], fl_resolve_by_field_id = False, fl_scan_data = [], fl_resolved_files = [],
      fl_metadata = []\<rparr>)"

text \<open>A version of the specification that is not one throws, see DeltaTimeTravelSpec.\<close>

definition Pin ::
  "('s, 'l, 'c, 'e, 'p, 'v) list_env \<Rightarrow> ('s, 'l) file_list \<Rightarrow> DeltaTimeTravelSpec \<Rightarrow> unit throws \<times> ('s, 'l) file_list" where
  "Pin le st spec =
    (if fl_initialized_snapshot st then
       (Inl (Err InternalEx ''DeltaMultiFileList::Pin called after the snapshot was initialized'' []), st)
     else if IsTimestamp spec then
       (let st1 = st\<lparr>fl_version := INVALID_INDEX, fl_has_requested_timestamp := True\<rparr>
        in case bindr (GetTimestamp spec) (DeltaTimestampToEpochMs (le_values le)) of
             Inl e \<Rightarrow> (Inl e, st1)
           | Inr ms \<Rightarrow> (Inr (), st1\<lparr>fl_requested_timestamp_ms := ms\<rparr>))
     else if IsVersion spec then
       (case GetVersion spec of
          Inl e \<Rightarrow> (Inl e, st)
        | Inr v \<Rightarrow> (Inr (), st\<lparr>fl_version := v, fl_has_requested_timestamp := False\<rparr>))
     else (Inr (), st))"

section \<open>The snapshot\<close>

definition BuildSnapshot ::
  "('s, 'l, 'c, 'e, 'p, 'v) list_env \<Rightarrow> ('s, 'l) file_list \<Rightarrow> ('s, 'l) snapshot_builder \<Rightarrow> 's throws" where
  "BuildSnapshot le st builder =
    (case le_build le builder of
       Inr s \<Rightarrow> Inr s
     | Inl e \<Rightarrow>
        if (case e of None \<Rightarrow> False | Some m \<Rightarrow> IsMissingMaxCatalogVersion (le_su le) m)
        then Inl (Err InvalidInput ''Table at '%s' is a catalog-managed Delta table'' [fl_path st])
        else Unpack (Inl e))"

definition builder_base ::
  "('s, 'l, 'c, 'e, 'p, 'v) list_env \<Rightarrow> ('s, 'l) file_list \<Rightarrow> idx_t \<Rightarrow> 's builder_base" where
  "builder_base le st target_version =
    (case fl_old_snapshot st of
       Some old \<Rightarrow>
         if target_version = INVALID_INDEX \<or> le_version le old \<le> target_version then Base_Snapshot old
         else Base_Path (fl_path st)
     | None \<Rightarrow> Base_Path (fl_path st))"

definition CreateSnapshotBuilder ::
  "('s, 'l, 'c, 'e, 'p, 'v) list_env \<Rightarrow> ('s, 'l) file_list \<Rightarrow> idx_t \<Rightarrow> ('s, 'l) snapshot_builder throws" where
  "CreateSnapshotBuilder le st target_version =
    bindr (Unpack (le_get_builder le (builder_base le st target_version))) (\<lambda>_.
    bindr (case fl_delta_log_path st of None \<Rightarrow> Inr () | Some l \<Rightarrow> Unpack (le_with_log_tail le l)) (\<lambda>_.
    Inr \<lparr>sb_base = builder_base le st target_version,
         sb_version = (if target_version \<noteq> INVALID_INDEX then Some target_version else None),
         sb_log_tail = fl_delta_log_path st,
         sb_max_catalog_version =
           (if 0 \<le> fl_max_catalog_version st then Some (word_of_int (fl_max_catalog_version st)) else None)\<rparr>))"

definition VersionAsOf ::
  "('s, 'l, 'c, 'e, 'p, 'v) list_env \<Rightarrow> 's \<Rightarrow> int \<Rightarrow> idx_t throws" where
  "VersionAsOf le head timestamp_ms =
    bindr (DeltaRejectFutureTimestamp (le_values le) timestamp_ms) (\<lambda>_.
    bindr (Unpack (le_as_of le head timestamp_ms)) (\<lambda>commit. Inr (fst commit)))"

definition ResolveTimestamp ::
  "('s, 'l, 'c, 'e, 'p, 'v) list_env \<Rightarrow> ('s, 'l) file_list \<Rightarrow> int \<Rightarrow> (idx_t \<times> ('s, 'l) file_list) throws" where
  "ResolveTimestamp le st timestamp_ms =
    bindr (DeltaRejectFutureTimestamp (le_values le) timestamp_ms) (\<lambda>_.
    bindr (CreateSnapshotBuilder le st INVALID_INDEX) (\<lambda>head_builder.
    bindr (BuildSnapshot le st head_builder) (\<lambda>head.
    bindr (VersionAsOf le head timestamp_ms) (\<lambda>resolved.
    Inr (resolved, if resolved = le_version le head then st\<lparr>fl_snapshot := Some head\<rparr> else st)))))"

definition resolve_requested_version ::
  "('s, 'l, 'c, 'e, 'p, 'v) list_env \<Rightarrow> ('s, 'l) file_list \<Rightarrow> unit throws \<times> ('s, 'l) file_list" where
  "resolve_requested_version le st =
    (if fl_snapshot st = None \<and> fl_has_requested_timestamp st
     then (case ResolveTimestamp le st (fl_requested_timestamp_ms st) of
             Inl e \<Rightarrow> (Inl e, st)
           | Inr (v, st1) \<Rightarrow> (Inr (), st1\<lparr>fl_version := v\<rparr>))
     else (Inr (), st))"

definition load_snapshot ::
  "('s, 'l, 'c, 'e, 'p, 'v) list_env \<Rightarrow> ('s, 'l) file_list \<Rightarrow> unit throws \<times> ('s, 'l) file_list" where
  "load_snapshot le st =
    (if fl_snapshot st \<noteq> None then (Inr (), st)
     else (case bindr (CreateSnapshotBuilder le st (fl_version st)) (BuildSnapshot le st) of
        Inl e \<Rightarrow> (Inl e, st)
      | Inr s \<Rightarrow>
         (let st1 = st\<lparr>fl_snapshot := Some s\<rparr>
          in if fl_version st = INVALID_INDEX then (Inr (), st1\<lparr>fl_version := le_version le s\<rparr>)
             else if le_version le s \<noteq> fl_version st
             then (Inl (Err InvalidInput ''Snapshot version does not match requested version'' []), st1)
             else (Inr (), st1))))"

definition InitializeSnapshot ::
  "('s, 'l, 'c, 'e, 'p, 'v) list_env \<Rightarrow> ('s, 'l) file_list \<Rightarrow> unit throws \<times> ('s, 'l) file_list" where
  "InitializeSnapshot le st =
    and_then (le_create_engine le (fl_path st), st) (\<lambda>_ st1.
    and_then (resolve_requested_version le st1) (\<lambda>_ st2.
    and_then (load_snapshot le st2) (\<lambda>_ st3.
    (Inr (), st3\<lparr>fl_column_mapping_mode := ReadColumnMappingMode (le_table le (the (fl_snapshot st3))),
       fl_initialized_snapshot := True\<rparr>))))"

definition EnsureSnapshotInitialized ::
  "('s, 'l, 'c, 'e, 'p, 'v) list_env \<Rightarrow> ('s, 'l) file_list \<Rightarrow> unit throws \<times> ('s, 'l) file_list" where
  "EnsureSnapshotInitialized le st = (if fl_initialized_snapshot st then (Inr (), st) else InitializeSnapshot le st)"

definition FL_GetVersion ::
  "('s, 'l, 'c, 'e, 'p, 'v) list_env \<Rightarrow> ('s, 'l) file_list \<Rightarrow> idx_t throws \<times> ('s, 'l) file_list" where
  "FL_GetVersion le st = and_then (EnsureSnapshotInitialized le st) (\<lambda>_ st1. (Inr (fl_version st1), st1))"

definition ResolveTimestampWithin ::
  "('s, 'l, 'c, 'e, 'p, 'v) list_env \<Rightarrow> ('s, 'l) file_list \<Rightarrow> int \<Rightarrow> idx_t throws \<times> ('s, 'l) file_list" where
  "ResolveTimestampWithin le st timestamp =
    and_then (EnsureSnapshotInitialized le st) (\<lambda>_ st1.
    (bindr (DeltaTimestampToEpochMs (le_values le) timestamp) (VersionAsOf le (the (fl_snapshot st1))), st1))"

section \<open>What is read is what was asked for\<close>

text \<open>The snapshot a list was asked for: the head, a version, or the newest version no newer than a time, as the kernel
  finds it from the head.\<close>

definition asked_for ::
  "('s, 'l, 'c, 'e, 'p, 'v) list_env \<Rightarrow> ('s, 'l) file_list \<Rightarrow> 's \<Rightarrow> bool" where
  "asked_for le st s \<longleftrightarrow>
    (if fl_has_requested_timestamp st then
       fl_requested_timestamp_ms st \<le> now_ms (le_values le) \<and>
       (\<exists>head b at. sb_version b = None \<and> sb_log_tail b = fl_delta_log_path st \<and> le_build le b = Inr head \<and>
          le_as_of le head (fl_requested_timestamp_ms st) = Inr (le_version le s, at))
     else if fl_version st = INVALID_INDEX then
       (\<exists>b. sb_version b = None \<and> sb_log_tail b = fl_delta_log_path st \<and> le_build le b = Inr s)
     else le_version le s = fl_version st)"

lemma CreateSnapshotBuilder_fields:
  "CreateSnapshotBuilder le st v = Inr b \<Longrightarrow>
     sb_version b = (if v = INVALID_INDEX then None else Some v) \<and> sb_log_tail b = fl_delta_log_path st \<and>
     (\<forall>old. sb_base b = Base_Snapshot old \<longrightarrow> v = INVALID_INDEX \<or> le_version le old \<le> v)"
  by (auto simp: CreateSnapshotBuilder_def bindr_eq_Inr builder_base_def split: option.splits if_splits)

lemma BuildSnapshot_built: "BuildSnapshot le st b = Inr s \<longleftrightarrow> le_build le b = Inr s"
  by (auto simp: BuildSnapshot_def Unpack_def split: sum.splits option.splits)

lemma Unpack_Inr [simp]: "Unpack r = Inr v \<longleftrightarrow> r = Inr v"
  by (auto simp: Unpack_def split: sum.splits option.splits)

lemma ResolveTimestamp_spec:
  assumes "ResolveTimestamp le st ts = Inr (v, st1)"
  shows "ts \<le> now_ms (le_values le) \<and> (\<exists>head b at. sb_version b = None \<and> sb_log_tail b = fl_delta_log_path st \<and> le_build le b = Inr head \<and>
     le_as_of le head ts = Inr (v, at) \<and>
     st1 = (if v = le_version le head then st\<lparr>fl_snapshot := Some head\<rparr> else st))"
proof -
  obtain b head where "CreateSnapshotBuilder le st INVALID_INDEX = Inr b" "BuildSnapshot le st b = Inr head"
      "VersionAsOf le head ts = Inr v" "ts \<le> now_ms (le_values le)"
      "st1 = (if v = le_version le head then st\<lparr>fl_snapshot := Some head\<rparr> else st)"
    using assms by (auto simp: ResolveTimestamp_def bindr_eq_Inr DeltaRejectFutureTimestamp_def)
  then show ?thesis
    using CreateSnapshotBuilder_fields [of le st INVALID_INDEX b]
    by (auto simp: BuildSnapshot_built VersionAsOf_def bindr_eq_Inr)
qed

lemma load_snapshot_spec:
  assumes "load_snapshot le st = (Inr (), st1)" and "fl_snapshot st = None"
  shows "\<exists>s b. sb_version b = (if fl_version st = INVALID_INDEX then None else Some (fl_version st)) \<and>
     sb_log_tail b = fl_delta_log_path st \<and> le_build le b = Inr s \<and>
     (fl_version st \<noteq> INVALID_INDEX \<longrightarrow> le_version le s = fl_version st) \<and>
     st1 = st\<lparr>fl_snapshot := Some s, fl_version := le_version le s\<rparr>"
proof -
  obtain b s where b: "CreateSnapshotBuilder le st (fl_version st) = Inr b" "BuildSnapshot le st b = Inr s"
    using assms by (auto simp: load_snapshot_def bindr_def split: sum.splits)
  have "st1 = st\<lparr>fl_snapshot := Some s, fl_version := le_version le s\<rparr> \<and>
      (fl_version st \<noteq> INVALID_INDEX \<longrightarrow> le_version le s = fl_version st)"
    using assms b by (auto simp: load_snapshot_def Let_def split: if_splits)
  then show ?thesis using CreateSnapshotBuilder_fields [OF b(1)] b(2) unfolding BuildSnapshot_built by blast
qed


text \<open>A table at version 5, with the versions 0, 1 and 2 from the times 0, 100 and 200 on, and two files, one in each chunk of the scan.\<close>

definition example_list_env :: "(idx_t, unit, unit, tree_expr, tree_pred, nat) list_env" where
  "example_list_env =
    \<lparr>le_su = ascii_string_util, le_junk = (\<lambda>i. 0), le_join = (@), le_cwd = ''/'', le_can_access = (\<lambda>p. True),
     le_values = nat_value_ops, le_create_engine = (\<lambda>p. Inr ()), le_get_builder = (\<lambda>b. Inr ()),
     le_with_log_tail = (\<lambda>l. Inr ()), le_build = (\<lambda>b. Inr (case sb_version b of None \<Rightarrow> 5 | Some v \<Rightarrow> v)),
     le_version = (\<lambda>s. s), le_as_of = (\<lambda>s t. Inr (if t < 100 then 0 else if t < 200 then 1 else 2, t)),
     le_table = (\<lambda>s. \<lparr>configuration = [], protocol_min_reader = 1, protocol_features = []\<rparr>),
     le_schema = (\<lambda>s. []), le_visit_schema = walk_schema example_env, le_predicates = tree_kernel,
     le_filter_order = (\<lambda>fs. fs), le_scan = (\<lambda>s p. Inr ()), le_table_root = (\<lambda>c. ''/t/''),
     le_scan_data = (\<lambda>c. Inr (map (\<lambda>n. Inr \<lparr>sc_entries = [\<lparr>se_path = n, se_num_records = Some 3,
        se_deletion_vector = None, se_transform = None\<rparr>], sc_result = Inr True\<rparr>) [''a'', ''b''])),
     le_partition_columns = (\<lambda>s. []), le_scan_schema = (\<lambda>c. []),
     le_expressions = example_expression_ops, le_transforms = example_transform_ops,
     le_visit_expression = walk_root example_expression_ops, le_replace = replace_quotes, le_cast_width = try_cast_example\<rparr>"

definition example_list :: "(idx_t, unit) file_list" where
  "example_list = (case new_file_list example_list_env ''/t'' INVALID_INDEX None of Inr st \<Rightarrow> st)"

definition pinned_list :: "(idx_t, unit) file_list" where
  "pinned_list = snd (Pin example_list_env example_list (FromTimestamp 250000))"

lemma snapshot_example_feature:
  "ReadColumnMappingMode \<lparr>configuration = [], protocol_min_reader = 1, protocol_features = []\<rparr> = MODE_NONE"
  by code_simp

lemmas example_env_defs = example_list_env_def example_list_def new_file_list_def ToDeltaPath_def ascii_string_util_def Let_def

lemmas example_init_defs = InitializeSnapshot_def resolve_requested_version_def load_snapshot_def CreateSnapshotBuilder_def
  BuildSnapshot_def builder_base_def Unpack_def snapshot_example_feature

lemma pinned_list_fields: "fl_snapshot pinned_list = None" "fl_has_requested_timestamp pinned_list"
  "fl_requested_timestamp_ms pinned_list = 250" "fl_version pinned_list = INVALID_INDEX"
  "fl_delta_log_path pinned_list = None" "fl_old_snapshot pinned_list = None" "fl_max_catalog_version pinned_list = - 1"
  by (simp_all add: pinned_list_def example_env_defs Pin_def FromTimestamp_def LatestSpec_def IsTimestamp_def GetTimestamp_def
      DeltaTimestampToEpochMs_def nat_value_ops_def)

lemma pinned_list_initialized: "fst (InitializeSnapshot example_list_env pinned_list) = Inr ()"
  by (simp add: example_init_defs pinned_list_fields ResolveTimestamp_def VersionAsOf_def DeltaRejectFutureTimestamp_def
      example_list_env_def nat_value_ops_def INVALID_INDEX_def)


end
