(* ===== verification/File_List.thy ===== *)
theory File_List
  imports Snapshot
begin

text \<open>
  DeltaMultiFileList (delta\_multi\_file\_list.cpp), second part: binding the schema, making the kernel scan, and the lazy
  expansion of the list of data files from the chunks the kernel yields (ScanDataCallBack), with the metadata of each
  file. The list is expanded as far as it is asked for.
\<close>

section \<open>Schema and scan\<close>

definition Bind ::
  "('s, 'l, 'c, 'e, 'p, 'v) list_env \<Rightarrow> ('s, 'l) file_list \<Rightarrow> (string \<times> logical_type) list throws \<times> ('s, 'l) file_list" where
  "Bind le st =
    (let bound = (\<lambda>cols. map (\<lambda>c. (cd_name c, cd_type c)) cols)
     in if fl_have_bound st then (Inr (bound (fl_global_columns st)), st)
        else and_then (EnsureSnapshotInitialized le st) (\<lambda>_ st1.
          (case ToColumnDefinitions (le_visit_schema le) (le_schema le (the (fl_snapshot st1))) (fl_column_mapping_mode st1) of
             Inl e \<Rightarrow> (Inl e, st1)
           | Inr cols \<Rightarrow>
              (Inr (bound cols),
               st1\<lparr>fl_have_bound := True,
                   fl_not_null_constraints := fl_not_null_constraints st1 @ ExtractNotNullConstraints (le_replace le) cols None 0 [],
                   fl_has_null_constraints_in_arrays := ExtractHasNullConstraintsInArrays cols,
                   fl_string_width_bounds := fl_string_width_bounds st1 @ ExtractStringWidthBounds (le_su le) (le_cast_width le) 0 cols,
                   fl_global_columns := cols\<rparr>))))"

definition find_partition_id :: "string_util \<Rightarrow> column_def list \<Rightarrow> string \<Rightarrow> nat option" where
  "find_partition_id su cols name = find (\<lambda>i. CIEquals su name (cd_name (cols ! i))) [0..<length cols]"

definition load_partitions ::
  "('s, 'l, 'c, 'e, 'p, 'v) list_env \<Rightarrow> 's \<Rightarrow> ('s, 'l) file_list \<Rightarrow> unit throws \<times> ('s, 'l) file_list" where
  "load_partitions le snapshot st =
    (if le_partition_columns le snapshot = [] then (Inr (), st)
     else (let st1 = st\<lparr>fl_partitions := le_partition_columns le snapshot,
                 fl_partition_ids := fl_partition_ids st @
                   List.map_filter (find_partition_id (le_su le) (fl_global_columns st)) (le_partition_columns le snapshot)\<rparr>
           in if length (fl_partitions st1) \<noteq> length (fl_partition_ids st1)
              then (Inl (Err IOEx ''Failed to map partitions to columns'' []), st1)
              else (Inr (), st1)))"

definition load_scan_schema ::
  "('s, 'l, 'c, 'e, 'p, 'v) list_env \<Rightarrow> 'c \<Rightarrow> ('s, 'l) file_list \<Rightarrow> unit throws \<times> ('s, 'l) file_list" where
  "load_scan_schema le scan st =
    (case ToColumnDefinitions (le_visit_schema le) (le_scan_schema le scan) (fl_column_mapping_mode st) of
       Inl e \<Rightarrow> (Inl e, st)
     | Inr cols \<Rightarrow>
        (case ResolveByFieldId cols (fl_column_mapping_mode st) of
           Inl e \<Rightarrow> (Inl e, st\<lparr>fl_lazy_loaded_schema := cols\<rparr>)
         | Inr b \<Rightarrow> (Inr (), st\<lparr>fl_lazy_loaded_schema := cols, fl_resolve_by_field_id := b, fl_initialized_scan := True\<rparr>)))"

definition scan_predicate ::
  "('s, 'l, 'c, 'e, 'p, 'v) list_env \<Rightarrow> ('s, 'l) file_list \<Rightarrow> 'p visit_result" where
  "scan_predicate le st =
     VisitPredicate (le_predicates le) (le_filter_order le) (new_PredicateVisitor (fl_global_columns st) (fl_table_filters st))"

definition InitializeScan ::
  "('s, 'l, 'c, 'e, 'p, 'v) list_env \<Rightarrow> ('s, 'l) file_list \<Rightarrow> unit throws \<times> ('s, 'l) file_list" where
  "InitializeScan le st =
    (let snapshot = the (fl_snapshot st)
     in case scan_predicate le st of (predicate, visit_error) \<Rightarrow>
        and_then (Unpack (le_scan le snapshot predicate), st) (\<lambda>scan st.
        and_then ((case visit_error of
                     None \<Rightarrow> Inr ()
                   | Some e \<Rightarrow> Inl (Err IOEx ''Failed to initialize Scan for Delta table''
                       [fl_path st, err_message e])), st) (\<lambda>_ st.
        and_then (Unpack (le_scan_data le scan), st\<lparr>fl_root_path := le_table_root le scan\<rparr>) (\<lambda>scan_data st.
        and_then (load_partitions le snapshot (st\<lparr>fl_scan_data := scan_data\<rparr>)) (\<lambda>_ st.
        load_scan_schema le scan st)))))"

definition EnsureScanInitialized ::
  "('s, 'l, 'c, 'e, 'p, 'v) list_env \<Rightarrow> ('s, 'l) file_list \<Rightarrow> unit throws \<times> ('s, 'l) file_list" where
  "EnsureScanInitialized le st =
    and_then (EnsureSnapshotInitialized le st) (\<lambda>_ st1.
    if fl_initialized_scan st1 then (Inr (), st1) else InitializeScan le st1)"

section \<open>A file of the scan\<close>

fun ci_put :: "string_util \<Rightarrow> string \<Rightarrow> 'a \<Rightarrow> (string \<times> 'a) list \<Rightarrow> (string \<times> 'a) list" where
  "ci_put su k v [] = [(k, v)]"
| "ci_put su k v ((k', v') # m) = (if CIEquals su k' k then (k', v) # m else (k', v') # ci_put su k v m)"

definition constant_map ::
  "string_util \<Rightarrow> (nat \<rightharpoonup> dvalue) \<Rightarrow> (string \<times> nat) list \<Rightarrow> (string \<times> dvalue) list" where
  "constant_map su transform_partitions partitions =
     fold (\<lambda>(name, i). ci_put su name (case transform_partitions i of None \<Rightarrow> DV_Null | Some v \<Rightarrow> v)) partitions []"

fun is_function :: "parsed_expression \<Rightarrow> bool" where
  "is_function (FunctionExpr f args) = True"
| "is_function (AliasedExpr a e) = is_function e"
| "is_function _ = False"

text \<open>The metadata of a file from its transform, and the error the callback reports.\<close>

definition read_transform ::
  "('s, 'l, 'c, 'e, 'p, 'v) list_env \<Rightarrow> ('s, 'l) file_list \<Rightarrow> kernel_expression option \<Rightarrow> file_metadata
     \<Rightarrow> file_metadata \<times> error option" where
  "read_transform le st transform md =
    (case transform of
       None \<Rightarrow>
         (md, if fl_partitions st \<noteq> []
              then Some (Err IOEx ''Failed to fetch partitions from delta kernel transform! Transform is empty'' []) else None)
     | Some t \<Rightarrow>
        (case ToParsedExpression (le_visit_expression le) t of
           Inl e \<Rightarrow> (md, Some e)
         | Inr None \<Rightarrow> (md, Some (Err IOEx ''Failed to parse transformation expression from delta kernel: null returned'' []))
         | Inr (Some ps) \<Rightarrow>
            if length ps \<noteq> 1 \<or> \<not> is_function (hd ps)
            then (md, Some (Err IOEx ''Failed to fetch partitions from delta kernel transform: Transform is unknown expression'' []))
            else (case FindPartitionValues (le_su le) (le_expressions le) (le_transforms le) (hd ps) (fl_global_columns st)
                         (fl_column_mapping_mode st \<noteq> MODE_NONE) of
                    Inl e \<Rightarrow> (md, Some e)
                  | Inr m \<Rightarrow>
                     (md\<lparr>md_partition_map := constant_map (le_su le) m (zip (fl_partitions st) (fl_partition_ids st)),
                         md_transform := Some ps\<rparr>, None))))"

definition entry_metadata ::
  "('s, 'l, 'c, 'e, 'p, 'v) list_env \<Rightarrow> ('s, 'l) file_list \<Rightarrow> nat \<Rightarrow> scan_entry \<Rightarrow> file_metadata \<times> error option" where
  "entry_metadata le st file_number e =
    (let md = new_file_metadata\<lparr>md_snapshot_version := fl_version st, md_file_number := file_number,
           md_cardinality := (case se_num_records e of None \<Rightarrow> INVALID_INDEX | Some n \<Rightarrow> n)\<rparr>
     in case se_deletion_vector e of
          None \<Rightarrow> read_transform le st (se_transform e) md
        | Some (Inl err) \<Rightarrow> (md, Some (kernel_error err))
        | Some (Inr None) \<Rightarrow> read_transform le st (se_transform e) md
        | Some (Inr (Some v)) \<Rightarrow> read_transform le st (se_transform e) (md\<lparr>md_selection_vector := Some v\<rparr>))"

definition VisitCallbackInternal ::
  "('s, 'l, 'c, 'e, 'p, 'v) list_env \<Rightarrow> scan_entry \<Rightarrow> ('s, 'l) file_list \<Rightarrow> error option \<times> ('s, 'l) file_list" where
  "VisitCallbackInternal le e st =
    (case entry_metadata le st (length (fl_resolved_files st)) e of (md, err) \<Rightarrow>
      (err, st\<lparr>fl_resolved_files := fl_resolved_files st @ [ResolveAddPath (le_su le) (le_junk le) (fl_path st) (se_path e)],
               fl_metadata := fl_metadata st @ [md]\<rparr>))"

text \<open>The error of a callback stays in the context; a later one replaces it.\<close>

fun visit_entries ::
  "('s, 'l, 'c, 'e, 'p, 'v) list_env \<Rightarrow> scan_entry list \<Rightarrow> error option \<Rightarrow> ('s, 'l) file_list
     \<Rightarrow> error option \<times> ('s, 'l) file_list" where
  "visit_entries le [] err st = (err, st)"
| "visit_entries le (e # es) err st =
    (case VisitCallbackInternal le e st of (err1, st1) \<Rightarrow>
       visit_entries le es (case err1 of None \<Rightarrow> err | Some x \<Rightarrow> Some x) st1)"

definition VisitData ::
  "('s, 'l, 'c, 'e, 'p, 'v) list_env \<Rightarrow> scan_chunk \<Rightarrow> ('s, 'l) file_list \<Rightarrow> error option \<times> ('s, 'l) file_list" where
  "VisitData le chunk st =
    (case visit_entries le (sc_entries chunk) None st of (err, st1) \<Rightarrow>
      (case sc_result chunk of Inl e \<Rightarrow> Some (kernel_error e) | Inr _ \<Rightarrow> err, st1))"

section \<open>Expanding the list\<close>

fun expand_until ::
  "('s, 'l, 'c, 'e, 'p, 'v) list_env \<Rightarrow> nat \<Rightarrow> chunks \<Rightarrow> ('s, 'l) file_list \<Rightarrow> string throws \<times> ('s, 'l) file_list" where
  "expand_until le i [] st = (Inr [], st\<lparr>fl_scan_data := [], fl_files_exhausted := True\<rparr>)"
| "expand_until le i (Inl e # rest) st =
    (Inl (Err IOEx ''Failed to unpack scan data from kernel: %s'' [err_message (kernel_error e)]), st\<lparr>fl_scan_data := rest\<rparr>)"
| "expand_until le i (Inr chunk # rest) st =
    (case VisitData le chunk (st\<lparr>fl_scan_data := rest\<rparr>) of
       (Some e, st1) \<Rightarrow> (Inl e, st1)
     | (None, st1) \<Rightarrow>
         if i < length (fl_resolved_files st1) then (Inr (fl_resolved_files st1 ! i), st1)
         else expand_until le i rest st1)"

text \<open>The empty path stands for no file.\<close>

definition GetFileInternal ::
  "('s, 'l, 'c, 'e, 'p, 'v) list_env \<Rightarrow> nat \<Rightarrow> ('s, 'l) file_list \<Rightarrow> string throws \<times> ('s, 'l) file_list" where
  "GetFileInternal le i st =
    and_then (EnsureScanInitialized le st) (\<lambda>_ st1.
    if i < length (fl_resolved_files st1) then (Inr (fl_resolved_files st1 ! i), st1)
    else if fl_files_exhausted st1 then (Inr [], st1)
    else expand_until le i (fl_scan_data st1) st1)"

text \<open>The loop of GetTotalFileCountInternal and GetAllFiles.\<close>

partial_function (option) expand_all ::
  "('s, 'l, 'c, 'e, 'p, 'v) list_env \<Rightarrow> nat \<Rightarrow> ('s, 'l) file_list \<Rightarrow> (unit throws \<times> ('s, 'l) file_list) option" where
  "expand_all le i st =
    (case GetFileInternal le i st of
       (Inl e, st1) \<Rightarrow> Some (Inl e, st1)
     | (Inr path, st1) \<Rightarrow> if path = [] then Some (Inr (), st1) else expand_all le (Suc i) st1)"

definition GetAllFiles ::
  "('s, 'l, 'c, 'e, 'p, 'v) list_env \<Rightarrow> ('s, 'l) file_list \<Rightarrow> (string list throws \<times> ('s, 'l) file_list) option" where
  "GetAllFiles le st =
     map_option (\<lambda>r. and_then r (\<lambda>_ st1. (Inr (fl_resolved_files st1), st1))) (expand_all le (length (fl_resolved_files st)) st)"

definition GetTotalFileCount ::
  "('s, 'l, 'c, 'e, 'p, 'v) list_env \<Rightarrow> ('s, 'l) file_list \<Rightarrow> (nat throws \<times> ('s, 'l) file_list) option" where
  "GetTotalFileCount le st =
     map_option (\<lambda>r. and_then r (\<lambda>_ st1. (Inr (length (fl_resolved_files st1)), st1)))
       (expand_all le (length (fl_resolved_files st)) st)"

text \<open>The cardinality: None when no file has statistics. The sum is an idx\_t.\<close>

definition total_tuple_count :: "file_metadata list \<Rightarrow> idx_t option" where
  "total_tuple_count mds =
    (let known = filter (\<lambda>c. c \<noteq> INVALID_INDEX) (map md_cardinality mds)
     in if known = [] then None else Some (sum_list known))"

definition GetCardinality ::
  "('s, 'l, 'c, 'e, 'p, 'v) list_env \<Rightarrow> ('s, 'l) file_list \<Rightarrow> (idx_t option throws \<times> ('s, 'l) file_list) option" where
  "GetCardinality le st =
     map_option (\<lambda>r. and_then r (\<lambda>count st1.
       (Inr (if count = 0 then Some 0 else total_tuple_count (fl_metadata st1)), st1))) (GetTotalFileCount le st)"

section \<open>What is read from the list\<close>

definition GetMetaData :: "('s, 'l) file_list \<Rightarrow> nat \<Rightarrow> file_metadata throws" where
  "GetMetaData st index =
    (if length (fl_metadata st) \<le> index
     then Inl (Err InternalEx ''Attempted to fetch metadata for nonexistent file in DeltaMultiFileList'' [])
     else Inr (fl_metadata st ! index))"

definition GetPartitionColumns ::
  "('s, 'l, 'c, 'e, 'p, 'v) list_env \<Rightarrow> ('s, 'l) file_list \<Rightarrow> string list throws \<times> ('s, 'l) file_list" where
  "GetPartitionColumns le st = and_then (EnsureScanInitialized le st) (\<lambda>_ st1. (Inr (fl_partitions st1), st1))"

definition GetLazyLoadedGlobalColumns ::
  "('s, 'l, 'c, 'e, 'p, 'v) list_env \<Rightarrow> ('s, 'l) file_list \<Rightarrow> column_def list throws \<times> ('s, 'l) file_list" where
  "GetLazyLoadedGlobalColumns le st = and_then (EnsureScanInitialized le st) (\<lambda>_ st1. (Inr (fl_lazy_loaded_schema st1), st1))"

definition GetStringWidthBounds ::
  "('s, 'l, 'c, 'e, 'p, 'v) list_env \<Rightarrow> ('s, 'l) file_list \<Rightarrow> DeltaStringWidthBound list throws \<times> ('s, 'l) file_list" where
  "GetStringWidthBounds le st =
    and_then (EnsureSnapshotInitialized le st) (\<lambda>_ st1.
    if fl_have_bound st1 then (Inr (fl_string_width_bounds st1), st1)
    else (bindr (ToColumnDefinitions (le_visit_schema le) (le_schema le (the (fl_snapshot st1))) (fl_column_mapping_mode st1))
            (\<lambda>cols. Inr (ExtractStringWidthBounds (le_su le) (le_cast_width le) 0 cols)), st1))"

definition VariantShreddingEnabled ::
  "('s, 'l, 'c, 'e, 'p, 'v) list_env \<Rightarrow> ('s, 'l) file_list \<Rightarrow> bool throws \<times> ('s, 'l) file_list" where
  "VariantShreddingEnabled le st =
    and_then (EnsureSnapshotInitialized le st) (\<lambda>_ st1.
    (Inr (CIEquals (le_su le) (ReadTableProperty (le_table le (the (fl_snapshot st1))) ''delta.enableVariantShredding'') ''true''), st1))"

definition AllowsColumnDefaults ::
  "('s, 'l, 'c, 'e, 'p, 'v) list_env \<Rightarrow> ('s, 'l) file_list \<Rightarrow> bool throws \<times> ('s, 'l) file_list" where
  "AllowsColumnDefaults le st =
    and_then (EnsureSnapshotInitialized le st) (\<lambda>_ st1.
    (Inr (HasWriterFeature (le_table le (the (fl_snapshot st1))) ''allowColumnDefaults''), st1))"

definition GetNestedNotNullConstraints ::
  "('s, 'l, 'c, 'e, 'p, 'v) list_env \<Rightarrow> ('s, 'l) file_list \<Rightarrow> not_null_constraint list throws \<times> ('s, 'l) file_list" where
  "GetNestedNotNullConstraints le st = and_then (EnsureScanInitialized le st) (\<lambda>_ st1. (Inr (fl_not_null_constraints st1), st1))"

definition HasNullConstraintsInArrays ::
  "('s, 'l, 'c, 'e, 'p, 'v) list_env \<Rightarrow> ('s, 'l) file_list \<Rightarrow> bool throws \<times> ('s, 'l) file_list" where
  "HasNullConstraintsInArrays le st =
     and_then (EnsureScanInitialized le st) (\<lambda>_ st1. (Inr (fl_has_null_constraints_in_arrays st1), st1))"

definition UsesColumnMapping ::
  "('s, 'l, 'c, 'e, 'p, 'v) list_env \<Rightarrow> ('s, 'l) file_list \<Rightarrow> bool throws \<times> ('s, 'l) file_list" where
  "UsesColumnMapping le st =
     and_then (EnsureSnapshotInitialized le st) (\<lambda>_ st1. (Inr (fl_column_mapping_mode st1 \<noteq> MODE_NONE), st1))"

definition ResolvesByFieldId ::
  "('s, 'l, 'c, 'e, 'p, 'v) list_env \<Rightarrow> ('s, 'l) file_list \<Rightarrow> bool throws \<times> ('s, 'l) file_list" where
  "ResolvesByFieldId le st = and_then (EnsureScanInitialized le st) (\<lambda>_ st1. (Inr (fl_resolve_by_field_id st1), st1))"

section \<open>Initialization\<close>

lemma EnsureSnapshotInitialized_ok:
  "EnsureSnapshotInitialized le st = (Inr (), st1) \<Longrightarrow> fl_initialized_snapshot st1"
  by (auto simp: EnsureSnapshotInitialized_def InitializeSnapshot_def and_then_eq_Inr split: if_splits)

text \<open>What making the scan leaves alone, also when it fails.\<close>

definition table_part :: "('s, 'l) file_list \<Rightarrow> ('s, 'l) file_list" where
  "table_part st = st\<lparr>fl_initialized_scan := False, fl_root_path := [], fl_scan_data := [], fl_partitions := [],
     fl_partition_ids := [], fl_lazy_loaded_schema := [], fl_resolve_by_field_id := False\<rparr>"

lemma load_partitions_keeps: "table_part (snd (load_partitions le s st)) = table_part st"
  by (simp add: load_partitions_def Let_def table_part_def)

lemma load_scan_schema_keeps: "table_part (snd (load_scan_schema le scan st)) = table_part st"
  by (auto simp: load_scan_schema_def table_part_def split: sum.split)

lemma load_scan_schema_ok: "load_scan_schema le scan st = (Inr (), st1) \<Longrightarrow> fl_initialized_scan st1"
  by (auto simp: load_scan_schema_def split: sum.splits)

lemma and_then_table_part:
  assumes "table_part (snd r) = t" and "\<And>a st. table_part st = t \<Longrightarrow> table_part (snd (f a st)) = t"
  shows "table_part (snd (and_then r f)) = t"
  using assms by (cases r) (auto simp: and_then_def split: sum.split)

lemma table_part_updates:
  "table_part (st\<lparr>fl_root_path := x\<rparr>) = table_part st" "table_part (st\<lparr>fl_scan_data := d\<rparr>) = table_part st"
  by (simp_all add: table_part_def)

lemma InitializeScan_keeps: "table_part (snd (InitializeScan le st)) = table_part st"
  unfolding InitializeScan_def split_beta Let_def
  by (intro and_then_table_part) (simp_all add: load_partitions_keeps load_scan_schema_keeps table_part_updates)

lemma InitializeScan_ok: "InitializeScan le st = (Inr (), st1) \<Longrightarrow> fl_initialized_scan st1"
  unfolding InitializeScan_def split_beta Let_def by (auto simp: and_then_eq_Inr dest: load_scan_schema_ok)

lemma EnsureScanInitialized_ok:
  assumes "EnsureScanInitialized le st = (Inr (), st1)"
  shows "fl_initialized_snapshot st1 \<and> fl_initialized_scan st1"
proof -
  obtain st2 where e: "EnsureSnapshotInitialized le st = (Inr (), st2)"
    and s: "(if fl_initialized_scan st2 then (Inr (), st2) else InitializeScan le st2) = (Inr (), st1)"
    using assms by (auto simp: EnsureScanInitialized_def and_then_eq_Inr)
  show ?thesis
  proof (cases "fl_initialized_scan st2")
    case False
    then have i: "InitializeScan le st2 = (Inr (), st1)" using s by simp
    have "fl_initialized_snapshot st1 = fl_initialized_snapshot st2"
      using arg_cong [OF InitializeScan_keeps [of le st2], of fl_initialized_snapshot] i by (simp add: table_part_def)
    then show ?thesis using InitializeScan_ok [OF i] EnsureSnapshotInitialized_ok [OF e] by simp
  qed (use s EnsureSnapshotInitialized_ok [OF e] in simp)
qed

section \<open>Expansion only adds files\<close>

text \<open>What the expansion does not change, and the files that are still to come.\<close>

definition core :: "('s, 'l) file_list \<Rightarrow> ('s, 'l) file_list" where
  "core st = st\<lparr>fl_scan_data := [], fl_files_exhausted := False, fl_resolved_files := [], fl_metadata := []\<rparr>"

lemma core_updates [simp]:
  "core (st\<lparr>fl_scan_data := d\<rparr>) = core st" "core (st\<lparr>fl_files_exhausted := x\<rparr>) = core st"
  "core (st\<lparr>fl_resolved_files := r\<rparr>) = core st" "core (st\<lparr>fl_metadata := m\<rparr>) = core st"
  "core (core st) = core st"
  by (simp_all add: core_def)

lemma core_fields:
  assumes "core st' = core st"
  shows "fl_path st' = fl_path st" "fl_version st' = fl_version st" "fl_snapshot st' = fl_snapshot st"
    "fl_initialized_snapshot st' = fl_initialized_snapshot st" "fl_initialized_scan st' = fl_initialized_scan st"
    "fl_global_columns st' = fl_global_columns st" "fl_column_mapping_mode st' = fl_column_mapping_mode st"
    "fl_partitions st' = fl_partitions st" "fl_partition_ids st' = fl_partition_ids st"
proof -
  show "fl_path st' = fl_path st" using arg_cong [OF assms, of fl_path] by (simp add: core_def)
  show "fl_version st' = fl_version st" using arg_cong [OF assms, of fl_version] by (simp add: core_def)
  show "fl_snapshot st' = fl_snapshot st" using arg_cong [OF assms, of fl_snapshot] by (simp add: core_def)
  show "fl_initialized_snapshot st' = fl_initialized_snapshot st"
    using arg_cong [OF assms, of fl_initialized_snapshot] by (simp add: core_def)
  show "fl_initialized_scan st' = fl_initialized_scan st"
    using arg_cong [OF assms, of fl_initialized_scan] by (simp add: core_def)
  show "fl_global_columns st' = fl_global_columns st" using arg_cong [OF assms, of fl_global_columns] by (simp add: core_def)
  show "fl_column_mapping_mode st' = fl_column_mapping_mode st"
    using arg_cong [OF assms, of fl_column_mapping_mode] by (simp add: core_def)
  show "fl_partitions st' = fl_partitions st" using arg_cong [OF assms, of fl_partitions] by (simp add: core_def)
  show "fl_partition_ids st' = fl_partition_ids st" using arg_cong [OF assms, of fl_partition_ids] by (simp add: core_def)
qed

definition entry_path :: "('s, 'l, 'c, 'e, 'p, 'v) list_env \<Rightarrow> ('s, 'l) file_list \<Rightarrow> scan_entry \<Rightarrow> string" where
  "entry_path le st e = ResolveAddPath (le_su le) (le_junk le) (fl_path st) (se_path e)"

fun pending :: "chunks \<Rightarrow> scan_entry list" where
  "pending [] = []"
| "pending (Inl e # cs) = pending cs"
| "pending (Inr c # cs) = sc_entries c @ pending cs"

definition all_files :: "('s, 'l, 'c, 'e, 'p, 'v) list_env \<Rightarrow> ('s, 'l) file_list \<Rightarrow> string list" where
  "all_files le st = fl_resolved_files st @ map (entry_path le st) (pending (fl_scan_data st))"

lemma entry_path_core: "core st' = core st \<Longrightarrow> entry_path le st' = entry_path le st"
  by (rule ext) (simp add: entry_path_def core_fields(1) [of st' st])

lemma read_transform_core:
  assumes "core st' = core st"
  shows "read_transform le st' t md = read_transform le st t md"
  unfolding read_transform_def core_fields [OF assms] ..

lemma entry_metadata_core:
  assumes "core st' = core st"
  shows "entry_metadata le st' = entry_metadata le st"
  by (intro ext) (unfold entry_metadata_def core_fields [OF assms] read_transform_core [OF assms], rule refl)

lemma read_transform_keeps:
  "md_file_number (fst (read_transform le st t md)) = md_file_number md"
  "md_snapshot_version (fst (read_transform le st t md)) = md_snapshot_version md"
  "md_cardinality (fst (read_transform le st t md)) = md_cardinality md"
  by (auto simp: read_transform_def split: option.splits sum.splits)

lemma entry_metadata_fields:
  "md_file_number (fst (entry_metadata le st n e)) = n"
  "md_snapshot_version (fst (entry_metadata le st n e)) = fl_version st"
  "md_cardinality (fst (entry_metadata le st n e)) = (case se_num_records e of None \<Rightarrow> INVALID_INDEX | Some n \<Rightarrow> n)"
  by (auto simp: entry_metadata_def Let_def read_transform_keeps split: option.splits sum.splits)

definition added :: "('s, 'l, 'c, 'e, 'p, 'v) list_env \<Rightarrow> ('s, 'l) file_list \<Rightarrow> scan_entry list \<Rightarrow> ('s, 'l) file_list \<Rightarrow> bool" where
  "added le st es st' \<longleftrightarrow>
    core st' = core st \<and> fl_resolved_files st' = fl_resolved_files st @ map (entry_path le st) es \<and>
    fl_metadata st' = fl_metadata st @
      map2 (\<lambda>n e. fst (entry_metadata le st n e)) [length (fl_resolved_files st)..<length (fl_resolved_files st) + length es] es"

lemma added_Nil [simp]: "added le st [] st"
  by (simp add: added_def)

lemma added_trans:
  assumes "added le st es st1" and "added le st1 es' st2"
  shows "added le st (es @ es') st2"
proof -
  have "core st1 = core st" using assms(1) by (simp add: added_def)
  note c = entry_path_core [OF this, of le] entry_metadata_core [OF this, of le]
  have split: "[n..<n + (length es + length es')] = [n..<n + length es] @ [n + length es..<n + length es + length es']" for n
    by (metis add.assoc le_add1 upt_add_eq_append)
  show ?thesis using assms by (simp add: added_def c split zip_append1)
qed

lemma added_scan_data: "added le st es st1 \<Longrightarrow> added le st es (st1\<lparr>fl_scan_data := d\<rparr>)"
  "added le (st\<lparr>fl_scan_data := d\<rparr>) es st1 \<longleftrightarrow> added le st es st1"
  "added le st es (st1\<lparr>fl_files_exhausted := x\<rparr>) \<longleftrightarrow> added le st es st1"
proof -
  have c: "core (st\<lparr>fl_scan_data := d\<rparr>) = core st" by simp
  show "added le st es st1 \<Longrightarrow> added le st es (st1\<lparr>fl_scan_data := d\<rparr>)" by (simp add: added_def)
  show "added le (st\<lparr>fl_scan_data := d\<rparr>) es st1 \<longleftrightarrow> added le st es st1"
    by (simp add: added_def entry_path_core [OF c] entry_metadata_core [OF c])
  show "added le st es (st1\<lparr>fl_files_exhausted := x\<rparr>) \<longleftrightarrow> added le st es st1" by (simp add: added_def)
qed

lemma VisitCallbackInternal_added:
  "VisitCallbackInternal le e st = (err, st1) \<Longrightarrow>
     added le st [e] st1 \<and> fl_scan_data st1 = fl_scan_data st \<and> fl_files_exhausted st1 = fl_files_exhausted st \<and>
     err = snd (entry_metadata le st (length (fl_resolved_files st)) e)"
  by (auto simp: VisitCallbackInternal_def added_def entry_path_def split: prod.splits)

lemma visit_entries_added:
  "visit_entries le es err st = (err1, st1) \<Longrightarrow>
     added le st es st1 \<and> fl_scan_data st1 = fl_scan_data st \<and> fl_files_exhausted st1 = fl_files_exhausted st \<and>
     ((\<forall>e \<in> set es. \<forall>n. snd (entry_metadata le st n e) = None) \<longrightarrow> err1 = err)"
proof (induction es arbitrary: err st)
  case (Cons e es)
  obtain err2 st2 where v: "VisitCallbackInternal le e st = (err2, st2)" by fastforce
  note one = VisitCallbackInternal_added [OF v]
  have rest: "visit_entries le es (case err2 of None \<Rightarrow> err | Some x \<Rightarrow> Some x) st2 = (err1, st1)"
    using Cons.prems v by simp
  have c: "entry_metadata le st2 = entry_metadata le st"
    using one entry_metadata_core by (auto simp: added_def)
  show ?case using Cons.IH [OF rest] one added_trans [of le st "[e]" st2 es st1] c by auto
qed simp

lemma VisitData_added:
  assumes "VisitData le c st = (err, st1)"
  shows "added le st (sc_entries c) st1" "fl_scan_data st1 = fl_scan_data st" "fl_files_exhausted st1 = fl_files_exhausted st"
    "(\<forall>e \<in> set (sc_entries c). \<forall>n. snd (entry_metadata le st n e) = None) \<Longrightarrow> \<forall>x. sc_result c \<noteq> Inl x \<Longrightarrow> err = None"
  using assms visit_entries_added [of le "sc_entries c" None st]
  by (auto simp: VisitData_def split: prod.splits sum.splits)

text \<open>Every expansion moves entries from the chunks to the list, in order, and never more than there are.\<close>

definition expanded :: "('s, 'l, 'c, 'e, 'p, 'v) list_env \<Rightarrow> ('s, 'l) file_list \<Rightarrow> ('s, 'l) file_list \<Rightarrow> bool" where
  "expanded le st st' \<longleftrightarrow>
    (\<exists>es. added le st es st' \<and> pending (fl_scan_data st) = es @ pending (fl_scan_data st'))"

lemma expanded_refl [simp]: "expanded le st st"
  by (auto simp: expanded_def intro: exI [of _ "[]"])

lemma expanded_trans: "expanded le st st1 \<Longrightarrow> expanded le st1 st2 \<Longrightarrow> expanded le st st2"
  unfolding expanded_def using added_trans by (metis append.assoc)

lemma expanded_all_files: "expanded le st st' \<Longrightarrow> all_files le st' = all_files le st"
  using entry_path_core [of st' st le] by (auto simp: expanded_def all_files_def added_def)

lemma expanded_core: "expanded le st st' \<Longrightarrow> core st' = core st"
  by (auto simp: expanded_def added_def)

lemma expanded_chunk:
  assumes "VisitData le c (st\<lparr>fl_scan_data := cs\<rparr>) = (err, st1)" and "fl_scan_data st = Inr c # cs"
  shows "expanded le st st1" "fl_scan_data st1 = cs"
  using VisitData_added [OF assms(1)] assms(2) by (auto simp: expanded_def added_scan_data)

lemma expand_until_expanded:
  "fl_scan_data st = cs \<Longrightarrow> expand_until le i cs st = (r, st1) \<Longrightarrow> expanded le st st1"
proof (induction le i cs st rule: expand_until.induct)
  case (1 le i st)
  then show ?case by (auto simp: expanded_def added_scan_data intro!: exI [of _ "[]"] added_scan_data(1))
next
  case (2 le i e cs st)
  then show ?case by (auto simp: expanded_def intro!: exI [of _ "[]"] added_scan_data(1))
next
  case (3 le i c cs st)
  obtain err st2 where v: "VisitData le c (st\<lparr>fl_scan_data := cs\<rparr>) = (err, st2)" by fastforce
  note one = expanded_chunk [OF v "3.prems"(1)]
  show ?case
  proof (cases "err = None \<and> length (fl_resolved_files st2) \<le> i")
    case True
    then have "expanded le st2 st1" using "3.IH" [OF v [symmetric]] "3.prems"(2) one(2) v by simp
    then show ?thesis using one(1) expanded_trans by blast
  next
    case False
    then show ?thesis using one(1) "3.prems"(2) v by (auto split: option.splits if_splits)
  qed
qed

lemma GetFileInternal_initialized:
  "fl_initialized_snapshot st \<Longrightarrow> fl_initialized_scan st \<Longrightarrow>
     GetFileInternal le i st =
      (if i < length (fl_resolved_files st) then (Inr (fl_resolved_files st ! i), st)
       else if fl_files_exhausted st then (Inr [], st) else expand_until le i (fl_scan_data st) st)"
  by (simp add: GetFileInternal_def EnsureScanInitialized_def EnsureSnapshotInitialized_def)

lemma GetFileInternal_expanded:
  "fl_initialized_snapshot st \<Longrightarrow> fl_initialized_scan st \<Longrightarrow> GetFileInternal le i st = (r, st1) \<Longrightarrow> expanded le st st1"
  using expand_until_expanded [OF refl, of le i st] by (auto simp: GetFileInternal_initialized split: if_splits)

lemma expanded_initialized:
  "expanded le st st1 \<Longrightarrow> fl_initialized_snapshot st1 = fl_initialized_snapshot st \<and> fl_initialized_scan st1 = fl_initialized_scan st"
  using expanded_core core_fields(4,5) by blast

lemma expand_until_path:
  "expand_until le i cs st = (Inr path, st1) \<Longrightarrow> path \<noteq> [] \<Longrightarrow> i < length (fl_resolved_files st1) \<and> path = fl_resolved_files st1 ! i"
  by (induction le i cs st rule: expand_until.induct) (auto split: prod.splits option.splits if_splits)

lemma expand_all_initialized:
  assumes "fl_initialized_snapshot st" and "fl_initialized_scan st"
  shows "\<exists>r. expand_all le i st = Some r"
  using assms
proof (induction "length (all_files le st) - i" arbitrary: i st rule: less_induct)
  case less
  obtain r st1 where g: "GetFileInternal le i st = (r, st1)" by fastforce
  have ex: "expanded le st st1" using GetFileInternal_expanded [OF less.prems g] .
  show ?case
  proof (cases "\<exists>path. r = Inr path \<and> path \<noteq> []")
    case True
    then have "i < length (fl_resolved_files st1)"
      using g expand_until_path [of le i "fl_scan_data st" st _ st1]
      by (auto simp: GetFileInternal_initialized [OF less.prems] split: if_splits)
    then have "i < length (all_files le st1)" by (simp add: all_files_def)
    then have "length (all_files le st1) - Suc i < length (all_files le st) - i"
      unfolding expanded_all_files [OF ex] by simp
    then obtain r' where "expand_all le (Suc i) st1 = Some r'"
      using less.hyps expanded_initialized [OF ex] less.prems by blast
    then show ?thesis using True g by (subst expand_all.simps) auto
  next
    case False
    then show ?thesis using g by (subst expand_all.simps) (auto split: sum.splits)
  qed
qed

lemma expand_all_returns: "\<exists>r. expand_all le i st = Some r"
proof -
  obtain r st1 where e: "EnsureScanInitialized le st = (r, st1)" by fastforce
  show ?thesis
  proof (cases r)
    case (Inl x)
    then show ?thesis using e by (subst expand_all.simps) (simp add: GetFileInternal_def)
  next
    case (Inr u)
    then have init: "fl_initialized_snapshot st1" "fl_initialized_scan st1"
      using e EnsureScanInitialized_ok by auto
    have "GetFileInternal le i st = GetFileInternal le i st1"
      using e Inr init by (simp add: GetFileInternal_def EnsureScanInitialized_def EnsureSnapshotInitialized_def)
    then have "expand_all le i st = expand_all le i st1"
      by (subst (1 2) expand_all.simps) simp
    then show ?thesis using expand_all_initialized [OF init] by simp
  qed
qed

text \<open>C22. Counting or listing the files of a table always ends: from every state of a list, initialized or not and whether
  or not the kernel reports errors, the loop that expands the list returns.\<close>

theorem expand_all_terminates: "\<exists>r. expand_all le i st = Some r"
  by (rule expand_all_returns)

section \<open>The list of all files\<close>

definition entry_ok :: "('s, 'l, 'c, 'e, 'p, 'v) list_env \<Rightarrow> ('s, 'l) file_list \<Rightarrow> scan_entry \<Rightarrow> bool" where
  "entry_ok le st e \<longleftrightarrow> (\<forall>n. snd (entry_metadata le st n e) = None) \<and> entry_path le st e \<noteq> []"

text \<open>A scan the kernel completes: it is initialized, and neither the kernel nor the visit of a file fails. Files have names.\<close>

definition good_scan :: "('s, 'l, 'c, 'e, 'p, 'v) list_env \<Rightarrow> ('s, 'l) file_list \<Rightarrow> bool" where
  "good_scan le st \<longleftrightarrow>
    fl_initialized_snapshot st \<and> fl_initialized_scan st \<and> (fl_files_exhausted st \<longrightarrow> fl_scan_data st = []) \<and>
    [] \<notin> set (fl_resolved_files st) \<and>
    (\<forall>c \<in> set (fl_scan_data st). \<exists>chunk b. c = Inr chunk \<and> sc_result chunk = Inr b) \<and>
    (\<forall>e \<in> set (pending (fl_scan_data st)). entry_ok le st e)"

definition file_at :: "string list \<Rightarrow> nat \<Rightarrow> string" where
  "file_at files i = (if i < length files then files ! i else [])"

lemma entry_ok_core: "core st' = core st \<Longrightarrow> entry_ok le st' e = entry_ok le st e"
  by (simp add: entry_ok_def entry_metadata_core [of st' st] entry_path_core [of st' st])

lemma good_scan_expanded:
  assumes "good_scan le st" and "expanded le st st1"
    and "set (fl_scan_data st1) \<subseteq> set (fl_scan_data st)" and "fl_files_exhausted st1 \<longrightarrow> fl_scan_data st1 = []"
  shows "good_scan le st1"
proof -
  obtain es where es: "added le st es st1" "pending (fl_scan_data st) = es @ pending (fl_scan_data st1)"
    using assms(2) by (auto simp: expanded_def)
  have "\<forall>e \<in> set es. [] \<noteq> entry_path le st e"
    using assms(1) es(2) by (auto simp: good_scan_def entry_ok_def dest!: sym [of "[]"])
  moreover have "fl_resolved_files st1 = fl_resolved_files st @ map (entry_path le st) es" "[] \<notin> set (fl_resolved_files st)"
    using es(1) assms(1) by (simp_all add: added_def good_scan_def)
  ultimately have "[] \<notin> set (fl_resolved_files st1)" by auto
  then show ?thesis
    using assms es expanded_initialized [OF assms(2)] entry_ok_core [OF expanded_core [OF assms(2)], of le]
    by (auto simp: good_scan_def)
qed

lemma expand_until_good:
  "good_scan le st \<Longrightarrow> fl_scan_data st = cs \<Longrightarrow> length (fl_resolved_files st) \<le> i \<Longrightarrow>
     \<exists>st1. expand_until le i cs st = (Inr (file_at (all_files le st) i), st1) \<and> good_scan le st1 \<and> expanded le st st1 \<and>
       (length (all_files le st) \<le> i \<longrightarrow> fl_resolved_files st1 = all_files le st)"
proof (induction le i cs st rule: expand_until.induct)
  case (1 le i st)
  let ?st = "st\<lparr>fl_scan_data := [], fl_files_exhausted := True\<rparr>"
  have "expanded le st ?st"
    using expand_until_expanded [OF "1.prems"(2), of le i] by simp
  then show ?case
    using good_scan_expanded [OF "1.prems"(1)] "1.prems" by (auto simp: file_at_def all_files_def)
next
  case (2 le i e cs st)
  then show ?case by (auto simp: good_scan_def)
next
  case (3 le i c cs st)
  obtain err st2 where v: "VisitData le c (st\<lparr>fl_scan_data := cs\<rparr>) = (err, st2)" by fastforce
  note one = expanded_chunk [OF v "3.prems"(2)] and data = VisitData_added [OF v]
  have "entry_metadata le (st\<lparr>fl_scan_data := cs\<rparr>) = entry_metadata le st" by (rule entry_metadata_core) simp
  then have err: "err = None" using data(4) "3.prems"(1,2) by (fastforce simp: good_scan_def entry_ok_def)
  have good: "good_scan le st2"
    using good_scan_expanded [OF "3.prems"(1) one(1)] one(2) "3.prems"(1,2) data(3) by (auto simp: good_scan_def)
  have all: "all_files le st2 = all_files le st" using expanded_all_files [OF one(1)] .
  show ?case
  proof (cases "i < length (fl_resolved_files st2)")
    case True
    then have "file_at (all_files le st2) i = fl_resolved_files st2 ! i" "\<not> length (all_files le st2) \<le> i"
      by (simp_all add: file_at_def all_files_def nth_append)
    then show ?thesis using True v err good one(1) all by simp
  next
    case False
    then obtain st1 where st1: "expand_until le i cs st2 = (Inr (file_at (all_files le st2) i), st1)" "good_scan le st1"
        "expanded le st2 st1" "length (all_files le st2) \<le> i \<longrightarrow> fl_resolved_files st1 = all_files le st2"
      using "3.IH" [OF v [symmetric] err False good one(2)] by auto
    then show ?thesis using False v err all expanded_trans [OF one(1)] by auto
  qed
qed

lemma GetFileInternal_good:
  assumes "good_scan le st"
  shows "\<exists>st1. GetFileInternal le i st = (Inr (file_at (all_files le st) i), st1) \<and> good_scan le st1 \<and> expanded le st st1 \<and>
       (length (all_files le st) \<le> i \<longrightarrow> fl_resolved_files st1 = all_files le st)"
proof -
  have init: "fl_initialized_snapshot st" "fl_initialized_scan st" using assms by (simp_all add: good_scan_def)
  consider "i < length (fl_resolved_files st)" | "length (fl_resolved_files st) \<le> i" "fl_files_exhausted st"
    | "length (fl_resolved_files st) \<le> i" "\<not> fl_files_exhausted st" by linarith
  then show ?thesis
  proof cases
    case 1
    then show ?thesis
      using assms by (auto simp: GetFileInternal_initialized [OF init] file_at_def all_files_def nth_append)
  next
    case 2
    then have "all_files le st = fl_resolved_files st" using assms by (simp add: all_files_def good_scan_def)
    then show ?thesis using 2 assms by (simp add: GetFileInternal_initialized [OF init] file_at_def)
  next
    case 3
    then show ?thesis using expand_until_good [OF assms refl 3(1)] by (simp add: GetFileInternal_initialized [OF init])
  qed
qed

lemma file_at_good: "good_scan le st \<Longrightarrow> file_at (all_files le st) i = [] \<longleftrightarrow> length (all_files le st) \<le> i"
proof -
  assume g: "good_scan le st"
  have "x \<noteq> []" if "x \<in> set (all_files le st)" for x
    using g that by (auto simp: good_scan_def all_files_def entry_ok_def)
  then show ?thesis by (auto simp: file_at_def not_le)
qed

lemma expand_all_good:
  "good_scan le st \<Longrightarrow>
     \<exists>st1. expand_all le i st = Some (Inr (), st1) \<and> good_scan le st1 \<and> expanded le st st1 \<and>
       (i \<le> length (all_files le st) \<longrightarrow> fl_resolved_files st1 = all_files le st)"
proof (induction "length (all_files le st) - i" arbitrary: i st rule: less_induct)
  case less
  obtain st1 where g: "GetFileInternal le i st = (Inr (file_at (all_files le st) i), st1)" "good_scan le st1" "expanded le st st1"
      "length (all_files le st) \<le> i \<longrightarrow> fl_resolved_files st1 = all_files le st"
    using GetFileInternal_good [OF less.prems] by blast
  show ?case
  proof (cases "length (all_files le st) \<le> i")
    case True
    then have "expand_all le i st = Some (Inr (), st1)"
      using g(1) file_at_good [OF less.prems] by (subst expand_all.simps) simp
    then show ?thesis using g True by simp
  next
    case False
    then have e: "expand_all le i st = expand_all le (Suc i) st1"
      using g(1) file_at_good [OF less.prems] by (subst expand_all.simps) simp
    have all: "all_files le st1 = all_files le st" using expanded_all_files [OF g(3)] .
    obtain st2 where st2: "expand_all le (Suc i) st1 = Some (Inr (), st2)" "good_scan le st2" "expanded le st1 st2"
        "Suc i \<le> length (all_files le st1) \<longrightarrow> fl_resolved_files st2 = all_files le st1"
      using less.hyps [OF _ g(2), of "Suc i"] diff_less_mono2 [of i "Suc i" "length (all_files le st)"] False unfolding all by auto
    then show ?thesis using e expanded_trans [OF g(3)] False unfolding all by auto
  qed
qed

text \<open>Reading files by index, in any order and any number of times.\<close>

definition read_files ::
  "('s, 'l, 'c, 'e, 'p, 'v) list_env \<Rightarrow> nat list \<Rightarrow> ('s, 'l) file_list \<Rightarrow> ('s, 'l) file_list" where
  "read_files le is st = fold (\<lambda>i st. snd (GetFileInternal le i st)) is st"

lemma read_files_good:
  "good_scan le st \<Longrightarrow> good_scan le (read_files le is st) \<and> expanded le st (read_files le is st)"
proof (induction "is" arbitrary: st)
  case (Cons i "is")
  obtain st1 where "GetFileInternal le i st = (Inr (file_at (all_files le st) i), st1)" "good_scan le st1" "expanded le st st1"
    using GetFileInternal_good [OF Cons.prems] by blast
  then show ?case using Cons.IH [of st1] expanded_trans by (auto simp: read_files_def)
qed (simp add: read_files_def)

lemma GetAllFiles_good:
  assumes "good_scan le st" and "fl_resolved_files st = []"
  shows "\<exists>st1. GetAllFiles le (read_files le is st) = Some (Inr (map (entry_path le st) (pending (fl_scan_data st))), st1)"
proof -
  let ?st = "read_files le is st"
  have good: "good_scan le ?st" "expanded le st ?st" using read_files_good [OF assms(1)] by auto
  obtain st1 where "expand_all le (length (fl_resolved_files ?st)) ?st = Some (Inr (), st1)" "fl_resolved_files st1 = all_files le ?st"
    using expand_all_good [OF good(1), of "length (fl_resolved_files ?st)"] by (auto simp: all_files_def)
  then show ?thesis using expanded_all_files [OF good(2)] assms(2) by (simp add: GetAllFiles_def all_files_def)
qed

text \<open>C8. The lazy list of files refines the list the kernel describes: for a scan the kernel completes, reading the file at
  an index returns the file at that index of the whole list, or no file past its end, whatever has been read before; listing
  all files returns every file the kernel reports, once and in its order, and each file has the metadata of its own
  entry, numbered by its position.\<close>

theorem GetAllFiles_refines_kernel_list:
  assumes "good_scan le st" and "fl_resolved_files st = []" and "fl_metadata st = []"
  shows "fst (GetFileInternal le i (read_files le is st)) = Inr (file_at (all_files le st) i) \<and>
    (\<exists>st1. GetAllFiles le (read_files le is st) = Some (Inr (map (entry_path le st) (pending (fl_scan_data st))), st1) \<and>
       fl_metadata st1 = map2 (\<lambda>n e. fst (entry_metadata le st n e)) [0..<length (pending (fl_scan_data st))] (pending (fl_scan_data st)))"
proof -
  let ?st = "read_files le is st"
  have good: "good_scan le ?st" "expanded le st ?st" using read_files_good [OF assms(1)] by auto
  have all: "all_files le ?st = all_files le st" using expanded_all_files [OF good(2)] .
  have kernel: "all_files le st = map (entry_path le st) (pending (fl_scan_data st))"
    using assms(2) by (simp add: all_files_def)
  obtain st1 where st1: "expand_all le (length (fl_resolved_files ?st)) ?st = Some (Inr (), st1)" "expanded le ?st st1"
      "fl_resolved_files st1 = all_files le st"
    using expand_all_good [OF good(1), of "length (fl_resolved_files ?st)"] all by (auto simp: all_files_def)
  obtain es where es: "added le st es st1" "pending (fl_scan_data st) = es @ pending (fl_scan_data st1)"
    using expanded_trans [OF good(2) st1(2)] by (auto simp: expanded_def)
  then have "es = pending (fl_scan_data st)"
    using st1(3) assms(2) kernel by (auto simp: added_def dest!: arg_cong [of _ _ length])
  then have "fl_metadata st1 = map2 (\<lambda>n e. fst (entry_metadata le st n e)) [0..<length (pending (fl_scan_data st))] (pending (fl_scan_data st))"
    using es(1) assms(2,3) by (simp add: added_def)
  moreover have "fst (GetFileInternal le i ?st) = Inr (file_at (all_files le st) i)"
    using GetFileInternal_good [OF good(1), of i] all by auto
  ultimately show ?thesis using st1 kernel by (simp add: GetAllFiles_def)
qed

definition scanned_list :: "(idx_t, unit) file_list" where
  "scanned_list = snd (EnsureScanInitialized example_list_env example_list)"

lemma ToColumnDefinitions_nil: "ToColumnDefinitions (walk_schema example_env) [] mode = Inr []"
  by (rule walk_schema_columns) simp

lemma scanned_list_fields: "fl_initialized_snapshot scanned_list" "fl_initialized_scan scanned_list"
  "fl_resolved_files scanned_list = []" "fl_metadata scanned_list = []" "\<not> fl_files_exhausted scanned_list"
  "fl_partitions scanned_list = []" "fl_path scanned_list = ''/t/''"
  "fl_scan_data scanned_list = map (\<lambda>n. Inr \<lparr>sc_entries = [\<lparr>se_path = n, se_num_records = Some 3,
        se_deletion_vector = None, se_transform = None\<rparr>], sc_result = Inr True\<rparr>) [''a'', ''b'']"
  by (simp_all add: scanned_list_def EnsureScanInitialized_def EnsureSnapshotInitialized_def example_env_defs example_init_defs
      InitializeScan_def scan_predicate_def VisitPredicate_def new_PredicateVisitor_def load_partitions_def load_scan_schema_def
      ToColumnDefinitions_nil ResolveByFieldId_def)

lemma scanned_paths: "entry_path example_list_env scanned_list (\<lparr>se_path = ''a'', se_num_records = Some 3,
        se_deletion_vector = None, se_transform = None\<rparr>) = ''/t/a''"
  "entry_path example_list_env scanned_list (\<lparr>se_path = ''b'', se_num_records = Some 3,
        se_deletion_vector = None, se_transform = None\<rparr>) = ''/t/b''"
  by (simp_all add: entry_path_def scanned_list_fields(7) example_list_env_def ResolveAddPath_def ascii_string_util_def
      IsAbsoluteAddPath_def HasUriScheme_def str_find_char_def str_find_def url_decode_def ToDuckDBPath_def Let_def)

lemma scanned_list_good: "good_scan example_list_env scanned_list"
  using scanned_paths scanned_list_fields
  by (auto simp: good_scan_def entry_ok_def entry_metadata_def read_transform_def Let_def)

theorem GetAllFiles_refines_kernel_list_witness:
  "fst (GetFileInternal example_list_env 1 (read_files example_list_env [0, 7] scanned_list)) = Inr ''/t/b'' \<and>
   (\<exists>st1. GetAllFiles example_list_env (read_files example_list_env [0, 7] scanned_list) = Some (Inr [''/t/a'', ''/t/b''], st1))"
  using GetAllFiles_refines_kernel_list [OF scanned_list_good scanned_list_fields(3,4), of 1 "[0, 7]"]
  by (auto simp: all_files_def scanned_list_fields scanned_paths file_at_def)

end
