(* ===== verification/Pushdown.thy ===== *)
theory Pushdown
  imports File_List
begin

text \<open>
  Filter pushdown of DeltaMultiFileList (delta\_multi\_file\_list.cpp): the constant filters of a query, and later the dynamic
  ones, make a new list of files over the same snapshot with more filters; what was pushed down is reported to EXPLAIN and
  the log. DuckDB's FilterCombiner and ExpressionFilter::Equals are parameters.
\<close>

section \<open>Filters\<close>

definition PushFilter :: "nat \<Rightarrow> filter_expression \<Rightarrow> (nat \<times> filter_expression) list \<Rightarrow> (nat \<times> filter_expression) list" where
  "PushFilter column_idx table_filter fs = AList.update column_idx table_filter fs"

definition TryGetFilterByColumnIndex :: "(nat \<times> filter_expression) list \<Rightarrow> nat \<Rightarrow> filter_expression option" where
  "TryGetFilterByColumnIndex fs column_idx = map_of fs column_idx"

text \<open>A column index of the scan: the top-level column, and whether it extracts a field of it.\<close>

record scan_column =
  col_primary_index :: nat
  col_pushdown_extract :: bool

definition bounds_error :: error where
  "bounds_error = Err InternalEx ''Attempted to access index within vector'' []"

definition push_new_filter ::
  "nat \<Rightarrow> scan_column list \<Rightarrow> (nat \<times> filter_expression) list \<Rightarrow> nat \<times> filter_expression
     \<Rightarrow> (nat \<times> filter_expression) list throws" where
  "push_new_filter column_count column_indexes fs entry =
    (if length column_indexes \<le> fst entry then Inl bounds_error
     else (let column = column_indexes ! fst entry
           in if col_pushdown_extract column then Inr fs
              else if col_primary_index column < column_count then Inr (PushFilter (col_primary_index column) (snd entry) fs)
              else Inr fs))"

definition PushdownInternal ::
  "('s, 'l, 'c, 'e, 'p, 'v) list_env \<Rightarrow> ('s, 'l) file_list \<Rightarrow> (nat \<times> filter_expression) list \<Rightarrow> scan_column list
     \<Rightarrow> ('s, 'l) file_list throws" where
  "PushdownInternal le st new_filters column_indexes =
    bindr (new_file_list le (fl_path st) (fl_version st) None) (\<lambda>filtered_list.
    bindr (foldr_throws (push_new_filter (length (fl_global_columns st)) column_indexes)
             (fold (\<lambda>(i, f). PushFilter i f) (fl_table_filters st) []) new_filters) (\<lambda>result_filter_set.
    Inr (filtered_list\<lparr>fl_table_filters := result_filter_set, fl_global_columns := fl_global_columns st,
           fl_lazy_loaded_schema := fl_lazy_loaded_schema st, fl_snapshot := fl_snapshot st\<rparr>)))"

definition GetDeltaFilterPushdownMode :: "string_util \<Rightarrow> string option \<Rightarrow> DeltaFilterPushdownMode throws" where
  "GetDeltaFilterPushdownMode su pushdown_filters =
    (case pushdown_filters of Some str \<Rightarrow> PushdownFromString su str | None \<Rightarrow> Inr DEFAULT_PUSHDOWN_MODE)"

section \<open>Reporting\<close>

record explain_info =
  ei_total_files :: "nat option"
  ei_filtered_files :: "nat option"
  ei_file_filters :: string

definition report_counts :: "nat \<Rightarrow> nat \<Rightarrow> explain_info \<Rightarrow> explain_info" where
  "report_counts old_total new_total info =
     info\<lparr>ei_total_files := (case ei_total_files info of
            None \<Rightarrow> Some old_total | Some n \<Rightarrow> if old_total > n then Some old_total else Some n),
          ei_filtered_files := (case ei_filtered_files info of
            None \<Rightarrow> Some new_total | Some n \<Rightarrow> if new_total < n then Some new_total else Some n)\<rparr>"

text \<open>\<open>to_text\<close> is ExpressionFilter::ToString, \<open>sort_strings\<close> std::sort; \<open>re_files_filtered\<close> is the setting \<open>delta_scan_explain_files_filtered\<close>.\<close>

definition collect_filter_strings ::
  "(filter_expression \<Rightarrow> string \<Rightarrow> string) \<Rightarrow> (string list \<Rightarrow> string list) \<Rightarrow> column_def list
     \<Rightarrow> (nat \<times> filter_expression) list \<Rightarrow> string list" where
  "collect_filter_strings to_text sort_strings cols fs =
     sort_strings (map (\<lambda>(i, f). to_text f (cd_name (cols ! i))) (filter (\<lambda>(i, f). i < length cols) fs))"

definition explain_filters :: "string list \<Rightarrow> string" where
  "explain_filters strings = butlast (concat (map (\<lambda>s. s @ [CHR 0x0A]) strings))"

record log_entry =
  lg_path :: string
  lg_type :: string
  lg_filters_before :: "string list"
  lg_filters_after :: "string list"
  lg_files :: "(nat \<times> nat) option"

text \<open>The counts are taken on both lists, which expands them; None when \<open>delta_scan_explain_files_filtered\<close> is off.\<close>

definition count_files ::
  "('s, 'l, 'c, 'e, 'p, 'v) list_env \<Rightarrow> bool \<Rightarrow> ('s, 'l) file_list \<Rightarrow> ('s, 'l) file_list
     \<Rightarrow> ((nat \<times> nat) option throws \<times> ('s, 'l) file_list \<times> ('s, 'l) file_list) option" where
  "count_files le files_filtered st new_list =
    (if \<not> files_filtered then Some (Inr None, st, new_list)
     else (case EnsureScanInitialized le st of
        (Inl e, st0) \<Rightarrow> Some (Inl e, st0, new_list)
      | (Inr _, st0) \<Rightarrow>
         (case GetTotalFileCount le st0 of
            None \<Rightarrow> None
          | Some (Inl e, st1) \<Rightarrow> Some (Inl e, st1, new_list)
          | Some (Inr old_total, st1) \<Rightarrow>
              map_option (\<lambda>(r, l1). (bindr r (\<lambda>new_total. Inr (Some (old_total, new_total))), st1, l1))
                (GetTotalFileCount le new_list))))"

record report_env =
  re_to_text :: "filter_expression \<Rightarrow> string \<Rightarrow> string"
  re_sort :: "string list \<Rightarrow> string list"
  re_should_log :: bool
  re_profiling :: bool
  re_files_filtered :: "bool option"

definition ReportFilterPushdown ::
  "('s, 'l, 'c, 'e, 'p, 'v) list_env \<Rightarrow> report_env \<Rightarrow> string \<Rightarrow> explain_info option \<Rightarrow> ('s, 'l) file_list \<Rightarrow> ('s, 'l) file_list
     \<Rightarrow> ((explain_info option \<times> log_entry option) throws \<times> ('s, 'l) file_list \<times> ('s, 'l) file_list) option" where
  "ReportFilterPushdown le re pushdown_type info st new_list =
    (let should_report = (info \<noteq> None \<and> re_profiling re)
     in if \<not> should_report \<and> \<not> re_should_log re then Some (Inr (info, None), st, new_list)
        else (case re_files_filtered re of
           None \<Rightarrow> Some (Inl (Err InternalEx ''Failed to find 'delta_scan_explain_files_filtered' option!'' []), st, new_list)
         | Some ff \<Rightarrow>
            map_option (\<lambda>(r, st1, l1).
              (bindr r (\<lambda>counts.
                let info1 = (case (should_report, counts) of
                        (True, Some (old_total, new_total)) \<Rightarrow> map_option (report_counts old_total new_total) info
                      | _ \<Rightarrow> info);
                    before = collect_filter_strings (re_to_text re) (re_sort re) (fl_global_columns st) (fl_table_filters st);
                    after = collect_filter_strings (re_to_text re) (re_sort re) (fl_global_columns st) (fl_table_filters new_list);
                    info2 = (if should_report then map_option (\<lambda>i. i\<lparr>ei_file_filters := explain_filters after\<rparr>) info1 else info1)
                in Inr (info2, if re_should_log re then Some \<lparr>lg_path = fl_path st, lg_type = pushdown_type,
                      lg_filters_before = before, lg_filters_after = after, lg_files = counts\<rparr> else None)), st1, l1))
              (count_files le ff st new_list)))"

section \<open>The two pushdowns\<close>

text \<open>The result is the new list, if there is one, what EXPLAIN shows and the log entry; the list itself may have been expanded
  for the counts.\<close>

definition push_and_report ::
  "('s, 'l, 'c, 'e, 'p, 'v) list_env \<Rightarrow> report_env \<Rightarrow> ('s, 'l) file_list \<Rightarrow> (nat \<times> filter_expression) list \<Rightarrow> scan_column list
     \<Rightarrow> string \<Rightarrow> explain_info option
     \<Rightarrow> ((('s, 'l) file_list option \<times> explain_info option \<times> log_entry option) throws \<times> ('s, 'l) file_list) option" where
  "push_and_report le re st filters column_indexes pushdown_type info =
    (case PushdownInternal le st filters column_indexes of
       Inl e \<Rightarrow> Some (Inl e, st)
     | Inr l \<Rightarrow> map_option (\<lambda>(r, st1, l1). (bindr r (\<lambda>(info1, log). Inr (Some l1, info1, log)), st1))
         (ReportFilterPushdown le re pushdown_type info st l))"

text \<open>The combiner gets the filters in reverse order.\<close>

definition ComplexFilterPushdown ::
  "('s, 'l, 'c, 'e, 'p, 'v) list_env \<Rightarrow> report_env \<Rightarrow> ('x list \<Rightarrow> scan_column list \<Rightarrow> (nat \<times> filter_expression) list)
     \<Rightarrow> ('s, 'l) file_list \<Rightarrow> string option \<Rightarrow> scan_column list \<Rightarrow> 'x list \<Rightarrow> explain_info
     \<Rightarrow> ((('s, 'l) file_list option \<times> explain_info option \<times> log_entry option) throws \<times> ('s, 'l) file_list) option" where
  "ComplexFilterPushdown le re combine st pushdown_filters column_indexes filters info =
    (case GetDeltaFilterPushdownMode (le_su le) pushdown_filters of
       Inl e \<Rightarrow> Some (Inl e, st)
     | Inr pushdown_mode \<Rightarrow>
        if pushdown_mode = PUSHDOWN_NONE \<or> pushdown_mode = DYNAMIC_ONLY then Some (Inr (None, Some info, None), st)
        else if filters = [] then Some (Inr (None, Some info, None), st)
        else (let filter_set = combine (rev filters) column_indexes
              in if filter_set = [] then Some (Inr (None, Some info, None), st)
                 else push_and_report le re st filter_set column_indexes ''constant'' (Some info)))"

definition copy_dynamic_filter ::
  "(filter_expression \<Rightarrow> filter_expression \<Rightarrow> bool) \<Rightarrow> (nat \<times> filter_expression) list \<Rightarrow> scan_column list \<Rightarrow> nat list
     \<Rightarrow> (nat \<times> filter_expression) list \<Rightarrow> nat \<times> filter_expression \<Rightarrow> (nat \<times> filter_expression) list throws" where
  "copy_dynamic_filter equals table_filters column_indexes column_ids fs entry =
    (if length column_indexes \<le> fst entry \<or> length column_ids \<le> fst entry then Inl bounds_error
     else if col_pushdown_extract (column_indexes ! fst entry) then Inr fs
     else (case TryGetFilterByColumnIndex table_filters (column_ids ! fst entry) of
             Some previous \<Rightarrow> if equals (snd entry) previous then Inr fs else Inr (PushFilter (fst entry) (snd entry) fs)
           | None \<Rightarrow> Inr (PushFilter (fst entry) (snd entry) fs)))"

definition DynamicFilterPushdown ::
  "('s, 'l, 'c, 'e, 'p, 'v) list_env \<Rightarrow> report_env \<Rightarrow> (filter_expression \<Rightarrow> filter_expression \<Rightarrow> bool) \<Rightarrow> ('s, 'l) file_list
     \<Rightarrow> string option \<Rightarrow> scan_column list \<Rightarrow> nat list \<Rightarrow> (nat \<times> filter_expression) list
     \<Rightarrow> ((('s, 'l) file_list option \<times> explain_info option \<times> log_entry option) throws \<times> ('s, 'l) file_list) option" where
  "DynamicFilterPushdown le re equals st pushdown_filters column_indexes column_ids filters =
    (case GetDeltaFilterPushdownMode (le_su le) pushdown_filters of
       Inl e \<Rightarrow> Some (Inl e, st)
     | Inr pushdown_mode \<Rightarrow>
        if pushdown_mode = PUSHDOWN_NONE \<or> pushdown_mode = CONSTANT_ONLY then Some (Inr (None, None, None), st)
        else if filters = [] then Some (Inr (None, None, None), st)
        else (case foldr_throws (copy_dynamic_filter equals (fl_table_filters st) column_indexes column_ids) [] filters of
           Inl e \<Rightarrow> Some (Inl e, st)
         | Inr filters_copy \<Rightarrow>
            if filters_copy = [] then Some (Inr (None, None, None), st)
            else push_and_report le re st filters_copy column_indexes ''dynamic'' None))"

section \<open>A pushdown keeps the snapshot and the needed rows\<close>

text \<open>The filters that are pushed to a list hold of a row.\<close>

definition row_passes ::
  "('s, 'l, 'c, 'e, 'p, 'v) list_env \<Rightarrow> (compare_op \<Rightarrow> dvalue \<Rightarrow> dvalue \<Rightarrow> bool) \<Rightarrow> (filter_expression \<Rightarrow> nested \<Rightarrow> bool) \<Rightarrow> nested
     \<Rightarrow> column_def list \<Rightarrow> nat \<Rightarrow> filter_expression \<Rightarrow> bool" where
  "row_passes le truth other row cols i f \<longleftrightarrow>
     filter_typed (le_predicates le) (lookup_path row [cd_name (cols ! i)]) f \<and>
     passes truth other (lookup_path row [cd_name (cols ! i)]) f"

lemma PushFilter_set: "(i, f) \<in> set (PushFilter j g fs) \<Longrightarrow> (i, f) = (j, g) \<or> (i, f) \<in> set fs"
  by (induction fs) (auto simp: PushFilter_def split: if_splits)

lemma copied_filters_set:
  "(i, f) \<in> set (fold (\<lambda>(i, f). PushFilter i f) fs acc) \<Longrightarrow> (i, f) \<in> set fs \<or> (i, f) \<in> set acc"
  by (induction fs arbitrary: acc) (fastforce dest: PushFilter_set)+

lemma pushed_filters_set:
  assumes "foldr_throws (push_new_filter n column_indexes) acc new_filters = Inr fs" and "(i, f) \<in> set fs"
  shows "(i, f) \<in> set acc \<or>
    (\<exists>k. (k, f) \<in> set new_filters \<and> k < length column_indexes \<and> \<not> col_pushdown_extract (column_indexes ! k) \<and>
       i = col_primary_index (column_indexes ! k) \<and> i < n)"
  using assms
proof (induction new_filters arbitrary: acc)
  case (Cons x xs)
  then obtain acc1 where "push_new_filter n column_indexes acc x = Inr acc1"
      "foldr_throws (push_new_filter n column_indexes) acc1 xs = Inr fs" by (auto simp: bindr_eq_Inr)
  with Cons.IH Cons.prems(2) show ?case
    by (cases x) (fastforce simp: push_new_filter_def Let_def split: if_splits dest: PushFilter_set)
qed simp

text \<open>C7. Pushing filters down never changes what is read nor loses a needed row: the new list has the snapshot and the version of
  the list it is made from, also after it is initialized, although its timestamp is not copied; and a row that passes the
  filters of the old list and the new filters, those on extracted fields excepted, satisfies the predicate the kernel
  gets for the new list. So a query reads one version of the table, with every row it needs, whatever the order of its
  constant and dynamic pushdowns.\<close>

theorem PushdownInternal_keeps_snapshot_and_rows:
  assumes "PushdownInternal le st new_filters column_indexes = Inr st1" and "fl_snapshot st = Some s"
    and "predicate_semantics (le_predicates le) denotes sat truth" and "\<forall>fs. set (le_filter_order le fs) = set fs"
    and "\<forall>(i, f) \<in> set (fl_table_filters st). row_passes le truth other row (fl_global_columns st) i f"
    and "\<forall>(k, f) \<in> set new_filters. k < length column_indexes \<longrightarrow> \<not> col_pushdown_extract (column_indexes ! k) \<longrightarrow>
      row_passes le truth other row (fl_global_columns st) (col_primary_index (column_indexes ! k)) f"
  shows "fl_snapshot st1 = Some s \<and> fl_version st1 = fl_version st \<and> fl_global_columns st1 = fl_global_columns st \<and>
    (\<forall>st2. InitializeSnapshot le st1 = (Inr (), st2) \<longrightarrow> fl_snapshot st2 = Some s \<and> fl_version st2 = fl_version st) \<and>
    (\<forall>(i, f) \<in> set (fl_table_filters st1). row_passes le truth other row (fl_global_columns st1) i f) \<and>
    (\<forall>p err. scan_predicate le st1 = (Valid_Id p, err) \<longrightarrow> sat p row = Some True)"
proof -
  obtain l fs where l: "new_file_list le (fl_path st) (fl_version st) None = Inr l"
      "foldr_throws (push_new_filter (length (fl_global_columns st)) column_indexes)
             (fold (\<lambda>(i, f). PushFilter i f) (fl_table_filters st) []) new_filters = Inr fs"
      "st1 = l\<lparr>fl_table_filters := fs, fl_global_columns := fl_global_columns st,
           fl_lazy_loaded_schema := fl_lazy_loaded_schema st, fl_snapshot := fl_snapshot st\<rparr>"
    using assms(1) by (auto simp: PushdownInternal_def bindr_eq_Inr)
  have new: "fl_version l = fl_version st" "\<not> fl_has_requested_timestamp l"
    using l(1) by (auto simp: new_file_list_def bindr_eq_Inr split: if_splits)
  have init: "fl_snapshot st2 = Some s \<and> fl_version st2 = fl_version st" if "InitializeSnapshot le st1 = (Inr (), st2)" for st2
    using that l(3) new assms(2)
    by (auto simp: InitializeSnapshot_def and_then_eq_Inr resolve_requested_version_def load_snapshot_def)
  have rows: "row_passes le truth other row (fl_global_columns st) i f" if "(i, f) \<in> set fs" for i f
    using pushed_filters_set [OF l(2) that] copied_filters_set [of i f "fl_table_filters st" "[]"] assms(5,6) by fastforce
  have "sat p row = Some True" if "scan_predicate le st1 = (Valid_Id p, err)" for p err
    using predicate_semantics.VisitPredicate_sat [OF assms(3), of "le_filter_order le"
        "new_PredicateVisitor (fl_global_columns st1) (fl_table_filters st1)" p err row other]
      that assms(4) rows new_PredicateVisitor_filters [of _ _ "fl_global_columns st1" "fl_table_filters st1"] l(3)
    by (fastforce simp: scan_predicate_def row_passes_def)
  then show ?thesis using l(3) new init rows assms(2) by auto
qed

definition bound_list :: "(idx_t, unit) file_list" where
  "bound_list = example_list\<lparr>fl_snapshot := Some 5, fl_version := 5, fl_global_columns := example_columns\<rparr>"

definition id_filter :: filter_expression where
  "id_filter = F_Compare CMP_LT (F_Constant (DV_Bigint 5)) F_Reference"

definition pushed_list :: "(idx_t, unit) file_list throws" where
  "pushed_list = PushdownInternal example_list_env bound_list [(0, id_filter)] [\<lparr>col_primary_index = 0, col_pushdown_extract = False\<rparr>]"

lemma pushed_list_made: "case pushed_list of Inl e \<Rightarrow> False | Inr st \<Rightarrow> scan_predicate example_list_env st =
    (Valid_Id (T_And [T_Compare CMP_GT (T_Column [''id'']) (T_Literal (DV_Bigint 5))]), None)"
  by code_simp

lemma bound_list_fields: "fl_snapshot bound_list = Some 5" "fl_table_filters bound_list = []"
    "fl_global_columns bound_list = example_columns"
  by (simp_all add: bound_list_def example_list_def new_file_list_def example_list_env_def ToDeltaPath_def)

theorem PushdownInternal_keeps_snapshot_and_rows_witness:
  "\<exists>st1. pushed_list = Inr st1 \<and> fl_snapshot st1 = Some 5 \<and>
     tree_sat example_key (T_And [T_Compare CMP_GT (T_Column [''id'']) (T_Literal (DV_Bigint 5))]) example_row = Some True"
proof -
  obtain st1 where st1: "pushed_list = Inr st1"
      "scan_predicate example_list_env st1 = (Valid_Id (T_And [T_Compare CMP_GT (T_Column [''id'']) (T_Literal (DV_Bigint 5))]), None)"
    using pushed_list_made by (auto split: sum.splits)
  have sem: "predicate_semantics (le_predicates example_list_env) tree_denotes (tree_sat example_key) (key_truth example_key)"
    "\<forall>fs. set (le_filter_order example_list_env fs) = set fs"
    using tree.predicate_semantics_axioms by (simp_all add: example_list_env_def)
  have "row_passes example_list_env (key_truth example_key) (\<lambda>f v. False) example_row example_columns 0 id_filter"
    by (simp add: row_passes_def id_filter_def example_columns_def example_row_def example_key_def new_column_def
        comparison_supported_def)
  then have rows: "\<forall>(i, f) \<in> set (fl_table_filters bound_list).
      row_passes example_list_env (key_truth example_key) (\<lambda>f v. False) example_row (fl_global_columns bound_list) i f"
    "\<forall>(k, f) \<in> set [(0, id_filter)]. k < length [\<lparr>col_primary_index = 0, col_pushdown_extract = False\<rparr>] \<longrightarrow>
      \<not> col_pushdown_extract ([\<lparr>col_primary_index = 0, col_pushdown_extract = False\<rparr>] ! k) \<longrightarrow>
      row_passes example_list_env (key_truth example_key) (\<lambda>f v. False) example_row (fl_global_columns bound_list)
        (col_primary_index ([\<lparr>col_primary_index = 0, col_pushdown_extract = False\<rparr>] ! k)) f"
    by (simp_all add: bound_list_fields)
  show ?thesis
    using PushdownInternal_keeps_snapshot_and_rows [OF st1(1) [unfolded pushed_list_def] bound_list_fields(1) sem rows] st1 by blast
qed

end
