(* ===== verification/Field_Ids.thy ===== *)
theory Field_Ids
  imports Insert_Plan
begin

text \<open>
  The schema of the files of a column-mapped table (ApplyColumnMappingToWriteSchema, FieldIdTree in delta\_insert.cpp): the parquet
  writer gets the physical names, the types under those names, and the field ids as a tree keyed by name, in which a
  reserved key holds the id of a field that has children. The ids are read back here the way the writer documents it.
\<close>

section \<open>Reading the ids of a tree\<close>

fun tree_id :: "field_id_tree \<Rightarrow> string list \<Rightarrow> int option" where
  "tree_id (Id_Leaf k) [] = Some k"
| "tree_id (Id_Leaf k) (n # ns) = None"
| "tree_id (Id_Node kvs) [] = (case map_of kvs FIELD_ID_KEY of Some (Id_Leaf k) \<Rightarrow> Some k | _ \<Rightarrow> None)"
| "tree_id (Id_Node kvs) (n # ns) = (case map_of kvs n of None \<Rightarrow> None | Some t \<Rightarrow> tree_id t ns)"

definition option_tree_id :: "field_id_tree option \<Rightarrow> string list \<Rightarrow> int option" where
  "option_tree_id tree path = (case tree of None \<Rightarrow> None | Some t \<Rightarrow> tree_id t path)"

text \<open>The parts of a column under the names the files give them.\<close>

definition written_children :: "column_def \<Rightarrow> (string \<times> column_def) list" where
  "written_children c =
    (if is_struct (cd_type c) then map (\<lambda>ch. (WrittenName ch, ch)) (cd_children c)
     else if is_list (cd_type c) then zip [''element''] (cd_children c)
     else if is_map (cd_type c) then zip [''key'', ''value''] (cd_children c)
     else [])"

inductive written_at :: "column_def \<Rightarrow> string list \<Rightarrow> column_def \<Rightarrow> bool" where
  here: "written_at c [] c"
| child: "(n, ch) \<in> set (written_children c) \<Longrightarrow> written_at ch ns d \<Longrightarrow> written_at c (n # ns) d"

inductive_cases written_at_NilE: "written_at c [] d"
inductive_cases written_at_ConsE: "written_at c (n # ns) d"

text \<open>The fields of a struct have different physical names.\<close>

fun names_differ :: "column_def \<Rightarrow> bool" where
  "names_differ (ColumnDef n t cs nl cv p f i d) =
    ((is_struct t \<longrightarrow> distinct (map WrittenName cs)) \<and> list_all names_differ cs)"

section \<open>The tree of a column\<close>

lemma written_children_sub: "(n, ch) \<in> set (written_children c) \<Longrightarrow> ch \<in> set (cd_children c)"
  by (auto simp: written_children_def split: if_splits dest: set_zip_rightD)

lemma distinct_written_children: "names_differ c \<Longrightarrow> distinct (map fst (written_children c))"
  by (cases c) (auto simp: written_children_def comp_def map_fst_zip_take)

lemma names_differ_child: "names_differ c \<Longrightarrow> ch \<in> set (cd_children c) \<Longrightarrow> names_differ ch"
  by (cases c) (auto simp: list_all_iff)

lemma key_check_child:
  "ThrowIfFieldIdKeyIsWritten su c = Inr () \<Longrightarrow> ch \<in> set (cd_children c) \<Longrightarrow> ThrowIfFieldIdKeyIsWritten su ch = Inr ()"
  by (cases c) (auto simp: forr_eq_Inr bindr_eq_Inr)

lemma written_children_names:
  "fst ` set (written_children c) \<subseteq>
     (if is_struct (cd_type c) then WrittenName ` set (cd_children c) else {''element'', ''key'', ''value''})"
proof -
  have z: "fst ` set (zip ns cs) \<subseteq> set ns" for ns :: "string list" and cs :: "column_def list"
    by (auto dest: set_zip_leftD)
  from z [of "[''element'']" "cd_children c"] z [of "[''key'', ''value'']" "cd_children c"] show ?thesis
    by (cases "is_struct (cd_type c)") (auto simp: written_children_def)
qed

lemma key_not_written:
  assumes "string_util_laws su" and "ThrowIfFieldIdKeyIsWritten su c = Inr ()"
  shows "FIELD_ID_KEY \<notin> fst ` set (written_children c)"
proof (cases c)
  case (ColumnDef n t cs nl cv p f i d)
  have "FIELD_ID_KEY \<notin> WrittenName ` set cs" if "is_struct t"
    using assms that string_util_laws.CIEquals_refl [OF assms(1)] ColumnDef
    by (auto simp: forr_eq_Inr bindr_eq_Inr throw_if_eq_Inr)
  moreover have "FIELD_ID_KEY \<notin> {''element'', ''key'', ''value''}" by (simp add: FIELD_ID_KEY_def)
  ultimately show ?thesis using written_children_names [of c] ColumnDef by (auto split: if_splits)
qed

lemma FieldIdTree_parts:
  assumes "FieldIdTree c = Inr tree"
  shows "\<exists>own kids. own_id_value (cd_field_id c) = Inr own \<and>
     list_all2 (\<lambda>(n, ch) (n', t). n' = n \<and> FieldIdTree ch = Inr t) (written_children c) kids \<and>
     tree = finish_tree own (concat (map add_child kids))"
proof (cases c)
  case (ColumnDef n t cs nl cv p f i d)
  then obtain own kids where parts: "own_id_value f = Inr own" "tree = finish_tree own (concat (map add_child kids))"
     "(if is_struct t then mapr (\<lambda>child. bindr (FieldIdTree child) (\<lambda>tree. Inr (WrittenName child, tree))) cs
           else if is_list t then
             (case cs of child # _ \<Rightarrow> bindr (FieldIdTree child) (\<lambda>tree. Inr [(''element'', tree)])
              | [] \<Rightarrow> Inl out_of_range)
           else if is_map t then
             (case cs of
                k # v # _ \<Rightarrow> bindr (FieldIdTree k) (\<lambda>kt. bindr (FieldIdTree v) (\<lambda>vt. Inr [(''key'', kt), (''value'', vt)]))
              | _ \<Rightarrow> Inl out_of_range)
           else Inr []) = Inr kids"
    using assms by (auto simp: bindr_eq_Inr)
  have struct: "mapr (\<lambda>child. bindr (FieldIdTree child) (\<lambda>tree. Inr (WrittenName child, tree))) xs = Inr ks \<Longrightarrow>
      list_all2 (\<lambda>(n, ch) (n', t). n' = n \<and> FieldIdTree ch = Inr t) (map (\<lambda>ch. (WrittenName ch, ch)) xs) ks" for xs ks
    by (induction xs arbitrary: ks) (auto simp: bindr_eq_Inr)
  have "list_all2 (\<lambda>(n, ch) (n', t). n' = n \<and> FieldIdTree ch = Inr t) (written_children c) kids"
    using parts(3) struct ColumnDef
    by (auto simp: written_children_def bindr_eq_Inr split: if_splits list.splits)
  then show ?thesis using parts(1,2) ColumnDef by auto
qed

lemma map_of_add_child:
  "distinct (map fst kids) \<Longrightarrow> map_of (concat (map add_child kids)) n = Option.bind (map_of kids n) (\<lambda>t. t)"
proof (induction kids)
  case (Cons k kids)
  obtain m t where k: "k = (m, t)" by fastforce
  have none: "map_of kids m = None" using Cons.prems k by (simp add: map_of_eq_None_iff)
  show ?case
    using Cons none k by (cases t) (auto simp: add_child_def)
qed simp

lemma own_id_value_int: "own_id_value f = Inr own \<Longrightarrow> own = map_option (\<lambda>n. Id_Leaf (int n)) f"
  by (auto simp: own_id_value_def bindr_eq_Inr NumericCast_int32_def split: option.splits if_splits)

lemma finish_tree_here:
  assumes "own = map_option (\<lambda>n. Id_Leaf (int n)) f" and "map_of kvs FIELD_ID_KEY = None"
  shows "option_tree_id (finish_tree own kvs) [] = map_option int f"
  using assms by (cases f) (auto simp: finish_tree_def option_tree_id_def)

lemma finish_tree_child:
  assumes "own = map_option (\<lambda>n. Id_Leaf (int n)) f" and "n \<noteq> FIELD_ID_KEY"
  shows "option_tree_id (finish_tree own kvs) (n # ns) = option_tree_id (map_of kvs n) ns"
  using assms by (cases f) (auto simp: finish_tree_def option_tree_id_def split: option.splits)

lemma FieldIdTree_reads_back:
  assumes "string_util_laws su"
  shows "FieldIdTree c = Inr tree \<Longrightarrow> names_differ c \<Longrightarrow> ThrowIfFieldIdKeyIsWritten su c = Inr () \<Longrightarrow> written_at c path d \<Longrightarrow>
     option_tree_id tree path = map_option int (cd_field_id d)"
proof (induction path arbitrary: c tree)
  case Nil
  obtain own kids where parts: "own_id_value (cd_field_id c) = Inr own"
     "list_all2 (\<lambda>(n, ch) (n', t). n' = n \<and> FieldIdTree ch = Inr t) (written_children c) kids"
     "tree = finish_tree own (concat (map add_child kids))"
    using FieldIdTree_parts [OF Nil.prems(1)] by blast
  have names: "map fst kids = map fst (written_children c)"
    using parts(2) by (induction rule: list_all2_induct) auto
  have "map_of kids FIELD_ID_KEY = None"
    using key_not_written [OF assms Nil.prems(3)] names by (metis image_set map_of_eq_None_iff)
  then have "map_of (concat (map add_child kids)) FIELD_ID_KEY = None"
    using map_of_add_child [of kids] distinct_written_children [OF Nil.prems(2)] names by simp
  moreover have "d = c" using Nil.prems(4) by (auto elim: written_at_NilE)
  ultimately show ?case using finish_tree_here own_id_value_int [OF parts(1)] parts(3) by blast
next
  case (Cons n path)
  obtain ch where ch: "(n, ch) \<in> set (written_children c)" "written_at ch path d"
    using Cons.prems(4) by (auto elim: written_at_ConsE)
  obtain own kids where parts: "own_id_value (cd_field_id c) = Inr own"
     "list_all2 (\<lambda>(n, ch) (n', t). n' = n \<and> FieldIdTree ch = Inr t) (written_children c) kids"
     "tree = finish_tree own (concat (map add_child kids))"
    using FieldIdTree_parts [OF Cons.prems(1)] by blast
  have names: "map fst kids = map fst (written_children c)"
    using parts(2) by (induction rule: list_all2_induct) auto
  obtain i where i: "i < length (written_children c)" "written_children c ! i = (n, ch)"
    using ch(1) by (auto simp: in_set_conv_nth)
  then obtain t where t: "kids ! i = (n, t)" "FieldIdTree ch = Inr t" "i < length kids"
    using list_all2_nthD [OF parts(2) i(1)] list_all2_lengthD [OF parts(2)] by (cases "kids ! i") auto
  have dist: "distinct (map fst kids)" using distinct_written_children [OF Cons.prems(2)] names by simp
  have "map_of kids n = Some t" using map_of_is_SomeI [OF dist] t(1,3) by (metis nth_mem)
  moreover have "n \<noteq> FIELD_ID_KEY" using key_not_written [OF assms Cons.prems(3)] ch(1) by force
  ultimately have "option_tree_id tree (n # path) = option_tree_id t path"
    using finish_tree_child [OF own_id_value_int [OF parts(1)]] map_of_add_child [OF dist] parts(3) by simp
  also have "\<dots> = map_option int (cd_field_id d)"
    using Cons.IH [OF t(2) names_differ_child key_check_child ch(2)] Cons.prems(2,3) written_children_sub [OF ch(1)] by blast
  finally show ?case .
qed


text \<open>A table with one column, a struct with the id 1 and a list in it with the id 2, whose elements have the id 3.\<close>

definition mapped_element :: column_def where
  "mapped_element = ColumnDef ''element'' INTEGER [] True [] [] (Some 3) Id_Null None"

definition mapped_column :: column_def where
  "mapped_column = ColumnDef ''s'' (STRUCT [(''l'', LIST INTEGER)])
     [ColumnDef ''l'' (LIST INTEGER) [mapped_element] True [] ''col-l'' (Some 2) Id_Null None] True [] ''col-s'' (Some 1) Id_Null None"

lemma mapped_column_written: "written_at mapped_column [''col-l'', ''element''] mapped_element"
  by (auto simp: mapped_column_def written_children_def WrittenName_def intro!: written_at.intros)

lemma mapped_schema_accepted:
  "ApplyColumnMappingToWriteSchema ascii_string_util [mapped_column] ''t'' [''s''] [STRUCT [(''l'', LIST INTEGER)]] =
     Inr \<lparr>ws_names = [''col-s''], ws_types = [STRUCT [(''col-l'', LIST INTEGER)]],
       ws_field_ids = [(''col-s'', Id_Node [(FIELD_ID_KEY, Id_Leaf 1),
         (''col-l'', Id_Node [(FIELD_ID_KEY, Id_Leaf 2), (''element'', Id_Leaf 3)])])]\<rparr>"
  by (simp add: ApplyColumnMappingToWriteSchema_def map_write_column_def AnyColumnMapped_def IsColumnMapped_def mapped_column_def
      mapped_element_def WrittenName_def own_id_value_def NumericCast_int32_def finish_tree_def add_child_def FIELD_ID_KEY_def
      throw_if_def ascii_string_util_def ascii_lower_def)


end
