(* ===== verification/Create_As.thy ===== *)
theory Create_As
  imports Insert_Plan Snapshot
begin

text \<open>
  CREATE TABLE AS and COPY TO a new Delta table (delta\_insert.cpp): planning, the state a write holds until its commit,
  the commit of version 0 with every file at the end of the statement, and the cleanup that runs when the query ends without
  it. The file system is the record of parameters \<open>fo\<close> over a world; it may throw.
\<close>

section \<open>State\<close>

record 't create_as_state =
  ca_path :: string
  ca_statement :: string
  ca_write_uuid :: string
  ca_transaction :: "'t DeltaCreateTableTransaction option"
  ca_write_columns :: "column_def list"
  ca_created_directory :: bool
  ca_commit_attempted :: bool
  ca_committed :: bool

definition new_create_as_state :: "string \<Rightarrow> string \<Rightarrow> string \<Rightarrow> 't create_as_state" where
  "new_create_as_state path statement uuid = \<lparr>ca_path = path, ca_statement = statement, ca_write_uuid = uuid,
     ca_transaction = None, ca_write_columns = [], ca_created_directory = False, ca_commit_attempted = False,
     ca_committed = False\<rparr>"

record 'w write_fs =
  wf_probe :: "'w \<Rightarrow> file_system throws"
  wf_mkdirs :: "'w \<Rightarrow> string \<Rightarrow> unit throws \<times> 'w"
  wf_directory_exists :: "'w \<Rightarrow> string \<Rightarrow> bool throws"
  wf_list_files :: "'w \<Rightarrow> string \<Rightarrow> string list throws"
  wf_remove_directory :: "'w \<Rightarrow> string \<Rightarrow> unit throws \<times> 'w"
  wf_file_exists :: "'w \<Rightarrow> string \<Rightarrow> bool throws"
  wf_read_file :: "'w \<Rightarrow> string \<Rightarrow> string throws"
  wf_glob :: "'w \<Rightarrow> string \<Rightarrow> string list throws"
  wf_try_remove_file :: "'w \<Rightarrow> string \<Rightarrow> bool throws \<times> 'w"
  wf_last_modified :: "'w \<Rightarrow> string \<Rightarrow> int throws"
  wf_parent :: "string \<Rightarrow> string"
  wf_normalize :: "string \<Rightarrow> string"
  wf_set_order :: "string list \<Rightarrow> string list"

text \<open>The probe of the table at a path. It throws when the file system does.\<close>

definition table_exists_at :: "path_ops \<Rightarrow> 'w write_fs \<Rightarrow> string \<Rightarrow> 'w \<Rightarrow> bool throws" where
  "table_exists_at po fo path w = bindr (wf_probe fo w) (\<lambda>fs. Inr (DeltaTableExistsAt po fs path))"

section \<open>Cleanup\<close>

definition TryRemoveEmptyDirectory :: "'w write_fs \<Rightarrow> string \<Rightarrow> 'w \<Rightarrow> unit throws \<times> 'w" where
  "TryRemoveEmptyDirectory fo directory w =
    (case wf_directory_exists fo w directory of
       Inl e \<Rightarrow> (Inl e, w)
     | Inr False \<Rightarrow> (Inr (), w)
     | Inr True \<Rightarrow>
        (case wf_list_files fo w directory of
           Inl e \<Rightarrow> (Inl e, w)
         | Inr files \<Rightarrow> if files = [] then wf_remove_directory fo w directory else (Inr (), w)))"

definition canonical :: "path_ops \<Rightarrow> string \<Rightarrow> string" where
  "canonical po p = path_base po p @ path_path po p"

fun remove_written_files ::
  "path_ops \<Rightarrow> 'w write_fs \<Rightarrow> string \<Rightarrow> string list \<Rightarrow> string list \<Rightarrow> nat \<Rightarrow> 'w \<Rightarrow> (string list \<times> nat) throws \<times> 'w" where
  "remove_written_files po fo table_path [] directories removed w = (Inr (directories, removed), w)"
| "remove_written_files po fo table_path (f # fs) directories removed w =
    and_then (wf_try_remove_file fo w f) (\<lambda>b w1.
      let parent = wf_parent fo f;
          directories1 = (if canonical po parent \<noteq> canonical po table_path then List.insert parent directories else directories)
      in remove_written_files po fo table_path fs directories1 (if b then Suc removed else removed) w1)"

fun remove_directories :: "'w write_fs \<Rightarrow> string list \<Rightarrow> 'w \<Rightarrow> unit throws \<times> 'w" where
  "remove_directories fo [] w = (Inr (), w)"
| "remove_directories fo (d # ds) w = and_then (TryRemoveEmptyDirectory fo d w) (\<lambda>_ w1. remove_directories fo ds w1)"

text \<open>The log of version 0 names the files of this write.\<close>

definition version_zero_is_ours :: "path_ops \<Rightarrow> 'w write_fs \<Rightarrow> 't create_as_state \<Rightarrow> 'w \<Rightarrow> bool throws" where
  "version_zero_is_ours po fo st w =
    (if \<not> ca_commit_attempted st then Inr False
     else bindr (table_exists_at po fo (ca_path st) w) (\<lambda>exists.
       if \<not> exists then Inr False
       else (let version_zero = path_join po (path_join po (wf_normalize fo (ca_path st)) ''_delta_log'') ''00000000000000000000.json''
        in bindr (wf_file_exists fo w version_zero) (\<lambda>there.
           if \<not> there then Inr False
           else bindr (wf_read_file fo w version_zero) (\<lambda>content. Inr (str_find content (ca_write_uuid st) 0 \<noteq> None))))))"

definition write_pattern :: "path_ops \<Rightarrow> 'w write_fs \<Rightarrow> 't create_as_state \<Rightarrow> string" where
  "write_pattern po fo st =
     path_join po (path_join po (wf_normalize fo (ca_path st)) ''**'') (''*'' @ ca_write_uuid st @ ''*'')"

definition remove_write :: "path_ops \<Rightarrow> 'w write_fs \<Rightarrow> 't create_as_state \<Rightarrow> 'w \<Rightarrow> nat throws \<times> 'w" where
  "remove_write po fo st w =
    (let table_path = wf_normalize fo (ca_path st)
     in and_then (wf_glob fo w (write_pattern po fo st), w) (\<lambda>files w.
        and_then (remove_written_files po fo table_path files [] 0 w) (\<lambda>(directories, removed) w.
        if path_is_local po table_path then
          and_then (remove_directories fo (wf_set_order fo directories) w) (\<lambda>_ w.
          and_then (TryRemoveEmptyDirectory fo (path_join po table_path ''_delta_log'') w) (\<lambda>_ w.
          and_then (if ca_created_directory st then TryRemoveEmptyDirectory fo table_path w else (Inr (), w)) (\<lambda>_ w.
          (Inr removed, w))))
        else (Inr removed, w))))"

datatype cleanup_outcome = Cleanup_Kept | Cleanup_Removed nat | Cleanup_Failed error

definition CleanUp :: "path_ops \<Rightarrow> 'w write_fs \<Rightarrow> 't create_as_state \<Rightarrow> 'w \<Rightarrow> cleanup_outcome \<times> 'w" where
  "CleanUp po fo st w =
    (case version_zero_is_ours po fo st w of
       Inl e \<Rightarrow> (Cleanup_Failed e, w)
     | Inr True \<Rightarrow> (Cleanup_Kept, w)
     | Inr False \<Rightarrow>
        (case remove_write po fo st w of
           (Inl e, w1) \<Rightarrow> (Cleanup_Failed e, w1)
         | (Inr removed, w1) \<Rightarrow> (Cleanup_Removed removed, w1)))"

definition QueryEnd :: "path_ops \<Rightarrow> 'w write_fs \<Rightarrow> 't create_as_state \<Rightarrow> 'w \<Rightarrow> cleanup_outcome \<times> 'w" where
  "QueryEnd po fo st w = (if ca_committed st then (Cleanup_Kept, w) else CleanUp po fo st w)"

section \<open>Running the write\<close>

definition ensure_directory :: "path_ops \<Rightarrow> 'w write_fs \<Rightarrow> string \<Rightarrow> 'w \<Rightarrow> bool throws \<times> 'w" where
  "ensure_directory po fo path w =
    and_then (if path_is_local po path then wf_probe fo w else Inr \<lparr>fs_directory_exists = \<lambda>_. False, fs_glob = \<lambda>_. []\<rparr>, w) (\<lambda>fs w.
    if fst (EnsureTableDirectory po (\<lambda>fs p. fs) fs path)
    then and_then (wf_mkdirs fo w path) (\<lambda>_ w1. (Inr True, w1)) else (Inr False, w))"

definition CT_IsOpen :: "'t DeltaCreateTableTransaction \<Rightarrow> bool" where
  "CT_IsOpen txn \<longleftrightarrow> ct_transaction txn \<noteq> None"

definition GetGlobalSinkState ::
  "path_ops \<Rightarrow> 'w write_fs \<Rightarrow> 't create_as_state \<Rightarrow> 'w
     \<Rightarrow> DeltaInsertGlobalState throws \<times> 't create_as_state \<times> 'w" where
  "GetGlobalSinkState po fo st w =
    (if \<not> (case ca_transaction st of None \<Rightarrow> False | Some txn \<Rightarrow> CT_IsOpen txn) then
       (case table_exists_at po fo (ca_path st) w of
          Inl e \<Rightarrow> (Inl e, st, w)
        | Inr True \<Rightarrow> (Inl (Err CatalogEx ''%s creates a new Delta table, but '%s' already holds one: choose another path''
                [ca_statement st, ca_path st]), st, w)
        | Inr False \<Rightarrow> (Inl (Err InvalidInput ''%s at '%s' ran once already, and its plan cannot run again: prepare the statement again''
                [ca_statement st, ca_path st]), st, w))
     else (case ensure_directory po fo (ca_path st) w of
        (Inl e, w1) \<Rightarrow> (Inl e, st, w1)
      | (Inr created, w1) \<Rightarrow>
          (Inr (new_create_GlobalState (ca_path st) (ca_write_columns st) (AnyColumnMapped (ca_write_columns st))),
           st\<lparr>ca_created_directory := ca_created_directory st \<or> created\<rparr>, w1)))"

text \<open>\<open>commit_effect\<close> is what the kernel's commit does to the world, also when it reports an error. The kernel's transaction is
  consumed by the commit.\<close>

definition Finalize ::
  "path_ops \<Rightarrow> 'w write_fs \<Rightarrow> ('s, 'b, 'c, 't, 'm, 'x, 'd) create_kernel \<Rightarrow> (string \<Rightarrow> DeltaDataFile list \<Rightarrow> 'd throws)
     \<Rightarrow> ('t \<Rightarrow> 'w \<Rightarrow> 'w) \<Rightarrow> DeltaDataFile list \<Rightarrow> 't create_as_state \<Rightarrow> 'w \<Rightarrow> unit throws \<times> 't create_as_state \<times> 'w" where
  "Finalize po fo ck engine_data commit_effect written_files st w =
    (case ca_transaction st of
       None \<Rightarrow> (Inl (Err UndefinedBehaviour ''no transaction'' []), st, w)
     | Some txn \<Rightarrow>
        (case bindr (mapr (\<lambda>f. bindr (wf_last_modified fo w (df_file_name f)) (\<lambda>t. Inr (f\<lparr>df_last_modified := t\<rparr>))) written_files)
                (CT_AddFiles ck engine_data txn) of
           Inl e \<Rightarrow> (Inl e, st, w)
         | Inr txn1 \<Rightarrow>
            (let (r, txn2) = CT_Commit ck txn1;
                 st1 = st\<lparr>ca_transaction := Some txn2, ca_commit_attempted := True\<rparr>;
                 w1 = (case ct_transaction txn1 of None \<Rightarrow> w | Some t \<Rightarrow> commit_effect t w)
             in case r of
                  Inr _ \<Rightarrow> (Inr (), st1\<lparr>ca_committed := True\<rparr>, w1)
                | Inl e \<Rightarrow>
                   if table_exists_at po fo (ca_path st) w1 = Inr True
                   then (Inl (Err CatalogEx ''%s creates a new Delta table, but '%s' already holds one, created while this statement ran: choose another path (%s)''
                          [ca_statement st, ca_path st, err_message e]), st1, w1)
                   else (Inl e, st1, w1))))"

section \<open>Planning\<close>

fun name_index :: "string \<Rightarrow> nat \<Rightarrow> string list \<Rightarrow> nat option" where
  "name_index name i [] = None"
| "name_index name i (n # ns) = (if n = name then Some i else name_index name (Suc i) ns)"

definition create_as_target ::
  "'w write_fs \<Rightarrow> DeltaCreateTableRequest \<Rightarrow> string \<Rightarrow> 't create_as_state \<Rightarrow> bool \<Rightarrow> DeltaWriteTarget throws" where
  "create_as_target fo request statement st materialized =
    bindr (mapr (\<lambda>p. case name_index p 0 (map col_name (req_columns request)) of
        None \<Rightarrow> Inl (Err InternalEx ''%s: partition column '%s' is not a column of the new table'' [statement, p])
      | Some i \<Rightarrow> Inr i) (req_partition_columns request)) (\<lambda>partitions.
    (let mapped = AnyColumnMapped (ca_write_columns st)
     in Inr ((new_DeltaWriteTarget (wf_normalize fo (req_path request)) (req_path request))\<lparr>
          wt_write_uuid := ca_write_uuid st, wt_write_columns := ca_write_columns st, wt_column_mapped := mapped,
          wt_hash_partition_directories := mapped, wt_partition_columns := partitions,
          wt_write_partition_columns := (\<not> mapped \<or> materialized)\<rparr>)))"

text \<open>The refusals come before a directory exists. The state is registered for the cleanup as soon as it exists: on an error
  after that, it is the second component that QueryEnd gets.\<close>

definition create_as_guards ::
  "(logical_type \<Rightarrow> bool) \<Rightarrow> path_ops \<Rightarrow> 'w write_fs \<Rightarrow> DeltaCreateTableRequest \<Rightarrow> string \<Rightarrow> logical_type list \<Rightarrow> 'w \<Rightarrow> unit throws" where
  "create_as_guards contains_variant po fo request statement child_types w =
    bindr (ThrowIfDeltaCannotStore (req_columns request) statement
      ''Cast the column in the query to a type Delta can store, e.g. ::BIGINT or ::VARCHAR.'') (\<lambda>_.
    bindr (ThrowIfVariantIsNested contains_variant (req_columns request) statement) (\<lambda>_.
    bindr (ThrowIfMapKeyIsList (req_columns request) statement) (\<lambda>_.
    bindr (table_exists_at po fo (req_path request) w) (\<lambda>exists. bindr (throw_if exists
      (Err CatalogEx ''%s creates a new Delta table, but '%s' already holds one: choose another path'' [statement, req_path request])) (\<lambda>_.
    throw_if (child_types \<noteq> map col_type (req_columns request))
      (Err InternalEx ''%s: the query's types differ from the new table's columns'' [statement]))))))"

definition PlanCreateTableAs ::
  "string_util \<Rightarrow> (logical_type list \<Rightarrow> logical_type) \<Rightarrow> (logical_type \<Rightarrow> bool) \<Rightarrow> path_ops \<Rightarrow> 'w write_fs
     \<Rightarrow> ('s, 'b, 'c, 't, 'm, 'x, 'd) create_kernel \<Rightarrow> (string \<Rightarrow> unit throws)
     \<Rightarrow> (kernel_field list \<Rightarrow> schema_visitor \<Rightarrow> nat \<times> schema_visitor) \<Rightarrow> string \<Rightarrow> DeltaCreateTableRequest \<Rightarrow> string
     \<Rightarrow> logical_type list \<Rightarrow> 'w \<Rightarrow> physical_copy throws \<times> 't create_as_state option \<times> 'w" where
  "PlanCreateTableAs su tuple contains_variant po fo ck engine visit_schema uuid request statement child_types w =
    (case create_as_guards contains_variant po fo request statement child_types w of
       Inl e \<Rightarrow> (Inl e, None, w)
     | Inr _ \<Rightarrow>
        (let st = new_create_as_state (req_path request) statement uuid
         in case ensure_directory po fo (req_path request) w of
              (Inl e, w1) \<Rightarrow> (Inl e, Some st, w1)
            | (Inr created, w1) \<Rightarrow>
               (let st1 = st\<lparr>ca_created_directory := created\<rparr>
                in case new_DeltaCreateTableTransaction ck engine None (request\<lparr>req_data_change := True\<rparr>) of
                     Inl e \<Rightarrow> (Inl e, Some st1, w1)
                   | Inr txn \<Rightarrow>
                      (case GetWriteColumns ck visit_schema txn of
                         Inl e \<Rightarrow> (Inl e, Some (st1\<lparr>ca_transaction := Some txn\<rparr>), w1)
                       | Inr (cols, txn1) \<Rightarrow>
                          (let st2 = st1\<lparr>ca_transaction := Some txn1, ca_write_columns := cols\<rparr>
                           in (bindr (create_as_target fo request statement st2 (ct_materialized txn1)) (\<lambda>target.
                               PlanDeltaCopy su tuple po [] child_types (req_columns request) target), Some st2, w1))))))"

definition DeltaCatalog_PlanCreateTableAs ::
  "('v, 'f) DeltaCatalog \<Rightarrow> DeltaCreateTableRequest throws
     \<Rightarrow> (DeltaCreateTableRequest \<Rightarrow> 'w \<Rightarrow> physical_copy throws \<times> 't create_as_state option \<times> 'w) \<Rightarrow> 'w
     \<Rightarrow> physical_copy throws \<times> 't create_as_state option \<times> 'w" where
  "DeltaCatalog_PlanCreateTableAs catalog bound plan w =
    (if parent_commit catalog
     then (Inl (Err NotImplemented ''CREATE TABLE AS is not supported yet for a Delta table that commits through its parent catalog: create the table, then INSERT into it'' []), None, w)
     else (case bound of Inl e \<Rightarrow> (Inl e, None, w) | Inr request \<Rightarrow> plan request w))"

section \<open>A write is all or nothing\<close>

text \<open>What the cleanup relies on: \<open>files w\<close> are the files of a world with their contents, \<open>matches\<close> is the meaning of a glob
  pattern. Removing a file removes that file alone, removing an empty directory no file.\<close>

locale write_files =
  fixes fo :: "'w write_fs"
    and files :: "'w \<Rightarrow> string \<Rightarrow> string option"
    and matches :: "string \<Rightarrow> string \<Rightarrow> bool"
  assumes globbed: "wf_glob fo w pat = Inr fs \<Longrightarrow> f \<in> set fs \<longleftrightarrow> files w f \<noteq> None \<and> matches pat f"
    and removes_only: "wf_try_remove_file fo w f = (r, w1) \<Longrightarrow> g \<noteq> f \<Longrightarrow> files w1 g = files w g"
    and removed_file: "wf_try_remove_file fo w f = (Inr b, w1) \<Longrightarrow> files w1 f = None"
    and empty_directory: "wf_list_files fo w d = Inr [] \<Longrightarrow> wf_remove_directory fo w d = (res, w1) \<Longrightarrow> files w1 = files w"
begin

lemma TryRemoveEmptyDirectory_files: "TryRemoveEmptyDirectory fo d w = (r, w1) \<Longrightarrow> files w1 = files w"
  using empty_directory by (auto simp: TryRemoveEmptyDirectory_def split: sum.splits bool.splits if_splits)

lemma remove_directories_files: "remove_directories fo ds w = (r, w1) \<Longrightarrow> files w1 = files w"
proof (induction ds arbitrary: w)
  case (Cons d ds)
  obtain r1 w2 where "TryRemoveEmptyDirectory fo d w = (r1, w2)" by fastforce
  with Cons TryRemoveEmptyDirectory_files show ?case by (cases r1) auto
qed simp

lemma remove_written_files_files:
  "remove_written_files po fo t fs ds n w = (r, w1) \<Longrightarrow>
     (\<forall>g. g \<notin> set fs \<longrightarrow> files w1 g = files w g) \<and> (\<forall>x. r = Inr x \<longrightarrow> (\<forall>g \<in> set fs. files w1 g = None))"
proof (induction fs arbitrary: ds n w)
  case (Cons f fs)
  obtain b w2 where f: "wf_try_remove_file fo w f = (b, w2)" by fastforce
  show ?case
  proof (cases b)
    case (Inl e)
    then show ?thesis using Cons.prems f removes_only by auto
  next
    case (Inr b')
    then obtain ds' n' where "remove_written_files po fo t fs ds' n' w2 = (r, w1)"
      using Cons.prems f by (auto simp: Let_def split: if_splits)
    note rest = Cons.IH [OF this]
    have "files w2 f = None" using removed_file f Inr by blast
    then show ?thesis using rest removes_only [OF f] by (cases "f \<in> set fs") auto
  qed
qed simp

lemma remove_write_files:
  assumes "remove_write po fo st w = (r, w1)"
  shows "(\<forall>g. \<not> matches (write_pattern po fo st) g \<longrightarrow> files w1 g = files w g) \<and>
     (\<forall>n. r = Inr n \<longrightarrow> (\<forall>g. matches (write_pattern po fo st) g \<longrightarrow> files w1 g = None))"
proof (cases "wf_glob fo w (write_pattern po fo st)")
  case (Inl e)
  then show ?thesis using assms by (auto simp: remove_write_def)
next
  case (Inr fs)
  obtain r1 w2 where rm: "remove_written_files po fo (wf_normalize fo (ca_path st)) fs [] 0 w = (r1, w2)" by fastforce
  note one = remove_written_files_files [OF rm]
  have "files w1 = files w2 \<and> (\<forall>n. r = Inr n \<longrightarrow> (\<exists>x. r1 = Inr x))"
    using assms Inr rm
    by (auto simp: remove_write_def Let_def and_then_def split: sum.splits prod.splits if_splits
        dest!: TryRemoveEmptyDirectory_files remove_directories_files)
  then show ?thesis using one globbed [OF Inr] by metis
qed

lemma CleanUp_files:
  assumes "CleanUp po fo st w = (out, w1)"
  shows "(\<forall>g. \<not> matches (write_pattern po fo st) g \<longrightarrow> files w1 g = files w g) \<and>
     (version_zero_is_ours po fo st w = Inr True \<longrightarrow> w1 = w) \<and>
     (version_zero_is_ours po fo st w = Inr False \<and> (\<forall>e. out \<noteq> Cleanup_Failed e) \<longrightarrow>
        (\<forall>g. matches (write_pattern po fo st) g \<longrightarrow> files w1 g = None))"
proof -
  obtain r w2 where "remove_write po fo st w = (r, w2)" by fastforce
  with remove_write_files [OF this] assms show ?thesis
    by (auto simp: CleanUp_def split: sum.splits bool.splits)
qed

end

text \<open>A file system that holds its files in a list; a directory exists while there are files below it.\<close>

definition below :: "string \<Rightarrow> string \<Rightarrow> bool" where
  "below directory f \<longleftrightarrow> take (Suc (length directory)) f = directory @ ''/''"

definition name_matches :: "string \<Rightarrow> string \<Rightarrow> bool" where
  "name_matches pat f \<longleftrightarrow>
    str_find f (filter (\<lambda>c. c \<noteq> CHR ''*'') (rev (takeWhile (\<lambda>c. c \<noteq> CHR ''/'') (rev pat)))) 0 \<noteq> None"

definition list_fs :: "(string \<times> string) list write_fs" where
  "list_fs =
    \<lparr>wf_probe = (\<lambda>w. Inr \<lparr>fs_directory_exists = (\<lambda>d. list_ex (\<lambda>f. below d (fst f)) w), fs_glob = (\<lambda>p. map fst (filter (\<lambda>f. name_matches p (fst f)) w))\<rparr>),
     wf_mkdirs = (\<lambda>w d. (Inr (), w)),
     wf_directory_exists = (\<lambda>w d. Inr (list_ex (\<lambda>f. below d (fst f)) w)),
     wf_list_files = (\<lambda>w d. Inr (map fst (filter (\<lambda>f. below d (fst f)) w))),
     wf_remove_directory = (\<lambda>w d. (Inr (), w)),
     wf_file_exists = (\<lambda>w f. Inr (map_of w f \<noteq> None)),
     wf_read_file = (\<lambda>w f. case map_of w f of None \<Rightarrow> Inl (Err IOEx ''no such file'' [f]) | Some c \<Rightarrow> Inr c),
     wf_glob = (\<lambda>w p. Inr (map fst (filter (\<lambda>f. name_matches p (fst f)) w))),
     wf_try_remove_file = (\<lambda>w f. (Inr (map_of w f \<noteq> None), filter (\<lambda>g. fst g \<noteq> f) w)),
     wf_last_modified = (\<lambda>w f. Inr 0),
     wf_parent = (\<lambda>f. rev (drop 1 (dropWhile (\<lambda>c. c \<noteq> CHR ''/'') (rev f)))),
     wf_normalize = (\<lambda>p. p), wf_set_order = (\<lambda>ds. ds)\<rparr>"

lemma map_of_filter_key: "map_of (filter (\<lambda>g. fst g \<noteq> f) w) g = (if g = f then None else map_of w g)"
  by (induction w) auto

interpretation lfs: write_files list_fs map_of name_matches
proof
  fix w :: "(string \<times> string) list" and pat fs f
  assume "wf_glob list_fs w pat = Inr fs"
  then show "f \<in> set fs \<longleftrightarrow> map_of w f \<noteq> None \<and> name_matches pat f"
    by (force simp: list_fs_def map_of_eq_None_iff image_iff)
qed (auto simp: list_fs_def map_of_filter_key fun_eq_iff)

lemma Finalize_committed:
  assumes "Finalize po fo ck engine_data commit_effect written_files st w = (r, st1, w1)" and "\<not> ca_committed st"
  shows "ca_committed st1 \<longleftrightarrow> r = Inr ()" "ca_path st1 = ca_path st" "ca_write_uuid st1 = ca_write_uuid st"
    "r = Inr () \<Longrightarrow> \<exists>txn. ca_transaction st1 = Some txn \<and> \<not> CT_IsOpen txn"
  using assms
  by (auto simp: Finalize_def Let_def CT_Commit_def CT_IsOpen_def split: option.splits sum.splits if_splits)


definition ctas_path_ops :: path_ops where
  "ctas_path_ops = \<lparr>path_base = (\<lambda>p. []), path_path = (\<lambda>p. p), path_is_local = (\<lambda>p. True), path_join = (\<lambda>a b. a @ ''/'' @ b)\<rparr>"

definition example_create_as :: "unit create_as_state" where
  "example_create_as = (new_create_as_state ''/t'' ''Delta CREATE TABLE AS'' ''u1'')\<lparr>ca_transaction := Some example_txn\<rparr>"

definition example_world :: "(string \<times> string) list" where
  "example_world = [(''/t/a-u1.parquet'', ''rows''), (''/t/b-u2.parquet'', ''rows'')]"

definition failed_write :: "unit throws \<times> unit create_as_state \<times> (string \<times> string) list" where
  "failed_write = Finalize ctas_path_ops list_fs (example_kernel\<lparr>ck_commit := \<lambda>_. Inl None\<rparr>) (\<lambda>_ _. Inr ()) (\<lambda>_ w. w) []
     example_create_as example_world"

lemma failed_write_run: "fst failed_write \<noteq> Inr ()" "version_zero_is_ours ctas_path_ops list_fs (fst (snd failed_write)) (snd (snd failed_write)) = Inr False"
  "snd (snd failed_write) = example_world"
  "fst (QueryEnd ctas_path_ops list_fs (fst (snd failed_write)) (snd (snd failed_write))) = Cleanup_Removed 1"
  "name_matches (write_pattern ctas_path_ops list_fs example_create_as) ''/t/a-u1.parquet''"
  "\<not> name_matches (write_pattern ctas_path_ops list_fs example_create_as) ''/t/b-u2.parquet''"
  "\<not> ca_committed example_create_as"
  by code_simp+


end
