(* ===== verification/Schema_Entry.thy ===== *)
theory Schema_Entry
  imports File_List Transaction_Machine Create_As
begin

text \<open>
  DeltaSchemaEntry (delta\_schema\_entry.cpp): the one table of an attached path. A lookup decides which version of the table a
  statement reads from the attached version or timestamp, the AT clause and what the transaction has read before, and takes
  the entry from the transaction, from the cached entry of the schema or from a new snapshot. The log tail of a
  catalog-managed table (DeltaLogPathArray of delta\_utils.cpp) is built here as well.

  The values of the log, the domain metadata of a snapshot and the comparison of identifiers are parameters. The log is
  read as it is during the operation; two operations may read it in different states.
\<close>

section \<open>The log tail\<close>

record FfiLogPath =
  lp_location :: string
  lp_last_modified :: int
  lp_size :: idx_t

record 'v log_value_ops =
  lv_list :: "'v \<Rightarrow> 'v list option"
  lv_struct :: "'v \<Rightarrow> (string \<times> 'v) list option"
  lv_uint64 :: "'v \<Rightarrow> idx_t throws"
  lv_text :: "'v \<Rightarrow> string"
  lv_no_location :: string

definition INT64_MIN :: int where
  "INT64_MIN = - (2 ^ 63)"

text \<open>The fields of a struct as they come; a later field of the same name replaces an earlier one. The Boolean is
  \<open>has_timestamp\<close>.\<close>

definition log_path_field ::
  "'v value_ops \<Rightarrow> 'v log_value_ops \<Rightarrow> FfiLogPath \<times> bool \<Rightarrow> string \<times> 'v \<Rightarrow> (FfiLogPath \<times> bool) throws" where
  "log_path_field vo lv acc field =
    (case (acc, field) of ((p, has_timestamp), (name, val)) \<Rightarrow>
       if name = ''file_name'' then bindr (get_string vo val) (\<lambda>s. Inr (p\<lparr>lp_location := s\<rparr>, has_timestamp))
       else if name = ''timestamp'' then bindr (get_int64 vo val) (\<lambda>t. Inr (p\<lparr>lp_last_modified := t\<rparr>, True))
       else if name = ''file_size'' then bindr (lv_uint64 lv val) (\<lambda>n. Inr (p\<lparr>lp_size := n\<rparr>, has_timestamp))
       else Inr (p, has_timestamp))"

definition log_path_of :: "'v value_ops \<Rightarrow> 'v log_value_ops \<Rightarrow> 'v \<Rightarrow> FfiLogPath throws" where
  "log_path_of vo lv item =
    (case lv_struct lv item of
       None \<Rightarrow> Inl (Err InternalEx ''log_path must be a list of structs'' [])
     | Some fs \<Rightarrow>
        bindr (foldr_throws (log_path_field vo lv)
          (\<lparr>lp_location = lv_no_location lv, lp_last_modified = INT64_MIN, lp_size = INVALID_INDEX\<rparr>, False) fs) (\<lambda>(p, has_timestamp).
        if lp_location p = [] \<or> \<not> has_timestamp \<or> lp_size p = INVALID_INDEX
        then Inl (Err InternalEx ''Invalid log_path struct: '' [lv_text lv item])
        else Inr p))"

definition DeltaLogPathArray :: "'v value_ops \<Rightarrow> 'v log_value_ops \<Rightarrow> 'v \<Rightarrow> FfiLogPath list throws" where
  "DeltaLogPathArray vo lv log_path =
    (case lv_list lv log_path of
       None \<Rightarrow> Inl (Err InternalEx ''log_path must be a list'' [])
     | Some items \<Rightarrow> bindr (mapr (log_path_of vo lv) items) (\<lambda>ps. Inr (rev ps)))"

section \<open>State\<close>

record 's delta_table_entry = table_entry +
  te_name :: string
  te_tags :: "(string \<times> string) list"
  te_table_columns :: "(string \<times> logical_type) list"
  te_snapshot :: "('s, FfiLogPath list) file_list"

record ('k, 'f, 'v, 's) schema_state =
  ss_catalog :: "('v, 'f) DeltaCatalog"
  ss_cached_table :: "'s delta_table_entry option"
  ss_transaction :: "('k, 'f, ('s, unit) delta_table_entry_ext) DeltaTransaction"

record ('s, 'c, 'e, 'p, 'v) schema_env =
  sv_list :: "('s, FfiLogPath list, 'c, 'e, 'p, 'v) list_env"
  sv_log :: "'v log_value_ops"
  sv_exists :: "string \<Rightarrow> bool throws"
  sv_domain_metadata :: "'s \<Rightarrow> (string \<times> string) list"
  sv_insert_tag :: "(string \<times> string) list \<Rightarrow> string \<times> string \<Rightarrow> (string \<times> string) list"
  sv_is_name :: "string \<Rightarrow> string \<Rightarrow> bool"
  sv_is_internal_name :: "string \<Rightarrow> string \<Rightarrow> bool"

record catalog_transaction =
  has_context :: bool
  has_transaction :: bool

datatype catalog_type = TABLE_ENTRY | OTHER_ENTRY

section \<open>Operations\<close>

definition GetDeltaTransaction :: "catalog_transaction \<Rightarrow> unit throws" where
  "GetDeltaTransaction ct = throw_if (\<not> has_transaction ct) (Err InternalEx ''No transaction!?'' [])"

definition CreateFileList ::
  "('s, 'c, 'e, 'p, 'v) schema_env \<Rightarrow> ('v, 'f) DeltaCatalog \<Rightarrow> idx_t \<Rightarrow> ('s, FfiLogPath list) file_list option
     \<Rightarrow> ('s, FfiLogPath list) file_list throws" where
  "CreateFileList se cat version old_snapshot =
    bindr (new_file_list (sv_list se) (cat_path cat) version old_snapshot) (\<lambda>fl.
    bindr (case catalog_log_tail cat of
             None \<Rightarrow> Inr fl
           | Some v \<Rightarrow> bindr (DeltaLogPathArray (le_values (sv_list se)) (sv_log se) v) (\<lambda>l. Inr (fl\<lparr>fl_delta_log_path := Some l\<rparr>))) (\<lambda>fl1.
    Inr (if 0 \<le> max_catalog_version cat then fl1\<lparr>fl_max_catalog_version := max_catalog_version cat\<rparr> else fl1)))"

definition CreateTableEntry ::
  "('s, 'c, 'e, 'p, 'v) schema_env \<Rightarrow> ('v, 'f) DeltaCatalog \<Rightarrow> idx_t \<Rightarrow> ('s, FfiLogPath list) file_list option
     \<Rightarrow> 's delta_table_entry throws" where
  "CreateTableEntry se cat version old_snapshot =
    bindr (CreateFileList se cat version old_snapshot) (\<lambda>fl.
    case Bind (sv_list se) fl of
      (Inl e, _) \<Rightarrow> Inl e
    | (Inr cols, fl1) \<Rightarrow>
       (let s = the (fl_snapshot fl1)
        in Inr \<lparr>te_path = fl_path fl1, te_version = fl_version fl1, te_kernel = le_table (sv_list se) s,
                te_columns = fl_global_columns fl1,
                te_name = (if internal_table_name cat \<noteq> [] then internal_table_name cat else cat_name cat),
                te_tags = foldl (sv_insert_tag se) [] (sv_domain_metadata se s),
                te_table_columns = cols, te_snapshot = fl1\<rparr>))"

text \<open>Fill the cache of the schema if it is empty.\<close>

definition ensure_cached ::
  "('s, 'c, 'e, 'p, 'v) schema_env \<Rightarrow> idx_t \<Rightarrow> ('k, 'f, 'v, 's) schema_state
     \<Rightarrow> 's delta_table_entry throws \<times> ('k, 'f, 'v, 's) schema_state" where
  "ensure_cached se version st =
    (case ss_cached_table st of
       Some e \<Rightarrow> (Inr e, st)
     | None \<Rightarrow>
        (case CreateTableEntry se (ss_catalog st) version None of
           Inl err \<Rightarrow> (Inl err, st)
         | Inr e \<Rightarrow> (Inr e, st\<lparr>ss_cached_table := Some e\<rparr>)))"

definition initialize_entry ::
  "('s, 'c, 'e, 'p, 'v) schema_env \<Rightarrow> idx_t \<Rightarrow> ('s, FfiLogPath list) file_list option \<Rightarrow> ('k, 'f, 'v, 's) schema_state
     \<Rightarrow> 's delta_table_entry throws \<times> ('k, 'f, 'v, 's) schema_state" where
  "initialize_entry se version old_snapshot st =
    (case InitializeTableEntry (\<lambda>v. CreateTableEntry se (ss_catalog st) v old_snapshot) (ss_transaction st) version of
       Inl err \<Rightarrow> (Inl err, st)
     | Inr (e, txn) \<Rightarrow> (Inr e, st\<lparr>ss_transaction := txn\<rparr>))"

definition TransactionHead ::
  "('s, 'c, 'e, 'p, 'v) schema_env \<Rightarrow> ('k, 'f, 'v, 's) schema_state
     \<Rightarrow> ('s, FfiLogPath list) file_list throws \<times> ('k, 'f, 'v, 's) schema_state" where
  "TransactionHead se st =
    (let cat = ss_catalog st;
         head = (\<lambda>st. and_then (initialize_entry se INVALID_INDEX (map_option te_snapshot (ss_cached_table st)) st)
                  (\<lambda>e st1. (Inr (te_snapshot e), st1)))
     in if \<not> UseCachedSnapshot cat then and_then (ensure_cached se INVALID_INDEX st) (\<lambda>_. head)
        else if \<not> has_specific_timestamp cat \<and> use_specific_version cat = INVALID_INDEX
        then and_then (ensure_cached se INVALID_INDEX st) (\<lambda>e st1. (Inr (te_snapshot e), st1))
        else head st)"

text \<open>The snapshot of an entry is initialized, so resolving a timestamp within it leaves the list as it is.\<close>

definition SE_ResolveTimestamp ::
  "('s, 'c, 'e, 'p, 'v) schema_env \<Rightarrow> int \<Rightarrow> ('k, 'f, 'v, 's) schema_state \<Rightarrow> idx_t throws \<times> ('k, 'f, 'v, 's) schema_state" where
  "SE_ResolveTimestamp se timestamp st =
    and_then (TransactionHead se st) (\<lambda>fl st1. (fst (ResolveTimestampWithin (sv_list se) fl timestamp), st1))"

definition bind_attached_timestamp ::
  "('s, 'c, 'e, 'p, 'v) schema_env \<Rightarrow> ('k, 'f, 'v, 's) schema_state \<Rightarrow> unit throws \<times> ('k, 'f, 'v, 's) schema_state" where
  "bind_attached_timestamp se st =
    (if has_specific_timestamp (ss_catalog st) \<and> use_specific_version (ss_catalog st) = INVALID_INDEX then
       and_then (SE_ResolveTimestamp se (specific_timestamp (ss_catalog st)) st) (\<lambda>v st1.
       (Inr (), st1\<lparr>ss_catalog := (ss_catalog st1)\<lparr>use_specific_version := v\<rparr>\<rparr>))
     else (Inr (), st))"

definition timestamp_version ::
  "('s, 'c, 'e, 'p, 'v) schema_env \<Rightarrow> int \<Rightarrow> ('k, 'f, 'v, 's) schema_state \<Rightarrow> idx_t throws \<times> ('k, 'f, 'v, 's) schema_state" where
  "timestamp_version se timestamp st =
    (case GetTimestampVersion (le_values (sv_list se)) (ss_transaction st) timestamp of
       Inl err \<Rightarrow> (Inl err, st)
     | Inr (Some v) \<Rightarrow> (Inr v, st)
     | Inr None \<Rightarrow>
        and_then (SE_ResolveTimestamp se timestamp st) (\<lambda>v st1.
        (case SetTimestampVersion (le_values (sv_list se)) (ss_transaction st1) timestamp v of
           Inl err \<Rightarrow> (Inl err, st1)
         | Inr (v1, txn) \<Rightarrow> (Inr v1, st1\<lparr>ss_transaction := txn\<rparr>))))"

definition requested_version ::
  "('s, 'c, 'e, 'p, 'v) schema_env \<Rightarrow> (string \<times> 'v) option \<Rightarrow> ('k, 'f, 'v, 's) schema_state
     \<Rightarrow> idx_t throws \<times> ('k, 'f, 'v, 's) schema_state" where
  "requested_version se at_clause st =
    (case at_clause of
       None \<Rightarrow> (Inr (use_specific_version (ss_catalog st)), st)
     | Some (unit, val) \<Rightarrow>
        and_then (FromAtClause (le_values (sv_list se)) unit val, st) (\<lambda>spec st.
        if IsTimestamp spec
        then and_then (GetTimestamp spec, st) (\<lambda>timestamp. timestamp_version se timestamp)
        else (GetVersion spec, st)))"

definition GetCachedTable :: "('k, 'f, 'v, 's) schema_state \<Rightarrow> 's delta_table_entry option" where
  "GetCachedTable st = ss_cached_table st"

definition serve_version ::
  "('s, 'c, 'e, 'p, 'v) schema_env \<Rightarrow> idx_t \<Rightarrow> ('k, 'f, 'v, 's) schema_state
     \<Rightarrow> 's delta_table_entry option throws \<times> ('k, 'f, 'v, 's) schema_state" where
  "serve_version se version st =
    (case GetTableEntry (ss_transaction st) version of
       Some e \<Rightarrow> (Inr (Some e), st)
     | None \<Rightarrow>
        and_then (if GetCachedTable st = None then sv_exists se (cat_path (ss_catalog st)) else Inr True, st) (\<lambda>exists st.
        if \<not> exists then (Inr None, st)
        else
          and_then
            (if UseCachedSnapshot (ss_catalog st) then
               (if use_specific_version (ss_catalog st) \<noteq> version then initialize_entry se version None st
                else ensure_cached se version st)
             else and_then (ensure_cached se version st) (\<lambda>cached. initialize_entry se version (Some (te_snapshot cached))))
            (\<lambda>e st1. (Inr (Some e), st1))))"

definition LookupEntry ::
  "('s, 'c, 'e, 'p, 'v) schema_env \<Rightarrow> catalog_transaction \<Rightarrow> catalog_type \<Rightarrow> string \<Rightarrow> (string \<times> 'v) option
     \<Rightarrow> ('k, 'f, 'v, 's) schema_state \<Rightarrow> 's delta_table_entry option throws \<times> ('k, 'f, 'v, 's) schema_state" where
  "LookupEntry se ct entry_type name at_clause st =
    (if \<not> has_context ct then (Inl (Err NotImplemented ''Can not DeltaSchemaEntry::GetEntry without context'' []), st)
     else if entry_type = TABLE_ENTRY \<and>
       (sv_is_name se name (cat_name (ss_catalog st)) \<or> sv_is_internal_name se name (internal_table_name (ss_catalog st))) then
       and_then (GetDeltaTransaction ct, st) (\<lambda>_ st.
       and_then (bind_attached_timestamp se st) (\<lambda>_ st.
       and_then (requested_version se at_clause st) (serve_version se)))
     else (Inr None, st))"

definition Scan_entries ::
  "('s, 'c, 'e, 'p, 'v) schema_env \<Rightarrow> catalog_transaction \<Rightarrow> catalog_type \<Rightarrow> ('k, 'f, 'v, 's) schema_state
     \<Rightarrow> 's delta_table_entry list throws \<times> ('k, 'f, 'v, 's) schema_state" where
  "Scan_entries se ct entry_type st =
    (if entry_type = TABLE_ENTRY then
       and_then (LookupEntry se ct entry_type (cat_name (ss_catalog st)) None st) (\<lambda>found st1.
       (Inr (case found of None \<Rightarrow> [] | Some e \<Rightarrow> [e]), st1))
     else (Inr [], st))"

section \<open>CREATE TABLE and what is refused\<close>

definition HandleCreateConflict ::
  "path_ops \<Rightarrow> 'w write_fs \<Rightarrow> OnCreateConflict \<Rightarrow> string \<Rightarrow> 'w \<Rightarrow> bool throws" where
  "HandleCreateConflict po fo on_conflict path w =
    (if on_conflict \<noteq> IGNORE_ON_CONFLICT then Inr True
     else bindr (table_exists_at po fo path w) (\<lambda>there. Inr (\<not> there)))"

text \<open>The directory made for a table the kernel refuses is removed while it is empty; a failure to do so is ignored.\<close>

definition remove_own_directory :: "'w write_fs \<Rightarrow> string \<Rightarrow> 'w \<Rightarrow> 'w" where
  "remove_own_directory fo path w =
    (case wf_list_files fo w path of
       Inl _ \<Rightarrow> w
     | Inr listed \<Rightarrow> if listed = [] then snd (wf_remove_directory fo w path) else w)"

definition refused_by_kernel ::
  "path_ops \<Rightarrow> 'w write_fs \<Rightarrow> string \<Rightarrow> bool \<Rightarrow> error \<Rightarrow> 'w \<Rightarrow> error \<times> 'w" where
  "refused_by_kernel po fo path created_directory e w =
    (case table_exists_at po fo path w of
       Inl e1 \<Rightarrow> (e1, w)
     | Inr True \<Rightarrow>
        (Err (err_kind e) (err_message e @ ''. Delta tables cannot be replaced or dropped yet: use CREATE TABLE IF NOT EXISTS, or attach another path'')
           (err_args e), w)
     | Inr False \<Rightarrow> (e, if created_directory then remove_own_directory fo path w else w))"

definition create_request ::
  "(logical_type \<Rightarrow> bool) \<Rightarrow> DeltaCreateTableRequest throws \<Rightarrow> DeltaCreateTableRequest throws" where
  "create_request contains_variant bound =
    bindr bound (\<lambda>request.
    bindr (ThrowIfVariantIsNested contains_variant (req_columns request) ''Delta CREATE TABLE'') (\<lambda>_.
    Inr (request\<lparr>req_data_change := False\<rparr>)))"

definition create_columns_storable :: "DeltaCreateTableRequest \<Rightarrow> unit throws" where
  "create_columns_storable request =
    bindr (ThrowIfDeltaCannotStore (req_columns request) ''Delta CREATE TABLE''
      ''Declare the column as a type Delta can store, e.g. BIGINT or VARCHAR.'') (\<lambda>_.
    ThrowIfMapKeyIsList (req_columns request) ''Delta CREATE TABLE'')"

text \<open>\<open>bound\<close> is BindDeltaCreateTable on the statement, \<open>base\<close> its table name and conflict clause; \<open>commit_effect\<close> is what the commit
  of version 0 does to the world, and \<open>se\<close> gives what a lookup reads in a world.\<close>

definition commit_version_zero ::
  "('y, 'b, 'c, 't, 'm, 'x, 'd) create_kernel \<Rightarrow> ('t \<Rightarrow> 'w \<Rightarrow> 'w) \<Rightarrow> 't DeltaCreateTableTransaction \<Rightarrow> 'w \<Rightarrow> unit throws \<times> 'w" where
  "commit_version_zero ck commit_effect txn w =
    (bindr (fst (CT_Commit ck txn)) (\<lambda>_. Inr ()), case ct_transaction txn of None \<Rightarrow> w | Some t \<Rightarrow> commit_effect t w)"

definition CreateTable ::
  "path_ops \<Rightarrow> 'w write_fs \<Rightarrow> (logical_type \<Rightarrow> bool) \<Rightarrow> ('y, 'b, 'o, 't, 'm, 'x, 'd) create_kernel \<Rightarrow> (string \<Rightarrow> unit throws)
     \<Rightarrow> ('k, 'f, 'g, 'o, 'i, 'w, ('s, unit) delta_table_entry_ext) transaction_kernel \<Rightarrow> ('t \<Rightarrow> 'w \<Rightarrow> 'w)
     \<Rightarrow> ('w \<Rightarrow> ('s, 'c, 'e, 'p, 'v) schema_env) \<Rightarrow> catalog_transaction \<Rightarrow> DeltaCreateTableRequest throws \<Rightarrow> string \<Rightarrow> OnCreateConflict
     \<Rightarrow> ('k, 'f, 'v, 's) schema_state \<Rightarrow> 'w \<Rightarrow> 's delta_table_entry option throws \<times> ('k, 'f, 'v, 's) schema_state \<times> 'w" where
  "CreateTable po fo contains_variant ck engine tk commit_effect se ct bound name on_conflict st w =
    (if \<not> has_context ct then (Inl (Err NotImplemented ''Can not create a Delta table without context'' []), st, w)
     else case bindr (create_request contains_variant bound) (\<lambda>request.
                 bindr (HandleCreateConflict po fo on_conflict (req_path request) w) (\<lambda>go. Inr (request, go))) of
       Inl e \<Rightarrow> (Inl e, st, w)
     | Inr (request, False) \<Rightarrow> (Inr None, st, w)
     | Inr (request, True) \<Rightarrow>
        (case create_columns_storable request of
           Inl e \<Rightarrow> (Inl e, st, w)
         | Inr _ \<Rightarrow>
        (case ensure_directory po fo (req_path request) w of
           (Inl e, w1) \<Rightarrow> (Inl e, st, w1)
         | (Inr created_directory, w1) \<Rightarrow>
        (if parent_commit (ss_catalog st) \<and> \<not> has_transaction ct then (Inl (Err InternalEx ''No transaction!?'' []), st, w1)
         else case new_DeltaCreateTableTransaction ck engine
               (if parent_commit (ss_catalog st) then Some (CreateCatalogCommitter tk (ss_transaction st) (req_path request)) else None)
               request of
           Inl e \<Rightarrow> (case refused_by_kernel po fo (req_path request) created_directory e w1 of (e1, w2) \<Rightarrow> (Inl e1, st, w2))
         | Inr txn \<Rightarrow>
        (case commit_version_zero ck commit_effect txn w1 of
           (Inl e, w2) \<Rightarrow> (Inl e, st, w2)
         | (Inr _, w2) \<Rightarrow>
            if parent_commit (ss_catalog st) then (Inr None, st, w2)
            else (case LookupEntry (se w2) ct TABLE_ENTRY name None st of (r, st1) \<Rightarrow> (r, st1, w2)))))))"

datatype schema_request =
    Create_Function | Create_Index | Create_View_Sql | Create_View | Create_Type | Create_Sequence | Create_Table_Function
  | Create_Copy_Function | Create_Pragma_Function | Create_Collation | Alter_Entry | Scan_Without_Context | Drop_Entry

fun SchemaRefuses :: "schema_request \<Rightarrow> error" where
  "SchemaRefuses Create_Function = Err BinderEx ''Delta tables do not support creating functions'' []"
| "SchemaRefuses Create_Index = Err NotImplemented ''CreateIndex'' []"
| "SchemaRefuses Create_View_Sql = Err NotImplemented ''GetCreateView'' []"
| "SchemaRefuses Create_View = Err BinderEx ''Delta tables do not support creating views'' []"
| "SchemaRefuses Create_Type = Err BinderEx ''Delta databases do not support creating types'' []"
| "SchemaRefuses Create_Sequence = Err BinderEx ''Delta databases do not support creating sequences'' []"
| "SchemaRefuses Create_Table_Function = Err BinderEx ''Delta databases do not support creating table functions'' []"
| "SchemaRefuses Create_Copy_Function = Err BinderEx ''Delta databases do not support creating copy functions'' []"
| "SchemaRefuses Create_Pragma_Function = Err BinderEx ''Delta databases do not support creating pragma functions'' []"
| "SchemaRefuses Create_Collation = Err BinderEx ''Delta databases do not support creating collations'' []"
| "SchemaRefuses Alter_Entry = Err NotImplemented ''Delta tables do not support altering'' []"
| "SchemaRefuses Scan_Without_Context = Err NotImplemented ''Scan without context not supported'' []"
| "SchemaRefuses Drop_Entry = Err NotImplemented ''Delta tables do not support dropping'' []"

section \<open>Entries\<close>

lemma Bind_loads_version:
  assumes "Bind le fl = (Inr cols, fl1)" and "\<not> fl_have_bound fl" "\<not> fl_initialized_snapshot fl" "fl_snapshot fl = None"
    "\<not> fl_has_requested_timestamp fl"
  shows "(fl_version fl \<noteq> INVALID_INDEX \<longrightarrow> fl_version fl1 = fl_version fl) \<and> fl_initialized_snapshot fl1 \<and>
    (\<exists>s. fl_snapshot fl1 = Some s \<and> fl_version fl1 = le_version le s)"
proof -
  obtain fl2 where fl2: "InitializeSnapshot le fl = (Inr (), fl2)"
      "fl_version fl1 = fl_version fl2" "fl_snapshot fl1 = fl_snapshot fl2" "fl_initialized_snapshot fl1 = fl_initialized_snapshot fl2"
    using assms(1-3) by (auto simp: Bind_def Let_def and_then_def EnsureSnapshotInitialized_def split: prod.splits sum.splits)
  then obtain fl3 where "load_snapshot le fl = (Inr (), fl3)" "fl_version fl2 = fl_version fl3"
      "fl_snapshot fl2 = fl_snapshot fl3" "fl_initialized_snapshot fl2"
    using assms(5) by (auto simp: InitializeSnapshot_def and_then_eq_Inr resolve_requested_version_def)
  then show ?thesis using load_snapshot_spec [OF _ assms(4)] fl2(2-4) by fastforce
qed

lemma CreateFileList_fresh:
  assumes "CreateFileList se cat version old = Inr fl"
  shows "fl_version fl = version \<and> \<not> fl_have_bound fl \<and> \<not> fl_initialized_snapshot fl \<and> fl_snapshot fl = None \<and>
    \<not> fl_has_requested_timestamp fl"
  using assms by (auto simp: CreateFileList_def new_file_list_def bindr_eq_Inr split: option.splits if_splits)

lemma CreateTableEntry_version:
  assumes "CreateTableEntry se cat version old = Inr e"
  shows "version \<noteq> INVALID_INDEX \<Longrightarrow> te_version e = version" "te_version e = fl_version (te_snapshot e)"
    "fl_initialized_snapshot (te_snapshot e)"
proof -
  obtain fl cols fl1 where fl: "CreateFileList se cat version old = Inr fl" "Bind (sv_list se) fl = (Inr cols, fl1)"
      "te_version e = fl_version fl1" "te_snapshot e = fl1"
    using assms by (auto simp: CreateTableEntry_def bindr_def Let_def split: prod.splits sum.splits)
  note fresh = CreateFileList_fresh [OF fl(1)]
  show "version \<noteq> INVALID_INDEX \<Longrightarrow> te_version e = version" "te_version e = fl_version (te_snapshot e)"
    "fl_initialized_snapshot (te_snapshot e)"
    using Bind_loads_version [OF fl(2)] fresh fl(3,4) by auto
qed

section \<open>The invariant of the entries\<close>

definition schema_inv :: "('k, 'f, 'v, 's) schema_state \<Rightarrow> bool" where
  "schema_inv st \<longleftrightarrow>
    (\<forall>v e. dt_versioned_entries (ss_transaction st) v = Some e \<longrightarrow> te_version e = v) \<and>
    (\<forall>ms v. dt_timestamp_versions (ss_transaction st) ms = Some v \<longrightarrow> v \<noteq> INVALID_INDEX) \<and>
    (use_cache (ss_catalog st) \<longrightarrow>
       (if use_specific_version (ss_catalog st) \<noteq> INVALID_INDEX
        then \<forall>e. ss_cached_table st = Some e \<longrightarrow> te_version e = use_specific_version (ss_catalog st)
        else has_specific_timestamp (ss_catalog st) \<longrightarrow> ss_cached_table st = None))"

lemma ensure_cached_eq:
  "ensure_cached se version st = (Inr e, st1) \<longleftrightarrow>
     st1 = st\<lparr>ss_cached_table := Some e\<rparr> \<and>
     (ss_cached_table st = Some e \<or> ss_cached_table st = None \<and> CreateTableEntry se (ss_catalog st) version None = Inr e)"
  by (cases st) (auto simp: ensure_cached_def split: option.splits sum.splits)

lemma initialize_entry_spec:
  assumes "initialize_entry se version old st = (Inr e, st1)"
  shows "GetTableEntry (ss_transaction st1) version = Some e" (is ?found)
    "st1 = st\<lparr>ss_transaction := ss_transaction st1\<rparr>" (is ?only)
    "dt_timestamp_versions (ss_transaction st1) = dt_timestamp_versions (ss_transaction st)" (is ?times)
    "version = INVALID_INDEX \<Longrightarrow> dt_table_entry (ss_transaction st1) = Some e \<and>
       dt_versioned_entries (ss_transaction st1) = dt_versioned_entries (ss_transaction st)"
    "version \<noteq> INVALID_INDEX \<Longrightarrow> dt_versioned_entries (ss_transaction st1) = (dt_versioned_entries (ss_transaction st))(version \<mapsto> e) \<and>
       (dt_versioned_entries (ss_transaction st) version = Some e \<or> te_version e = version)"
proof -
  obtain txn where txn: "InitializeTableEntry (\<lambda>v. CreateTableEntry se (ss_catalog st) v old) (ss_transaction st) version = Inr (e, txn)"
      "st1 = st\<lparr>ss_transaction := txn\<rparr>"
    using assms by (auto simp: initialize_entry_def split: sum.splits)
  then show ?found ?only ?times
    by (auto simp: InitializeTableEntry_def GetTableEntry_def bindr_eq_Inr split: if_splits option.splits)
  show "version = INVALID_INDEX \<Longrightarrow> dt_table_entry (ss_transaction st1) = Some e \<and>
       dt_versioned_entries (ss_transaction st1) = dt_versioned_entries (ss_transaction st)"
    using txn by (auto simp: InitializeTableEntry_def bindr_eq_Inr split: option.splits)
  show "version \<noteq> INVALID_INDEX \<Longrightarrow> dt_versioned_entries (ss_transaction st1) = (dt_versioned_entries (ss_transaction st))(version \<mapsto> e) \<and>
       (dt_versioned_entries (ss_transaction st) version = Some e \<or> te_version e = version)"
    using txn CreateTableEntry_version(1)
    by (auto simp: InitializeTableEntry_def bindr_eq_Inr fun_eq_iff split: option.splits)
qed

lemma initialize_entry_inv:
  assumes "initialize_entry se version old st = (Inr e, st1)" and "schema_inv st"
  shows "schema_inv st1" "version \<noteq> INVALID_INDEX \<Longrightarrow> te_version e = version"
    "ss_catalog st1 = ss_catalog st" "ss_cached_table st1 = ss_cached_table st"
proof -
  note spec = initialize_entry_spec [OF assms(1)]
  show cat: "ss_catalog st1 = ss_catalog st" and cache: "ss_cached_table st1 = ss_cached_table st"
    by (metis spec(2) schema_state.select_convs(1,2) schema_state.update_convs(3) schema_state.surjective)+
  show v: "version \<noteq> INVALID_INDEX \<Longrightarrow> te_version e = version" using spec(5) assms(2) by (auto simp: schema_inv_def)
  show "schema_inv st1"
  proof (cases "version = INVALID_INDEX")
    case True
    then show ?thesis using assms(2) spec(3,4) unfolding schema_inv_def cat cache by simp
  next
    case False
    then show ?thesis using assms(2) spec(3,5) v unfolding schema_inv_def cat cache by simp
  qed
qed

text \<open>What an operation leaves alone that only finds a version: the catalog, the resolved timestamps, and the cache where the
  catalog is attached at a version or a timestamp.\<close>

definition same_travel :: "('k, 'f, 'v, 's) schema_state \<Rightarrow> ('k, 'f, 'v, 's) schema_state \<Rightarrow> bool" where
  "same_travel st st1 \<longleftrightarrow> ss_catalog st1 = ss_catalog st \<and>
     dt_timestamp_versions (ss_transaction st1) = dt_timestamp_versions (ss_transaction st) \<and>
     (use_cache (ss_catalog st) \<and> (has_specific_timestamp (ss_catalog st) \<or> use_specific_version (ss_catalog st) \<noteq> INVALID_INDEX) \<longrightarrow>
        ss_cached_table st1 = ss_cached_table st)"

lemma initialize_entry_travel: "initialize_entry se version old st = (Inr e, st1) \<Longrightarrow> schema_inv st \<Longrightarrow> same_travel st st1 \<and> schema_inv st1"
  using initialize_entry_inv initialize_entry_spec(3) by (metis same_travel_def)

lemma free_cache_inv:
  "schema_inv st \<Longrightarrow> \<not> (use_cache (ss_catalog st) \<and> (has_specific_timestamp (ss_catalog st) \<or> use_specific_version (ss_catalog st) \<noteq> INVALID_INDEX))
     \<Longrightarrow> same_travel st (st\<lparr>ss_cached_table := c\<rparr>) \<and> schema_inv (st\<lparr>ss_cached_table := c\<rparr>)"
  by (auto simp: schema_inv_def same_travel_def)

lemma same_travel_trans: "same_travel a b \<Longrightarrow> same_travel b c \<Longrightarrow> same_travel a c"
  by (simp add: same_travel_def)

lemma TransactionHead_travel:
  assumes "TransactionHead se st = (Inr fl, st1)" and "schema_inv st"
  shows "same_travel st st1 \<and> schema_inv st1"
proof (cases "use_cache (ss_catalog st) \<and> (has_specific_timestamp (ss_catalog st) \<or> use_specific_version (ss_catalog st) \<noteq> INVALID_INDEX)")
  case True
  then obtain e where "initialize_entry se INVALID_INDEX (map_option te_snapshot (ss_cached_table st)) st = (Inr e, st1)"
    using assms(1) by (auto simp: TransactionHead_def UseCachedSnapshot_def and_then_eq_Inr split: if_splits)
  then show ?thesis using initialize_entry_travel assms(2) by blast
next
  case False
  then obtain e st2 where st2: "ensure_cached se INVALID_INDEX st = (Inr e, st2)"
      "st1 = st2 \<or> (\<exists>e old. initialize_entry se INVALID_INDEX old st2 = (Inr e, st1))"
    using assms(1) by (auto simp: TransactionHead_def UseCachedSnapshot_def and_then_eq_Inr Let_def split: if_splits)
  then have "same_travel st st2 \<and> schema_inv st2" using free_cache_inv [OF assms(2) False] by (auto simp: ensure_cached_eq)
  then show ?thesis using st2(2) initialize_entry_travel same_travel_trans by blast
qed

lemma SE_ResolveTimestamp_spec:
  assumes "SE_ResolveTimestamp se timestamp st = (Inr v, st1)" and "schema_inv st"
  shows "same_travel st st1 \<and> schema_inv st1 \<and>
    (\<exists>ms head at. DeltaTimestampToEpochMs (le_values (sv_list se)) timestamp = Inr ms \<and> ms \<le> now_ms (le_values (sv_list se)) \<and>
       le_as_of (sv_list se) head ms = Inr (v, at))"
proof -
  obtain fl where fl: "TransactionHead se st = (Inr fl, st1)" "fst (ResolveTimestampWithin (sv_list se) fl timestamp) = Inr v"
    using assms(1) by (auto simp: SE_ResolveTimestamp_def and_then_eq_Inr)
  then obtain ms s where "DeltaTimestampToEpochMs (le_values (sv_list se)) timestamp = Inr ms" "VersionAsOf (sv_list se) s ms = Inr v"
    by (auto simp: ResolveTimestampWithin_def and_then_def bindr_eq_Inr split: prod.splits sum.splits)
  then show ?thesis
    using TransactionHead_travel [OF fl(1) assms(2)]
    by (auto simp: VersionAsOf_def bindr_eq_Inr DeltaRejectFutureTimestamp_def)
qed

lemma bind_attached_timestamp_spec:
  assumes "bind_attached_timestamp se st = (Inr (), st1)" and "schema_inv st"
    and "\<forall>head t v at. le_as_of (sv_list se) head t = Inr (v, at) \<longrightarrow> v \<noteq> INVALID_INDEX"
  shows "schema_inv st1 \<and> (has_specific_timestamp (ss_catalog st1) \<longrightarrow> use_specific_version (ss_catalog st1) \<noteq> INVALID_INDEX) \<and>
    dt_timestamp_versions (ss_transaction st1) = dt_timestamp_versions (ss_transaction st) \<and>
    (\<exists>v. ss_catalog st1 = (ss_catalog st)\<lparr>use_specific_version := v\<rparr>)"
proof (cases "has_specific_timestamp (ss_catalog st) \<and> use_specific_version (ss_catalog st) = INVALID_INDEX")
  case True
  then obtain v st2 where st2: "SE_ResolveTimestamp se (specific_timestamp (ss_catalog st)) st = (Inr v, st2)"
      "st1 = st2\<lparr>ss_catalog := (ss_catalog st2)\<lparr>use_specific_version := v\<rparr>\<rparr>"
    using assms(1) by (auto simp: bind_attached_timestamp_def and_then_eq_Inr)
  from SE_ResolveTimestamp_spec [OF st2(1) assms(2)] have "same_travel st st2" "schema_inv st2" "v \<noteq> INVALID_INDEX"
    using assms(3) by blast+
  then show ?thesis using True assms(2) st2(2) by (auto simp: schema_inv_def same_travel_def)
qed (use assms in \<open>auto simp: bind_attached_timestamp_def intro!: exI [of _ "use_specific_version (ss_catalog st)"]\<close>)

section \<open>What a lookup serves\<close>

lemma timestamp_version_spec:
  assumes "timestamp_version se timestamp st = (Inr v, st1)" and "schema_inv st"
    and "\<forall>head t v at. le_as_of (sv_list se) head t = Inr (v, at) \<longrightarrow> v \<noteq> INVALID_INDEX"
  shows "\<exists>ms. DeltaTimestampToEpochMs (le_values (sv_list se)) timestamp = Inr ms \<and> schema_inv st1 \<and> ss_catalog st1 = ss_catalog st \<and>
    v \<noteq> INVALID_INDEX \<and> dt_timestamp_versions (ss_transaction st1) ms = Some v \<and>
    (dt_timestamp_versions (ss_transaction st) ms = None \<longrightarrow>
       ms \<le> now_ms (le_values (sv_list se)) \<and> (\<exists>head at. le_as_of (sv_list se) head ms = Inr (v, at))) \<and>
    (\<forall>v. dt_timestamp_versions (ss_transaction st) ms = Some v \<longrightarrow> dt_timestamp_versions (ss_transaction st1) ms = Some v)"
proof -
  obtain ms where ms: "DeltaTimestampToEpochMs (le_values (sv_list se)) timestamp = Inr ms"
    using assms(1) by (auto simp: timestamp_version_def GetTimestampVersion_def bindr_def split: sum.splits)
  show ?thesis
  proof (cases "dt_timestamp_versions (ss_transaction st) ms")
    case (Some v0)
    then show ?thesis using assms(1,2) ms by (auto simp: timestamp_version_def GetTimestampVersion_def schema_inv_def)
  next
    case None
    then obtain v1 st2 where st2: "SE_ResolveTimestamp se timestamp st = (Inr v1, st2)"
        "(case SetTimestampVersion (le_values (sv_list se)) (ss_transaction st2) timestamp v1 of
           Inl err \<Rightarrow> (Inl err, st2) | Inr (v1, txn) \<Rightarrow> (Inr v1, st2\<lparr>ss_transaction := txn\<rparr>)) = (Inr v, st1)"
      using assms(1) ms by (auto simp: timestamp_version_def GetTimestampVersion_def and_then_eq_Inr)
    note res = SE_ResolveTimestamp_spec [OF st2(1) assms(2)]
    then have "dt_timestamp_versions (ss_transaction st2) ms = None" using None by (simp add: same_travel_def)
    then have st1: "v = v1" "st1 = st2\<lparr>ss_transaction := (ss_transaction st2)\<lparr>dt_timestamp_versions :=
        (dt_timestamp_versions (ss_transaction st2))(ms \<mapsto> v)\<rparr>\<rparr>"
      using st2(2) ms by (auto simp: SetTimestampVersion_def)
    have "v1 \<noteq> INVALID_INDEX" using res assms(3) by blast
    then show ?thesis using res ms None st1 by (auto simp: schema_inv_def same_travel_def)
  qed
qed

lemma serve_version_spec:
  assumes "serve_version se v st = (Inr (Some e), st1)" and "schema_inv st"
    and "has_specific_timestamp (ss_catalog st) \<longrightarrow> use_specific_version (ss_catalog st) \<noteq> INVALID_INDEX"
  shows "schema_inv st1 \<and> (v \<noteq> INVALID_INDEX \<longrightarrow> te_version e = v) \<and> ss_catalog st1 = ss_catalog st \<and>
    dt_timestamp_versions (ss_transaction st1) = dt_timestamp_versions (ss_transaction st)"
proof (cases "GetTableEntry (ss_transaction st) v")
  case (Some e0)
  then show ?thesis using assms(1,2)
    by (auto simp: serve_version_def GetTableEntry_def schema_inv_def split: if_splits option.splits)
next
  case None
  then consider (cached) "use_cache (ss_catalog st)" "use_specific_version (ss_catalog st) = v" "ensure_cached se v st = (Inr e, st1)"
    | (own) old st2 c where "st2 = st \<or> \<not> use_cache (ss_catalog st) \<and> st2 = st\<lparr>ss_cached_table := c\<rparr>"
        "initialize_entry se v old st2 = (Inr e, st1)"
    using assms(1) by (auto simp: serve_version_def and_then_eq_Inr UseCachedSnapshot_def ensure_cached_eq split: if_splits)
  then show ?thesis
  proof cases
    case cached
    then show ?thesis using assms(2,3) CreateTableEntry_version(1)
      by (auto simp: ensure_cached_eq schema_inv_def)
  next
    case own
    then have "schema_inv st2" using free_cache_inv [OF assms(2)] assms(2) by blast
    moreover have "ss_catalog st2 = ss_catalog st" "ss_transaction st2 = ss_transaction st" using own(1) by auto
    ultimately show ?thesis using initialize_entry_inv [OF own(2)] initialize_entry_spec(3) [OF own(2)] by simp
  qed
qed

lemma serve_version_again:
  assumes "serve_version se v st = (Inr (Some e), st1)"
  shows "serve_version se' v st1 = (Inr (Some e), st1)"
proof (cases "GetTableEntry (ss_transaction st1) v")
  case (Some e1)
  then have "e1 = e"
    using assms
    by (auto simp: serve_version_def and_then_eq_Inr ensure_cached_eq split: option.splits if_splits dest!: initialize_entry_spec(1))
  then show ?thesis using Some by (simp add: serve_version_def)
next
  case None
  then have "use_cache (ss_catalog st1)" "use_specific_version (ss_catalog st1) = v" "ss_cached_table st1 = Some e"
    using assms
    by (auto simp: serve_version_def and_then_eq_Inr ensure_cached_eq UseCachedSnapshot_def split: option.splits if_splits
        dest!: initialize_entry_spec(1))
  then show ?thesis using None by (simp add: serve_version_def ensure_cached_def GetCachedTable_def UseCachedSnapshot_def)
qed

lemma serve_latest:
  assumes "serve_version se INVALID_INDEX st = (Inr (Some e), st1)"
  shows "(\<not> use_cache (ss_catalog st) \<longrightarrow> dt_table_entry (ss_transaction st1) = Some e) \<and>
    (use_cache (ss_catalog st) \<and> use_specific_version (ss_catalog st) = INVALID_INDEX \<and> dt_table_entry (ss_transaction st) = None \<longrightarrow>
       ss_cached_table st1 = Some e)"
  using assms
  by (auto simp: serve_version_def GetTableEntry_def and_then_eq_Inr ensure_cached_eq UseCachedSnapshot_def split: option.splits if_splits
      dest!: initialize_entry_spec(4) [OF _ refl])

lemma requested_version_again:
  assumes "requested_version se at_clause st = (Inr v, st1)" and "schema_inv st"
    and "\<forall>head t v at. le_as_of (sv_list se) head t = Inr (v, at) \<longrightarrow> v \<noteq> INVALID_INDEX"
  shows "schema_inv st1 \<and> ss_catalog st1 = ss_catalog st \<and>
    (\<forall>se' st2. le_values (sv_list se') = le_values (sv_list se) \<and> ss_catalog st2 = ss_catalog st \<and>
       dt_timestamp_versions (ss_transaction st2) = dt_timestamp_versions (ss_transaction st1) \<longrightarrow>
       requested_version se' at_clause st2 = (Inr v, st2))"
proof (cases at_clause)
  case None
  then show ?thesis using assms(1,2) by (auto simp: requested_version_def)
next
  case (Some a)
  obtain unit val where at: "at_clause = Some (unit, val)" using Some by (cases a) auto
  then obtain spec where spec: "FromAtClause (le_values (sv_list se)) unit val = Inr spec"
      "(if IsTimestamp spec then timestamp_version se (tt_timestamp spec) st else (GetVersion spec, st)) = (Inr v, st1)"
    using assms(1) by (auto simp: requested_version_def and_then_eq_Inr GetTimestamp_def split: if_splits)
  show ?thesis
  proof (cases "IsTimestamp spec")
    case False
    then show ?thesis using spec at assms(2) by (auto simp: requested_version_def)
  next
    case True
    then have "timestamp_version se (tt_timestamp spec) st = (Inr v, st1)" using spec(2) by simp
    from timestamp_version_spec [OF this assms(2,3)] show ?thesis using True spec(1) at
      by (auto simp: requested_version_def GetTimestamp_def timestamp_version_def GetTimestampVersion_def)
  qed
qed

text \<open>The version a timestamp stands for: the one the transaction holds for it, and else the one the kernel finds, which is not in the
  future.\<close>

definition timestamp_held :: "('s, 'c, 'e, 'p, 'v) schema_env \<Rightarrow> ('k, 'f, 'v, 's) schema_state \<Rightarrow> int \<Rightarrow> idx_t \<Rightarrow> bool" where
  "timestamp_held se st ms v \<longleftrightarrow>
    (case dt_timestamp_versions (ss_transaction st) ms of
       Some w \<Rightarrow> w = v
     | None \<Rightarrow> ms \<le> now_ms (le_values (sv_list se)) \<and> (\<exists>head at. le_as_of (sv_list se) head ms = Inr (v, at)))"

lemma requested_timestamp:
  assumes "requested_version se (Some (unit, val)) st = (Inr v, st1)" and "FromAtClause (le_values (sv_list se)) unit val = Inr spec"
    and "IsTimestamp spec" and "schema_inv st"
    and "\<forall>head t v at. le_as_of (sv_list se) head t = Inr (v, at) \<longrightarrow> v \<noteq> INVALID_INDEX"
  shows "\<exists>ms. DeltaTimestampToEpochMs (le_values (sv_list se)) (tt_timestamp spec) = Inr ms \<and> v \<noteq> INVALID_INDEX \<and> timestamp_held se st ms v"
proof -
  have "timestamp_version se (tt_timestamp spec) st = (Inr v, st1)"
    using assms(1-3) by (simp add: requested_version_def GetTimestamp_def)
  from timestamp_version_spec [OF this assms(4,5)] obtain ms where
    ms: "DeltaTimestampToEpochMs (le_values (sv_list se)) (tt_timestamp spec) = Inr ms" "v \<noteq> INVALID_INDEX"
    "dt_timestamp_versions (ss_transaction st1) ms = Some v"
    "dt_timestamp_versions (ss_transaction st) ms = None \<longrightarrow> ms \<le> now_ms (le_values (sv_list se)) \<and> (\<exists>head at. le_as_of (sv_list se) head ms = Inr (v, at))"
    "\<forall>v. dt_timestamp_versions (ss_transaction st) ms = Some v \<longrightarrow> dt_timestamp_versions (ss_transaction st1) ms = Some v"
    by (elim exE conjE) (rule that, assumption+)
  then have "timestamp_held se st ms v" by (cases "dt_timestamp_versions (ss_transaction st) ms") (auto simp: timestamp_held_def)
  then show ?thesis using ms(1,2) by blast
qed


text \<open>A catalog attached at version 3, pinned, of the table of \<open>example_list_env\<close>.\<close>

definition schema_example :: "(idx_t, unit, tree_expr, tree_pred, nat) schema_env" where
  "schema_example =
    \<lparr>sv_list =
      \<lparr>le_su = ascii_string_util, le_junk = (\<lambda>i. 0), le_join = (@), le_cwd = ''/'', le_can_access = (\<lambda>p. True),
       le_values = nat_value_ops, le_create_engine = (\<lambda>p. Inr ()), le_get_builder = (\<lambda>b. Inr ()),
       le_with_log_tail = (\<lambda>l. Inr ()), le_build = (\<lambda>b. Inr (case sb_version b of None \<Rightarrow> 5 | Some v \<Rightarrow> v)),
       le_version = (\<lambda>s. s), le_as_of = le_as_of example_list_env, le_table = le_table example_list_env,
       le_schema = (\<lambda>s. []), le_visit_schema = walk_schema example_env, le_predicates = tree_kernel,
       le_filter_order = (\<lambda>fs. fs), le_scan = (\<lambda>s p. Inr ()), le_table_root = (\<lambda>c. ''/t/''), le_scan_data = (\<lambda>c. Inr []),
       le_partition_columns = (\<lambda>s. []), le_scan_schema = (\<lambda>c. []), le_expressions = example_expression_ops,
       le_transforms = example_transform_ops, le_visit_expression = walk_root example_expression_ops,
       le_replace = replace_quotes, le_cast_width = try_cast_example\<rparr>,
     sv_log = \<lparr>lv_list = (\<lambda>_. None), lv_struct = (\<lambda>_. None), lv_uint64 = (\<lambda>v. Inr (of_nat v)), lv_text = (\<lambda>_. []), lv_no_location = []\<rparr>,
     sv_exists = (\<lambda>p. Inr True), sv_domain_metadata = (\<lambda>s. []), sv_insert_tag = (\<lambda>ts t. ts @ [t]), sv_is_name = (=), sv_is_internal_name = (=)\<rparr>"

definition schema_start :: "(nat, unit, nat, idx_t) schema_state" where
  "schema_start = (let cat = (new_DeltaCatalog ''t'' ''/t'' READ_ONLY)\<lparr>use_cache := True, use_specific_version := 3\<rparr>
     in \<lparr>ss_catalog = cat, ss_cached_table = None, ss_transaction = new_DeltaTransaction cat\<rparr>)"

lemma schema_example_entry:
  "(case CreateTableEntry schema_example (ss_catalog schema_start) 1 None of Inl _ \<Rightarrow> False | Inr e \<Rightarrow> te_table_columns e = [])"
  by code_simp

lemma schema_example_lookup:
  assumes "CreateTableEntry schema_example (ss_catalog schema_start) 1 None = Inr e"
  shows "LookupEntry schema_example \<lparr>has_context = True, has_transaction = True\<rparr> TABLE_ENTRY ''t'' (Some (''version'', 1)) schema_start =
    (Inr (Some e), schema_start\<lparr>ss_transaction := (ss_transaction schema_start)\<lparr>dt_versioned_entries := [1 \<mapsto> e]\<rparr>\<rparr>)"
  using assms
  by (simp add: LookupEntry_def GetDeltaTransaction_def bind_attached_timestamp_def requested_version_def serve_version_def
      GetTableEntry_def initialize_entry_def InitializeTableEntry_def schema_start_def schema_example_def new_DeltaCatalog_def
      new_DeltaTransaction_def FromAtClause_def FromVersion_def GetVersion_def IsVersion_def IsTimestamp_def nat_value_ops_def
      GetCachedTable_def UseCachedSnapshot_def INVALID_INDEX_def throw_if_def Let_def)


end
