(* ===== verification/Reader.thy ===== *)
theory Reader
  imports Schema_Entry Pushdown
begin

text \<open>
  The multi-file reader of a Delta scan (delta\_multi\_file\_reader.cpp): the options of \<open>delta_scan\<close>, the bind, the columns of a
  file that the log or the scan gives as constants, deletion vectors, files of an id-mode table without field ids, and
  the casts of timestamps. DuckDB's own reader, its virtual column ids, its casts and its column mapper are parameters.
\<close>

section \<open>Deletion vectors\<close>

text \<open>The selection vector has \<open>vector_size\<close> entries (STANDARD\_VECTOR\_SIZE); a write behind them is an error of the model. The row
  number is a sum of 64-bit words.\<close>

definition row_selected :: "bool list \<Rightarrow> 64 word \<Rightarrow> nat \<Rightarrow> bool" where
  "row_selected dv start_row_index i =
    (let row_id = of_nat i + start_row_index in length dv \<le> unat row_id \<or> dv ! unat row_id)"

function delete_filter_loop ::
  "bool list \<Rightarrow> 64 word \<Rightarrow> nat \<Rightarrow> nat \<Rightarrow> nat list \<Rightarrow> nat \<Rightarrow> (nat \<times> nat list) throws" where
  "delete_filter_loop dv start_row_index row_count i result_sel current_select =
    (if i < row_count then
       (if length result_sel \<le> current_select then Inl (Err UndefinedBehaviour ''write behind the selection vector'' [])
        else delete_filter_loop dv start_row_index row_count (Suc i) (result_sel[current_select := i])
          (if row_selected dv start_row_index i then Suc current_select else current_select))
     else Inr (current_select, result_sel))"
  by auto
termination by (relation "measure (\<lambda>(dv, s, row_count, i, sel, cur). row_count - i)") auto

declare delete_filter_loop.simps [simp del]

definition DeltaDeleteFilter_Filter ::
  "nat \<Rightarrow> bool list \<Rightarrow> 64 word \<Rightarrow> nat \<Rightarrow> nat list \<Rightarrow> (nat \<times> nat list) throws" where
  "DeltaDeleteFilter_Filter vector_size dv start_row_index row_count result_sel =
    (if row_count = 0 then Inr (0, result_sel)
     else delete_filter_loop dv start_row_index row_count 0 (replicate vector_size 0) 0)"

section \<open>State\<close>

datatype reader_constant = RC_Varchar string | RC_Ubigint nat | RC_Null logical_type | RC_Value dvalue

datatype mapping_mode = BY_NAME | BY_FIELD_ID

datatype bound_expr = BE_Cast logical_type logical_type bool bound_expr | BE_Default_Cast logical_type bool bound_expr | BE_Node string "bound_expr list"

record reader_env =
  re_su :: string_util
  re_is_virtual :: "nat \<Rightarrow> bool"
  re_filename_id :: nat
  re_file_index_id :: nat
  re_file_row_number_id :: nat
  re_ident_eq :: "string \<Rightarrow> string \<Rightarrow> bool"
  re_default_cast :: "dvalue \<Rightarrow> logical_type \<Rightarrow> dvalue throws"
  re_get_int32 :: "string \<Rightarrow> int throws"
  re_type_contains :: "logical_type \<Rightarrow> (logical_type \<Rightarrow> bool) \<Rightarrow> bool"

record reader_bind =
  rb_filename_idx :: "nat option"
  rb_file_row_number_idx :: "nat option"
  rb_mapping :: mapping_mode
  rb_hive_partitioning_indexes :: "(string \<times> nat) list"
  rb_schema :: "column_def list"

record reader_data =
  rd_filename :: string
  rd_file_list_idx :: nat
  rd_columns :: "column_def list"
  rd_constant_map :: "(nat \<times> reader_constant) list"
  rd_deletion_filter :: "bool list option"
  rd_expressions :: "bound_expr list"
  rd_expression_map :: "(nat \<times> bound_expr) list"

record 'v multi_file_options =
  mo_auto_detect_hive_partitioning :: bool
  mo_hive_partitioning :: bool
  mo_union_by_name :: bool
  mo_hive_types_schema :: "(string \<times> logical_type) list"
  mo_custom_options :: "(string \<times> 'v) list"

record 's delta_reader =
  dr_snapshot :: "('s, FfiLogPath list) file_list option"
  dr_requested :: DeltaTimeTravelSpec

definition DELTA_FILE_NUMBER_COLUMN_ID :: nat where
  "DELTA_FILE_NUMBER_COLUMN_ID = 10000000000000000000"

section \<open>Options and bind\<close>

definition CreateInstance :: "('s, FfiLogPath list) file_list option \<Rightarrow> 's delta_reader" where
  "CreateInstance function_info = \<lparr>dr_snapshot = function_info, dr_requested = LatestSpec\<rparr>"

definition DR_CreateFileList ::
  "('s, FfiLogPath list, 'c, 'e, 'p, 'v) list_env \<Rightarrow> 's delta_reader \<Rightarrow> string list
     \<Rightarrow> ('s, FfiLogPath list) file_list throws" where
  "DR_CreateFileList le dr paths =
    (if length paths \<noteq> 1 then Inl (Err BinderEx (CHR 0x27 # ''delta_scan' only supports single path as input'') [])
     else case dr_snapshot dr of
       Some fl \<Rightarrow> Inr fl
     | None \<Rightarrow> new_file_list le (hd paths) INVALID_INDEX None)"

text \<open>\<open>core_op\<close> is MultiFileReader::ParseOption.\<close>

definition stash_option :: "string \<Rightarrow> 'v \<Rightarrow> 'v multi_file_options \<Rightarrow> 'v multi_file_options" where
  "stash_option key val options = options\<lparr>mo_custom_options := AList.update key val (mo_custom_options options)\<rparr>"

definition exclusive_options :: error where
  "exclusive_options = Err InvalidInput ''delta_scan: 'version' and 'timestamp' are mutually exclusive'' []"

definition ParseOption ::
  "reader_env \<Rightarrow> 'v value_ops \<Rightarrow> (string \<Rightarrow> 'v \<Rightarrow> 'v multi_file_options \<Rightarrow> (bool \<times> 'v multi_file_options) throws)
     \<Rightarrow> string \<Rightarrow> 'v \<Rightarrow> 's delta_reader \<Rightarrow> 'v multi_file_options
     \<Rightarrow> (bool \<times> 's delta_reader \<times> 'v multi_file_options) throws" where
  "ParseOption re vo core_op key val dr options =
    (if re_ident_eq re key ''pushdown_partition_info'' then Inr (True, dr, stash_option ''pushdown_partition_info'' val options)
     else if re_ident_eq re key ''pushdown_filters'' then Inr (True, dr, stash_option ''pushdown_filters'' val options)
     else if re_ident_eq re key ''version'' then
       (if \<not> IsLatest (dr_requested dr) then Inl exclusive_options
        else bindr (cast_ubigint vo val) (\<lambda>v. Inr (True, dr\<lparr>dr_requested := FromVersion v\<rparr>, options)))
     else if re_ident_eq re key ''timestamp'' then
       (if \<not> IsLatest (dr_requested dr) then Inl exclusive_options
        else bindr (cast_timestamp_tz vo val) (\<lambda>t. Inr (True, dr\<lparr>dr_requested := FromTimestamp t\<rparr>, options)))
     else if re_ident_eq re key ''log_tail'' then Inr (True, dr, stash_option ''log_tail'' val options)
     else if re_ident_eq re key ''max_catalog_version'' then Inr (True, dr, stash_option ''max_catalog_version'' val options)
     else bindr (core_op key val options) (\<lambda>(known, options1). Inr (known, dr, options1)))"

definition take_scan_options ::
  "'v value_ops \<Rightarrow> 'v log_value_ops \<Rightarrow> 'v multi_file_options \<Rightarrow> ('s, FfiLogPath list) file_list
     \<Rightarrow> unit throws \<times> ('s, FfiLogPath list) file_list" where
  "take_scan_options vo lv options fl =
    and_then
      (case map_of (mo_custom_options options) ''log_tail'' of
         None \<Rightarrow> (Inr (), fl)
       | Some v \<Rightarrow> (case DeltaLogPathArray vo lv v of Inl e \<Rightarrow> (Inl e, fl) | Inr l \<Rightarrow> (Inr (), fl\<lparr>fl_delta_log_path := Some l\<rparr>)))
      (\<lambda>_ fl.
       (case map_of (mo_custom_options options) ''max_catalog_version'' of
          None \<Rightarrow> (Inr (), fl)
        | Some v \<Rightarrow> (case get_int64 vo v of Inl e \<Rightarrow> (Inl e, fl) | Inr m \<Rightarrow> (Inr (), fl\<lparr>fl_max_catalog_version := m\<rparr>))))"

definition DR_Bind ::
  "('s, FfiLogPath list, 'c, 'e, 'p, 'v) list_env \<Rightarrow> 'v log_value_ops \<Rightarrow> 's delta_reader \<Rightarrow> 'v multi_file_options
     \<Rightarrow> ('s, FfiLogPath list) file_list \<Rightarrow> (string \<times> logical_type) list throws \<times> ('s, FfiLogPath list) file_list" where
  "DR_Bind le lv dr options fl =
    and_then
      (if dr_snapshot dr = None then
         and_then (if IsLatest (dr_requested dr) then (Inr (), fl) else Pin le fl (dr_requested dr)) (\<lambda>_.
         take_scan_options (le_values le) lv options)
       else (Inr (), fl))
      (\<lambda>_. Bind le)"

section \<open>Bind options\<close>

definition UNRESOLVABLE_PARTITION_KEY_PREFIX :: string where
  "UNRESOLVABLE_PARTITION_KEY_PREFIX = ''delta/''"

definition ResolvePartitionFromPath :: "logical_type \<Rightarrow> bool" where
  "ResolvePartitionFromPath type \<longleftrightarrow> type \<noteq> TIMESTAMP_TZ"

definition register_partition ::
  "reader_env \<Rightarrow> (string \<times> logical_type) list \<Rightarrow> reader_bind \<times> 'v multi_file_options \<Rightarrow> string
     \<Rightarrow> (reader_bind \<times> 'v multi_file_options) throws" where
  "register_partition re columns acc part =
    (case find (\<lambda>i. re_ident_eq re (fst (columns ! i)) part) [0..<length columns] of
       None \<Rightarrow> Inl (Err IOEx ''Delta Snapshot returned partition column that is not present in the schema'' [])
     | Some i \<Rightarrow>
        (let part_type = snd (columns ! i); bind = fst acc; options = snd acc
         in if \<not> ResolvePartitionFromPath part_type
            then Inr (bind\<lparr>rb_hive_partitioning_indexes := rb_hive_partitioning_indexes bind @ [(UNRESOLVABLE_PARTITION_KEY_PREFIX @ part, i)]\<rparr>, options)
            else Inr (bind\<lparr>rb_hive_partitioning_indexes := rb_hive_partitioning_indexes bind @ [(part, i)]\<rparr>,
                      options\<lparr>mo_hive_types_schema := AList.update part part_type (mo_hive_types_schema options)\<rparr>)))"

text \<open>\<open>core_op\<close> is MultiFileReader::BindOptions, which appends the generated columns; \<open>columns_from\<close> is ColumnsFromNamesAndTypes.\<close>

definition BindOptions ::
  "('s, FfiLogPath list, 'c, 'e, 'p, 'v) list_env \<Rightarrow> reader_env
     \<Rightarrow> ('v multi_file_options \<Rightarrow> (string \<times> logical_type) list \<Rightarrow> reader_bind
           \<Rightarrow> ('v multi_file_options \<times> (string \<times> logical_type) list \<times> reader_bind) throws)
     \<Rightarrow> ((string \<times> logical_type) list \<Rightarrow> column_def list)
     \<Rightarrow> 'v multi_file_options \<Rightarrow> (string \<times> logical_type) list \<Rightarrow> reader_bind \<Rightarrow> ('s, FfiLogPath list) file_list
     \<Rightarrow> ('v multi_file_options \<times> (string \<times> logical_type) list \<times> reader_bind) throws \<times> ('s, FfiLogPath list) file_list" where
  "BindOptions le re core_op columns_from options columns bind fl =
    (let options0 = options\<lparr>mo_auto_detect_hive_partitioning := False, mo_hive_partitioning := False, mo_union_by_name := False\<rparr>;
         table_columns = length columns
     in and_then (core_op options0 columns bind, fl) (\<lambda>(options1, columns1, bind1) fl.
        (let schema = columns_from columns1
         in if length schema < table_columns then (Inl bounds_error, fl)
            else
             (let bind2 = bind1\<lparr>rb_schema := map (\<lambda>c. set_default (Some (cd_type c)) c) (take table_columns schema) @ drop table_columns schema\<rparr>
              in and_then (case map_of (mo_custom_options options1) ''pushdown_partition_info'' of
                     None \<Rightarrow> Inr True | Some v \<Rightarrow> get_bool (le_values le) v, fl) (\<lambda>pushdown fl.
                 if pushdown then
                   and_then (GetPartitionColumns le fl) (\<lambda>partitions fl.
                   and_then (foldr_throws (register_partition re columns1) (bind2, options1) partitions, fl) (\<lambda>(bind3, options2) fl.
                   (Inr (options2, columns1, bind3), fl)))
                 else (Inr (options1, columns1, bind2), fl))))))"

section \<open>Constants of a file\<close>

definition column_at :: "column_def list \<Rightarrow> nat \<Rightarrow> column_def throws" where
  "column_at columns i = (if length columns \<le> i then Inl bounds_error else Inr (columns ! i))"

definition base_constant ::
  "reader_env \<Rightarrow> bool \<Rightarrow> reader_bind \<Rightarrow> column_def list \<Rightarrow> reader_data \<Rightarrow> nat \<Rightarrow> reader_constant option throws" where
  "base_constant re union_by_name bind global_columns rd column_id =
    (if rb_filename_idx bind = Some column_id \<or> column_id = re_filename_id re then Inr (Some (RC_Varchar (rd_filename rd)))
     else if column_id = re_file_index_id re then Inr (Some (RC_Ubigint (rd_file_list_idx rd)))
     else if column_id = DELTA_FILE_NUMBER_COLUMN_ID then Inr (Some (RC_Ubigint 7))
     else if re_is_virtual re column_id then Inr None
     else if union_by_name then
       bindr (column_at global_columns column_id) (\<lambda>column.
       if list_ex (\<lambda>c. re_ident_eq re (cd_name c) (cd_name column)) (rd_columns rd) then Inr None
       else Inr (Some (RC_Null (cd_type column))))
     else Inr None)"

text \<open>The constants are added in the order of the requested columns.\<close>

definition add_constants :: "(nat \<Rightarrow> reader_constant option throws) \<Rightarrow> nat list \<Rightarrow> reader_data \<Rightarrow> reader_data throws" where
  "add_constants constant global_column_ids rd =
    foldr_throws (\<lambda>rd (i, column_id). bindr (constant column_id) (\<lambda>c.
      Inr (case c of None \<Rightarrow> rd | Some v \<Rightarrow> rd\<lparr>rd_constant_map := rd_constant_map rd @ [(i, v)]\<rparr>)))
      rd (List.enumerate 0 global_column_ids)"

definition FinalizeBindBaseOverride ::
  "reader_env \<Rightarrow> bool \<Rightarrow> reader_bind \<Rightarrow> column_def list \<Rightarrow> nat list \<Rightarrow> reader_data \<Rightarrow> reader_data throws" where
  "FinalizeBindBaseOverride re union_by_name bind global_columns global_column_ids rd =
    add_constants (base_constant re union_by_name bind global_columns rd) global_column_ids rd"

definition partition_constant ::
  "reader_env \<Rightarrow> reader_bind \<Rightarrow> column_def list \<Rightarrow> (string \<times> dvalue) list \<Rightarrow> nat \<Rightarrow> reader_constant option throws" where
  "partition_constant re bind global_columns partition_map col_id =
    (if re_is_virtual re col_id \<or> rb_filename_idx bind = Some col_id then Inr None
     else bindr (column_at global_columns col_id) (\<lambda>column.
       case find (\<lambda>e. CIEquals (re_su re) (fst e) (cd_name column)) partition_map of
         None \<Rightarrow> Inr None
       | Some e \<Rightarrow> bindr (re_default_cast re (snd e) (cd_type column)) (\<lambda>v. Inr (Some (RC_Value v)))))"

definition FinalizeBind ::
  "reader_env \<Rightarrow> bool \<Rightarrow> reader_bind \<Rightarrow> column_def list \<Rightarrow> nat list \<Rightarrow> ('s, 'l) file_list \<Rightarrow> reader_data \<Rightarrow> reader_data throws" where
  "FinalizeBind re union_by_name bind global_columns global_column_ids fl rd =
    bindr (FinalizeBindBaseOverride re union_by_name bind global_columns global_column_ids rd) (\<lambda>rd1.
    bindr (GetMetaData fl (rd_file_list_idx rd)) (\<lambda>md.
    bindr (if md_partition_map md = [] then Inr rd1
           else add_constants (partition_constant re bind global_columns (md_partition_map md)) global_column_ids rd1) (\<lambda>rd2.
    Inr (case md_selection_vector md of None \<Rightarrow> rd2 | Some dv \<Rightarrow> rd2\<lparr>rd_deletion_filter := Some dv\<rparr>))))"

section \<open>Columns of a file\<close>

definition IsNaiveTimestamp :: "logical_type \<Rightarrow> bool" where
  "IsNaiveTimestamp type \<longleftrightarrow> type = TIMESTAMP \<or> type = TIMESTAMP_NS"

text \<open>A cast is replaced by one with DuckDB's built-in cast functions, around the same child.\<close>

fun CastNaiveTimestampsAsUtc :: "reader_env \<Rightarrow> bound_expr \<Rightarrow> bound_expr" where
  "CastNaiveTimestampsAsUtc re (BE_Cast source target is_try child) =
    (if re_type_contains re source IsNaiveTimestamp \<and> re_type_contains re target (\<lambda>t. t = TIMESTAMP_TZ)
     then BE_Default_Cast target is_try (CastNaiveTimestampsAsUtc re child)
     else BE_Cast source target is_try (CastNaiveTimestampsAsUtc re child))"
| "CastNaiveTimestampsAsUtc re (BE_Default_Cast target is_try child) = BE_Default_Cast target is_try (CastNaiveTimestampsAsUtc re child)"
| "CastNaiveTimestampsAsUtc re (BE_Node f children) = BE_Node f (map (CastNaiveTimestampsAsUtc re) children)"

datatype DeltaColumnMappingPolicy = POLICY_STRICT | POLICY_LENIENT

definition ReadColumnMappingPolicy :: "reader_env \<Rightarrow> string \<Rightarrow> DeltaColumnMappingPolicy throws" where
  "ReadColumnMappingPolicy re setting =
    (let policy = Lower (re_su re) setting
     in if policy = ''strict'' then Inr POLICY_STRICT
        else if policy = ''lenient'' then Inr POLICY_LENIENT
        else Inl (Err InvalidInput (''delta_column_mapping_policy must be 'strict' or 'lenient', not '%s'' @ [CHR 0x27]) [setting]))"

text \<open>A column without a default expression cannot be copied; the kernel's columns have one.\<close>

fun ToBaseColdef :: "column_def \<Rightarrow> column_def throws" where
  "ToBaseColdef (ColumnDef n t cs nl cv p f i d) =
    bindr (mapr ToBaseColdef cs) (\<lambda>cs1.
    case d of
      None \<Rightarrow> Inl (Err UndefinedBehaviour ''no default expression'' [n])
    | Some e \<Rightarrow> Inr (ColumnDef n t cs1 True [] [] None i (Some e)))"

definition ConvertToBase :: "column_def list \<Rightarrow> column_def list throws" where
  "ConvertToBase cols = mapr ToBaseColdef cols"

fun resolve_by_names ::
  "reader_env \<Rightarrow> column_def list \<Rightarrow> column_def list \<Rightarrow> string \<Rightarrow> bool list \<Rightarrow> column_def list throws" where
  "resolve_by_names re scan_columns file_columns filename [] =
    Inl (Err InvalidInput ''File '%s' has no parquet field ids, and its column names match neither the physical nor the logical names of the table's schema'' [filename])"
| "resolve_by_names re scan_columns file_columns filename (physical # rungs) =
    (if CoveredByNames (re_su re) file_columns scan_columns physical
     then ConvertToBase (map (UseNameIdentifiers physical) scan_columns)
     else resolve_by_names re scan_columns file_columns filename rungs)"

definition ResolveFileWithoutFieldIds ::
  "reader_env \<Rightarrow> string \<Rightarrow> column_def list \<Rightarrow> column_def list \<Rightarrow> string \<Rightarrow> column_def list throws" where
  "ResolveFileWithoutFieldIds re setting scan_columns file_columns filename =
    bindr (ReadColumnMappingPolicy re setting) (\<lambda>policy.
    bindr (throw_if (policy = POLICY_STRICT)
      (Err InvalidInput ''File '%s' has no parquet field ids, which the table's column mapping mode 'id' requires. Set delta_column_mapping_policy = 'lenient' to match its columns by name instead'' [filename])) (\<lambda>_.
    resolve_by_names re scan_columns file_columns filename [True, False]))"

text \<open>How the columns of a file are matched with the table's: the table's columns with what identifies them, the mapping mode and
  the file's columns.\<close>

definition map_file_columns ::
  "reader_env \<Rightarrow> string \<Rightarrow> bool \<Rightarrow> mapping_mode \<Rightarrow> column_def list \<Rightarrow> column_def list \<Rightarrow> reader_data
     \<Rightarrow> (column_def list \<times> mapping_mode \<times> reader_data) throws" where
  "map_file_columns re setting resolves_by_id mode scan_columns table_columns rd =
    (if \<not> resolves_by_id then Inr (table_columns, mode, rd)
     else if AllHaveFieldIds (rd_columns rd) then
       bindr (mapr (FillContainerChildIds (re_get_int32 re)) (rd_columns rd)) (\<lambda>cols.
       Inr (table_columns, BY_FIELD_ID, rd\<lparr>rd_columns := cols\<rparr>))
     else
       bindr (ResolveFileWithoutFieldIds re setting scan_columns (rd_columns rd) (rd_filename rd)) (\<lambda>cols.
       Inr (cols, mode, rd)))"

definition rewrite_row_number :: "reader_env \<Rightarrow> reader_bind \<Rightarrow> nat list \<Rightarrow> nat list" where
  "rewrite_row_number re bind ids =
    (case rb_file_row_number_idx bind of
       None \<Rightarrow> ids
     | Some i \<Rightarrow> map (\<lambda>column_id. if column_id = i then re_file_row_number_id re else column_id) ids)"

text \<open>\<open>create_mapping\<close> is MultiFileReader::CreateMapping, which fills the expressions of the reader.\<close>

definition InitializeReader ::
  "('s, 'l, 'c, 'e, 'p, 'v) list_env \<Rightarrow> reader_env \<Rightarrow> (column_def list \<Rightarrow> nat list \<Rightarrow> mapping_mode \<Rightarrow> reader_data \<Rightarrow> ('r \<times> reader_data) throws)
     \<Rightarrow> string \<Rightarrow> bool \<Rightarrow> reader_bind \<Rightarrow> column_def list \<Rightarrow> nat list \<Rightarrow> reader_data \<Rightarrow> ('s, 'l) file_list
     \<Rightarrow> ('r \<times> reader_data) throws \<times> ('s, 'l) file_list" where
  "InitializeReader le re create_mapping setting union_by_name bind global_columns global_column_ids rd fl =
    and_then (GetLazyLoadedGlobalColumns le fl) (\<lambda>scan_columns fl.
    and_then (ConvertToBase scan_columns, fl) (\<lambda>kernel_columns fl.
    if length global_columns < length kernel_columns then (Inl bounds_error, fl)
    else
     (let column_ids = rewrite_row_number re bind global_column_ids
      in and_then (FinalizeBind re union_by_name bind (kernel_columns @ drop (length kernel_columns) global_columns) column_ids fl rd, fl) (\<lambda>rd1 fl.
         and_then (ResolvesByFieldId le fl) (\<lambda>by_id fl.
         (bindr (map_file_columns re setting by_id (rb_mapping bind) scan_columns kernel_columns rd1) (\<lambda>(table_columns, mode, rd2).
          bindr (create_mapping table_columns column_ids mode rd2) (\<lambda>(result, rd3).
          Inr (result, rd3\<lparr>rd_expressions := map (CastNaiveTimestampsAsUtc re) (rd_expressions rd3),
            rd_expression_map := map (\<lambda>(i, e). (i, CastNaiveTimestampsAsUtc re e)) (rd_expression_map rd3)\<rparr>))), fl))))))"

section \<open>Deleted rows\<close>

lemma delete_filter_loop_spec:
  assumes "i \<le> n" "n \<le> length sel" "take cur sel = filter P [0..<i]" "cur = length (filter P [0..<i])"
    and "P = row_selected dv start"
  shows "\<exists>sel'. delete_filter_loop dv start n i sel cur = Inr (length (filter P [0..<n]), sel') \<and>
    take (length (filter P [0..<n])) sel' = filter P [0..<n]"
  using assms
proof (induction "n - i" arbitrary: i sel cur)
  case 0
  then show ?case by (simp add: delete_filter_loop.simps)
next
  case (Suc k)
  then have i: "i < n" by simp
  have "cur \<le> i" using Suc.prems(4) length_filter_le [of P "[0..<i]"] by simp
  then have cur: "cur < length sel" using i Suc.prems(2) by simp
  let ?sel = "sel[cur := i]" and ?cur = "if P i then Suc cur else cur"
  have "take ?cur ?sel = filter P [0..<Suc i]"
    using Suc.prems(3) cur by (simp add: take_Suc_conv_app_nth)
  moreover have "?cur = length (filter P [0..<Suc i])" using Suc.prems(4) by simp
  ultimately have "\<exists>sel'. delete_filter_loop dv start n (Suc i) ?sel ?cur = Inr (length (filter P [0..<n]), sel') \<and>
      take (length (filter P [0..<n])) sel' = filter P [0..<n]"
    using Suc.hyps(1) [of "Suc i" ?sel ?cur] Suc.hyps(2) Suc.prems(2,5) i by simp
  then show ?case using i cur Suc.prems(5) by (simp add: delete_filter_loop.simps [of dv start n i])
qed

lemma row_selected_nat:
  assumes "unat start + n \<le> 2 ^ 64" "i < n"
  shows "row_selected dv start i \<longleftrightarrow> length dv \<le> unat start + i \<or> dv ! (unat start + i)"
proof -
  have "unat (of_nat i + start) = i + unat start" using assms by (simp add: unat_word_ariths unat_of_nat)
  then show ?thesis by (simp add: row_selected_def add.commute)
qed

text \<open>C29. The deletion vector of a file removes exactly the deleted rows: for a chunk of rows that fits a vector, the filter never writes
  behind the selection vector, and selects, in their order, the rows the vector keeps and all rows behind its end.\<close>

theorem DeltaDeleteFilter_selects_live_rows:
  assumes "row_count \<le> vector_size" and "unat start + row_count \<le> 2 ^ 64"
  shows "\<exists>n sel. DeltaDeleteFilter_Filter vector_size dv start row_count result_sel = Inr (n, sel) \<and> n \<le> row_count \<and>
    take n sel = filter (\<lambda>i. length dv \<le> unat start + i \<or> dv ! (unat start + i)) [0..<row_count]"
proof (cases "row_count = 0")
  case False
  let ?P = "row_selected dv start"
  have "filter ?P [0..<row_count] = filter (\<lambda>i. length dv \<le> unat start + i \<or> dv ! (unat start + i)) [0..<row_count]"
    by (rule filter_cong) (use row_selected_nat [OF assms(2)] in auto)
  moreover have "length (filter ?P [0..<row_count]) \<le> row_count" using length_filter_le [of ?P "[0..<row_count]"] by simp
  ultimately show ?thesis
    using delete_filter_loop_spec [of 0 row_count "replicate vector_size 0" 0 ?P dv start] assms(1) False
    by (auto simp: DeltaDeleteFilter_Filter_def)
qed (simp add: DeltaDeleteFilter_Filter_def)

theorem DeltaDeleteFilter_selects_live_rows_witness:
  "\<exists>n sel. DeltaDeleteFilter_Filter 4 [True, False, False] 1 3 [] = Inr (n, sel) \<and> take n sel = [2]"
proof -
  have "filter (\<lambda>i. length [True, False, False] \<le> unat (1 :: 64 word) + i \<or> [True, False, False] ! (unat (1 :: 64 word) + i)) [0..<3] = [2]"
    by code_simp
  then show ?thesis using DeltaDeleteFilter_selects_live_rows [of 3 4 1 "[True, False, False]" "[]"] by auto
qed

section \<open>Values from the log\<close>

lemma add_constants_loop:
  assumes "foldr_throws (\<lambda>rd (i, column_id). bindr (constant column_id) (\<lambda>c.
      Inr (case c of None \<Rightarrow> rd | Some v \<Rightarrow> rd\<lparr>rd_constant_map := rd_constant_map rd @ [(i, v)]\<rparr>)))
      rd (List.enumerate n ids) = Inr rd1"
  shows "\<exists>cs. rd1 = rd\<lparr>rd_constant_map := rd_constant_map rd @ cs\<rparr> \<and>
    (\<forall>i v. (i, v) \<in> set cs \<longleftrightarrow> (\<exists>k < length ids. i = n + k \<and> constant (ids ! k) = Inr (Some v)))"
  using assms
proof (induction ids arbitrary: n rd)
  case (Cons column_id ids)
  then obtain c where c: "constant column_id = Inr c" by (auto simp: bindr_eq_Inr)
  define rd2 where "rd2 = (case c of None \<Rightarrow> rd | Some v \<Rightarrow> rd\<lparr>rd_constant_map := rd_constant_map rd @ [(n, v)]\<rparr>)"
  from Cons.prems c Cons.IH [of rd2 "Suc n"] obtain cs where cs: "rd1 = rd2\<lparr>rd_constant_map := rd_constant_map rd2 @ cs\<rparr>"
      "\<forall>i v. (i, v) \<in> set cs \<longleftrightarrow> (\<exists>k < length ids. i = Suc n + k \<and> constant (ids ! k) = Inr (Some v))"
    by (auto simp: rd2_def)
  have "rd1 = rd\<lparr>rd_constant_map := rd_constant_map rd @ ((case c of None \<Rightarrow> [] | Some v \<Rightarrow> [(n, v)]) @ cs)\<rparr>"
    using cs(1) by (auto simp: rd2_def split: option.splits)
  moreover have "\<forall>i v. (i, v) \<in> set ((case c of None \<Rightarrow> [] | Some v \<Rightarrow> [(n, v)]) @ cs) \<longleftrightarrow>
      (\<exists>k < length (column_id # ids). i = n + k \<and> constant ((column_id # ids) ! k) = Inr (Some v))"
    using cs(2) c by (auto simp: less_Suc_eq_0_disj split: option.splits)
  ultimately show ?case by blast
qed (auto intro!: exI [of _ "[]"])

lemma add_constants_spec:
  assumes "add_constants constant ids rd = Inr rd1"
  obtains cs where "rd1 = rd\<lparr>rd_constant_map := rd_constant_map rd @ cs\<rparr>"
    "\<And>i v. (i, v) \<in> set cs \<longleftrightarrow> i < length ids \<and> constant (ids ! i) = Inr (Some v)"
proof -
  from add_constants_loop [OF assms [unfolded add_constants_def]] obtain cs where
    "rd1 = rd\<lparr>rd_constant_map := rd_constant_map rd @ cs\<rparr>"
    "\<forall>i v. (i, v) \<in> set cs \<longleftrightarrow> (\<exists>k < length ids. i = 0 + k \<and> constant (ids ! k) = Inr (Some v))" by blast
  then show ?thesis using that [of cs] by auto
qed

definition table_column :: "reader_env \<Rightarrow> reader_bind \<Rightarrow> nat \<Rightarrow> bool" where
  "table_column re bind column_id \<longleftrightarrow> \<not> re_is_virtual re column_id \<and> rb_filename_idx bind \<noteq> Some column_id \<and>
     column_id \<noteq> re_filename_id re \<and> column_id \<noteq> re_file_index_id re \<and> column_id \<noteq> DELTA_FILE_NUMBER_COLUMN_ID"

lemma FinalizeBind_constants:
  assumes "FinalizeBind re False bind global_columns ids fl rd = Inr rd1" and "GetMetaData fl (rd_file_list_idx rd) = Inr md"
  shows "(\<exists>cs. rd1 = rd\<lparr>rd_constant_map := rd_constant_map rd @ cs, rd_deletion_filter := rd_deletion_filter rd1\<rparr> \<and>
      (\<forall>i < length ids. table_column re bind (ids ! i) \<longrightarrow> (\<forall>v. (i, v) \<in> set cs \<longleftrightarrow>
         partition_constant re bind global_columns (md_partition_map md) (ids ! i) = Inr (Some v) \<and> md_partition_map md \<noteq> []))) \<and>
    rd_deletion_filter rd1 = (case md_selection_vector md of None \<Rightarrow> rd_deletion_filter rd | Some dv \<Rightarrow> Some dv)"
proof -
  obtain rd2 rd3 where rd2: "add_constants (base_constant re False bind global_columns rd) ids rd = Inr rd2"
    and rd3: "(if md_partition_map md = [] then Inr rd2
       else add_constants (partition_constant re bind global_columns (md_partition_map md)) ids rd2) = Inr rd3"
    and rd1: "rd1 = (case md_selection_vector md of None \<Rightarrow> rd3 | Some dv \<Rightarrow> rd3\<lparr>rd_deletion_filter := Some dv\<rparr>)"
    using assms by (auto simp: FinalizeBind_def FinalizeBindBaseOverride_def bindr_eq_Inr)
  obtain cs where cs: "rd2 = rd\<lparr>rd_constant_map := rd_constant_map rd @ cs\<rparr>"
      "\<And>i v. (i, v) \<in> set cs \<longleftrightarrow> i < length ids \<and> base_constant re False bind global_columns rd (ids ! i) = Inr (Some v)"
    using add_constants_spec [OF rd2] by metis
  have own: "\<And>i v. table_column re bind (ids ! i) \<Longrightarrow> (i, v) \<notin> set cs"
    by (simp add: cs(2) base_constant_def table_column_def)
  obtain ps where ps: "rd3 = rd2\<lparr>rd_constant_map := rd_constant_map rd2 @ ps\<rparr>"
      "\<And>i v. (i, v) \<in> set ps \<longleftrightarrow> i < length ids \<and> partition_constant re bind global_columns (md_partition_map md) (ids ! i) = Inr (Some v) \<and> md_partition_map md \<noteq> []"
  proof (cases "md_partition_map md = []")
    case True
    then show ?thesis using that [of "[]"] rd3 by simp
  next
    case False
    then have "add_constants (partition_constant re bind global_columns (md_partition_map md)) ids rd2 = Inr rd3" using rd3 by simp
    then obtain qs where "rd3 = rd2\<lparr>rd_constant_map := rd_constant_map rd2 @ qs\<rparr>"
        "\<And>i v. (i, v) \<in> set qs \<longleftrightarrow> i < length ids \<and> partition_constant re bind global_columns (md_partition_map md) (ids ! i) = Inr (Some v)"
      using add_constants_spec by metis
    then show ?thesis using that [of qs] False by simp
  qed
  have "rd1 = rd\<lparr>rd_constant_map := rd_constant_map rd @ (cs @ ps), rd_deletion_filter := rd_deletion_filter rd1\<rparr>"
    using rd1 ps(1) cs(1) by (auto split: option.splits)
  moreover have "rd_deletion_filter rd1 = (case md_selection_vector md of None \<Rightarrow> rd_deletion_filter rd | Some dv \<Rightarrow> Some dv)"
    using rd1 ps(1) cs(1) by (auto split: option.splits)
  ultimately show ?thesis using own ps(2) by (intro conjI exI [of _ "cs @ ps"]) auto
qed

text \<open>C30. What a reader of a file gets from the log: a requested column of the table is a constant of the file exactly if the log has a
  partition value for it, by its name in any case, and then the constant is that value as the column's type; and the deletion
  vector of the file is the reader's filter. The path of the file plays no part in it.\<close>

theorem FinalizeBind_takes_values_from_the_log:
  assumes "FinalizeBind re False bind global_columns ids fl rd = Inr rd1" and "GetMetaData fl (rd_file_list_idx rd) = Inr md"
    and "rd_constant_map rd = []" "i < length ids" "table_column re bind (ids ! i)"
  shows "(\<forall>v. (i, v) \<in> set (rd_constant_map rd1) \<longleftrightarrow>
      (\<exists>name value typed. find (\<lambda>e. CIEquals (re_su re) (fst e) (cd_name (global_columns ! (ids ! i)))) (md_partition_map md) = Some (name, value) \<and>
         ids ! i < length global_columns \<and> re_default_cast re value (cd_type (global_columns ! (ids ! i))) = Inr typed \<and> v = RC_Value typed)) \<and>
    rd_deletion_filter rd1 = (case md_selection_vector md of None \<Rightarrow> rd_deletion_filter rd | Some dv \<Rightarrow> Some dv)"
proof -
  from FinalizeBind_constants [OF assms(1,2)] obtain cs where
      cs: "rd1 = rd\<lparr>rd_constant_map := rd_constant_map rd @ cs, rd_deletion_filter := rd_deletion_filter rd1\<rparr>"
      "\<And>v. (i, v) \<in> set cs \<longleftrightarrow> partition_constant re bind global_columns (md_partition_map md) (ids ! i) = Inr (Some v) \<and> md_partition_map md \<noteq> []"
    and del: "rd_deletion_filter rd1 = (case md_selection_vector md of None \<Rightarrow> rd_deletion_filter rd | Some dv \<Rightarrow> Some dv)"
    using assms(4,5) by blast
  have "rd_constant_map rd1 = cs" using arg_cong [OF cs(1), of rd_constant_map] assms(3) by simp
  then have "(i, v) \<in> set (rd_constant_map rd1) \<longleftrightarrow>
      (\<exists>name value typed. find (\<lambda>e. CIEquals (re_su re) (fst e) (cd_name (global_columns ! (ids ! i)))) (md_partition_map md) = Some (name, value) \<and>
         ids ! i < length global_columns \<and> re_default_cast re value (cd_type (global_columns ! (ids ! i))) = Inr typed \<and> v = RC_Value typed)" for v
    using assms(5) by (auto simp: cs(2) partition_constant_def table_column_def column_at_def bindr_eq_Inr split: option.splits)
  then show ?thesis using del by blast
qed

section \<open>Matching the columns of a file\<close>

fun by_name_only :: "column_def \<Rightarrow> bool" where
  "by_name_only (ColumnDef n t cs nl cv p f i d) \<longleftrightarrow> (\<forall>k. i \<noteq> Id_Integer k) \<and> list_all by_name_only cs"

lemma by_name_only_alt: "by_name_only c \<longleftrightarrow> (\<forall>k. cd_identifier c \<noteq> Id_Integer k) \<and> list_all by_name_only (cd_children c)"
  by (cases c) simp

lemma UseNameIdentifiers_by_name: "by_name_only (UseNameIdentifiers physical c) \<and> cd_name (UseNameIdentifiers physical c) = cd_name c"
  by (induction physical c rule: UseNameIdentifiers.induct) (auto simp: list_all_iff)

lemma ToBaseColdef_by_name: "ToBaseColdef c = Inr b \<Longrightarrow> by_name_only c \<Longrightarrow> by_name_only b \<and> cd_name b = cd_name c"
proof (induction c arbitrary: b rule: ToBaseColdef.induct)
  case (1 n t cs nl cv p f i d)
  then obtain cs1 e where "mapr ToBaseColdef cs = Inr cs1" "d = Some e" "b = ColumnDef n t cs1 True [] [] None i (Some e)"
    by (auto simp: bindr_eq_Inr split: option.splits)
  moreover have "by_name_only (cs1 ! k)" if "k < length cs1" for k
    using that calculation(1) "1.IH" [of "cs ! k" "cs1 ! k"] "1.prems"(2)
    by (auto simp: mapr_eq_Inr list_all2_conv_all_nth list_all_length)
  ultimately show ?case using "1.prems"(2) by (simp add: list_all_length)
qed

lemma ConvertToBase_by_name:
  assumes "ConvertToBase (map (UseNameIdentifiers physical) cols) = Inr base"
  shows "list_all by_name_only base \<and> map cd_name base = map cd_name cols"
proof -
  have all: "list_all2 (\<lambda>c b. ToBaseColdef c = Inr b) (map (UseNameIdentifiers physical) cols) base"
    using assms by (simp add: ConvertToBase_def mapr_eq_Inr)
  then have "\<forall>i < length base. by_name_only (base ! i) \<and> cd_name (base ! i) = cd_name (cols ! i)" "length base = length cols"
    using ToBaseColdef_by_name UseNameIdentifiers_by_name by (auto simp: list_all2_conv_all_nth)
  then show ?thesis by (auto simp: list_all_length intro: nth_equalityI)
qed

lemma map_file_columns_spec:
  assumes "map_file_columns re setting True mode scan_columns table_columns rd = Inr (cols, mode1, rd1)"
  shows "(AllHaveFieldIds (rd_columns rd) \<and> mode1 = BY_FIELD_ID \<and> cols = table_columns) \<or>
    (\<not> AllHaveFieldIds (rd_columns rd) \<and> mode1 = mode \<and> rd1 = rd \<and> Lower (re_su re) setting = ''lenient'' \<and>
     list_all by_name_only cols \<and> map cd_name cols = map cd_name scan_columns \<and>
     (\<exists>physical. CoveredByNames (re_su re) (rd_columns rd) scan_columns physical))"
proof (cases "AllHaveFieldIds (rd_columns rd)")
  case True
  then show ?thesis using assms by (auto simp: map_file_columns_def bindr_eq_Inr)
next
  case False
  then have r: "ResolveFileWithoutFieldIds re setting scan_columns (rd_columns rd) (rd_filename rd) = Inr cols" "mode1 = mode" "rd1 = rd"
    using assms by (auto simp: map_file_columns_def bindr_eq_Inr)
  from r(1) obtain policy where "ReadColumnMappingPolicy re setting = Inr policy" "policy \<noteq> POLICY_STRICT"
    and n: "resolve_by_names re scan_columns (rd_columns rd) (rd_filename rd) [True, False] = Inr cols"
    by (auto simp: ResolveFileWithoutFieldIds_def bindr_eq_Inr simp del: resolve_by_names.simps)
  then have "Lower (re_su re) setting = ''lenient''"
    by (auto simp: ReadColumnMappingPolicy_def Let_def split: if_splits)
  moreover obtain physical where "CoveredByNames (re_su re) (rd_columns rd) scan_columns physical"
      "ConvertToBase (map (UseNameIdentifiers physical) scan_columns) = Inr cols"
    using n by (auto split: if_splits)
  ultimately show ?thesis using False r(2,3) ConvertToBase_by_name by blast
qed


section \<open>A scan and an attached table\<close>

definition bound_list_of ::
  "('s, 'l, 'c, 'e, 'p, 'v) list_env \<Rightarrow> ('s, 'l) file_list throws \<Rightarrow> (('s, 'l) file_list \<Rightarrow> (string \<times> logical_type) list throws \<times> ('s, 'l) file_list)
     \<Rightarrow> ((string \<times> logical_type) list \<times> ('s, 'l) file_list) throws" where
  "bound_list_of le made bind_list = bindr made (\<lambda>fl. case bind_list fl of (Inl e, _) \<Rightarrow> Inl e | (Inr cols, fl1) \<Rightarrow> Inr (cols, fl1))"

text \<open>C32. A scan of a path reads as the attached table does: with the version, the log tail and the greatest catalog version given as options
  of \<open>delta_scan\<close>, the bound list of files is the one the schema entry makes for a catalog attached with them, errors included.\<close>

theorem scan_reads_as_attached:
  assumes "dr_snapshot dr = None" and "dr_requested dr = (if version = INVALID_INDEX then LatestSpec else FromVersion version)"
    and "map_of (mo_custom_options options) ''log_tail'' = catalog_log_tail cat"
    and "case map_of (mo_custom_options options) ''max_catalog_version'' of
        None \<Rightarrow> max_catalog_version cat < 0
      | Some v \<Rightarrow> get_int64 (le_values (sv_list se)) v = Inr (max_catalog_version cat) \<and> 0 \<le> max_catalog_version cat"
  shows "bound_list_of (sv_list se) (DR_CreateFileList (sv_list se) dr [cat_path cat]) (DR_Bind (sv_list se) (sv_log se) dr options) =
    bound_list_of (sv_list se) (CreateFileList se cat version None) (Bind (sv_list se))"
proof (cases "new_file_list (sv_list se) (cat_path cat) INVALID_INDEX None")
  case (Inl e)
  then have "new_file_list (sv_list se) (cat_path cat) version None = Inl e"
    by (auto simp: new_file_list_def bindr_def split: sum.splits if_splits)
  then show ?thesis using Inl assms(1) by (simp add: bound_list_of_def DR_CreateFileList_def CreateFileList_def)
next
  case (Inr fl)
  have made: "new_file_list (sv_list se) (cat_path cat) version None = Inr (fl\<lparr>fl_version := version\<rparr>)"
    using Inr by (auto simp: new_file_list_def bindr_eq_Inr split: if_splits)
  have fl: "fl_version fl = INVALID_INDEX" "\<not> fl_has_requested_timestamp fl" "\<not> fl_initialized_snapshot fl"
    using Inr by (auto simp: new_file_list_def bindr_eq_Inr split: if_splits)
  have pin: "(if IsLatest (dr_requested dr) then (Inr (), fl) else Pin (sv_list se) fl (dr_requested dr)) = (Inr (), fl\<lparr>fl_version := version\<rparr>)"
    using fl by (cases fl) (auto simp: assms(2) IsLatest_def LatestSpec_def FromVersion_def Pin_def IsTimestamp_def IsVersion_def GetVersion_def)
  let ?fl = "fl\<lparr>fl_version := version\<rparr>"
  have opts: "take_scan_options (le_values (sv_list se)) (sv_log se) options ?fl =
      (case CreateFileList se cat version None of Inl e \<Rightarrow> (Inl e, ?fl) | Inr fl1 \<Rightarrow> (Inr (), fl1))"
    using assms(3,4) made
    by (cases "catalog_log_tail cat")
      (auto simp: take_scan_options_def CreateFileList_def bindr_def split: option.splits sum.splits)
  show ?thesis
    by (simp add: bound_list_of_def DR_CreateFileList_def Inr assms(1) DR_Bind_def pin opts split: sum.splits)
qed

section \<open>Witnesses\<close>

text \<open>A table with one column, mapped by the id 1 and partitioned by it, and a file of it without field ids.\<close>

definition reader_example :: reader_env where
  "reader_example = \<lparr>re_su = ascii_string_util, re_is_virtual = (\<lambda>i. 1000 \<le> i), re_filename_id = 1000, re_file_index_id = 1001,
     re_file_row_number_id = 1002, re_ident_eq = (=), re_default_cast = (\<lambda>v t. Inr v), re_get_int32 = (\<lambda>s. Inr 0),
     re_type_contains = (\<lambda>t p. p t)\<rparr>"

definition reader_example_column :: column_def where
  "reader_example_column = ColumnDef ''p'' VARCHAR [] True [] ''col-p'' (Some 1) (Id_Integer 1) (Some VARCHAR)"

definition reader_example_list :: "(idx_t, unit) file_list" where
  "reader_example_list = example_list\<lparr>fl_initialized_snapshot := True, fl_initialized_scan := True, fl_resolve_by_field_id := True,
     fl_lazy_loaded_schema := [reader_example_column],
     fl_metadata := [new_file_metadata\<lparr>md_partition_map := [(''P'', DV_Varchar ''x'')], md_selection_vector := Some [True, False]\<rparr>]\<rparr>"

definition reader_example_bind :: reader_bind where
  "reader_example_bind = \<lparr>rb_filename_idx = None, rb_file_row_number_idx = None, rb_mapping = BY_NAME, rb_hive_partitioning_indexes = [], rb_schema = []\<rparr>"

definition reader_example_data :: reader_data where
  "reader_example_data = \<lparr>rd_filename = ''/t/f'', rd_file_list_idx = 0, rd_columns = [new_column ''col-p'' VARCHAR True], rd_constant_map = [],
     rd_deletion_filter = None, rd_expressions = [], rd_expression_map = []\<rparr>"

lemmas reader_example_defs = reader_example_def reader_example_column_def reader_example_list_def reader_example_bind_def reader_example_data_def
  new_column_def new_file_metadata_def DELTA_FILE_NUMBER_COLUMN_ID_def

lemma reader_example_names: "CIEquals ascii_string_util ''P'' ''p''" "CIEquals ascii_string_util ''col-p'' ''col-p''"
  "Lower ascii_string_util ''Lenient'' = ''lenient''"
  by (simp_all add: ascii_string_util_def)

lemma reader_example_finalized:
  "FinalizeBind reader_example False reader_example_bind [reader_example_column] [0] reader_example_list reader_example_data =
     Inr (reader_example_data\<lparr>rd_constant_map := [(0, RC_Value (DV_Varchar ''x''))], rd_deletion_filter := Some [True, False]\<rparr>)"
  "GetMetaData reader_example_list (rd_file_list_idx reader_example_data) =
     Inr (new_file_metadata\<lparr>md_partition_map := [(''P'', DV_Varchar ''x'')], md_selection_vector := Some [True, False]\<rparr>)"
  "rd_constant_map reader_example_data = []" "table_column reader_example reader_example_bind ([0] ! 0)"
  by (simp_all add: FinalizeBind_def FinalizeBindBaseOverride_def add_constants_def base_constant_def partition_constant_def column_at_def
      GetMetaData_def table_column_def reader_example_defs reader_example_names)

theorem FinalizeBind_takes_values_from_the_log_witness:
  "\<exists>rd. FinalizeBind reader_example False reader_example_bind [reader_example_column] [0] reader_example_list reader_example_data = Inr rd \<and>
     (0, RC_Value (DV_Varchar ''x'')) \<in> set (rd_constant_map rd) \<and> rd_deletion_filter rd = Some [True, False]"
  using FinalizeBind_takes_values_from_the_log [OF reader_example_finalized(1-3) _ reader_example_finalized(4)] reader_example_finalized(1)
  by simp

definition reader_example_run :: "((column_def list \<times> mapping_mode) \<times> reader_data) throws \<times> (idx_t, unit) file_list" where
  "reader_example_run = InitializeReader example_list_env reader_example (\<lambda>cols ids mode rd. Inr ((cols, mode), rd)) ''Lenient'' False
     reader_example_bind [reader_example_column] [0] reader_example_data reader_example_list"

lemma reader_example_initialized:
  "(case fst reader_example_run of Inl _ \<Rightarrow> False | Inr _ \<Rightarrow> True)" "fl_resolve_by_field_id (snd reader_example_run)"
  "\<not> AllHaveFieldIds (rd_columns reader_example_data)"
  by (simp_all add: reader_example_run_def InitializeReader_def GetLazyLoadedGlobalColumns_def ResolvesByFieldId_def EnsureScanInitialized_def
      EnsureSnapshotInitialized_def ConvertToBase_def rewrite_row_number_def FinalizeBind_def FinalizeBindBaseOverride_def add_constants_def
      base_constant_def partition_constant_def column_at_def GetMetaData_def map_file_columns_def AllHaveFieldIds_def has_field_id_def
      ResolveFileWithoutFieldIds_def ReadColumnMappingPolicy_def CoveredByNames_def reader_example_defs reader_example_names)


definition scan_example :: "idx_t delta_reader" where
  "scan_example = (CreateInstance None)\<lparr>dr_requested := FromVersion 3\<rparr>"

definition scan_options_example :: "nat multi_file_options" where
  "scan_options_example = \<lparr>mo_auto_detect_hive_partitioning = False, mo_hive_partitioning = False, mo_union_by_name = False,
     mo_hive_types_schema = [], mo_custom_options = [(''max_catalog_version'', 7)]\<rparr>"

definition attached_example :: "(nat, unit) DeltaCatalog" where
  "attached_example = (new_DeltaCatalog ''t'' ''/t'' READ_ONLY)\<lparr>use_specific_version := 3, max_catalog_version := 7\<rparr>"

theorem scan_reads_as_attached_witness:
  "bound_list_of (sv_list schema_example) (DR_CreateFileList (sv_list schema_example) scan_example [''/t''])
      (DR_Bind (sv_list schema_example) (sv_log schema_example) scan_example scan_options_example) =
    bound_list_of (sv_list schema_example) (CreateFileList schema_example attached_example 3 None) (Bind (sv_list schema_example))"
proof -
  have "dr_snapshot scan_example = None" "dr_requested scan_example = (if 3 = INVALID_INDEX then LatestSpec else FromVersion 3)"
    "map_of (mo_custom_options scan_options_example) ''log_tail'' = catalog_log_tail attached_example"
    "case map_of (mo_custom_options scan_options_example) ''max_catalog_version'' of
        None \<Rightarrow> max_catalog_version attached_example < 0
      | Some v \<Rightarrow> get_int64 (le_values (sv_list schema_example)) v = Inr (max_catalog_version attached_example) \<and> 0 \<le> max_catalog_version attached_example"
    by (simp_all add: scan_example_def CreateInstance_def scan_options_example_def attached_example_def new_DeltaCatalog_def INVALID_INDEX_def
        schema_example_def nat_value_ops_def)
  from scan_reads_as_attached [OF this] show ?thesis by (simp add: attached_example_def new_DeltaCatalog_def)
qed

end
