(* ===== verification/Copy_To.thy ===== *)
theory Copy_To
  imports Create_As
begin

text \<open>
  COPY (...) TO a path in the format delta (delta\_copy.cpp): the options of the statement become the request of a new table, which
  CREATE TABLE AS then plans. DuckDB's values are the record of parameters \<open>cv\<close>; \<open>dedup\<close> is QueryResult::DeduplicateColumns.
\<close>

section \<open>Options\<close>

record 'v copy_values =
  cv_is_null :: "'v \<Rightarrow> bool"
  cv_text :: "'v \<Rightarrow> string"
  cv_struct :: "'v \<Rightarrow> (string \<times> 'v) list option"
  cv_map :: "'v \<Rightarrow> ('v \<times> 'v) list option"
  cv_type_text :: "'v \<Rightarrow> string"

definition add_property ::
  "string_util \<Rightarrow> (string list \<Rightarrow> string \<Rightarrow> string) \<Rightarrow> 'v copy_values \<Rightarrow> (string \<times> string) list \<Rightarrow> string \<times> 'v
     \<Rightarrow> (string \<times> string) list throws" where
  "add_property su cand cv result entry =
    (if cv_is_null cv (snd entry) then Inl (Err BinderEx (''NULL is not a valid value for Delta table property '%s'' @ [CHR 0x27]) [fst entry])
     else bindr (ThrowIfUnknownDeltaKey su cand (fst entry) ''Delta COPY TO'') (\<lambda>_.
          Inr (result @ [(fst entry, cv_text cv (snd entry))])))"

definition GetWithProperties ::
  "string_util \<Rightarrow> (string list \<Rightarrow> string \<Rightarrow> string) \<Rightarrow> 'v copy_values \<Rightarrow> 'v list \<Rightarrow> (string \<times> string) list throws" where
  "GetWithProperties su cand cv vals =
    (case vals of
       [v] \<Rightarrow>
         if cv_is_null cv v then Inl (Err BinderEx ''Delta COPY TO: WITH_PROPERTIES takes one MAP or STRUCT'' [])
         else
          (case cv_struct cv v of
             Some children \<Rightarrow> foldr_throws (add_property su cand cv) [] children
           | None \<Rightarrow>
              (case cv_map cv v of
                 Some entries \<Rightarrow> foldr_throws (add_property su cand cv) [] (map (\<lambda>(k, x). (cv_text cv k, x)) entries)
               | None \<Rightarrow> Inl (Err BinderEx ''Delta COPY TO: WITH_PROPERTIES takes a MAP or a STRUCT, not %s'' [cv_type_text cv v])))
     | _ \<Rightarrow> Inl (Err BinderEx ''Delta COPY TO: WITH_PROPERTIES takes one MAP or STRUCT'' []))"

definition DeltaCopyOptions :: "string list" where
  "DeltaCopyOptions = [''partition_by'', ''with_properties''] @ KnownKeys"

definition GetPartitionKeys :: "'v copy_values \<Rightarrow> 'v list \<Rightarrow> string list throws" where
  "GetPartitionKeys cv vals =
    mapr (\<lambda>v. if cv_is_null cv v then Inl (Err BinderEx ''Delta COPY TO: PARTITION_BY takes column names, not NULL'' [])
              else Inr (cv_text cv v)) vals"

section \<open>Planning\<close>

record copy_state =
  cs_partition_columns :: "string list"
  cs_properties :: "(string \<times> string) list"
  cs_bare :: "(string \<times> string) list"

definition copy_option ::
  "string_util \<Rightarrow> (string list \<Rightarrow> string \<Rightarrow> string) \<Rightarrow> 'v copy_values \<Rightarrow> column_list \<Rightarrow> copy_state \<Rightarrow> string \<times> 'v list
     \<Rightarrow> copy_state throws" where
  "copy_option su cand cv columns st option =
    (let key = fst option; vals = snd option
     in if CIEquals su key ''partition_by'' then
          bindr (GetPartitionKeys cv vals) (\<lambda>keys.
          bindr (ResolvePartitionColumns su columns keys ''Delta COPY TO'' ''PARTITION_BY'') (\<lambda>cols.
          Inr (st\<lparr>cs_partition_columns := cols\<rparr>)))
        else if CIEquals su key ''with_properties'' then
          bindr (GetWithProperties su cand cv vals) (\<lambda>properties.
          Inr (st\<lparr>cs_properties := cs_properties st @ properties\<rparr>))
        else case FindKnownKey su key of
          Some known \<Rightarrow>
            if length vals \<noteq> 1 \<or> cv_is_null cv (hd vals)
            then Inl (Err BinderEx ''Delta COPY TO: table property '%s' takes one value'' [known])
            else Inr (st\<lparr>cs_bare := cs_bare st @ [(known, cv_text cv (hd vals))]\<rparr>)
        | None \<Rightarrow> Inl (Err NotImplemented ''Delta COPY TO does not take the option '%s': it takes PARTITION_BY, WITH_PROPERTIES {...} and known delta.* table properties'' [key]))"

definition merge_bare :: "(string \<times> string) list \<Rightarrow> string \<times> string \<Rightarrow> (string \<times> string) list throws" where
  "merge_bare properties property =
    (if list_ex (\<lambda>given. fst given = fst property) properties
     then Inl (Err BinderEx ''Delta COPY TO: table property '%s' is given both as an option and in WITH_PROPERTIES; give it once'' [fst property])
     else Inr (properties @ [property]))"

fun throw_if_given_twice :: "(string \<times> string) list \<Rightarrow> unit throws" where
  "throw_if_given_twice (p # q # ps) =
    (if fst q = fst p then Inl (Err BinderEx ''Delta COPY TO: table property '%s' is given twice'' [fst q])
     else throw_if_given_twice (q # ps))"
| "throw_if_given_twice _ = Inr ()"

definition copy_columns :: "string list \<Rightarrow> logical_type list \<Rightarrow> column_list" where
  "copy_columns names types =
     map (\<lambda>(n, t). \<lparr>col_name = n, col_type = t, col_generated = False, col_default = False\<rparr>) (zip names types)"

definition DeltaCopyPlan ::
  "string_util \<Rightarrow> path_ops \<Rightarrow> (string list \<Rightarrow> string \<Rightarrow> string) \<Rightarrow> 'v copy_values \<Rightarrow> (string list \<Rightarrow> string list)
     \<Rightarrow> string \<Rightarrow> (string \<times> 'v list) list \<Rightarrow> (string list \<times> logical_type list) throws \<Rightarrow> DeltaCreateTableRequest throws" where
  "DeltaCopyPlan su po cand cv dedup file_path options bound_query =
    (if file_path = [] then Inl (Err BinderEx ''Delta COPY TO needs the path of the table to create'' [])
     else bindr bound_query (\<lambda>(names, types).
      (let columns = copy_columns (dedup names) types
       in bindr (foldr_throws (copy_option su cand cv columns) \<lparr>cs_partition_columns = [], cs_properties = [], cs_bare = []\<rparr> options) (\<lambda>st.
          bindr (foldr_throws merge_bare (cs_properties st) (cs_bare st)) (\<lambda>merged.
          bindr (TakeLocationProperty su po merged file_path ''its target path'' ''Delta COPY TO'') (\<lambda>rest.
          bindr (throw_if_given_twice (sort rest)) (\<lambda>_.
          Inr \<lparr>req_path = file_path, req_columns = columns, req_partition_columns = cs_partition_columns st,
                req_properties = sort rest, req_data_change = True\<rparr>)))))))"

text \<open>DeltaLogicalCopy::CreatePlan.\<close>

definition copy_create_plan ::
  "(DeltaCreateTableRequest \<Rightarrow> string \<Rightarrow> logical_type list \<Rightarrow> 'w \<Rightarrow> physical_copy throws \<times> 't create_as_state option \<times> 'w)
     \<Rightarrow> DeltaCreateTableRequest \<Rightarrow> logical_type list \<Rightarrow> 'w \<Rightarrow> physical_copy throws \<times> 't create_as_state option \<times> 'w" where
  "copy_create_plan plan request child_types w = plan request ''Delta COPY TO'' child_types w"

section \<open>What a COPY asks for\<close>

text \<open>The properties an option gives, in the spelling the table will hold.\<close>

definition option_properties :: "string_util \<Rightarrow> 'v copy_values \<Rightarrow> string \<times> 'v list \<Rightarrow> (string \<times> string) list" where
  "option_properties su cv option =
    (if CIEquals su (fst option) ''partition_by'' then []
     else if CIEquals su (fst option) ''with_properties'' then
       (case cv_struct cv (hd (snd option)) of
          Some children \<Rightarrow> map (\<lambda>(k, x). (k, cv_text cv x)) children
        | None \<Rightarrow> (case cv_map cv (hd (snd option)) of
            Some entries \<Rightarrow> map (\<lambda>(k, x). (cv_text cv k, cv_text cv x)) entries | None \<Rightarrow> []))
     else (case FindKnownKey su (fst option) of None \<Rightarrow> [] | Some known \<Rightarrow> [(known, cv_text cv (hd (snd option)))]))"

definition known_or_own :: "string \<times> 'b \<Rightarrow> bool" where
  "known_or_own p \<longleftrightarrow> (is_prefix ''delta.'' (map ascii_lower (fst p)) \<longrightarrow> fst p \<in> set KnownKeys)"

lemma add_properties:
  assumes "string_util_laws su" and "foldr_throws (add_property su cand cv) acc entries = Inr res"
  shows "res = acc @ map (\<lambda>(k, x). (k, cv_text cv x)) entries \<and> list_all known_or_own entries"
  using assms(2)
proof (induction entries arbitrary: acc)
  case (Cons e entries)
  then obtain acc1 where acc1: "add_property su cand cv acc e = Inr acc1" "foldr_throws (add_property su cand cv) acc1 entries = Inr res"
    by (auto simp: bindr_eq_Inr)
  from acc1(1) have "acc1 = acc @ [(fst e, cv_text cv (snd e))]" "known_or_own e"
    using string_util_laws.ThrowIfUnknownDeltaKey_ok [OF assms(1)]
    by (auto simp: add_property_def bindr_eq_Inr known_or_own_def split: if_splits)
  then show ?case using Cons.IH [OF acc1(2)] by (simp add: case_prod_beta)
qed simp

lemma list_all_known: "list_all known_or_own (map (\<lambda>(k, x). (k, f x)) entries) \<longleftrightarrow> list_all known_or_own entries"
  by (auto simp: list_all_iff known_or_own_def)

lemma GetWithProperties_spec:
  assumes "string_util_laws su" and "GetWithProperties su cand cv vals = Inr res"
    and "\<not> CIEquals su key ''partition_by''" "CIEquals su key ''with_properties''"
  shows "res = option_properties su cv (key, vals) \<and> list_all known_or_own res"
proof -
  obtain v where v: "vals = [v]" using assms(2) by (auto simp: GetWithProperties_def split: list.splits)
  show ?thesis
  proof (cases "cv_struct cv v")
    case (Some children)
    then show ?thesis using assms v add_properties [OF assms(1), of cand cv "[]" children res]
      by (auto simp: GetWithProperties_def option_properties_def list_all_known split: if_splits)
  next
    case None
    then obtain entries where entries: "cv_map cv v = Some entries"
        "foldr_throws (add_property su cand cv) [] (map (\<lambda>(k, x). (cv_text cv k, x)) entries) = Inr res"
      using assms(2) v by (auto simp: GetWithProperties_def split: if_splits option.splits)
    from add_properties [OF assms(1) entries(2)] show ?thesis using None entries(1) assms(3,4) v
      by (auto simp: option_properties_def list_all_iff known_or_own_def)
  qed
qed

definition partitions_ok :: "column_list \<Rightarrow> copy_state \<Rightarrow> bool" where
  "partitions_ok columns st \<longleftrightarrow> distinct (cs_partition_columns st) \<and> set (cs_partition_columns st) \<subseteq> col_name ` set columns"

lemma copy_option_spec:
  assumes "string_util_laws su" and "copy_option su cand cv columns st option = Inr st1"
  shows "set (cs_properties st1) \<union> set (cs_bare st1) = set (cs_properties st) \<union> set (cs_bare st) \<union> set (option_properties su cv option) \<and>
    (list_all known_or_own (cs_properties st @ cs_bare st) \<longrightarrow> list_all known_or_own (cs_properties st1 @ cs_bare st1)) \<and>
    (partitions_ok columns st \<longrightarrow> partitions_ok columns st1)"
proof -
  obtain key vals where o: "option = (key, vals)" by fastforce
  consider (part) "CIEquals su key ''partition_by''"
    | (props) "\<not> CIEquals su key ''partition_by''" "CIEquals su key ''with_properties''"
    | (bare) "\<not> CIEquals su key ''partition_by''" "\<not> CIEquals su key ''with_properties''" by blast
  then show ?thesis
  proof cases
    case part
    then obtain keys cols where "ResolvePartitionColumns su columns keys ''Delta COPY TO'' ''PARTITION_BY'' = Inr cols"
        "st1 = st\<lparr>cs_partition_columns := cols\<rparr>"
      using assms(2) o by (auto simp: copy_option_def bindr_eq_Inr)
    then have st1: "list_all2 (resolves_to su columns) keys cols" "distinct cols" "st1 = st\<lparr>cs_partition_columns := cols\<rparr>"
      using ResolvePartitionKeys_iff [of "[]"] by (auto simp: ResolvePartitionColumns_def)
    from st1(1) have "set cols \<subseteq> col_name ` set columns"
      by (induction rule: list_all2_induct) (auto dest!: resolves_to_column)
    then show ?thesis using st1(2,3) part o by (auto simp: partitions_ok_def option_properties_def)
  next
    case props
    then obtain ps where "GetWithProperties su cand cv vals = Inr ps" "st1 = st\<lparr>cs_properties := cs_properties st @ ps\<rparr>"
      using assms(2) o by (auto simp: copy_option_def bindr_eq_Inr)
    then show ?thesis using GetWithProperties_spec [OF assms(1) _ props] o by (auto simp: partitions_ok_def)
  next
    case bare
    then obtain known where known: "FindKnownKey su key = Some known" "st1 = st\<lparr>cs_bare := cs_bare st @ [(known, cv_text cv (hd vals))]\<rparr>"
      using assms(2) o by (auto simp: copy_option_def split: option.splits if_splits)
    then have "known \<in> set KnownKeys" by (auto simp: FindKnownKey_def find_Some_iff)
    then show ?thesis using bare o known by (auto simp: option_properties_def partitions_ok_def known_or_own_def)
  qed
qed

lemma copy_options_spec:
  assumes "string_util_laws su" and "foldr_throws (copy_option su cand cv columns) st options = Inr st1"
  shows "set (cs_properties st1) \<union> set (cs_bare st1) = set (cs_properties st) \<union> set (cs_bare st) \<union> (\<Union>opt \<in> set options. set (option_properties su cv opt)) \<and>
    (list_all known_or_own (cs_properties st @ cs_bare st) \<longrightarrow> list_all known_or_own (cs_properties st1 @ cs_bare st1)) \<and>
    (partitions_ok columns st \<longrightarrow> partitions_ok columns st1)"
  using assms(2)
proof (induction options arbitrary: st)
  case (Cons x options)
  then obtain st2 where st2: "copy_option su cand cv columns st x = Inr st2" "foldr_throws (copy_option su cand cv columns) st2 options = Inr st1"
    by (auto simp: bindr_eq_Inr)
  from copy_option_spec [OF assms(1) st2(1)] Cons.IH [OF st2(2)] show ?case by auto
qed simp

lemma merge_bare_all: "foldr_throws merge_bare ps bare = Inr res \<Longrightarrow> res = ps @ bare"
  by (induction bare arbitrary: ps) (fastforce simp: bindr_eq_Inr merge_bare_def split: if_splits)+

lemma given_once:
  "sorted ps \<Longrightarrow> throw_if_given_twice ps = Inr () \<Longrightarrow> distinct (map fst ps)"
proof (induction ps rule: throw_if_given_twice.induct)
  case (1 p q ps)
  then have "fst p < fst q" by (auto simp: less_eq_prod_def split: if_splits)
  moreover have "\<forall>r \<in> set (q # ps). fst q \<le> fst r" using 1(2) by (auto simp: less_eq_prod_def)
  ultimately have "\<forall>r \<in> set (q # ps). fst p < fst r" by fastforce
  then show ?case using 1 by (auto split: if_splits)
qed auto


text \<open>A COPY of one column, partitioned by it, with a property of its own and a known one given as an option.\<close>

definition text_values :: "string copy_values" where
  "text_values = \<lparr>cv_is_null = (\<lambda>v. False), cv_text = (\<lambda>v. v), cv_struct = (\<lambda>v. Some [(''owner'', v)]), cv_map = (\<lambda>v. None), cv_type_text = (\<lambda>v. ''VARCHAR'')\<rparr>"

definition copy_example_options :: "(string \<times> string list) list" where
  "copy_example_options = [(''partition_by'', [''p'']), (''with_properties'', [''me'']), (''delta.appendonly'', [''true''])]"

lemma copy_example:
  "DeltaCopyPlan ascii_string_util ctas_path_ops (\<lambda>_ _. []) text_values (\<lambda>names. names) ''/t'' copy_example_options (Inr ([''p''], [INTEGER])) =
     Inr \<lparr>req_path = ''/t'', req_columns = copy_columns [''p''] [INTEGER], req_partition_columns = [''p''],
       req_properties = [(''delta.appendOnly'', ''true''), (''owner'', ''me'')], req_data_change = True\<rparr>"
  by code_simp


end
