(* ===== verification/Table_Functions.thy ===== *)
theory Table_Functions
  imports Reader
begin

text \<open>
  The table functions around a table: the scan function of an attached table
  (DeltaTableEntry::GetScanFunctionInternal in storage/delta\_table\_entry.cpp), the functions that list metadata
  (functions/metadata\_functions.cpp, delta\_metadata\_scan.cpp, delta\_domain\_metadata.cpp) and the ones that read and set the
  version of an application (delta\_transaction\_utils/idempotency\_helpers.cpp).

  The execution of a function is a call that returns a chunk of rows and the new state of the function; the caller repeats it until
  a chunk is empty (\<open>drain\<close>). How DuckDB prints a value or an expression is a parameter.
\<close>

section \<open>The scan function of a table\<close>

datatype scan_param = SP_Bool bool | SP_Text string | SP_Version idx_t

record 's scan_input =
  si_snapshot :: "('s, FfiLogPath list) file_list"
  si_table_name :: string
  si_path :: string
  si_params :: "(string \<times> scan_param) list"

text \<open>The version an AT clause asks the scan to have; a timestamp was bound to a version by the lookup.\<close>

definition at_clause_version ::
  "('s, 'l, 'c, 'e, 'p, 'v) list_env \<Rightarrow> (string \<times> 'v) option \<Rightarrow> ('s, 'l) file_list \<Rightarrow> idx_t throws \<times> ('s, 'l) file_list" where
  "at_clause_version le at_clause fl =
    (case at_clause of
       None \<Rightarrow> (Inr INVALID_INDEX, fl)
     | Some (unit, val) \<Rightarrow>
        and_then (FromAtClause (le_values le) unit val, fl) (\<lambda>spec fl.
        if IsTimestamp spec then FL_GetVersion le fl else (GetVersion spec, fl)))"

text \<open>\<open>has_delta_scan\<close> is whether the system catalog has the function \<open>delta_scan\<close>.\<close>

definition GetScanFunctionInternal ::
  "('s, FfiLogPath list, 'c, 'e, 'p, 'v) list_env \<Rightarrow> bool \<Rightarrow> ('v, 'f) DeltaCatalog \<Rightarrow> ('k, 'f, 'x) DeltaTransaction
     \<Rightarrow> (string \<times> 'v) option \<Rightarrow> ('s, FfiLogPath list) file_list
     \<Rightarrow> 's scan_input throws \<times> ('s, FfiLogPath list) file_list" where
  "GetScanFunctionInternal le has_delta_scan cat txn at_clause snapshot =
    and_then (throw_if (\<not> has_delta_scan) (Err InvalidInput ''Function with name delta_scan not found in ExtensionLoader::GetTableFunction'' []), snapshot)
      (\<lambda>_ snapshot.
    and_then (throw_if (HasOutstandingAppends txn) (Err CatalogEx ''Scanning a table with uncommitted writes is not supported'' []), snapshot)
      (\<lambda>_ snapshot.
    and_then (at_clause_version le at_clause snapshot) (\<lambda>version snapshot.
    and_then
      (if version \<noteq> INVALID_INDEX then
         and_then (FL_GetVersion le snapshot) (\<lambda>v snapshot.
         (throw_if (v \<noteq> version) (Err InternalEx ''Delta table snapshot version does not match at clause version.'' []), snapshot))
       else (Inr (), snapshot)) (\<lambda>_ snapshot.
    (let param_version = (if version \<noteq> INVALID_INDEX then version else use_specific_version cat)
     in (Inr \<lparr>si_snapshot = snapshot, si_table_name = cat_name cat, si_path = cat_path cat,
           si_params = [(''pushdown_partition_info'', SP_Bool (pushdown_partition_info cat)),
                        (''pushdown_filters'', SP_Text (PushdownToString (filter_pushdown_mode cat)))] @
             (if param_version \<noteq> INVALID_INDEX then [(''version'', SP_Version param_version)] else [])\<rparr>, snapshot))))))"

text \<open>Whether a field of a struct column may be extracted by the parquet reader.\<close>

definition DeltaScanSupportsPushdownExtract :: "reader_env \<Rightarrow> (string \<times> logical_type) list \<Rightarrow> nat \<Rightarrow> bool throws" where
  "DeltaScanSupportsPushdownExtract re columns col_idx =
    (if length columns \<le> col_idx then Inl bounds_error
     else
      (let type = snd (columns ! col_idx)
       in if \<not> is_struct type \<and> type \<noteq> VARIANT then Inr False
          else Inr (\<not> re_type_contains re type (\<lambda>t. t = TIMESTAMP_TZ))))"

section \<open>Functions over rows made by the bind\<close>

text \<open>\<open>vector_size\<close> is STANDARD\_VECTOR\_SIZE, \<open>columns\<close> the number of columns of the output.\<close>

function metadata_loop :: "nat \<Rightarrow> nat \<Rightarrow> 'a list list \<Rightarrow> nat \<Rightarrow> nat \<Rightarrow> 'a list list \<Rightarrow> (nat \<times> 'a list list) throws" where
  "metadata_loop vector_size columns entries offset cnt chunk =
    (if offset < length entries \<and> cnt < vector_size then
       (if length (entries ! offset) \<noteq> columns then Inl (Err InternalEx ''Unaligned metadata row in result'' [])
        else metadata_loop vector_size columns entries (Suc offset) (Suc cnt) (chunk @ [entries ! offset]))
     else Inr (offset, chunk))"
  by auto
termination by (relation "measure (\<lambda>(v, c, entries, offset, cnt, chunk). length entries - offset)") auto

declare metadata_loop.simps [simp del]

definition MetadataFunctionExecute :: "nat \<Rightarrow> nat \<Rightarrow> 'a list list \<Rightarrow> nat \<Rightarrow> (nat \<times> 'a list list) throws" where
  "MetadataFunctionExecute vector_size columns entries offset =
    (if length entries \<le> offset then Inr (offset, []) else metadata_loop vector_size columns entries offset 0 [])"

lemma metadata_loop_progress:
  "metadata_loop vector_size columns entries offset cnt chunk = Inr (offset1, chunk1) \<Longrightarrow>
     chunk1 = chunk @ map ((!) entries) [offset..<offset1] \<and> offset \<le> offset1 \<and> (offset1 \<le> length entries \<or> offset1 = offset)"
proof (induction vector_size columns entries offset cnt chunk rule: metadata_loop.induct)
  case (1 vector_size columns entries offset cnt chunk)
  show ?case
  proof (cases "offset < length entries \<and> cnt < vector_size")
    case True
    then have al: "length (entries ! offset) = columns"
      using "1.prems" by (subst (asm) metadata_loop.simps) (auto split: if_splits)
    then have next_row: "metadata_loop vector_size columns entries (Suc offset) (Suc cnt) (chunk @ [entries ! offset]) = Inr (offset1, chunk1)"
      using "1.prems" True by (subst (asm) metadata_loop.simps) simp
    from "1.IH" [OF True _ this] al
    have "chunk1 = (chunk @ [entries ! offset]) @ map ((!) entries) [Suc offset..<offset1]" "Suc offset \<le> offset1" "offset1 \<le> length entries"
      using True by auto
    then show ?thesis by (simp add: upt_conv_Cons [of offset offset1])
  next
    case False
    then show ?thesis using "1.prems" by (subst (asm) metadata_loop.simps) auto
  qed
qed

lemma MetadataFunctionExecute_progress:
  "MetadataFunctionExecute vector_size columns entries offset = Inr (offset1, chunk) \<Longrightarrow> chunk \<noteq> [] \<Longrightarrow> offset < offset1 \<and> offset1 \<le> length entries"
  using metadata_loop_progress [of vector_size columns entries offset 0 "[]" offset1 chunk]
  by (fastforce simp: MetadataFunctionExecute_def split: if_splits)

text \<open>The caller of a table function asks for chunks until one is empty.\<close>

function drain :: "nat \<Rightarrow> nat \<Rightarrow> 'a list list \<Rightarrow> nat \<Rightarrow> 'a list list list throws" where
  "drain vector_size columns entries offset =
    bindr (MetadataFunctionExecute vector_size columns entries offset) (\<lambda>(offset1, chunk).
    if chunk = [] then Inr [] else bindr (drain vector_size columns entries offset1) (\<lambda>chunks. Inr (chunk # chunks)))"
  by auto
termination
  by (relation "measure (\<lambda>(v, c, entries, offset). length entries - offset)") (auto dest!: MetadataFunctionExecute_progress)

declare drain.simps [simp del]

section \<open>delta\_list\_files\<close>

datatype cell = Cell_Varchar string | Cell_Ubigint idx_t | Cell_Map "(string \<times> string) list" | Cell_Bool bool | Cell_List "string list" | Cell_Null

record DeltaFileListOptions =
  flo_transform_expression :: bool
  flo_delete_count :: bool

record print_ops =
  value_text :: "dvalue \<Rightarrow> string"
  expression_text :: "parsed_expression \<Rightarrow> string"

definition delete_count_of :: "bool list \<Rightarrow> idx_t" where
  "delete_count_of dv = foldl (\<lambda>n live. if \<not> live then n + 1 else n) 0 dv"

definition AddFileInfo ::
  "string_util \<Rightarrow> print_ops \<Rightarrow> DeltaFileListOptions \<Rightarrow> string \<Rightarrow> file_metadata \<Rightarrow> cell list" where
  "AddFileInfo su pr options path md =
    [Cell_Varchar path, Cell_Ubigint (md_cardinality md),
     Cell_Map (foldl (\<lambda>m (k, v). ci_put su k (value_text pr v) m) [] (md_partition_map md)),
     Cell_Bool (md_selection_vector md \<noteq> None)] @
    (if flo_delete_count options then
       [Cell_Ubigint (case md_selection_vector md of None \<Rightarrow> 0 | Some dv \<Rightarrow> delete_count_of dv)] else []) @
    (if flo_transform_expression options then
       [case md_transform md of None \<Rightarrow> Cell_Null | Some es \<Rightarrow> Cell_List (map (expression_text pr) es)] else [])"

definition parse_list_option ::
  "string_util \<Rightarrow> 'v value_ops \<Rightarrow> 'v log_value_ops \<Rightarrow> idx_t \<times> DeltaFileListOptions \<Rightarrow> string \<times> 'v
     \<Rightarrow> (idx_t \<times> DeltaFileListOptions) throws" where
  "parse_list_option su vo lv acc kv =
    (let loption = Lower su (fst kv); val = snd kv; (version, options) = acc
     in if loption = ''version'' then bindr (lv_uint64 lv val) (\<lambda>v. Inr (v, options))
        else if loption = ''transform_expression'' then bindr (get_bool vo val) (\<lambda>b. Inr (version, options\<lparr>flo_transform_expression := b\<rparr>))
        else if loption = ''delete_count'' then bindr (get_bool vo val) (\<lambda>b. Inr (version, options\<lparr>flo_delete_count := b\<rparr>))
        else Inr acc)"

definition list_files_columns :: "DeltaFileListOptions \<Rightarrow> string list" where
  "list_files_columns options =
    [''data_file'', ''cardinality'', ''partitions'', ''have_deletes''] @
    (if flo_delete_count options then [''delete_count''] else []) @
    (if flo_transform_expression options then [''transform_expression''] else [])"

definition file_rows ::
  "string_util \<Rightarrow> print_ops \<Rightarrow> DeltaFileListOptions \<Rightarrow> string list \<Rightarrow> ('s, 'l) file_list \<Rightarrow> cell list list throws" where
  "file_rows su pr options files fl =
    mapr (\<lambda>i. bindr (GetMetaData fl i) (\<lambda>md. Inr (AddFileInfo su pr options (files ! i) md))) [0..<length files]"

definition list_result ::
  "string_util \<Rightarrow> print_ops \<Rightarrow> DeltaFileListOptions \<Rightarrow> string list throws \<times> ('s, 'l) file_list \<Rightarrow> (string list \<times> cell list list) throws" where
  "list_result su pr options r =
    (case r of
       (Inl e, _) \<Rightarrow> Inl e
     | (Inr files, fl) \<Rightarrow> bindr (file_rows su pr options files fl) (\<lambda>entries. Inr (list_files_columns options, entries)))"

text \<open>None would be a bind that does not return.\<close>

definition DeltaFileListBind ::
  "('s, 'l, 'c, 'e, 'p, 'v) list_env \<Rightarrow> 'v log_value_ops \<Rightarrow> print_ops \<Rightarrow> string \<Rightarrow> (string \<times> 'v) list
     \<Rightarrow> (string list \<times> cell list list) throws option" where
  "DeltaFileListBind le lv pr path named =
    (case bindr (foldr_throws (parse_list_option (le_su le) (le_values le) lv)
             (INVALID_INDEX, \<lparr>flo_transform_expression = False, flo_delete_count = False\<rparr>) named) (\<lambda>(version, options).
           bindr (new_file_list le path version None) (\<lambda>fl.
           case Bind le fl of (Inl e, _) \<Rightarrow> Inl e | (Inr _, fl1) \<Rightarrow> Inr (options, fl1))) of
       Inl e \<Rightarrow> Some (Inl e)
     | Inr (options, fl1) \<Rightarrow>
         map_option (list_result (le_su le) pr options) (GetAllFiles le fl1))"

section \<open>delta\_domain\_metadata\<close>

definition DomainMetadataVisitor :: "cell list list \<Rightarrow> string \<times> string \<Rightarrow> cell list list" where
  "DomainMetadataVisitor entries dc = entries @ [[Cell_Varchar (fst dc), Cell_Varchar (snd dc)]]"

text \<open>The kernel calls the visitor once for each domain of the snapshot, or fails.\<close>

definition DeltaDomainMetadataBind ::
  "('s, 'l, 'c, 'e, 'p, 'v) list_env \<Rightarrow> 'v log_value_ops \<Rightarrow> ('s \<Rightarrow> string option + (string \<times> string) list) \<Rightarrow> string
     \<Rightarrow> (string \<times> 'v) list \<Rightarrow> (string list \<times> cell list list) throws" where
  "DeltaDomainMetadataBind le lv visit_domain_metadata path named =
    bindr (foldr_throws (\<lambda>version kv. if Lower (le_su le) (fst kv) = ''version'' then lv_uint64 lv (snd kv) else Inr version)
             INVALID_INDEX named) (\<lambda>version.
    bindr (new_file_list le path version None) (\<lambda>fl.
    case Bind le fl of
      (Inl e, _) \<Rightarrow> Inl e
    | (Inr _, fl1) \<Rightarrow>
       bindr (Unpack (visit_domain_metadata (the (fl_snapshot fl1)))) (\<lambda>domains.
       Inr ([''domain'', ''configuration''], foldl DomainMetadataVisitor [] domains))))"

section \<open>Application versions\<close>

text \<open>The state of either function is whether it has run. A version the kernel holds is an int64 and is shown as a UBIGINT.\<close>

definition DeltaGetTransactionVersionFunction ::
  "('s \<Rightarrow> string \<Rightarrow> string option + int option) \<Rightarrow> 's \<Rightarrow> string \<Rightarrow> bool \<Rightarrow> cell list list \<times> bool" where
  "DeltaGetTransactionVersionFunction get_app_id_version snapshot app_id finished =
    (if finished then ([], finished)
     else (case get_app_id_version snapshot app_id of
             Inr (Some v) \<Rightarrow> [[Cell_Ubigint (of_int v)]]
           | _ \<Rightarrow> [[Cell_Null]], True))"

definition DeltaSetTransactionVersionFunction ::
  "string \<Rightarrow> idx_t \<Rightarrow> int option \<Rightarrow> bool \<Rightarrow> ('k, 'f, 'x) DeltaTransaction \<Rightarrow> cell list list \<times> bool \<times> ('k, 'f, 'x) DeltaTransaction" where
  "DeltaSetTransactionVersionFunction app_id new_version expected finished txn =
    (if finished then ([], finished, txn) else ([], True, SetTransactionVersion txn app_id new_version expected))"

text \<open>The entry of the table named in the call; \<open>lookup_entry\<close> is Catalog::GetEntry with OnEntryNotFound::RETURN\_NULL.\<close>

definition bind_table_entry :: "(string \<Rightarrow> 'x option throws) \<Rightarrow> string \<Rightarrow> 'x throws" where
  "bind_table_entry lookup_entry path =
    bindr (lookup_entry path) (\<lambda>found. case found of
      Some e \<Rightarrow> Inr e
    | None \<Rightarrow> Inl (Err CatalogEx ''Table not found'' []))"

section \<open>The scan reads the entry\<close>

lemma FL_GetVersion_initialized: "fl_initialized_snapshot fl \<Longrightarrow> FL_GetVersion le fl = (Inr (fl_version fl), fl)"
  by (simp add: FL_GetVersion_def EnsureSnapshotInitialized_def)

lemma at_clause_version_initialized:
  assumes "fl_initialized_snapshot fl"
  shows "at_clause_version le at_clause fl =
    (case at_clause of
       None \<Rightarrow> Inr INVALID_INDEX
     | Some (unit, val) \<Rightarrow> bindr (FromAtClause (le_values le) unit val) (\<lambda>spec.
         if IsTimestamp spec then Inr (fl_version fl) else GetVersion spec), fl)"
  using FL_GetVersion_initialized [OF assms]
  by (auto simp: at_clause_version_def and_then_def bindr_def split: option.splits sum.splits)

text \<open>C39. A scan of an attached table reads the snapshot its lookup made. The scan function of an entry is refused while the
  transaction has uncommitted writes; otherwise it is made for every AT clause that names no version, a timestamp or
  the version of the entry, and for an AT clause that names another version it is not. The list of files the scan then reads
  is the one of the entry, at its version, whatever version the catalog is attached at, and it is left as it was.\<close>

theorem GetScanFunction_reads_the_entry:
  assumes "CreateTableEntry se cat version old = Inr e"
    and "GetScanFunctionInternal (sv_list se) True cat txn at_clause (te_snapshot e) = (r, fl)"
  shows "fl = te_snapshot e \<and> (HasOutstandingAppends txn \<longrightarrow> (\<forall>input. r \<noteq> Inr input)) \<and>
    (\<forall>input. r = Inr input \<longrightarrow>
       DR_CreateFileList (sv_list se) (CreateInstance (Some (si_snapshot input))) [si_path input] = Inr (te_snapshot e) \<and>
       (\<forall>unit val v. at_clause = Some (unit, val) \<and> FromAtClause (le_values (sv_list se)) unit val = Inr (FromVersion v) \<and>
          v \<noteq> INVALID_INDEX \<longrightarrow> te_version e = v)) \<and>
    (\<not> HasOutstandingAppends txn \<and>
       (case at_clause of
          None \<Rightarrow> True
        | Some (unit, val) \<Rightarrow> (\<exists>spec. FromAtClause (le_values (sv_list se)) unit val = Inr spec \<and>
            (IsTimestamp spec \<or> spec = FromVersion (te_version e)))) \<longrightarrow> (\<exists>input. r = Inr input))"
proof -
  note entry = CreateTableEntry_version [OF assms(1)]
  note simps = GetScanFunctionInternal_def at_clause_version_initialized [OF entry(3)] FL_GetVersion_initialized [OF entry(3)]
  have version: "GetVersion (FromVersion v) = Inr v" "\<not> IsTimestamp (FromVersion v)" for v
    by (simp_all add: GetVersion_def FromVersion_def IsVersion_def IsTimestamp_def)
  have same: "fl = te_snapshot e"
    using assms(2) by (auto simp: simps and_then_def Let_def throw_if_def split: prod.splits sum.splits if_splits)
  moreover have "r \<noteq> Inr input" if "HasOutstandingAppends txn" for input
    using assms(2) that by (auto simp: simps)
  moreover have "DR_CreateFileList (sv_list se) (CreateInstance (Some (si_snapshot input))) [si_path input] = Inr (te_snapshot e)"
    if "r = Inr input" for input
    using assms(2) that
    by (auto simp: simps and_then_eq_Inr DR_CreateFileList_def CreateInstance_def Let_def split: if_splits)
  moreover have "te_version e = v"
    if "r = Inr input" "at_clause = Some (unit, val)" "FromAtClause (le_values (sv_list se)) unit val = Inr (FromVersion v)" "v \<noteq> INVALID_INDEX"
    for input unit val v
    using assms(2) that entry(2) by (auto simp: simps version and_then_eq_Inr split: if_splits)
  moreover have "\<exists>input. r = Inr input"
    if "\<not> HasOutstandingAppends txn" "at_clause = None \<or> (\<exists>unit val spec. at_clause = Some (unit, val) \<and>
        FromAtClause (le_values (sv_list se)) unit val = Inr spec \<and> (IsTimestamp spec \<or> spec = FromVersion (te_version e)))"
    using assms(2) that entry(2) by (auto simp: simps version Let_def split: if_splits)
  ultimately show ?thesis by (auto split: option.splits)
qed

section \<open>Every row is returned\<close>

lemma metadata_loop_takes:
  assumes "\<forall>row \<in> set entries. length row = columns" and "offset \<le> length entries"
  shows "metadata_loop vector_size columns entries offset cnt chunk =
    Inr (offset + min (length entries - offset) (vector_size - cnt), chunk @ take (vector_size - cnt) (drop offset entries))"
  using assms
proof (induction vector_size columns entries offset cnt chunk rule: metadata_loop.induct)
  case (1 vector_size columns entries offset cnt chunk)
  show ?case
  proof (cases "offset < length entries \<and> cnt < vector_size")
    case True
    then have row: "length (entries ! offset) = columns" "vector_size - cnt = Suc (vector_size - Suc cnt)"
      "drop offset entries = entries ! offset # drop (Suc offset) entries"
      using "1.prems"(1) by (auto simp: Cons_nth_drop_Suc)
    then show ?thesis using "1.IH" [OF True] True "1.prems" by (subst metadata_loop.simps) auto
  next
    case False
    then show ?thesis using "1.prems" by (subst metadata_loop.simps) auto
  qed
qed

lemma MetadataFunctionExecute_takes:
  assumes "\<forall>row \<in> set entries. length row = columns" and "offset \<le> length entries"
  shows "MetadataFunctionExecute vector_size columns entries offset =
    Inr (offset + length (take vector_size (drop offset entries)), take vector_size (drop offset entries))"
  using metadata_loop_takes [OF assms, of vector_size 0 "[]"] assms(2)
  by (auto simp: MetadataFunctionExecute_def min.commute)

lemma take_then_drop: "take n xs @ drop (length (take n xs)) xs = xs"
  by (simp add: min_def)

lemma drain_returns_the_rest:
  assumes "\<forall>row \<in> set entries. length row = columns" and "0 < vector_size" and "offset \<le> length entries"
  shows "\<exists>chunks. drain vector_size columns entries offset = Inr chunks \<and> concat chunks = drop offset entries \<and>
    (\<forall>c \<in> set chunks. c \<noteq> [] \<and> length c \<le> vector_size)"
  using assms(3)
proof (induction "length entries - offset" arbitrary: offset rule: less_induct)
  case less
  let ?chunk = "take vector_size (drop offset entries)"
  note run = MetadataFunctionExecute_takes [OF assms(1) less.prems, of vector_size]
  show ?case
  proof (cases "offset = length entries")
    case True
    then show ?thesis by (subst drain.simps) (simp add: MetadataFunctionExecute_def)
  next
    case False
    then have chunk: "?chunk \<noteq> []" "offset + length ?chunk \<le> length entries" "0 < length ?chunk" using less.prems assms(2) by auto
    then have "length entries - (offset + length ?chunk) < length entries - offset" by linarith
    from less.hyps [OF this chunk(2)] obtain chunks where "drain vector_size columns entries (offset + length ?chunk) = Inr chunks"
        "concat chunks = drop (offset + length ?chunk) entries" "\<forall>c \<in> set chunks. c \<noteq> [] \<and> length c \<le> vector_size"
      by blast
    moreover have "?chunk @ drop (offset + length ?chunk) entries = drop offset entries"
      using take_then_drop [of vector_size "drop offset entries"] by (simp only: drop_drop add.commute)
    ultimately show ?thesis using chunk(1) by (subst drain.simps) (auto simp: run)
  qed
qed

text \<open>The rows of deletion vectors that a scan drops are the ones delta\_list\_files counts.\<close>

lemma delete_count_fold:
  "foldl (\<lambda>n live. if \<not> live then n + 1 else n) m dv = (m :: idx_t) + of_nat (length (filter Not dv))"
  by (induction dv arbitrary: m) auto

lemma delete_count_counts_dropped_rows:
  assumes "length dv < 2 ^ 64"
  shows "unat (delete_count_of dv) = length (filter (\<lambda>i. \<not> row_selected dv 0 i) [0..<length dv])"
proof -
  have "filter Not dv = map ((!) dv) (filter (\<lambda>i. \<not> dv ! i) [0..<length dv])"
    using filter_map [of Not "(!) dv" "[0..<length dv]"] by (simp add: map_nth comp_def)
  moreover have "filter (\<lambda>i. \<not> row_selected dv 0 i) [0..<length dv] = filter (\<lambda>i. \<not> dv ! i) [0..<length dv]"
    using assms by (intro filter_cong) (auto simp: row_selected_def unat_of_nat take_bit_nat_eq_self)
  moreover have "length (filter Not dv) < 2 ^ 64" using assms length_filter_le [of Not dv] by linarith
  ultimately show ?thesis by (simp add: delete_count_of_def delete_count_fold unat_of_nat take_bit_nat_eq_self)
qed


section \<open>Witnesses\<close>

theorem GetScanFunction_reads_the_entry_witness:
  "\<exists>e input. CreateTableEntry schema_example (ss_catalog schema_start) 1 None = Inr e \<and>
     GetScanFunctionInternal (sv_list schema_example) True (ss_catalog schema_start) (ss_transaction schema_start)
       (Some (''version'', 1)) (te_snapshot e) = (Inr input, te_snapshot e) \<and>
     DR_CreateFileList (sv_list schema_example) (CreateInstance (Some (si_snapshot input))) [si_path input] = Inr (te_snapshot e)"
proof -
  obtain e where e: "CreateTableEntry schema_example (ss_catalog schema_start) 1 None = Inr e"
    using schema_example_entry by (auto split: sum.splits)
  let ?run = "GetScanFunctionInternal (sv_list schema_example) True (ss_catalog schema_start) (ss_transaction schema_start)
       (Some (''version'', 1)) (te_snapshot e)"
  note reads = GetScanFunction_reads_the_entry [OF e, of "ss_transaction schema_start" "Some (''version'', 1)" "fst ?run" "snd ?run"]
  have "te_version e = 1" using CreateTableEntry_version(1) [OF e] by (simp add: INVALID_INDEX_def)
  moreover have "FromAtClause (le_values (sv_list schema_example)) ''version'' 1 = Inr (FromVersion 1)"
    by (simp add: FromAtClause_def schema_example_def nat_value_ops_def)
  moreover have "\<not> HasOutstandingAppends (ss_transaction schema_start)"
    by (simp add: HasOutstandingAppends_def schema_start_def new_DeltaTransaction_def Let_def)
  ultimately obtain input where "fst ?run = Inr input" "snd ?run = te_snapshot e"
    using reads by auto
  then have "?run = (Inr input, te_snapshot e)" by (simp add: prod_eq_iff)
  then show ?thesis using e reads by auto
qed

definition print_example :: print_ops where
  "print_example = \<lparr>value_text = (\<lambda>_. ''v''), expression_text = (\<lambda>_. ''e'')\<rparr>"


end
