(* ===== verification/Engine.thy ===== *)
theory Engine
  imports Schema_Builder
begin

text \<open>
  The kernel engine of a table: CreateBuilder and CreateDeltaEngine of
  src/src/functions/delta\_scan/delta\_multi\_file\_list.cpp. A path with a cloud scheme is split into
  container and rest, a secret is looked up for it, and the secret's values become options of the
  kernel's engine builder.

  \<^item> The kernel's builder is a parameter (\<open>engine_kernel\<close>), as are the secret manager, which maps a
    path and a secret type to the secret that matches, and the environment variables.
  \<^item> What CreateBuilder does to the builder after a secret was found is a list of
    \<open>builder_action\<close>s in program order: an option that is set, or an exception that is thrown there.
    \<open>run_actions\<close> performs it, so that an option the kernel refuses ends the run where the code throws.
  \<^item> Sizes are 64-bit: a count that is subtracted below zero wraps (\<open>size_minus\<close>).
\<close>

section \<open>Parameters\<close>

record ('b, 'e) engine_kernel =
  get_engine_builder :: "string \<Rightarrow> string option + 'b"
  builder_with_option :: "'b \<Rightarrow> string \<Rightarrow> string \<Rightarrow> string option + 'b"
  builder_with_multithreaded_executor :: "'b \<Rightarrow> nat \<Rightarrow> nat \<Rightarrow> 'b"
  builder_build :: "'b \<Rightarrow> string option + 'e"

text \<open>A KeyValueSecret as KeyValueSecretReader reads it: \<open>None\<close> is a key the secret does not have.\<close>

record kv_secret =
  secret_key :: "string \<Rightarrow> string option"
  secret_use_ssl :: "bool option"
  secret_provider :: string

type_synonym secret_manager = "string \<Rightarrow> string \<Rightarrow> kv_secret option"

definition TryGetSecretKey :: "kv_secret \<Rightarrow> string \<Rightarrow> string" where
  "TryGetSecretKey secret key = (case secret_key secret key of Some v \<Rightarrow> v | None \<Rightarrow> [])"

definition use_ssl_of :: "kv_secret \<Rightarrow> bool" where
  "use_ssl_of secret = (case secret_use_ssl secret of Some b \<Rightarrow> b | None \<Rightarrow> True)"

section \<open>Connection strings\<close>

definition size_minus :: "nat \<Rightarrow> nat \<Rightarrow> nat" where
  "size_minus a b = unat ((of_nat a :: 64 word) - of_nat b)"

definition ParseAccountNameFromEndpoint :: "string_util \<Rightarrow> string \<Rightarrow> string" where
  "ParseAccountNameFromEndpoint su endpoint =
    (if \<not> StartsWith su endpoint ''https://'' then []
     else case str_find_char endpoint CHR ''.'' 8 of
       None \<Rightarrow> []
     | Some result \<Rightarrow> substr endpoint 8 (size_minus result 8))"

text \<open>\<open>std::regex_search\<close> for \<open>key=([^;]+)(?=;|$)\<close>: the leftmost occurrence of \<open>key=\<close> with at least
  one character other than a semicolon behind it, and all such characters up to the next semicolon.\<close>

fun search_value :: "string \<Rightarrow> string \<Rightarrow> string" where
  "search_value p [] = []"
| "search_value p (c # cs) =
    (if is_prefix p (c # cs) \<and> takeWhile (\<lambda>x. x \<noteq> CHR '';'') (drop (length p) (c # cs)) \<noteq> []
     then takeWhile (\<lambda>x. x \<noteq> CHR '';'') (drop (length p) (c # cs))
     else search_value p cs)"

definition parseFromConnectionString :: "string \<Rightarrow> string \<Rightarrow> string" where
  "parseFromConnectionString connectionString key = search_value (key @ ''='') connectionString"

section \<open>Locations\<close>

definition is_cloud_path :: "string_util \<Rightarrow> string \<Rightarrow> bool" where
  "is_cloud_path su path \<longleftrightarrow>
    StartsWith su path ''s3://'' \<or> StartsWith su path ''gcs://'' \<or>
    StartsWith su path ''gs://'' \<or> StartsWith su path ''r2://'' \<or>
    StartsWith su path ''azure://'' \<or> StartsWith su path ''az://'' \<or>
    StartsWith su path ''abfs://'' \<or> StartsWith su path ''abfss://''"

record location =
  loc_bucket :: string
  loc_path_in_bucket :: string
  loc_secret_type :: string

text \<open>One branch of the scheme dispatch: the slash is searched from \<open>search_from\<close>, the container starts at
  \<open>start\<close>. All branches but the one of abfs use the same number for both.\<close>

definition split_container :: "string \<Rightarrow> nat \<Rightarrow> nat \<Rightarrow> string \<Rightarrow> string \<Rightarrow> location throws" where
  "split_container path search_from start message secret_type =
    (case str_find_char path CHR ''/'' search_from of
       None \<Rightarrow> Inl (Err IOEx message [path])
     | Some end_of_container \<Rightarrow> Inr \<lparr>
         loc_bucket = substr path start (size_minus end_of_container start),
         loc_path_in_bucket = drop end_of_container path,
         loc_secret_type = secret_type\<rparr>)"

definition parse_location :: "string_util \<Rightarrow> string \<Rightarrow> location throws" where
  "parse_location su path =
    (if StartsWith su path ''s3://'' then
       split_container path 5 5 ''Invalid s3 url passed to delta scan: %s'' ''s3''
     else if StartsWith su path ''gcs://'' then
       split_container path 6 6 ''Invalid gcs url passed to delta scan: %s'' ''gcs''
     else if StartsWith su path ''gs://'' then
       split_container path 5 5 ''Invalid gcs url passed to delta scan: %s'' ''gcs''
     else if StartsWith su path ''r2://'' then
       split_container path 5 5 ''Invalid gcs url passed to delta scan: %s'' ''r2''
     else if StartsWith su path ''azure://'' \<or> StartsWith su path ''abfss://'' then
       split_container path 8 8 ''Invalid azure url passed to delta scan: %s'' ''azure''
     else if StartsWith su path ''az://'' then
       split_container path 5 5 ''Invalid azure url passed to delta scan: %s'' ''azure''
     else if StartsWith su path ''abfs://'' then
       split_container path 7 8 ''Invalid azure url passed to delta scan: %s'' ''azure''
     else Inr \<lparr>loc_bucket = [], loc_path_in_bucket = [], loc_secret_type = []\<rparr>)"

definition cleaned_path :: "string_util \<Rightarrow> string \<Rightarrow> string" where
  "cleaned_path su path =
    (if StartsWith su path ''r2://'' \<or> StartsWith su path ''gs://'' then ''s3://'' @ drop 5 path
     else if StartsWith su path ''gcs://'' then ''s3://'' @ drop 6 path
     else path)"

section \<open>Options of the builder\<close>

datatype builder_action = Set_Option string string | Refuse error

definition set_option ::
    "('b, 'e) engine_kernel \<Rightarrow> 'b \<Rightarrow> string \<Rightarrow> string \<Rightarrow> 'b throws" where
  "set_option ek builder key val = Unpack (builder_with_option ek builder key val)"

fun run_action :: "('b, 'e) engine_kernel \<Rightarrow> 'b \<Rightarrow> builder_action \<Rightarrow> 'b throws" where
  "run_action ek builder (Set_Option key val) = set_option ek builder key val"
| "run_action ek builder (Refuse e) = Inl e"

definition run_actions :: "('b, 'e) engine_kernel \<Rightarrow> 'b \<Rightarrow> builder_action list \<Rightarrow> 'b throws" where
  "run_actions ek = foldr_throws (run_action ek)"

definition set_if :: "bool \<Rightarrow> string \<Rightarrow> string \<Rightarrow> builder_action list" where
  "set_if b key val = (if b then [Set_Option key val] else [])"

text \<open>The endpoint of an S3 secret, with the scheme that use\_ssl asks for.\<close>

definition with_scheme :: "string_util \<Rightarrow> bool \<Rightarrow> string \<Rightarrow> string" where
  "with_scheme su use_ssl endpoint =
    (if \<not> StartsWith su endpoint ''https://'' \<and> \<not> StartsWith su endpoint ''http://'' then
       (if use_ssl then ''https://'' @ endpoint else ''http://'' @ endpoint)
     else endpoint)"

definition s3_endpoint_actions :: "string_util \<Rightarrow> string \<Rightarrow> string \<Rightarrow> bool \<Rightarrow> builder_action list" where
  "s3_endpoint_actions su path endpoint use_ssl =
    (if endpoint \<noteq> [] \<and> endpoint \<noteq> ''s3.amazonaws.com'' then
       (let endpoint = with_scheme su use_ssl endpoint in
         set_if (StartsWith su endpoint ''http://'') ''allow_http'' ''true'' @
         [Set_Option ''aws_endpoint'' endpoint])
     else set_if (StartsWith su path ''gs://'' \<or> StartsWith su path ''gcs://'')
       ''aws_endpoint'' ''https://storage.googleapis.com'')"

definition s3_actions :: "string_util \<Rightarrow> string \<Rightarrow> string \<Rightarrow> kv_secret \<Rightarrow> builder_action list" where
  "s3_actions su path secret_type sec =
    (let key_id = TryGetSecretKey sec ''key_id'';
         secret = TryGetSecretKey sec ''secret'';
         session_token = TryGetSecretKey sec ''session_token'';
         region = TryGetSecretKey sec ''region'';
         endpoint = TryGetSecretKey sec ''endpoint'';
         url_style = TryGetSecretKey sec ''url_style'';
         use_ssl = use_ssl_of sec
     in set_if (key_id = [] \<and> secret = []) ''skip_signature'' ''true'' @
        set_if (key_id \<noteq> []) ''aws_access_key_id'' key_id @
        set_if (secret \<noteq> []) ''aws_secret_access_key'' secret @
        set_if (session_token \<noteq> []) ''aws_session_token'' session_token @
        s3_endpoint_actions su path endpoint use_ssl @
        set_if (secret_type = ''s3'' \<and> url_style \<noteq> [] \<and> url_style = ''vhost'')
          ''aws_virtual_hosted_style_request'' ''true'' @
        [Set_Option ''aws_region'' region])"

text \<open>The credential chain of Azure: the command line, and a workload identity taken from the
  environment when the token file is named there.\<close>

definition credential_chain_actions :: "(string \<Rightarrow> string) \<Rightarrow> string \<Rightarrow> builder_action list" where
  "credential_chain_actions env chain =
    set_if (str_find chain ''cli'' 0 \<noteq> None) ''use_azure_cli'' ''true'' @
    (if str_find chain ''workload_identity'' 0 \<noteq> None \<and> env ''AZURE_FEDERATED_TOKEN_FILE'' \<noteq> [] then
       (if env ''AZURE_CLIENT_ID'' = [] \<or> env ''AZURE_TENANT_ID'' = []
        then [Refuse (Err InvalidInput ''Azure workload_identity requires AZURE_CLIENT_ID and AZURE_TENANT_ID in environment.'' [])]
        else [Set_Option ''federated_token_file'' (env ''AZURE_FEDERATED_TOKEN_FILE''),
              Set_Option ''azure_client_id'' (env ''AZURE_CLIENT_ID''),
              Set_Option ''azure_tenant_id'' (env ''AZURE_TENANT_ID'')])
     else [])"

text \<open>The authentication of an Azure secret: the actions, and the account name and endpoint that hold
  after them (a connection string replaces them).\<close>

definition connection_string_auth ::
    "string_util \<Rightarrow> string \<Rightarrow> string \<Rightarrow> builder_action list \<times> string \<times> string" where
  "connection_string_auth su connection_string endpoint =
    (let account_key = parseFromConnectionString connection_string ''AccountKey'';
         account_name = parseFromConnectionString connection_string ''AccountName''
     in if account_name \<noteq> [] \<and> account_key \<noteq> []
        then ([Set_Option ''account_key'' account_key], account_name, endpoint)
        else
          (let endpoint = parseFromConnectionString connection_string ''BlobEndpoint'';
               account_name = (if account_name = [] then ParseAccountNameFromEndpoint su endpoint
                               else account_name);
               sas_token = parseFromConnectionString connection_string ''SharedAccessSignature''
           in (set_if (sas_token \<noteq> []) ''sas_token'' sas_token, account_name, endpoint)))"

definition azure_auth ::
    "string_util \<Rightarrow> (string \<Rightarrow> string) \<Rightarrow> kv_secret \<Rightarrow> builder_action list \<times> string \<times> string" where
  "azure_auth su env sec =
    (let connection_string = TryGetSecretKey sec ''connection_string'';
         account_name = TryGetSecretKey sec ''account_name'';
         endpoint = TryGetSecretKey sec ''endpoint'';
         provider = secret_provider sec
     in if provider = ''access_token'' then
          (let access_token = TryGetSecretKey sec ''access_token'' in
           ((if access_token = []
             then [Refuse (Err InvalidInput ''No access_token value not found in secret provider!'' [])]
             else [Set_Option ''bearer_token'' access_token]), account_name, endpoint))
        else if provider = ''credential_chain'' then
          (credential_chain_actions env (TryGetSecretKey sec ''chain''), account_name, endpoint)
        else if connection_string \<noteq> [] \<and> connection_string \<noteq> ''NULL'' then
          connection_string_auth su connection_string endpoint
        else if provider = ''service_principal'' then
          (set_if (TryGetSecretKey sec ''client_id'' \<noteq> []) ''azure_client_id'' (TryGetSecretKey sec ''client_id'') @
           set_if (TryGetSecretKey sec ''client_secret'' \<noteq> []) ''azure_client_secret'' (TryGetSecretKey sec ''client_secret'') @
           set_if (TryGetSecretKey sec ''tenant_id'' \<noteq> []) ''azure_tenant_id'' (TryGetSecretKey sec ''tenant_id''),
           account_name, endpoint)
        else ([Set_Option ''azure_skip_signature'' ''true''], account_name, endpoint))"

definition azure_actions ::
    "string_util \<Rightarrow> (string \<Rightarrow> string) \<Rightarrow> string \<Rightarrow> kv_secret \<Rightarrow> builder_action list" where
  "azure_actions su env bucket sec =
    set_if (TryGetSecretKey sec ''account_name'' = ''onelake'') ''use_fabric_endpoint'' ''true'' @
    (case azure_auth su env sec of (auth, account_name, endpoint) \<Rightarrow>
       auth @
       set_if (account_name = ''devstoreaccount1'' \<or>
               str_find (TryGetSecretKey sec ''connection_string'') ''devstoreaccount1'' 0 \<noteq> None)
         ''use_emulator'' ''true'' @
       set_if (account_name \<noteq> []) ''account_name'' account_name @
       set_if (endpoint \<noteq> []) ''azure_endpoint'' endpoint @
       [Set_Option ''container_name'' bucket])"

definition secret_actions ::
    "string_util \<Rightarrow> (string \<Rightarrow> string) \<Rightarrow> string \<Rightarrow> location \<Rightarrow> kv_secret \<Rightarrow> builder_action list" where
  "secret_actions su env path loc sec =
    (if loc_secret_type loc = ''s3'' \<or> loc_secret_type loc = ''gcs'' \<or> loc_secret_type loc = ''r2''
     then s3_actions su path (loc_secret_type loc) sec
     else if loc_secret_type loc = ''azure'' then azure_actions su env (loc_bucket loc) sec
     else [])"

section \<open>CreateBuilder and CreateDeltaEngine\<close>

definition no_secret_message :: string where
  "no_secret_message = ''Can not scan a gcs:// gs:// or r2:// url without a secret providing its endpoint currently. Please create an R2 or GCS secret containing the credentials for this endpoint and try again.''"

definition CreateBuilder ::
    "('b, 'e) engine_kernel \<Rightarrow> string_util \<Rightarrow> secret_manager \<Rightarrow> (string \<Rightarrow> string) \<Rightarrow> string \<Rightarrow> 'b throws" where
  "CreateBuilder ek su lookup_secret env path =
    (if \<not> is_cloud_path su path then
       bindr (Unpack (get_engine_builder ek path)) (\<lambda>builder.
       Inr (builder_with_multithreaded_executor ek builder 0 0))
     else
       bindr (parse_location su path) (\<lambda>loc.
       bindr (Unpack (get_engine_builder ek (cleaned_path su path))) (\<lambda>builder.
       case lookup_secret path (loc_secret_type loc) of
         None \<Rightarrow>
           bindr (throw_if (StartsWith su path ''r2://'' \<or> StartsWith su path ''gs://'' \<or>
                            StartsWith su path ''gcs://'')
                    (Err NotImplemented no_secret_message [])) (\<lambda>_.
           Inr (builder_with_multithreaded_executor ek builder 0 0))
       | Some sec \<Rightarrow>
           bindr (run_actions ek builder (secret_actions su env path loc sec)) (\<lambda>builder.
           Inr (builder_with_multithreaded_executor ek builder 0 0)))))"

definition CreateDeltaEngine ::
    "('b, 'e) engine_kernel \<Rightarrow> string_util \<Rightarrow> secret_manager \<Rightarrow> (string \<Rightarrow> string) \<Rightarrow> string \<Rightarrow> 'e throws" where
  "CreateDeltaEngine ek su lookup_secret env path =
    bindr (CreateBuilder ek su lookup_secret env path) (\<lambda>builder. Unpack (builder_build ek builder))"


section \<open>Locations are split at the container\<close>

lemma size_minus_le: "b \<le> a \<Longrightarrow> a < 2 ^ 64 \<Longrightarrow> size_minus a b = a - b"
  unfolding size_minus_def by (simp add: unat_sub_if' unat_of_nat take_bit_nat_eq_self word_le_nat_alt)

lemma size_minus_wraps: "size_minus 7 8 = 2 ^ 64 - 1"
  by (simp add: size_minus_def unsigned_minus_1_eq_mask mask_eq_exp_minus_1)

lemma split_container_at:
  assumes "length p = search_from" "CHR ''/'' \<notin> set c"
  shows "split_container (p @ c @ CHR ''/'' # rest) search_from start message secret_type =
    Inr \<lparr>loc_bucket = substr (p @ c @ CHR ''/'' # rest) start (size_minus (search_from + length c) start),
         loc_path_in_bucket = CHR ''/'' # rest, loc_secret_type = secret_type\<rparr>"
  using assms find_char_from_append [of "CHR ''/''" c rest search_from]
  by (auto simp: split_container_def str_find_char_def)

lemma split_container_exact:
  assumes "length p = n" "CHR ''/'' \<notin> set c" "n + length c < 2 ^ 64"
  shows "split_container (p @ c @ CHR ''/'' # rest) n n message secret_type =
    Inr \<lparr>loc_bucket = c, loc_path_in_bucket = CHR ''/'' # rest, loc_secret_type = secret_type\<rparr>"
  using assms by (simp add: split_container_at size_minus_le substr_def)

text \<open>The schemes with the type of secret that is looked up for them.\<close>

definition cloud_schemes :: "(string \<times> string) list" where
  "cloud_schemes = [(''s3'', ''s3''), (''gcs'', ''gcs''), (''gs'', ''gcs''), (''r2'', ''r2''), (''azure'', ''azure''),
     (''abfss'', ''azure''), (''az'', ''azure'')]"

text \<open>C38. The container of a cloud path is exactly what stands between the scheme and the next slash, and the rest of the path
  starts at that slash, for every scheme but abfs. For abfs the container loses its first character, and when it is empty
  the length wraps around and the whole rest of the path is taken for it.\<close>

theorem parse_location_container:
  assumes "string_util_laws su" and "CHR ''/'' \<notin> set c" and "length c + length rest < 2 ^ 64 - 16"
  shows "(\<forall>(scheme, secret_type) \<in> set cloud_schemes.
      parse_location su (scheme @ ''://'' @ c @ ''/'' @ rest) =
        Inr \<lparr>loc_bucket = c, loc_path_in_bucket = CHR ''/'' # rest, loc_secret_type = secret_type\<rparr>) \<and>
    parse_location su (''abfs://'' @ c @ ''/'' @ rest) =
      Inr \<lparr>loc_bucket = (if c = [] then rest else tl c), loc_path_in_bucket = CHR ''/'' # rest, loc_secret_type = ''azure''\<rparr>"
proof -
  note starts = string_util_laws.StartsWith_law [OF assms(1)]
  have len: "n \<le> 8 \<Longrightarrow> n + length c < 2 ^ 64" for n using assms(3) by simp
  have exact: "split_container (p @ c @ CHR ''/'' # rest) n n message secret_type =
      Inr \<lparr>loc_bucket = c, loc_path_in_bucket = CHR ''/'' # rest, loc_secret_type = secret_type\<rparr>"
    if "length p = n" "n \<le> 8" for p n message secret_type
    using split_container_exact [OF that(1) assms(2) len [OF that(2)]] .
  have abfs: "split_container (''abfs://'' @ c @ CHR ''/'' # rest) 7 8 message secret_type =
      Inr \<lparr>loc_bucket = (if c = [] then rest else tl c), loc_path_in_bucket = CHR ''/'' # rest, loc_secret_type = secret_type\<rparr>"
    for message secret_type
  proof (cases c)
    case Nil
    then show ?thesis using assms(3) split_container_at [of "''abfs://''" 7 "[]" rest 8]
      by (simp add: size_minus_wraps substr_def)
  next
    case (Cons x xs)
    then show ?thesis using assms(2,3) split_container_at [of "''abfs://''" 7 c rest 8] size_minus_le [of 8 "7 + length c"]
      by (simp add: substr_def)
  qed
  note exacts = exact [of "''s3://''" 5, simplified] exact [of "''gcs://''" 6, simplified] exact [of "''gs://''" 5, simplified]
    exact [of "''r2://''" 5, simplified] exact [of "''azure://''" 8, simplified] exact [of "''abfss://''" 8, simplified]
    exact [of "''az://''" 5, simplified] abfs [simplified]
  show ?thesis by (simp add: parse_location_def starts cloud_schemes_def exacts)
qed

theorem parse_location_container_witness:
  "parse_location ascii_string_util ''abfs://data/t'' =
     Inr \<lparr>loc_bucket = ''ata'', loc_path_in_bucket = ''/t'', loc_secret_type = ''azure''\<rparr> \<and>
   parse_location ascii_string_util ''az://data/t'' =
     Inr \<lparr>loc_bucket = ''data'', loc_path_in_bucket = ''/t'', loc_secret_type = ''azure''\<rparr>"
  using parse_location_container [OF ascii.string_util_laws_axioms, of "''data''" "''t''"] by (simp add: cloud_schemes_def)

section \<open>What a secret becomes\<close>

definition apply_options :: "('b, 'e) engine_kernel \<Rightarrow> 'b \<Rightarrow> (string \<times> string) list \<Rightarrow> 'b throws" where
  "apply_options ek = foldr_throws (\<lambda>b (key, val). set_option ek b key val)"

lemma run_actions_Inr:
  "run_actions ek b actions = Inr b1 \<Longrightarrow>
     \<exists>opts. actions = map (case_prod Set_Option) opts \<and> apply_options ek b opts = Inr b1"
  unfolding run_actions_def apply_options_def
proof (induction actions arbitrary: b)
  case (Cons a actions)
  then obtain b2 where b2: "run_action ek b a = Inr b2" "foldr_throws (run_action ek) b2 actions = Inr b1"
    by (auto simp: bindr_eq_Inr)
  then obtain key val where a: "a = Set_Option key val" by (cases a) auto
  from Cons.IH [OF b2(2)] obtain opts where
    "actions = map (case_prod Set_Option) opts" "foldr_throws (\<lambda>b (key, val). set_option ek b key val) b2 opts = Inr b1" by blast
  then have "a # actions = map (case_prod Set_Option) ((key, val) # opts) \<and>
      foldr_throws (\<lambda>b (key, val). set_option ek b key val) b ((key, val) # opts) = Inr b1"
    using a b2(1) by simp
  then show ?case by (rule exI)
qed simp

lemma option_mem: "(key, val) \<in> set opts \<longleftrightarrow> Set_Option key val \<in> set (map (case_prod Set_Option) opts)"
  by auto

lemma set_if_mem [simp]: "a \<in> set (set_if b key val) \<longleftrightarrow> b \<and> a = Set_Option key val"
  by (auto simp: set_if_def)

lemma CreateBuilder_cloud:
  assumes "CreateBuilder ek su lookup_secret env path = Inr b" and "is_cloud_path su path"
  obtains loc b0 where "parse_location su path = Inr loc" "get_engine_builder ek (cleaned_path su path) = Inr b0"
    "lookup_secret path (loc_secret_type loc) = None \<Longrightarrow>
       b = builder_with_multithreaded_executor ek b0 0 0 \<and> \<not> StartsWith su path ''r2://'' \<and> \<not> StartsWith su path ''gs://'' \<and> \<not> StartsWith su path ''gcs://''"
    "\<And>sec. lookup_secret path (loc_secret_type loc) = Some sec \<Longrightarrow>
       \<exists>opts b1. secret_actions su env path loc sec = map (case_prod Set_Option) opts \<and> apply_options ek b0 opts = Inr b1 \<and>
         b = builder_with_multithreaded_executor ek b1 0 0"
  using assms
  by (fastforce simp: CreateBuilder_def bindr_eq_Inr Unpack_def split: option.splits sum.splits dest!: run_actions_Inr)


section \<open>Witness\<close>

text \<open>A kernel whose builder is the list of its options, and a secret with a key and a local endpoint without TLS.\<close>

definition recording_kernel :: "((string \<times> string) list, unit) engine_kernel" where
  "recording_kernel = \<lparr>get_engine_builder = (\<lambda>p. Inr []), builder_with_option = (\<lambda>b k v. Inr (b @ [(k, v)])),
     builder_with_multithreaded_executor = (\<lambda>b m n. b), builder_build = (\<lambda>b. Inr ())\<rparr>"

definition local_secret :: kv_secret where
  "local_secret = \<lparr>secret_key = [''key_id'' \<mapsto> ''k'', ''secret'' \<mapsto> ''x'', ''endpoint'' \<mapsto> ''h:9''], secret_use_ssl = Some False,
     secret_provider = ''config''\<rparr>"

lemma local_location: "parse_location ascii_string_util ''s3://b/t'' =
    Inr \<lparr>loc_bucket = ''b'', loc_path_in_bucket = ''/t'', loc_secret_type = ''s3''\<rparr>"
  using split_container_exact [of "''s3://''" 5 "''b''" "''t''"] by (simp add: parse_location_def ascii.StartsWith_law)

lemma local_builder: "CreateBuilder recording_kernel ascii_string_util (\<lambda>p t. Some local_secret) (\<lambda>_. []) ''s3://b/t'' =
    Inr [(''aws_access_key_id'', ''k''), (''aws_secret_access_key'', ''x''), (''allow_http'', ''true''), (''aws_endpoint'', ''http://h:9''), (''aws_region'', [])]"
  by (simp add: CreateBuilder_def is_cloud_path_def local_location ascii.StartsWith_law recording_kernel_def cleaned_path_def Unpack_def
      run_actions_def secret_actions_def s3_actions_def s3_endpoint_actions_def with_scheme_def set_if_def set_option_def local_secret_def
      TryGetSecretKey_def use_ssl_of_def)


end
