(* ===== verification/Kernel_Pointers.thy ===== *)
theory Kernel_Pointers
  imports Prelude
begin

text \<open>
  The ownership wrappers around kernel objects of src/src/include/delta\_utils.hpp:
  UniqueKernelPointer, which frees its object when it goes out of scope, SharedKernelPointer, which
  guards one with a mutex, and SharedKernelRef, the reference that holds the mutex while it lives.

  \<^item> A wrapper is a \<open>record\<close> of its two members; each special member function is a definition. The
    free function is the one of the kernel type, so only whether it is set matters.
  \<^item> \<open>pointer_step\<close> runs these operations, in any order, on any number of wrappers over a kernel that
    hands out fresh objects: \<open>ps_freed\<close> logs every call of a free function. The invariant shows that no
    object is freed twice and that no wrapper gives access to a freed one.
  \<^item> \<open>ref_step\<close> interleaves threads that ask for a SharedKernelRef, get it, and drop it.
\<close>

section \<open>UniqueKernelPointer\<close>

type_synonym address = nat

record UniqueKernelPointer =
  kp_ptr :: "address option"
  kp_free :: bool

definition UKP_default :: UniqueKernelPointer where
  "UKP_default = \<lparr>kp_ptr = None, kp_free = False\<rparr>"

definition UKP_own :: "address \<Rightarrow> UniqueKernelPointer" where
  "UKP_own ptr = \<lparr>kp_ptr = Some ptr, kp_free = True\<rparr>"

text \<open>The move constructor: the new wrapper and what is left in the source. The deleter is not among
  the members it copies, so it keeps its default, the null pointer.\<close>

definition UKP_move_construct :: "UniqueKernelPointer \<Rightarrow> UniqueKernelPointer \<times> UniqueKernelPointer" where
  "UKP_move_construct other = (\<lparr>kp_ptr = kp_ptr other, kp_free = False\<rparr>, other\<lparr>kp_ptr := None\<rparr>)"

text \<open>Move assignment swaps both members.\<close>

definition UKP_move_assign ::
    "UniqueKernelPointer \<Rightarrow> UniqueKernelPointer \<Rightarrow> UniqueKernelPointer \<times> UniqueKernelPointer" where
  "UKP_move_assign this other =
    (this\<lparr>kp_ptr := kp_ptr other, kp_free := kp_free other\<rparr>,
     other\<lparr>kp_ptr := kp_ptr this, kp_free := kp_free this\<rparr>)"

text \<open>What the destructor passes to the free function.\<close>

definition UKP_destroy :: "UniqueKernelPointer \<Rightarrow> address list" where
  "UKP_destroy this = (case kp_ptr this of
     Some p \<Rightarrow> if kp_free this then [p] else []
   | None \<Rightarrow> [])"

definition UKP_release :: "UniqueKernelPointer \<Rightarrow> address option \<times> UniqueKernelPointer" where
  "UKP_release this = (kp_ptr this, this\<lparr>kp_ptr := None\<rparr>)"

definition UKP_get :: "UniqueKernelPointer \<Rightarrow> address option" where
  "UKP_get this = kp_ptr this"

section \<open>Programs over wrappers\<close>

record pointer_state =
  ps_wrappers :: "nat \<rightharpoonup> UniqueKernelPointer"
  ps_next :: address
  ps_freed :: "address list"
  ps_released :: "address list"

definition pointer_init :: pointer_state where
  "pointer_init = \<lparr>ps_wrappers = Map.empty, ps_next = 0, ps_freed = [], ps_released = []\<rparr>"

datatype pointer_op =
    Default_Construct nat
  | Own nat
  | Move_Construct nat nat
  | Move_Assign nat nat
  | Release nat
  | Destroy nat

text \<open>\<open>Own w\<close> wraps an object the kernel just handed out; the other operations are the members above
  on named wrappers.\<close>

inductive pointer_step :: "pointer_state \<Rightarrow> pointer_op \<Rightarrow> pointer_state \<Rightarrow> bool" where
  default: "ps_wrappers s w = None \<Longrightarrow>
    pointer_step s (Default_Construct w) (s\<lparr>ps_wrappers := (ps_wrappers s)(w \<mapsto> UKP_default)\<rparr>)"
| own: "ps_wrappers s w = None \<Longrightarrow>
    pointer_step s (Own w) (s\<lparr>ps_wrappers := (ps_wrappers s)(w \<mapsto> UKP_own (ps_next s)), ps_next := Suc (ps_next s)\<rparr>)"
| move_construct: "ps_wrappers s w = None \<Longrightarrow> ps_wrappers s v = Some other \<Longrightarrow>
    UKP_move_construct other = (this, other') \<Longrightarrow>
    pointer_step s (Move_Construct w v) (s\<lparr>ps_wrappers := (ps_wrappers s)(w \<mapsto> this, v \<mapsto> other')\<rparr>)"
| move_assign: "ps_wrappers s w = Some this \<Longrightarrow> ps_wrappers s v = Some other \<Longrightarrow>
    UKP_move_assign this other = (this', other') \<Longrightarrow>
    pointer_step s (Move_Assign w v) (s\<lparr>ps_wrappers := (ps_wrappers s)(w \<mapsto> this', v \<mapsto> other')\<rparr>)"
| release: "ps_wrappers s w = Some this \<Longrightarrow> UKP_release this = (p, this') \<Longrightarrow>
    pointer_step s (Release w) (s\<lparr>ps_wrappers := (ps_wrappers s)(w \<mapsto> this'),
      ps_released := (case p of Some a \<Rightarrow> ps_released s @ [a] | None \<Rightarrow> ps_released s)\<rparr>)"
| destroy: "ps_wrappers s w = Some this \<Longrightarrow>
    pointer_step s (Destroy w) (s\<lparr>ps_wrappers := (ps_wrappers s)(w := None),
      ps_freed := ps_freed s @ UKP_destroy this\<rparr>)"

inductive pointer_run :: "pointer_state \<Rightarrow> pointer_op list \<Rightarrow> pointer_state \<Rightarrow> bool" where
  stop: "pointer_run s [] s"
| step: "pointer_step s c s' \<Longrightarrow> pointer_run s' cs s'' \<Longrightarrow> pointer_run s (c # cs) s''"

inductive_cases pointer_stepE: "pointer_step s c s'"
inductive_cases pointer_run_NilE: "pointer_run s [] s'"
inductive_cases pointer_run_ConsE: "pointer_run s (c # cs) s'"

text \<open>The object each wrapper gives access to.\<close>

definition held :: "pointer_state \<Rightarrow> nat \<Rightarrow> address option" where
  "held s w = Option.bind (ps_wrappers s w) UKP_get"

text \<open>Exclusive ownership: an object belongs to one wrapper, to the caller it was released to, or to
  the kernel again.\<close>

definition exclusive :: "(nat \<Rightarrow> address option) \<Rightarrow> address \<Rightarrow> address list \<Rightarrow> address list \<Rightarrow> bool" where
  "exclusive h next freed released \<longleftrightarrow>
    (\<forall>w a. h w = Some a \<longrightarrow> a < next \<and> a \<notin> set freed \<and> a \<notin> set released) \<and>
    (\<forall>w v a. h w = Some a \<longrightarrow> h v = Some a \<longrightarrow> w = v) \<and>
    (\<forall>a \<in> set freed \<union> set released. a < next) \<and>
    set freed \<inter> set released = {} \<and> distinct freed \<and> distinct released"

definition pointer_inv :: "pointer_state \<Rightarrow> bool" where
  "pointer_inv s \<longleftrightarrow> exclusive (held s) (ps_next s) (ps_freed s) (ps_released s)"

lemmas ukp_defs = UKP_default_def UKP_own_def UKP_move_construct_def UKP_move_assign_def
  UKP_destroy_def UKP_release_def UKP_get_def

lemma held_Some: "held s w = Some a \<longleftrightarrow> (\<exists>u. ps_wrappers s w = Some u \<and> UKP_get u = Some a)"
  by (auto simp: held_def bind_eq_Some_conv)

lemma pointer_init_inv: "pointer_inv pointer_init"
  by (simp add: pointer_inv_def exclusive_def pointer_init_def held_def)

lemma exclusive_drop: "exclusive h next freed released \<Longrightarrow> exclusive (h(w := None)) next freed released"
  by (simp add: exclusive_def)

lemma exclusive_fresh: "exclusive h next freed released \<Longrightarrow> exclusive (h(w \<mapsto> next)) (Suc next) freed released"
  by (auto simp: exclusive_def less_Suc_eq)

text \<open>Moving objects between wrappers keeps ownership exclusive: each goes to one wrapper.\<close>

lemma exclusive_rename:
  assumes "exclusive h next freed released" "\<And>x. h' x \<noteq> None \<Longrightarrow> h' x = h (g x)" "inj g"
  shows "exclusive h' next freed released"
proof -
  have *: "h' x = Some a \<Longrightarrow> h (g x) = Some a" for x a using assms(2) [of x] by simp
  have "h' x = Some a \<Longrightarrow> h' y = Some a \<Longrightarrow> x = y" for x y a
    using * [of x a] * [of y a] assms(1) injD [OF assms(3), of x y] by (auto simp: exclusive_def)
  moreover have "h' x = Some a \<Longrightarrow> a < next \<and> a \<notin> set freed \<and> a \<notin> set released" for x a
    using * [of x a] assms(1) by (auto simp: exclusive_def)
  ultimately show ?thesis using assms(1) by (simp add: exclusive_def)
qed

lemma inj_exchange: "inj (\<lambda>x. if x = w then v else if x = v then w else x)"
  by (auto simp: inj_def split: if_splits)

lemma exclusive_move: "exclusive h next freed released \<Longrightarrow> exclusive (h(w := h v, v := None)) next freed released"
  by (erule exclusive_rename [OF _ _ inj_exchange [of w v]]) auto

lemma exclusive_swap: "exclusive h next freed released \<Longrightarrow> exclusive (h(w := h v, v := h w)) next freed released"
  by (erule exclusive_rename [OF _ _ inj_exchange [of w v]]) auto

lemma exclusive_free:
  "exclusive h next freed released \<Longrightarrow> h w = Some a \<Longrightarrow> exclusive (h(w := None)) next (freed @ [a]) released"
  by (auto simp: exclusive_def)

lemma exclusive_release:
  "exclusive h next freed released \<Longrightarrow> h w = Some a \<Longrightarrow> exclusive (h(w := None)) next freed (released @ [a])"
  by (auto simp: exclusive_def)

lemma pointer_step_inv:
  assumes "pointer_step s c s'" "pointer_inv s"
  shows "pointer_inv s'"
  using assms(1)
proof (cases rule: pointer_step.cases)
  case (default w)
  then have "held s' = (held s)(w := None)" by (auto simp: fun_eq_iff held_def ukp_defs)
  then show ?thesis using default assms(2) by (simp add: pointer_inv_def exclusive_drop)
next
  case (own w)
  then have "held s' = (held s)(w \<mapsto> ps_next s)" by (auto simp: fun_eq_iff held_def ukp_defs)
  then show ?thesis using own assms(2) by (simp add: pointer_inv_def exclusive_fresh)
next
  case (move_construct w v other this other')
  then have "held s' = (held s)(w := held s v, v := None)" by (auto simp: fun_eq_iff held_def ukp_defs)
  then show ?thesis using move_construct assms(2) by (simp add: pointer_inv_def exclusive_move)
next
  case (move_assign w this v other this' other')
  then have "held s' = (held s)(w := held s v, v := held s w)" by (auto simp: fun_eq_iff held_def ukp_defs)
  then show ?thesis using move_assign assms(2) by (simp add: pointer_inv_def exclusive_swap)
next
  case (release w this p this')
  then have "held s' = (held s)(w := None)" "held s w = p" by (auto simp: fun_eq_iff held_def ukp_defs)
  then show ?thesis using release assms(2)
    by (auto simp: pointer_inv_def exclusive_drop exclusive_release split: option.split)
next
  case (destroy w this)
  then have "held s' = (held s)(w := None)" "held s w = kp_ptr this" by (auto simp: fun_eq_iff held_def ukp_defs)
  then show ?thesis using destroy assms(2)
    by (auto simp: pointer_inv_def exclusive_drop exclusive_free UKP_destroy_def split: option.split)
qed

lemma pointer_run_inv: "pointer_run s cs s' \<Longrightarrow> pointer_inv s \<Longrightarrow> pointer_inv s'"
  by (induction rule: pointer_run.induct) (auto intro: pointer_step_inv)

text \<open>C36. Whatever sequence of constructions, moves, releases and destructions a program performs on
  its UniqueKernelPointers, no kernel object is passed to its free function twice, none that was
  released to the caller is freed, and a pointer that a living wrapper gives out (get) has neither been
  freed nor is it held by another wrapper.\<close>

theorem kernel_objects_are_freed_at_most_once:
  assumes "pointer_run pointer_init cs s"
  shows "distinct (ps_freed s) \<and> set (ps_freed s) \<inter> set (ps_released s) = {} \<and>
    (\<forall>w v u u' a. ps_wrappers s w = Some u \<and> UKP_get u = Some a \<longrightarrow>
       a \<notin> set (ps_freed s) \<and> (ps_wrappers s v = Some u' \<and> UKP_get u' = Some a \<longrightarrow> v = w))"
  using pointer_run_inv [OF assms pointer_init_inv] 
  unfolding pointer_inv_def exclusive_def held_Some by blast

theorem kernel_objects_are_freed_at_most_once_witness:
  "\<exists>s. pointer_run pointer_init [Own 0, Default_Construct 1, Move_Assign 1 0, Destroy 0, Destroy 1] s \<and>
     ps_freed s = [0] \<and> distinct (ps_freed s)"
proof -
  let ?s = "\<lambda>ws n f. \<lparr>ps_wrappers = ws, ps_next = n, ps_freed = f, ps_released = []\<rparr> :: pointer_state"
  have "pointer_step pointer_init (Own 0) (?s [0 \<mapsto> UKP_own 0] 1 [])"
    using pointer_step.own [of pointer_init 0] by (simp add: pointer_init_def)
  moreover have "pointer_step (?s [0 \<mapsto> UKP_own 0] 1 []) (Default_Construct 1) (?s [0 \<mapsto> UKP_own 0, 1 \<mapsto> UKP_default] 1 [])"
    using pointer_step.default [of "?s [0 \<mapsto> UKP_own 0] 1 []" 1] by simp
  moreover have "pointer_step (?s [0 \<mapsto> UKP_own 0, 1 \<mapsto> UKP_default] 1 []) (Move_Assign 1 0)
      (?s [0 \<mapsto> UKP_default, 1 \<mapsto> UKP_own 0] 1 [])"
    using pointer_step.move_assign [of "?s [0 \<mapsto> UKP_own 0, 1 \<mapsto> UKP_default] 1 []" 1 UKP_default 0 "UKP_own 0"]
    by (simp add: ukp_defs fun_upd_twist)
  moreover have "pointer_step (?s [0 \<mapsto> UKP_default, 1 \<mapsto> UKP_own 0] 1 []) (Destroy 0) (?s [1 \<mapsto> UKP_own 0] 1 [])"
    using pointer_step.destroy [of "?s [0 \<mapsto> UKP_default, 1 \<mapsto> UKP_own 0] 1 []" 0]
    by (simp add: ukp_defs fun_upd_twist)
  moreover have "pointer_step (?s [1 \<mapsto> UKP_own 0] 1 []) (Destroy 1) (?s Map.empty 1 [0])"
    using pointer_step.destroy [of "?s [1 \<mapsto> UKP_own 0] 1 []" 1] by (simp add: ukp_defs)
  ultimately have "pointer_run pointer_init [Own 0, Default_Construct 1, Move_Assign 1 0, Destroy 0, Destroy 1] (?s Map.empty 1 [0])"
    by (blast intro: pointer_run.intros)
  then show ?thesis using kernel_objects_are_freed_at_most_once by force
qed

section \<open>Leaks\<close>

text \<open>A wrapper that holds an object has its deleter as long as no wrapper was made by the move constructor.\<close>

definition armed :: "pointer_state \<Rightarrow> bool" where
  "armed s \<longleftrightarrow> (\<forall>w u. ps_wrappers s w = Some u \<and> kp_ptr u \<noteq> None \<longrightarrow> kp_free u)"

definition accounted :: "pointer_state \<Rightarrow> bool" where
  "accounted s \<longleftrightarrow> (\<forall>a < ps_next s. (\<exists>w. held s w = Some a) \<or> a \<in> set (ps_freed s) \<or> a \<in> set (ps_released s))"

lemma accountedI:
  assumes "accounted s" "ps_next s' = ps_next s"
    and "\<And>a x. held s x = Some a \<Longrightarrow> (\<exists>y. held s' y = Some a) \<or> a \<in> set (ps_freed s') \<or> a \<in> set (ps_released s')"
    and "set (ps_freed s) \<subseteq> set (ps_freed s')" "set (ps_released s) \<subseteq> set (ps_released s')"
  shows "accounted s'"
  unfolding accounted_def
proof (intro allI impI)
  fix a
  assume "a < ps_next s'"
  then consider x where "held s x = Some a" | "a \<in> set (ps_freed s)" | "a \<in> set (ps_released s)"
    using assms(1,2) by (auto simp: accounted_def)
  then show "(\<exists>w. held s' w = Some a) \<or> a \<in> set (ps_freed s') \<or> a \<in> set (ps_released s')"
    using assms(3-5) by cases auto
qed

lemma pointer_step_armed:
  assumes "pointer_step s c s'" "\<forall>w v. c \<noteq> Move_Construct w v" "armed s"
  shows "armed s'"
  using assms(1)
proof (cases rule: pointer_step.cases)
  case (move_construct w v other this other')
  then show ?thesis using assms(2) by simp
qed (use assms(3) in \<open>auto simp: armed_def ukp_defs split: if_splits\<close>)

lemma pointer_step_accounted:
  assumes "pointer_step s c s'" "\<forall>w v. c \<noteq> Move_Construct w v" "armed s" "accounted s"
  shows "accounted s'"
  using assms(1)
proof (cases rule: pointer_step.cases)
  case (default w)
  have "held s' = held s" using default by (auto simp: fun_eq_iff held_def ukp_defs)
  then show ?thesis using default by (intro accountedI [OF assms(4)]) auto
next
  case (own w)
  have h: "held s' w = Some (ps_next s)" "held s w = None" "\<And>x. x \<noteq> w \<Longrightarrow> held s' x = held s x"
    using own by (auto simp: held_def ukp_defs)
  have "accounted (s'\<lparr>ps_next := ps_next s\<rparr>)"
  proof (rule accountedI [OF assms(4)])
    fix a x
    assume "held s x = Some a"
    then have "held s' x = Some a" using h(2,3) by (cases "x = w") auto
    then show "(\<exists>y. held (s'\<lparr>ps_next := ps_next s\<rparr>) y = Some a) \<or> a \<in> set (ps_freed (s'\<lparr>ps_next := ps_next s\<rparr>)) \<or>
        a \<in> set (ps_released (s'\<lparr>ps_next := ps_next s\<rparr>))" by (auto simp: held_def)
  qed (use own in auto)
  then show ?thesis using own(2) h(1) by (auto simp: accounted_def held_def less_Suc_eq)
next
  case (move_construct w v other this other')
  then show ?thesis using assms(2) by simp
next
  case (move_assign w this v other this' other')
  have h: "held s' w = held s v" "held s' v = held s w" "\<And>x. x \<noteq> w \<Longrightarrow> x \<noteq> v \<Longrightarrow> held s' x = held s x"
    using move_assign by (auto simp: held_def ukp_defs)
  have "\<exists>y. held s' y = held s x" for x
    using h by (cases "x = w"; cases "x = v") metis+
  then have "held s x = Some a \<Longrightarrow> \<exists>y. held s' y = Some a" for x a by metis
  then show ?thesis using move_assign by (intro accountedI [OF assms(4)]) auto
next
  case (release w this p this')
  have h: "held s w = p" "\<And>x. x \<noteq> w \<Longrightarrow> held s' x = held s x" using release by (auto simp: held_def ukp_defs)
  have released: "p = Some a \<Longrightarrow> a \<in> set (ps_released s')" for a using release by auto
  have "held s x = Some a \<Longrightarrow> (\<exists>y. held s' y = Some a) \<or> a \<in> set (ps_released s')" for x a
    using h(1) h(2) [of x] released [of a] by (cases "x = w") auto
  moreover have "set (ps_released s) \<subseteq> set (ps_released s')" using release by (auto split: option.splits)
  ultimately show ?thesis using release by (intro accountedI [OF assms(4)]) auto
next
  case (destroy w this)
  have h: "held s w = kp_ptr this" "\<And>x. x \<noteq> w \<Longrightarrow> held s' x = held s x" using destroy by (auto simp: held_def ukp_defs)
  have "kp_ptr this \<noteq> None \<Longrightarrow> kp_free this" using destroy assms(3) by (auto simp: armed_def)
  then have freed: "kp_ptr this = Some a \<Longrightarrow> a \<in> set (ps_freed s')" for a
    using destroy by (auto simp: UKP_destroy_def)
  have "held s x = Some a \<Longrightarrow> (\<exists>y. held s' y = Some a) \<or> a \<in> set (ps_freed s')" for x a
    using h(1) h(2) [of x] freed [of a] by (cases "x = w") auto
  then show ?thesis using destroy by (intro accountedI [OF assms(4)]) auto
qed

lemma pointer_run_accounted:
  "pointer_run s cs s' \<Longrightarrow> \<forall>w v. Move_Construct w v \<notin> set cs \<Longrightarrow> armed s \<Longrightarrow> accounted s \<Longrightarrow> armed s' \<and> accounted s'"
proof (induction rule: pointer_run.induct)
  case (step s c s' cs s'')
  then have "armed s' \<and> accounted s'" using pointer_step_accounted [OF step.hyps(1)] pointer_step_armed [OF step.hyps(1)] by auto
  then show ?case using step by simp
qed simp

text \<open>Without the move constructor nothing leaks: when the last wrapper is gone, every object the kernel handed out was freed, or
  released to the caller.\<close>

theorem no_leak_without_move_construction:
  assumes "pointer_run pointer_init cs s" and "\<forall>w v. Move_Construct w v \<notin> set cs" and "ps_wrappers s = Map.empty"
  shows "set (ps_freed s) \<union> set (ps_released s) = {0..<ps_next s}"
proof -
  have "accounted s" using pointer_run_accounted [OF assms(1,2)] by (simp add: armed_def accounted_def pointer_init_def)
  moreover have "pointer_inv s" by (rule pointer_run_inv [OF assms(1) pointer_init_inv])
  ultimately show ?thesis using assms(3) by (auto simp: accounted_def held_def pointer_inv_def exclusive_def)
qed

text \<open>With it an object leaks: the move constructor drops the deleter, so neither wrapper frees the object.\<close>

theorem move_construction_leaks:
  "UKP_move_construct (UKP_own a) = (this, other) \<Longrightarrow> UKP_get this = Some a \<and> UKP_destroy this = [] \<and> UKP_destroy other = []"
  by (auto simp: ukp_defs)

section \<open>SharedKernelPointer\<close>

text \<open>A mutex is held by a thread or free. Locking it while another thread holds it does not return here, and locking it twice
  from one thread is undefined for \<open>std::mutex\<close>.\<close>

definition mutex_lock :: "nat option \<Rightarrow> nat \<Rightarrow> nat option throws" where
  "mutex_lock lock t =
    (case lock of
       None \<Rightarrow> Inr (Some t)
     | Some u \<Rightarrow> Inl (Err UndefinedBehaviour (if u = t then ''mutex locked twice by a thread'' else ''mutex held by another thread'') []))"

record SharedKernelPointer =
  sp_kernel_ptr :: UniqueKernelPointer
  sp_lock :: "nat option"

definition SKP_own :: "address \<Rightarrow> SharedKernelPointer" where
  "SKP_own ptr = \<lparr>sp_kernel_ptr = UKP_own ptr, sp_lock = None\<rparr>"

definition SKP_default :: SharedKernelPointer where
  "SKP_default = \<lparr>sp_kernel_ptr = UKP_default, sp_lock = None\<rparr>"

text \<open>The move constructor locks both mutexes, moves the pointer, and locks both again.\<close>

definition SKP_move_construct ::
    "nat \<Rightarrow> SharedKernelPointer \<Rightarrow> (SharedKernelPointer \<times> SharedKernelPointer) throws" where
  "SKP_move_construct t other =
    bindr (mutex_lock (sp_lock other) t) (\<lambda>other_lock.
    bindr (mutex_lock (sp_lock SKP_default) t) (\<lambda>lock.
    case UKP_move_assign (sp_kernel_ptr SKP_default) (sp_kernel_ptr other) of (this_ptr, other_ptr) \<Rightarrow>
    bindr (mutex_lock lock t) (\<lambda>lock.
    bindr (mutex_lock other_lock t) (\<lambda>other_lock.
    Inr (\<lparr>sp_kernel_ptr = this_ptr, sp_lock = lock\<rparr>, \<lparr>sp_kernel_ptr = other_ptr, sp_lock = other_lock\<rparr>)))))"

text \<open>It never returns, whoever calls it.\<close>

theorem SKP_move_construct_never_returns: "\<nexists>r. SKP_move_construct t other = Inr r"
  by (auto simp: SKP_move_construct_def mutex_lock_def SKP_default_def bindr_eq_Inr split: option.splits)

section \<open>References\<close>

text \<open>A thread asks for a reference (GetLockingRef), waits in the constructor of SharedKernelRef for the lock, has the reference,
  and drops it, which unlocks.\<close>

datatype ref_phase = Idle | Waiting | Holding

record ref_state =
  rs_pointer :: SharedKernelPointer
  rs_phase :: "nat \<Rightarrow> ref_phase"

definition ref_init :: "address \<Rightarrow> ref_state" where
  "ref_init ptr = \<lparr>rs_pointer = SKP_own ptr, rs_phase = (\<lambda>t. Idle)\<rparr>"

inductive ref_step :: "ref_state \<Rightarrow> ref_state \<Rightarrow> bool" where
  GetLockingRef: "rs_phase s t = Idle \<Longrightarrow> ref_step s (s\<lparr>rs_phase := (rs_phase s)(t := Waiting)\<rparr>)"
| Acquire: "rs_phase s t = Waiting \<Longrightarrow> mutex_lock (sp_lock (rs_pointer s)) t = Inr lock \<Longrightarrow>
    ref_step s (s\<lparr>rs_pointer := (rs_pointer s)\<lparr>sp_lock := lock\<rparr>, rs_phase := (rs_phase s)(t := Holding)\<rparr>)"
| Drop: "rs_phase s t = Holding \<Longrightarrow>
    ref_step s (s\<lparr>rs_pointer := (rs_pointer s)\<lparr>sp_lock := None\<rparr>, rs_phase := (rs_phase s)(t := Idle)\<rparr>)"

text \<open>The pointer a thread can reach: only through a reference it has.\<close>

definition GetPtr :: "ref_state \<Rightarrow> nat \<Rightarrow> address option" where
  "GetPtr s t = (if rs_phase s t = Holding then UKP_get (sp_kernel_ptr (rs_pointer s)) else None)"

definition ref_inv :: "address \<Rightarrow> ref_state \<Rightarrow> bool" where
  "ref_inv ptr s \<longleftrightarrow> (\<forall>t. rs_phase s t = Holding \<longleftrightarrow> sp_lock (rs_pointer s) = Some t) \<and>
     UKP_get (sp_kernel_ptr (rs_pointer s)) = Some ptr"

lemma ref_step_inv: "ref_step s s' \<Longrightarrow> ref_inv ptr s \<Longrightarrow> ref_inv ptr s'"
proof (induction rule: ref_step.induct)
  case (GetLockingRef s t)
  then have "rs_phase s t = Holding \<longleftrightarrow> sp_lock (rs_pointer s) = Some t" unfolding ref_inv_def by blast
  then have "sp_lock (rs_pointer s) \<noteq> Some t" using GetLockingRef by simp
  then show ?case using GetLockingRef by (auto simp: ref_inv_def)
qed (auto simp: ref_inv_def mutex_lock_def split: option.splits if_splits)

interpretation refs: invariant_system ref_step "\<lambda>s. s = ref_init ptr" "ref_inv ptr" for ptr
proof (unfold_locales, goal_cases)
  case (1 s)
  then show ?case by (simp add: ref_inv_def ref_init_def SKP_own_def UKP_own_def UKP_get_def)
next
  case (2 s t)
  then show ?case using ref_step_inv by blast
qed

lemma waiting_thread_acquires:
  assumes "ref_inv ptr s" "rs_phase s t = Waiting"
  shows "\<exists>s'. ref_step\<^sup>*\<^sup>* s s' \<and> GetPtr s' t = Some ptr"
proof -
  have free: "\<exists>s'. ref_step s s' \<and> GetPtr s' t = Some ptr"
    if "sp_lock (rs_pointer s) = None" "ref_inv ptr s" "rs_phase s t = Waiting" for s
    using that ref_step.Acquire [of s t "Some t"] by (auto simp: mutex_lock_def GetPtr_def ref_inv_def)
  show ?thesis
  proof (cases "sp_lock (rs_pointer s)")
    case None
    then show ?thesis using free assms by blast
  next
    case (Some u)
    let ?s = "s\<lparr>rs_pointer := (rs_pointer s)\<lparr>sp_lock := None\<rparr>, rs_phase := (rs_phase s)(u := Idle)\<rparr>"
    have "rs_phase s u = Holding" using Some assms(1) by (simp add: ref_inv_def)
    then have "ref_step s ?s" by (rule ref_step.Drop)
    moreover have "u \<noteq> t" using \<open>rs_phase s u = Holding\<close> assms(2) by auto
    ultimately show ?thesis
      using free [of ?s] ref_step_inv [OF _ assms(1), of ?s] assms(2) by (auto intro: converse_rtranclp_into_rtranclp)
  qed
qed



end
