(* ===== verification/Support.thy ===== *)
theory Support
  imports Snapshot
begin

text \<open>
  What the extension's calls of the kernel rest on.

  \<^item> The errors the kernel has the extension allocate (DuckDBEngineError in src/src/delta\_utils.cpp) and
    KernelUtils::TryUnpackResult (src/src/include/delta\_utils.hpp), which turns a kernel result into a value or an IO exception and
    consumes the error. The heap of allocated errors is explicit, so that an error that is never deleted, or deleted twice,
    shows. The rest of the development uses the function \<open>Unpack\<close> for it.
  \<^item> LoggerCallback, which forwards the kernel's log events.
  \<^item> The functions of src/src/path\_utils.cpp: the conversions over DuckDB's Path as a parameter, PathGetCommonLineage over the parts of a
    path.
\<close>

section \<open>Engine errors\<close>

record DuckDBEngineError =
  ee_etype :: nat
  ee_message :: string

record error_heap =
  eh_errors :: "nat \<rightharpoonup> DuckDBEngineError"
  eh_next :: nat

definition AllocateError :: "nat \<Rightarrow> string \<Rightarrow> error_heap \<Rightarrow> nat \<times> error_heap" where
  "AllocateError etype msg heap =
    (eh_next heap, \<lparr>eh_errors = (eh_errors heap)(eh_next heap \<mapsto> \<lparr>ee_etype = etype, ee_message = msg\<rparr>), eh_next = Suc (eh_next heap)\<rparr>)"

definition KERNEL_ERROR_ENUM_STRINGS :: "string list" where
  "KERNEL_ERROR_ENUM_STRINGS = [
    ''UnknownError'', ''FFIError'', ''ArrowError'', ''EngineDataTypeError'', ''ExtractError'', ''GenericError'', ''IOErrorError'',
    ''ParquetError'', ''ObjectStoreError'', ''ObjectStorePathError'', ''ReqwestError'', ''FileNotFoundError'',
    ''MissingColumnError'', ''UnexpectedColumnTypeError'', ''MissingDataError'', ''MissingVersionError'',
    ''DeletionVectorError'', ''InvalidUrlError'', ''MalformedJsonError'', ''MissingMetadataError'', ''MissingProtocolError'',
    ''InvalidProtocolError'', ''MissingMetadataAndProtocolError'', ''ParseError'', ''JoinFailureError'', ''Utf8Error'',
    ''ParseIntError'', ''InvalidColumnMappingModeError'', ''InvalidTableLocationError'', ''InvalidDecimalError'',
    ''InvalidStructDataError'', ''InternalError'', ''InvalidExpression'', ''InvalidLogPath'', ''FileAlreadyExists'',
    ''UnsupportedError'', ''ParseIntervalError'', ''ChangeDataFeedUnsupported'', ''ChangeDataFeedIncompatibleSchema'',
    ''InvalidCheckpoint'',
    ''UnusedError'', ''CheckpointWriteError'', ''SchemaError'', ''LogHistoryError'', ''RowTrackingChangeFeedUnsupported'',
    ''CancelledError'', ''InvalidTransactionStateError'', ''InvalidLogSegment'', ''UnpublishedVersionError'',
    ''EmptyLogError'', ''InvalidSnapshotHint'', ''StartVersionNotFound'', ''InvalidGeoParamsError'',
    ''MaxCatalogVersionError'', ''TableAlreadyExistsAtPath'']"

text \<open>\<open>print\<close> is the decimal text of a number, as StringUtil::Format writes it.\<close>

definition KernelErrorEnumToString :: "(nat \<Rightarrow> string) \<Rightarrow> nat \<Rightarrow> string" where
  "KernelErrorEnumToString print err =
    (if err < length KERNEL_ERROR_ENUM_STRINGS then KERNEL_ERROR_ENUM_STRINGS ! err
     else ''EnumOutOfRange (enum val out of range: '' @ print err @ '')'')"

definition error_text :: "(nat \<Rightarrow> string) \<Rightarrow> DuckDBEngineError \<Rightarrow> string" where
  "error_text print e =
    ''DeltaKernel '' @ KernelErrorEnumToString print (ee_etype e) @ '' ('' @ print (ee_etype e) @ ''): '' @ ee_message e"

text \<open>The error is copied, deleted and printed; deleting one that is not allocated is undefined.\<close>

definition IntoString :: "(nat \<Rightarrow> string) \<Rightarrow> nat \<Rightarrow> error_heap \<Rightarrow> string throws \<times> error_heap" where
  "IntoString print address heap =
    (case eh_errors heap address of
       None \<Rightarrow> (Inl (Err UndefinedBehaviour ''delete of an engine error that is not allocated'' []), heap)
     | Some e \<Rightarrow> (Inr (error_text print e), heap\<lparr>eh_errors := (eh_errors heap)(address := None)\<rparr>))"

text \<open>A kernel result: its tag and the pointer of an error, which may be null.\<close>

datatype 'a extern_result = Extern_Ok 'a | Extern_Err "nat option" | Extern_Invalid

definition TryUnpackResult ::
    "(nat \<Rightarrow> string) \<Rightarrow> 'a extern_result \<Rightarrow> error_heap \<Rightarrow> 'a throws \<times> error_heap" where
  "TryUnpackResult print result heap =
    (case result of
       Extern_Err (Some address) \<Rightarrow> and_then (IntoString print address heap) (\<lambda>text heap. (Inl (Err IOEx text []), heap))
     | Extern_Err None \<Rightarrow> (Inl (Err IOEx ''Unknown Delta kernel error'' []), heap)
     | Extern_Ok v \<Rightarrow> (Inr v, heap)
     | Extern_Invalid \<Rightarrow> (Inl (Err IOEx ''Invalid Delta kernel ExternResult'' []), heap))"

text \<open>What the kernel does in a call: it returns a value, or an error it had the extension allocate.\<close>

definition kernel_call :: "(nat \<times> string) option + 'a \<Rightarrow> error_heap \<Rightarrow> 'a extern_result \<times> error_heap" where
  "kernel_call outcome heap =
    (case outcome of
       Inr v \<Rightarrow> (Extern_Ok v, heap)
     | Inl None \<Rightarrow> (Extern_Err None, heap)
     | Inl (Some (etype, msg)) \<Rightarrow> (case AllocateError etype msg heap of (address, heap1) \<Rightarrow> (Extern_Err (Some address), heap1)))"

definition outcome_text :: "(nat \<Rightarrow> string) \<Rightarrow> (nat \<times> string) option + 'a \<Rightarrow> string option + 'a" where
  "outcome_text print outcome =
    (case outcome of
       Inr v \<Rightarrow> Inr v
     | Inl None \<Rightarrow> Inl None
     | Inl (Some (etype, msg)) \<Rightarrow> Inl (Some (error_text print \<lparr>ee_etype = etype, ee_message = msg\<rparr>)))"

definition heap_ok :: "error_heap \<Rightarrow> bool" where
  "heap_ok heap \<longleftrightarrow> (\<forall>a e. eh_errors heap a = Some e \<longrightarrow> a < eh_next heap)"



text \<open>A table that only its catalog can load is recognised by the kernel's message, whatever the kind of the error.\<close>

lemma catalog_managed_error_is_recognised:
  assumes "string_util_laws su"
    and "sublist ''Max catalog version is required when loading a catalog-managed table'' (ee_message e)"
  shows "IsMissingMaxCatalogVersion su (error_text print e)"
proof -
  have "error_text print e = (''DeltaKernel '' @ KernelErrorEnumToString print (ee_etype e) @ '' ('' @ print (ee_etype e) @ ''): '') @ ee_message e @ []"
    by (simp add: error_text_def)
  then have "sublist (ee_message e) (error_text print e)" unfolding sublist_def by blast
  then show ?thesis
    using assms sublist_order.order_trans by (simp add: IsMissingMaxCatalogVersion_def string_util_laws.Contains_law)
qed

section \<open>Logging\<close>

datatype kernel_level = TRACE_LEVEL | DEBUG_LEVEL | INFO_LEVEL | WARN_LEVEL | ERROR_LEVEL | OTHER_LEVEL
datatype log_level = LOG_TRACE | LOG_DEBUG | LOG_INFO | LOG_WARNING | LOG_ERROR

fun GetDuckDBLogLevel :: "kernel_level \<Rightarrow> log_level throws" where
  "GetDuckDBLogLevel TRACE_LEVEL = Inr LOG_TRACE"
| "GetDuckDBLogLevel DEBUG_LEVEL = Inr LOG_DEBUG"
| "GetDuckDBLogLevel INFO_LEVEL = Inr LOG_INFO"
| "GetDuckDBLogLevel WARN_LEVEL = Inr LOG_WARNING"
| "GetDuckDBLogLevel ERROR_LEVEL = Inr LOG_ERROR"
| "GetDuckDBLogLevel OTHER_LEVEL = Inl (Err InternalEx ''Unknown log level'' [])"

text \<open>The singleton: the database it logs to (\<open>None\<close> when it is gone), whether it forwards, and whether the kernel has its
  subscriber, which is never removed. The entries are what the database has logged.\<close>

record LoggerCallback =
  lg_db :: "nat option"
  lg_enabled :: bool
  lg_tracing :: bool
  lg_entries :: "(nat \<times> log_level \<times> string) list"

definition LC_Initialize :: "nat \<Rightarrow> LoggerCallback \<Rightarrow> LoggerCallback" where
  "LC_Initialize db lc = (if lg_db lc = None then lc\<lparr>lg_db := Some db\<rparr> else lc)"

definition TryLog :: "log_level \<Rightarrow> string \<Rightarrow> LoggerCallback \<Rightarrow> bool \<times> LoggerCallback" where
  "TryLog level msg lc =
    (case lg_db lc of
       None \<Rightarrow> (False, lc)
     | Some db \<Rightarrow> (True, lc\<lparr>lg_entries := lg_entries lc @ [(db, level, msg)]\<rparr>))"

definition CallbackEvent :: "kernel_level \<Rightarrow> string \<Rightarrow> LoggerCallback \<Rightarrow> unit throws \<times> LoggerCallback" where
  "CallbackEvent level msg lc =
    (if \<not> lg_enabled lc then (Inr (), lc)
     else case GetDuckDBLogLevel level of Inl e \<Rightarrow> (Inl e, lc) | Inr l \<Rightarrow> (Inr (), snd (TryLog l msg lc)))"

text \<open>\<open>current\<close> is the setting before the change, \<open>None\<close> when it does not exist.\<close>

definition DuckDBSettingCallBack :: "bool option \<Rightarrow> bool \<Rightarrow> LoggerCallback \<Rightarrow> unit throws \<times> LoggerCallback" where
  "DuckDBSettingCallBack current parameter lc =
    (case current of
       None \<Rightarrow> (Inl (Err InternalEx ''Failed to find setting 'delta_kernel_logging' '' []), lc)
     | Some c \<Rightarrow> (Inr (), lc\<lparr>lg_tracing := (lg_tracing lc \<or> \<not> c \<and> parameter), lg_enabled := parameter\<rparr>))"

text \<open>The settings one after the other, the first over the default, which is off.\<close>

fun set_logging :: "bool \<Rightarrow> bool list \<Rightarrow> LoggerCallback \<Rightarrow> LoggerCallback" where
  "set_logging current [] lc = lc"
| "set_logging current (p # ps) lc = set_logging p ps (snd (DuckDBSettingCallBack (Some current) p lc))"

text \<open>The kernel sends an event to its subscriber, if it has one.\<close>

definition kernel_event :: "kernel_level \<Rightarrow> string \<Rightarrow> LoggerCallback \<Rightarrow> LoggerCallback" where
  "kernel_event level msg lc = (if lg_tracing lc then snd (CallbackEvent level msg lc) else lc)"

lemma set_logging_last:
  "(current \<longrightarrow> lg_tracing lc) \<Longrightarrow> lg_enabled lc = current \<Longrightarrow>
     lg_enabled (set_logging current ps lc) = last (current # ps) \<and> lg_db (set_logging current ps lc) = lg_db lc \<and>
     lg_entries (set_logging current ps lc) = lg_entries lc \<and>
     (last (current # ps) \<longrightarrow> lg_tracing (set_logging current ps lc))"
proof (induction ps arbitrary: current lc)
  case (Cons p ps)
  show ?case
    using Cons.IH [of p "snd (DuckDBSettingCallBack (Some current) p lc)"] Cons.prems
    by (auto simp: DuckDBSettingCallBack_def)
qed simp

theorem kernel_logging_follows_the_setting:
  assumes "lg_db lc = Some db" and "\<not> lg_enabled lc" and "GetDuckDBLogLevel level = Inr l"
  shows "lg_entries (kernel_event level msg (set_logging False ps lc)) =
    lg_entries lc @ (if last (False # ps) then [(db, l, msg)] else [])"
  using set_logging_last [of False lc ps] assms
  by (auto simp: kernel_event_def CallbackEvent_def TryLog_def split: if_splits)

section \<open>Conversions of paths\<close>

record 'p path_api =
  pa_is_absolute :: "'p \<Rightarrow> bool"
  pa_is_local :: "'p \<Rightarrow> bool"
  pa_from_string :: "string \<Rightarrow> 'p"
  pa_to_string :: "'p \<Rightarrow> string"
  pa_join :: "'p \<Rightarrow> 'p \<Rightarrow> 'p"
  pa_working_directory :: string
  pa_anchor :: "'p \<Rightarrow> string"
  pa_path :: "'p \<Rightarrow> string"
  pa_trailing_separator :: "'p \<Rightarrow> string"

definition PathToAbsolute :: "'p path_api \<Rightarrow> 'p \<Rightarrow> 'p" where
  "PathToAbsolute pa path =
    (if pa_is_absolute pa path then path else pa_join pa (pa_from_string pa (pa_working_directory pa)) path)"

definition PathToLocal :: "'p path_api \<Rightarrow> 'p \<Rightarrow> 'p throws" where
  "PathToLocal pa path =
    bindr (throw_if (\<not> pa_is_local pa path) (Err InvalidInput ''Path: cannot convert non-local path to local: %s'' [pa_to_string pa path])) (\<lambda>_.
    Inr (pa_from_string pa (pa_anchor pa path @ pa_path pa path @ pa_trailing_separator pa path)))"

definition PathToFileLocal :: "'p path_api \<Rightarrow> 'p \<Rightarrow> 'p throws" where
  "PathToFileLocal pa path =
    bindr (throw_if (\<not> pa_is_local pa path) (Err InvalidInput ''Path: cannot convert non-local path to file-local: %s'' [pa_to_string pa path])) (\<lambda>_.
    Inr (pa_from_string pa (''file://'' @ pa_anchor pa path @ pa_path pa path @ pa_trailing_separator pa path)))"

text \<open>Making a path a file path and then local again is making it local, for a path that parses to the parts it was made of.\<close>

lemma PathToLocal_of_file:
  assumes "PathToFileLocal pa path = Inr q" and "pa_is_local pa q"
    and "(pa_anchor pa q, pa_path pa q, pa_trailing_separator pa q) = (pa_anchor pa path, pa_path pa path, pa_trailing_separator pa path)"
  shows "PathToLocal pa q = PathToLocal pa path"
proof -
  have "pa_is_local pa path" using assms(1) by (simp add: PathToFileLocal_def bindr_throw_if split: if_splits)
  then show ?thesis using assms(2,3) by (simp add: PathToLocal_def)
qed

section \<open>Lineage of paths\<close>

record path_parts =
  pp_scheme :: string
  pp_authority :: string
  pp_anchor :: string
  pp_segments :: "string list"

text \<open>On POSIX systems; segments compare exactly. A negative \<open>min_depth\<close> sets no bound.\<close>

definition PathGetCommonLineage :: "path_parts \<Rightarrow> path_parts \<Rightarrow> int \<Rightarrow> int" where
  "PathGetCommonLineage path ancestor min_depth =
    (if pp_scheme path \<noteq> pp_scheme ancestor \<or> pp_authority path \<noteq> pp_authority ancestor \<or> pp_anchor path \<noteq> pp_anchor ancestor then - 1
     else if length (pp_segments ancestor) > length (pp_segments path) then - 1
     else
      (let depth = int (length (pp_segments path)) - int (length (pp_segments ancestor))
       in if 0 \<le> min_depth \<and> depth < min_depth then - 1
          else if pp_segments ancestor = take (length (pp_segments ancestor)) (pp_segments path) then depth else - 1))"

theorem PathGetCommonLineage_spec:
  "PathGetCommonLineage path ancestor min_depth =
    (if \<exists>rest. path = ancestor\<lparr>pp_segments := pp_segments ancestor @ rest\<rparr> \<and> min_depth \<le> int (length rest)
     then int (length (pp_segments path)) - int (length (pp_segments ancestor)) else - 1)"
proof (cases "\<exists>rest. path = ancestor\<lparr>pp_segments := pp_segments ancestor @ rest\<rparr>")
  case True
  then obtain rest where rest: "path = ancestor\<lparr>pp_segments := pp_segments ancestor @ rest\<rparr>" by blast
  have "(\<exists>r. path = ancestor\<lparr>pp_segments := pp_segments ancestor @ r\<rparr> \<and> min_depth \<le> int (length r)) \<longleftrightarrow> min_depth \<le> int (length rest)"
    using rest by (auto dest: arg_cong [of _ _ pp_segments])
  moreover have "PathGetCommonLineage path ancestor min_depth = (if min_depth \<le> int (length rest) then int (length rest) else - 1)"
    unfolding rest by (simp add: PathGetCommonLineage_def Let_def)
  ultimately show ?thesis using rest by simp
next
  case False
  have "\<not> (pp_scheme path = pp_scheme ancestor \<and> pp_authority path = pp_authority ancestor \<and> pp_anchor path = pp_anchor ancestor \<and>
      pp_segments ancestor = take (length (pp_segments ancestor)) (pp_segments path))"
  proof
    assume *: "pp_scheme path = pp_scheme ancestor \<and> pp_authority path = pp_authority ancestor \<and> pp_anchor path = pp_anchor ancestor \<and>
      pp_segments ancestor = take (length (pp_segments ancestor)) (pp_segments path)"
    then have "pp_segments path = pp_segments ancestor @ drop (length (pp_segments ancestor)) (pp_segments path)"
      by (metis append_take_drop_id)
    then have "path = ancestor\<lparr>pp_segments := pp_segments ancestor @ drop (length (pp_segments ancestor)) (pp_segments path)\<rparr>"
      using * by (cases path; cases ancestor) simp
    then show False using False by blast
  qed
  then show ?thesis using False by (auto simp: PathGetCommonLineage_def Let_def)
qed

end
