(* ===== verification/Registration.thy ===== *)
theory Registration
  imports Table_Functions Reader Support Expression_Visitor
begin

text \<open>
  What the extension registers with DuckDB when it is loaded (src/src/delta\_extension.cpp, delta\_functions.cpp, delta\_macros.cpp,
  delta\_log\_types.cpp), how delta\_scan is made from DuckDB's parquet\_scan (functions/delta\_scan/delta\_scan.cpp), and the functions for
  the tests (functions/expression\_functions.cpp, functions/util\_functions.cpp).

  \<^item> The registry is a \<open>record\<close> with a list per kind of object, in the order of registration. A callback is a constructor that names
    the C++ function; the functions themselves are the definitions of the other theories.
  \<^item> DuckDB's loader, which finds parquet\_scan, and the file system of write\_blob are parameters. The texts of the table macros are SQL for
    DuckDB's parser and are named, not spelled out.
\<close>

section \<open>The scan function\<close>

text \<open>The typed options of a function: Add appends one, Alias gives the last one another name.\<close>

record typed_kwarg =
  kw_name :: string
  kw_type :: logical_type
  kw_aliases :: "string list"

definition KW_Add :: "string \<Rightarrow> logical_type \<Rightarrow> typed_kwarg list \<Rightarrow> typed_kwarg list" where
  "KW_Add name type options = options @ [\<lparr>kw_name = name, kw_type = type, kw_aliases = []\<rparr>]"

definition KW_Alias :: "string \<Rightarrow> typed_kwarg list \<Rightarrow> typed_kwarg list" where
  "KW_Alias alias options =
    (if options = [] then []
     else butlast options @ [(last options)\<lparr>kw_aliases := kw_aliases (last options) @ [alias]\<rparr>])"

definition without_schema :: "(string \<Rightarrow> string \<Rightarrow> bool) \<Rightarrow> typed_kwarg list \<Rightarrow> typed_kwarg list" where
  "without_schema eq options =
    foldl (\<lambda>acc opt. if eq (kw_name opt) ''schema'' then acc
       else foldl (\<lambda>acc alias. KW_Alias alias acc) (KW_Add (kw_name opt) (kw_type opt) acc) (kw_aliases opt)) [] options"

definition GetLogPathType :: logical_type where
  "GetLogPathType = LIST (STRUCT [(''file_name'', VARCHAR), (''timestamp'', BIGINT), (''file_size'', UBIGINT)])"

definition add_delta_options :: "typed_kwarg list \<Rightarrow> typed_kwarg list" where
  "add_delta_options options =
    KW_Add ''max_catalog_version'' BIGINT
    (KW_Add ''log_tail'' GetLogPathType
    (KW_Add ''timestamp'' TIMESTAMP_TZ
    (KW_Add ''version'' UBIGINT
    (KW_Add ''pushdown_filters'' VARCHAR
    (KW_Add ''pushdown_partition_info'' BOOLEAN options)))))"

datatype scan_callback =
    Parquet_Callback | Null_Callback | CreateInstance_Callback | DeltaScanSerialize_Callback | DeltaScanDeserialize_Callback
  | DeltaVirtualColumns_Callback | DeltaScanSupportsPushdownExtract_Callback | DeltaFunctionToString_Callback

record scan_function =
  sf_name :: string
  sf_get_multi_file_reader :: scan_callback
  sf_serialize :: scan_callback
  sf_deserialize :: scan_callback
  sf_statistics :: scan_callback
  sf_table_scan_progress :: scan_callback
  sf_get_bind_info :: scan_callback
  sf_get_virtual_columns :: scan_callback
  sf_supports_pushdown_extract :: scan_callback
  sf_late_materialization :: bool
  sf_to_string :: scan_callback
  sf_options :: "typed_kwarg list"

definition make_delta_scan :: "(string \<Rightarrow> string \<Rightarrow> bool) \<Rightarrow> scan_function \<Rightarrow> scan_function" where
  "make_delta_scan eq function = function
    \<lparr>sf_get_multi_file_reader := CreateInstance_Callback,
     sf_serialize := DeltaScanSerialize_Callback,
     sf_deserialize := DeltaScanDeserialize_Callback,
     sf_statistics := Null_Callback,
     sf_table_scan_progress := Null_Callback,
     sf_get_bind_info := Null_Callback,
     sf_get_virtual_columns := DeltaVirtualColumns_Callback,
     sf_supports_pushdown_extract := DeltaScanSupportsPushdownExtract_Callback,
     sf_late_materialization := False,
     sf_to_string := DeltaFunctionToString_Callback,
     sf_options := add_delta_options (without_schema eq (sf_options function)),
     sf_name := ''delta_scan''\<rparr>"

text \<open>A set of functions is its name and its overloads. \<open>get_table_function\<close> loads the parquet extension and looks the function up.\<close>

definition GetDeltaScanFunction ::
  "(string \<Rightarrow> string \<Rightarrow> bool) \<Rightarrow> (string \<Rightarrow> scan_function list throws) \<Rightarrow> (string \<times> scan_function list) throws" where
  "GetDeltaScanFunction eq get_table_function =
    bindr (get_table_function ''parquet_scan'') (\<lambda>parquet. Inr (''delta_scan'', map (make_delta_scan eq) parquet))"

definition DeltaFunctionToString :: "string option \<Rightarrow> (string \<times> string) list" where
  "DeltaFunctionToString table_name = (case table_name of Some name \<Rightarrow> [(''Table'', name)] | None \<Rightarrow> [])"

text \<open>The virtual columns of a scan, which are also kept in its bind data.\<close>

definition DeltaVirtualColumns :: "reader_env \<Rightarrow> nat \<Rightarrow> nat \<Rightarrow> (nat \<times> string \<times> logical_type) list" where
  "DeltaVirtualColumns re row_id empty_id =
    [(re_filename_id re, ''filename'', VARCHAR), (re_file_row_number_id re, ''file_row_number'', BIGINT), (row_id, ''rowid'', BIGINT),
     (empty_id, [], BOOLEAN), (DELTA_FILE_NUMBER_COLUMN_ID, ''delta_file_number'', UBIGINT)]"

definition DeltaScanSerialize :: "unit throws" where
  "DeltaScanSerialize = Inl (Err NotImplemented ''DeltaScan serialization not implemented'' [])"

definition DeltaScanDeserialize :: "unit throws" where
  "DeltaScanDeserialize = Inl (Err NotImplemented ''DeltaScan deserialization not implemented'' [])"

section \<open>The other table functions\<close>

record table_function =
  tf_name :: string
  tf_parameters :: "(string \<times> logical_type) list"
  tf_options :: "typed_kwarg list"

definition DeltaBaseMetadataFunction :: "string \<Rightarrow> table_function" where
  "DeltaBaseMetadataFunction name = \<lparr>tf_name = name, tf_parameters = [(''path'', VARCHAR)], tf_options = []\<rparr>"

definition GetDeltaFileListFunction :: "string \<times> table_function list" where
  "GetDeltaFileListFunction =
    (''delta_list_files'', [(DeltaBaseMetadataFunction ''delta_metadata'')\<lparr>tf_options :=
       KW_Add ''version'' UBIGINT (KW_Add ''delete_count'' BOOLEAN (KW_Add ''transform_expression'' BOOLEAN []))\<rparr>])"

definition GetDeltaDomainMetadataFunction :: "string \<times> table_function list" where
  "GetDeltaDomainMetadataFunction =
    (''delta_domain_metadata'', [(DeltaBaseMetadataFunction ''delta_domain_metadata'')\<lparr>tf_options := KW_Add ''version'' UBIGINT []\<rparr>])"

definition GetTransactionIdempotencyHelpers :: "table_function list" where
  "GetTransactionIdempotencyHelpers =
    [\<lparr>tf_name = ''delta_get_transaction_version'', tf_parameters = [(''path'', VARCHAR), (''app_id'', VARCHAR)], tf_options = []\<rparr>,
     \<lparr>tf_name = ''delta_set_transaction_version'',
      tf_parameters = [(''path'', VARCHAR), (''app_id'', VARCHAR), (''new_version'', UBIGINT), (''expected_version'', UBIGINT)],
      tf_options = []\<rparr>]"

definition GetTableFunctions ::
  "(string \<Rightarrow> string \<Rightarrow> bool) \<Rightarrow> (string \<Rightarrow> scan_function list throws)
     \<Rightarrow> ((string \<times> scan_function list) \<times> (string \<times> table_function list) list) throws" where
  "GetTableFunctions eq get_table_function =
    bindr (GetDeltaScanFunction eq get_table_function) (\<lambda>scan.
    Inr (scan, [GetDeltaFileListFunction, GetDeltaDomainMetadataFunction] @
           map (\<lambda>f. (tf_name f, [f])) GetTransactionIdempotencyHelpers))"

text \<open>The binds of the functions for application versions: the table is looked up first, the columns are those of the result.\<close>

definition DeltaGetTransactionVersionBind ::
  "(string \<Rightarrow> 'x option throws) \<Rightarrow> string \<Rightarrow> string \<Rightarrow> ((string \<times> 'x) \<times> (string \<times> logical_type) list) throws" where
  "DeltaGetTransactionVersionBind lookup_entry path app_id =
    bindr (bind_table_entry lookup_entry path) (\<lambda>entry. Inr ((app_id, entry), [(''version'', UBIGINT)]))"

definition DeltaSetTransactionVersionBind ::
  "(string \<Rightarrow> 'x option throws) \<Rightarrow> string \<Rightarrow> string \<Rightarrow> idx_t \<Rightarrow> int option
     \<Rightarrow> ((string \<times> idx_t \<times> int option \<times> 'x) \<times> (string \<times> logical_type) list) throws" where
  "DeltaSetTransactionVersionBind lookup_entry path app_id new_version expected_version =
    bindr (bind_table_entry lookup_entry path) (\<lambda>entry.
    Inr ((app_id, new_version, expected_version, entry), [(''Success'', BOOLEAN)]))"

text \<open>The state of either function, whether it has run.\<close>

definition TransactionInitGlobalState :: bool where
  "TransactionInitGlobalState = False"

section \<open>Functions for the tests\<close>

definition GetScalarFunctions :: "(string \<times> logical_type list \<times> logical_type) list" where
  "GetScalarFunctions = [(''get_delta_test_expression'', [], LIST VARCHAR), (''write_blob'', [VARCHAR, BLOB], BOOLEAN)]"

fun expression_texts :: "expression_ops \<Rightarrow> parsed_expression \<Rightarrow> string list throws" where
  "expression_texts ops (FunctionExpr name args) = Inr (map (ToText ops) args)"
| "expression_texts ops (ConjunctionExpr CONJUNCTION_AND children) = Inr (map (ToText ops) children)"
| "expression_texts ops (AliasedExpr alias e) = expression_texts ops e"
| "expression_texts ops e = Inl (Err InternalEx ''Unexpected result: expected top level struct or conjunction'' [])"

definition AddTestExpressions :: "expression_ops \<Rightarrow> string list \<Rightarrow> parsed_expression list \<Rightarrow> string list throws" where
  "AddTestExpressions ops result parsed =
    (if length parsed \<noteq> 1 then Inl (Err InternalEx ''Unexpected result: expected single expression'' [])
     else bindr (expression_texts ops (last parsed)) (\<lambda>texts. Inr (result @ texts)))"

text \<open>A null result of the visitor is dereferenced.\<close>

definition parsed_test_expression ::
  "(kernel_expression \<Rightarrow> expression_visitor \<Rightarrow> nat \<times> expression_visitor) \<Rightarrow> kernel_expression \<Rightarrow> parsed_expression list throws" where
  "parsed_test_expression visit e =
    bindr (ToParsedExpression visit e) (\<lambda>parsed. case parsed of
      None \<Rightarrow> Inl (Err UndefinedBehaviour ''null list of expressions'' [])
    | Some ps \<Rightarrow> Inr ps)"

definition GetDeltaTestExpression ::
  "expression_ops \<Rightarrow> (kernel_expression \<Rightarrow> expression_visitor \<Rightarrow> nat \<times> expression_visitor) \<Rightarrow> kernel_expression \<Rightarrow> kernel_expression
     \<Rightarrow> string list throws" where
  "GetDeltaTestExpression ops visit testing_expression testing_predicate =
    bindr (parsed_test_expression visit testing_expression) (\<lambda>parsed.
    bindr (AddTestExpressions ops [] parsed) (\<lambda>result.
    bindr (parsed_test_expression visit testing_predicate) (\<lambda>parsed_pred.
    AddTestExpressions ops result parsed_pred)))"

text \<open>\<open>bf_write\<close> opens a file for writing, creating it if it is not there, and writes the bytes. When there is no slash, find\_last\_of
  returns npos and the directory is the whole path.\<close>

record 'w blob_fs =
  bf_create_directories :: "string \<Rightarrow> 'w \<Rightarrow> unit throws \<times> 'w"
  bf_write :: "string \<Rightarrow> string \<Rightarrow> 'w \<Rightarrow> unit throws \<times> 'w"

definition blob_directory :: "string \<Rightarrow> string" where
  "blob_directory path =
    (if CHR ''/'' \<in> set path then take (length path - Suc (length (takeWhile (\<lambda>c. c \<noteq> CHR ''/'') (rev path)))) path else path)"

fun GetWriteDataFunction :: "'w blob_fs \<Rightarrow> (string \<times> string) list \<Rightarrow> 'w \<Rightarrow> bool throws \<times> 'w" where
  "GetWriteDataFunction fs [] w = (Inr True, w)"
| "GetWriteDataFunction fs ((path, blob) # rest) w =
    and_then (bf_create_directories fs (blob_directory path) w) (\<lambda>_ w1.
    and_then (bf_write fs path blob w1) (\<lambda>_ w2. GetWriteDataFunction fs rest w2))"

section \<open>Macros and log types\<close>

datatype macro_query = DELTA_FILTER_PUSHDOWN_MACRO | DELTA_FILTER_PUSHDOWN_MACRO_TPCDS | FILE_COPY_MACRO

record table_macro =
  mc_name :: string
  mc_query :: macro_query
  mc_parameters :: "string list"
  mc_default_parameters :: "(string \<times> dvalue) list"
  mc_temporary :: bool
  mc_internal :: bool

definition RegisterTableMacro ::
  "string \<Rightarrow> macro_query \<Rightarrow> string list \<Rightarrow> (string \<times> dvalue) list \<Rightarrow> table_macro list \<Rightarrow> table_macro list" where
  "RegisterTableMacro name query params named_params registered =
    registered @ [\<lparr>mc_name = name, mc_query = query, mc_parameters = params, mc_default_parameters = named_params,
      mc_temporary = True, mc_internal = True\<rparr>]"

definition delta_macros :: "string list" where
  "delta_macros = [''parse_delta_filter_logline'']"

definition RegisterMacros :: "string list \<times> table_macro list \<Rightarrow> string list \<times> table_macro list" where
  "RegisterMacros registered =
    (fst registered @ delta_macros,
     RegisterTableMacro ''copy_dir'' FILE_COPY_MACRO [''src_dir'', ''dst_dir''] []
     (RegisterTableMacro ''delta_filter_pushdown_log_tpcds'' DELTA_FILTER_PUSHDOWN_MACRO_TPCDS [] []
     (RegisterTableMacro ''delta_filter_pushdown_log'' DELTA_FILTER_PUSHDOWN_MACRO [] [] (snd registered))))"

definition GetLogType :: logical_type where
  "GetLogType = STRUCT [(''target'', VARCHAR), (''message'', VARCHAR), (''file'', VARCHAR), (''line'', UINTEGER)]"

record kernel_log_event =
  ke_target :: string
  ke_message :: string
  ke_file :: string
  ke_line :: nat

text \<open>The fields of the message; \<open>to_text\<close> prints a struct. A file and a line are there only together.\<close>

datatype log_field = LF_Varchar string | LF_Uinteger nat | LF_Null

definition ConstructLogMessage :: "((string \<times> log_field) list \<Rightarrow> string) \<Rightarrow> kernel_log_event \<Rightarrow> string" where
  "ConstructLogMessage to_text event =
    (let (source, line) = (if ke_file event \<noteq> [] then (LF_Varchar (ke_file event), LF_Uinteger (ke_line event)) else (LF_Null, LF_Null))
     in to_text [(''target'', LF_Varchar (ke_target event)), (''message'', LF_Varchar (ke_message event)), (''file'', source), (''line'', line)])"

section \<open>Loading\<close>

datatype setting_value = Set_Bool bool | Set_Text string

record registry =
  rg_scan :: "(string \<times> scan_function list) list"
  rg_table_functions :: "(string \<times> table_function list) list"
  rg_scalar_functions :: "(string \<times> logical_type list \<times> logical_type) list"
  rg_copy_functions :: "string list"
  rg_storage_extensions :: "string list"
  rg_variant_legacy_encoding :: bool
  rg_settings :: "(string \<times> logical_type \<times> setting_value) list"
  rg_macros :: "string list \<times> table_macro list"
  rg_log_types :: "(string \<times> logical_type) list"
  rg_logger :: LoggerCallback

definition AddExtensionOption :: "string \<Rightarrow> logical_type \<Rightarrow> setting_value \<Rightarrow> registry \<Rightarrow> registry" where
  "AddExtensionOption name type initial rg = rg\<lparr>rg_settings := rg_settings rg @ [(name, type, initial)]\<rparr>"

definition LoadInternal ::
  "(string \<Rightarrow> string \<Rightarrow> bool) \<Rightarrow> (string \<Rightarrow> scan_function list throws) \<Rightarrow> nat \<Rightarrow> registry \<Rightarrow> unit throws \<times> registry" where
  "LoadInternal eq get_table_function db rg =
    (case GetTableFunctions eq get_table_function of
       Inl e \<Rightarrow> (Inl e, rg)
     | Inr (scan, functions) \<Rightarrow>
       (let rg1 = rg\<lparr>rg_scan := rg_scan rg @ [scan], rg_table_functions := rg_table_functions rg @ functions,
              rg_scalar_functions := rg_scalar_functions rg @ GetScalarFunctions,
              rg_copy_functions := rg_copy_functions rg @ [''delta''],
              rg_storage_extensions := rg_storage_extensions rg @ [''delta''],
              rg_variant_legacy_encoding := True\<rparr>;
            rg2 = AddExtensionOption ''delta_kernel_logging'' BOOLEAN (Set_Bool False)
              (AddExtensionOption ''delta_column_mapping_policy'' VARCHAR (Set_Text ''strict'')
              (AddExtensionOption ''delta_scan_explain_files_filtered'' BOOLEAN (Set_Bool True) rg1));
            rg3 = rg2\<lparr>rg_macros := RegisterMacros (rg_macros rg2),
              rg_log_types := rg_log_types rg2 @ [(''DeltaKernel'', GetLogType)]\<rparr>
        in (Inr (), rg3\<lparr>rg_logger := LC_Initialize db (rg_logger rg3)\<rparr>)))"

section \<open>What is registered\<close>

lemma alias_last: "foldl (\<lambda>acc alias. KW_Alias alias acc) (options @ [opt]) aliases =
    options @ [opt\<lparr>kw_aliases := kw_aliases opt @ aliases\<rparr>]"
  by (induction aliases arbitrary: opt) (simp_all add: KW_Alias_def)

text \<open>Rebuilding the options of parquet\_scan loses exactly the option \<open>schema\<close>: the others keep their order, types and aliases.\<close>

lemma without_schema_filter: "without_schema eq options = filter (\<lambda>opt. \<not> eq (kw_name opt) ''schema'') options"
proof -
  have "foldl (\<lambda>acc opt. if eq (kw_name opt) ''schema'' then acc
       else foldl (\<lambda>acc alias. KW_Alias alias acc) (KW_Add (kw_name opt) (kw_type opt) acc) (kw_aliases opt)) acc options =
     acc @ filter (\<lambda>opt. \<not> eq (kw_name opt) ''schema'') options" for acc
    by (induction options arbitrary: acc) (simp_all add: KW_Add_def alias_last)
  then show ?thesis by (simp add: without_schema_def)
qed

text \<open>Every option delta\_scan adds is one that the reader takes for itself, whatever DuckDB's own reader would do with it.\<close>

lemma added_options_are_parsed:
  assumes "\<And>s. re_ident_eq re s s" and "opt \<in> set (drop (length options) (add_delta_options options))"
  shows "ParseOption re vo core1 (kw_name opt) val dr mo = ParseOption re vo core2 (kw_name opt) val dr mo"
proof -
  have "kw_name opt \<in> {''pushdown_partition_info'', ''pushdown_filters'', ''version'', ''timestamp'', ''log_tail'', ''max_catalog_version''}"
    using assms(2) by (auto simp: add_delta_options_def KW_Add_def)
  then show ?thesis using assms(1) by (auto simp: ParseOption_def)
qed

text \<open>A load without the parquet extension registers nothing. After a load, a table with column mapping is read strictly and kernel
  events are dropped until the setting changes, and no two table functions share a name.\<close>

lemma load_needs_parquet: "get_table_function ''parquet_scan'' = Inl e \<Longrightarrow> LoadInternal eq get_table_function db rg = (Inl e, rg)"
  by (simp add: LoadInternal_def GetTableFunctions_def GetDeltaScanFunction_def)

lemma load_effect:
  assumes "LoadInternal eq get_table_function db rg = (Inr (), rg')"
  shows "rg_table_functions rg' = rg_table_functions rg @ [GetDeltaFileListFunction, GetDeltaDomainMetadataFunction] @
      map (\<lambda>f. (tf_name f, [f])) GetTransactionIdempotencyHelpers"
    and "rg_settings rg' = rg_settings rg @ [(''delta_scan_explain_files_filtered'', BOOLEAN, Set_Bool True),
      (''delta_column_mapping_policy'', VARCHAR, Set_Text ''strict''), (''delta_kernel_logging'', BOOLEAN, Set_Bool False)]"
    and "rg_logger rg' = LC_Initialize db (rg_logger rg)" "rg_variant_legacy_encoding rg'"
  using assms
  by (auto simp: LoadInternal_def GetTableFunctions_def GetDeltaScanFunction_def AddExtensionOption_def Let_def bindr_eq_Inr
      split: sum.splits)

lemma load_defaults:
  assumes "LoadInternal eq get_table_function db rg = (Inr (), rg')" and "\<And>x. Lower (re_su re) x = map ascii_lower x"
    and "(''delta_column_mapping_policy'', VARCHAR, Set_Text setting) \<in> set (drop (length (rg_settings rg)) (rg_settings rg'))"
  shows "ReadColumnMappingPolicy re setting = Inr POLICY_STRICT"
  using assms(2,3) unfolding load_effect(2) [OF assms(1)] by (simp add: ReadColumnMappingPolicy_def)

lemma load_does_not_log:
  assumes "LoadInternal eq get_table_function db rg = (Inr (), rg')" and "\<not> lg_enabled (rg_logger rg)"
  shows "lg_entries (kernel_event level msg (rg_logger rg')) = lg_entries (rg_logger rg)"
  using assms(2) unfolding load_effect(3) [OF assms(1)] by (simp add: kernel_event_def CallbackEvent_def LC_Initialize_def)

lemma table_function_names_differ:
  "distinct (''delta_scan'' # map fst ([GetDeltaFileListFunction, GetDeltaDomainMetadataFunction] @
     map (\<lambda>f. (tf_name f, [f])) GetTransactionIdempotencyHelpers))"
  by (simp add: GetDeltaFileListFunction_def GetDeltaDomainMetadataFunction_def GetTransactionIdempotencyHelpers_def)

text \<open>write\_blob makes a directory of the name of the file before it opens the file, when the path has no slash.\<close>

lemma write_blob_without_slash:
  "CHR ''/'' \<notin> set path \<Longrightarrow> GetWriteDataFunction fs [(path, blob)] w =
     and_then (bf_create_directories fs path w) (\<lambda>_ w1. and_then (bf_write fs path blob w1) (\<lambda>_ w2. (Inr True, w2)))"
proof -
  have "GetWriteDataFunction fs [] = Pair (Inr True)" by (rule ext) simp
  then show "CHR ''/'' \<notin> set path \<Longrightarrow> ?thesis" by (simp add: blob_directory_def)
qed

lemma write_blob_directory: "CHR ''/'' \<notin> set name \<Longrightarrow> blob_directory (dir @ ''/'' @ name) = dir"
  by (simp add: blob_directory_def takeWhile_append)

end
