(* ===== verification/Spec2Isabelle.thy ===== *)
theory Spec2Isabelle
  imports Table_Properties Paths Types Schema_Builder Column_Def Inflight_Lists Schema_Visitor Schema_Roundtrip
    Attach Create_Table Write_Metadata Create_Transaction Transaction Transaction_Machine Constraints
    Insert_Sink Insert_Plan Expression_Visitor Predicate_Visitor
    Partition_Values Snapshot File_List Pushdown Field_Ids Create_As Schema_Entry Reader Copy_To
    Table_Functions Engine Kernel_Pointers Support Registration
begin

text \<open>
  Verification of the DuckDB Delta extension (duckdb-delta), the C++ sources under src/src.

  The extension lets DuckDB attach, scan, create and append to Delta tables. The Delta log itself is read and written by the
  delta kernel, a Rust library behind an FFI; DuckDB plans and runs the statements. What the extension itself does, and what is
  modelled here, is between the two: it translates types, schemas, expressions, filters, paths, statistics and errors from one
  side to the other, decides which version of a table a statement reads, keeps the state of a transaction, and makes sure that
  files on storage and commits in the log agree.

  \<^bold>\<open>How the parts interact.\<close> ATTACH makes a catalog (\<open>Attach\<close>); a lookup in its schema (\<open>Schema_Entry\<close>) makes a table entry with a
  list of files pinned to a snapshot (\<open>Snapshot\<close>), whose schema comes from the kernel through the schema visitor
  (\<open>Schema_Visitor\<close>). A scan of the entry (\<open>Table_Functions\<close>, \<open>Reader\<close>) pushes filters into the list (\<open>Pushdown\<close>,
  \<open>Predicate_Visitor\<close>), expands it file by file (\<open>File_List\<close>), reads the transform of each file (\<open>Expression_Visitor\<close>,
  \<open>Partition_Values\<close>) and gives the file's constants, deletion vector and column mapping to DuckDB's reader. INSERT plans a
  projection and a parquet copy (\<open>Insert_Plan\<close>, \<open>Field_Ids\<close>), collects the written files and checks constraints on them
  (\<open>Insert_Sink\<close>, \<open>Constraints\<close>), and appends them to the transaction (\<open>Transaction\<close>), which turns them into add actions
  (\<open>Write_Metadata\<close>, \<open>Paths\<close>) and commits once (\<open>Transaction_Machine\<close>). CREATE TABLE, CREATE TABLE AS and COPY TO
  (\<open>Create_Table\<close>, \<open>Schema_Builder\<close>, \<open>Create_Transaction\<close>, \<open>Create_As\<close>, \<open>Copy_To\<close>) commit version 0 of a new table. Every kernel
  call rests on the engine (\<open>Engine\<close>), on the ownership of kernel objects (\<open>Kernel_Pointers\<close>) and on the unpacking of
  kernel results (\<open>Support\<close>).

  \<^bold>\<open>How the code is modelled.\<close>
  \<^item> A struct or class is a \<open>record\<close>, an enum a \<open>datatype\<close>; a function is a definition of the same name (with a prefix where two
    classes share one). Mutable objects are passed and returned.
  \<^item> Exceptions are values of \<open>error + 'a\<close>; a method that changes its object and may throw returns the result and the object as it
    is left, also on a throw (\<open>and_then\<close>). A read of an unset variable, an access out of bounds, or a lock of a mutex one
    holds is the error \<open>UndefinedBehaviour\<close>.
  \<^item> \<open>idx_t\<close> is a 64-bit word and \<open>INVALID_INDEX\<close> its greatest value; the code uses it for an absent version, cardinality or index.
    Sums and differences of sizes wrap where the code lets them (row ids, container names, row counts).
  \<^item> The kernel, the file system, the secret manager, the environment and the functions of DuckDB are not part of the repository:
    they are records of functions (\<open>list_env\<close>, \<open>transaction_kernel\<close>, \<open>engine_kernel\<close>, \<open>write_fs\<close>, \<open>value_ops\<close>, \<open>string_util\<close>,
    \<open>reader_env\<close> and others) that the definitions take as arguments. Where a theorem needs their documented behaviour it is a
    hypothesis or the law of a locale, with an instance that satisfies it.
  \<^item> Loops over data are structural recursions. Loops whose end depends on the kernel are \<open>partial_function (option)\<close> with a theorem
    that they return (\<open>expand_all\<close>), or functions with a measure (the deletion filter, the execution of the metadata
    functions, url decoding). There is no fuel. A kernel iterator is the finite list of the chunks it yields.
  \<^item> An operation under a mutex is one step. Interleavings are modelled where the code is about them: the references of
    \<open>Kernel_Pointers\<close> and the steps of a transaction in \<open>Transaction_Machine\<close>.

  \<^bold>\<open>The theories\<close> (files are relative to src/src).
  \<^item> \<open>Prelude\<close>: results, words, strings, StringUtil and the locales of transition systems. \<open>Types\<close>: LogicalType.
  \<^item> \<open>Table_Properties\<close> (delta\_table\_properties.cpp), \<open>Paths\<close> (path functions of functions/delta\_scan/delta\_multi\_file\_list.cpp and
    storage/delta\_transaction.cpp): encoding and decoding are inverse, paths resolve to the files written.
  \<^item> \<open>Column_Def\<close>, \<open>Inflight_Lists\<close>, \<open>Schema_Visitor\<close>, \<open>Expression_Visitor\<close> (delta\_utils.cpp, include/delta\_utils.hpp): the two visitors
    refine a recursive translation of the kernel's tree, over the contract of their field lists (locale \<open>inflight_lists\<close>).
  \<^item> \<open>Schema_Builder\<close> (delta\_schema\_builder.cpp), \<open>Schema_Roundtrip\<close>: a created schema reads back; only unsupported types fail.
  \<^item> \<open>Predicate_Visitor\<close> (delta\_utils.cpp), \<open>Pushdown\<close>: no file with a row that satisfies the filters is skipped, over the
    semantics of kernel predicates (locale \<open>predicate_semantics\<close>).
  \<^item> \<open>Attach\<close> (delta\_extension.cpp, storage/delta\_catalog.cpp, include/delta\_time\_travel.hpp), \<open>Schema_Entry\<close>
    (storage/delta\_schema\_entry.cpp), \<open>Snapshot\<close> (functions/delta\_scan/delta\_multi\_file\_list.cpp): which version is read, and that it
    stays the same within a transaction.
  \<^item> \<open>File_List\<close>, \<open>Partition_Values\<close> (delta\_multi\_file\_list.cpp), \<open>Reader\<close> (delta\_multi\_file\_reader.cpp), \<open>Table_Functions\<close>
    (storage/delta\_table\_entry.cpp, functions/): the lazy list refines the kernel's list, partition values come from the log, deletion
    vectors select exactly the live rows, a scan reads the snapshot that was looked up, the listing functions return every row.
  \<^item> \<open>Constraints\<close>, \<open>Insert_Plan\<close>, \<open>Field_Ids\<close>, \<open>Insert_Sink\<close> (storage/delta\_insert.cpp and delta\_multi\_file\_list.cpp),
    \<open>Write_Metadata\<close> (storage/delta\_transaction.cpp): NOT NULL at every depth, field ids, statistics, partition values, add actions.
  \<^item> \<open>Transaction\<close>, \<open>Transaction_Machine\<close> (storage/delta\_transaction.cpp, delta\_transaction\_manager.cpp): invariants of every reachable
    state, application versions, rollback, the end of a transaction (locale \<open>transition_system\<close>).
  \<^item> \<open>Create_Table\<close>, \<open>Create_Transaction\<close> (storage/delta\_create\_table.cpp), \<open>Create_As\<close>, \<open>Copy_To\<close> (storage/delta\_insert.cpp,
    functions/delta\_copy.cpp): what is refused, what is requested, and that CREATE TABLE AS leaves a table or nothing
    (locale \<open>write_files\<close> of the file system).
  \<^item> \<open>Engine\<close> (CreateBuilder in delta\_multi\_file\_list.cpp), \<open>Kernel_Pointers\<close> (include/delta\_utils.hpp), \<open>Support\<close> (delta\_utils.cpp,
    path\_utils.cpp): credentials and transport follow the secret, kernel objects are freed at most once and reached by one
    thread at a time, errors are consumed exactly once.
  \<^item> \<open>Registration\<close> (delta\_extension.cpp, delta\_functions.cpp, delta\_macros.cpp, delta\_log\_types.cpp, the \<open>Get...Function\<close> parts of
    functions/): what a load registers and with which defaults, delta\_scan as a rebuilt parquet\_scan whose added options are those the
    reader takes, the functions for the tests.
  \<^item> This theory ends with the properties that span components: the files an INSERT reports to the sink are the files the next scan
    opens (\<open>Insert_Sink\<close>, \<open>Transaction\<close>, \<open>Write_Metadata\<close>, \<open>Paths\<close>, \<open>File_List\<close>), and a rollback removes them unless the append was
    refused (\<open>Insert_Sink\<close>, \<open>Transaction_Machine\<close>).

  \<^bold>\<open>Not modelled.\<close> The SQL texts of the macros (delta\_macros.cpp) are for DuckDB's parser; only their registration is modelled. The
  conversion of the chunk of add actions to Arrow is a call of DuckDB, as are the parts of a plan that only set fields of
  DuckDB's operators. Trace messages are left out. Headers that only declare are modelled with what they declare, and
  DeltaMultiFileColumnDefinition::Print (include/delta\_utils.hpp) returns at once.
\<close>

section \<open>From an INSERT to the scan after it\<close>

text \<open>The entries of a scan that carry the add actions of a chunk: the kernel reports the path of an action as it was written.\<close>

definition lists_added :: "'v add_chunk \<Rightarrow> scan_entry list \<Rightarrow> bool" where
  "lists_added chunk es \<longleftrightarrow> ac_columns chunk ! 0 = map (\<lambda>e. Some (AC_Varchar (se_path e))) es"


lemma lists_added_paths:
  "lists_added chunk es \<Longrightarrow> ac_columns chunk ! 0 = map (\<lambda>r. Some (AC_Varchar (g r))) rs \<Longrightarrow> map se_path es = map g rs"
proof -
  have "map (\<lambda>r. Some (AC_Varchar (g r))) rs = map (\<lambda>e. Some (AC_Varchar (se_path e))) es \<Longrightarrow> map se_path es = map g rs"
    by (induction es arbitrary: rs) (auto simp: map_eq_Cons_conv)
  then show "lists_added chunk es \<Longrightarrow> ac_columns chunk ! 0 = map (\<lambda>r. Some (AC_Varchar (g r))) rs \<Longrightarrow> ?thesis"
    by (simp add: lists_added_def)
qed


text \<open>An INSERT of two files in the directory \<open>/t\<close>, with a kernel that counts the add actions, and the scan of the table.\<close>

definition insert_tk :: "(nat, unit, unit, unit, nat, string list, unit) transaction_kernel" where
  "insert_tk = example_tk\<lparr>tk_engine_data := CreateAddFilesEngineData ascii_string_util example_type_ops (\<lambda>s t. Inr s) (\<lambda>t. t) 2048
     (\<lambda>chunk. if ac_names chunk = GetNames then Inr (length (ac_columns chunk ! 0)) else Inl None)\<rparr>"

lemma insert_metadata:
  "\<exists>m. WriteMetaData ascii_string_util example_type_ops (\<lambda>s t. Inr s) (\<lambda>t. t) ''/t/''
     [example_written ''/t/a'' 3, example_written ''/t/b'' 4] = Inr m"
  by (simp add: WriteMetaData_def GetStatsType_def AppendRow_def CreateStatsValue_def example_written_def
      relative_file_name_def stats_tree_def example_type_ops_def example_constrained_def empty_stats_def leaf_value_def)

lemma insert_appends:
  "\<exists>txn1. DT_Append insert_tk [] (m_txn example_read) [example_written ''/t/a'' 3, example_written ''/t/b'' 4] = (Inr (), txn1) \<and>
     dt_table_entry txn1 = Some example_entry"
proof -
  obtain m :: "string write_metadata" where "WriteMetaData ascii_string_util example_type_ops (\<lambda>s t. Inr s) (\<lambda>t. t) ''/t/''
     [example_written ''/t/a'' 3, example_written ''/t/b'' 4] = Inr m" using insert_metadata by blast
  moreover have "example_written f n\<lparr>df_last_modified := 0\<rparr> = example_written f n" for f n by (simp add: example_written_def)
  ultimately show ?thesis
    by (simp add: DT_Append_def InitializeTransaction_def build_kernel_transaction_def touch_files_def Unpack_def
        IsCatalogManaged_def HasWriterFeature_def ReadProtocol_def example_machine_defs insert_tk_def
        CreateAddFilesEngineData_def ToArrow_def Let_def)
qed


section \<open>An INSERT that is rolled back\<close>

text \<open>C12. What a rolled back INSERT leaves on storage. Once the files the copy reported have reached the transaction, a rollback removes them
  after the files of earlier statements, whether or not the append succeeded. The exception is an append that is refused because the
  transaction cannot begin: its files were written before, are not recorded and stay. A read-only attach and, without a
  parent catalog, a catalog-managed table are such refusals.\<close>

theorem rolled_back_insert_keeps_refused_files:
  assumes sink: "Sink su tys ops gs chunks = Inr gs'" "gs_written_files gs = []"
    and append: "DT_Append tk w txn (gs_written_files gs') = (r, txn1)"
    and txn: "dt_state txn \<noteq> TRANSACTION_FINISHED" "dt_state txn = TRANSACTION_NOT_YET_STARTED \<longrightarrow> dt_outstanding_appends txn = []"
    and fs: "tk_client_alive tk" "\<And>w f. fst (tk_try_remove tk w f) = Inr ()"
  shows "(\<not> refused tk txn \<longrightarrow> snd (snd (DT_Rollback tk w txn1)) = fold (\<lambda>f w. snd (tk_try_remove tk w f))
      (map df_file_name (dt_outstanding_appends txn) @ map wr_file_name (concat chunks)) w) \<and>
    (refused tk txn \<longrightarrow> snd (snd (DT_Rollback tk w txn1)) = w) \<and>
    (dt_state txn = TRANSACTION_NOT_YET_STARTED \<and> (dt_access_mode txn = READ_ONLY \<or>
        (\<exists>entry. dt_table_entry txn = Some entry \<and> IsCatalogManaged (te_kernel entry) \<and> \<not> dt_parent_commit txn)) \<longrightarrow>
      refused tk txn)"
proof (intro conjI impI)
  assume accepted: "\<not> refused tk txn"
  show "snd (snd (DT_Rollback tk w txn1)) = fold (\<lambda>f w. snd (tk_try_remove tk w f))
      (map df_file_name (dt_outstanding_appends txn) @ map wr_file_name (concat chunks)) w"
    using DT_Append_accepted [OF append accepted txn(1)] rollback_pending [OF fs, of w txn1] Sink_names [OF sink] by simp
next
  assume refused: "refused tk txn"
  then have "InitializeTransaction tk txn = (r, txn1)" using append DT_Append_refused [OF refused] by simp
  then have "dt_outstanding_appends txn1 = []"
    using InitializeTransaction_pending [of tk txn r txn1] txn(2) refused by (simp add: refused_def)
  then show "snd (snd (DT_Rollback tk w txn1)) = w" using rollback_pending [OF fs, of w txn1] by simp
qed (simp add: write_refusals)

text \<open>The same two files, once written to the table of the example and once to one that only its catalog may commit to.\<close>

definition managed_txn :: "(nat, unit, unit) DeltaTransaction" where
  "managed_txn = (m_txn example_read)\<lparr>dt_table_entry := Some (example_entry\<lparr>te_kernel := \<lparr>configuration = [],
     protocol_min_reader = 3, protocol_features = [(False, ''catalogManaged'')]\<rparr>\<rparr>)\<rparr>"

theorem rolled_back_insert_keeps_refused_files_witness:
  "snd (snd (DT_Rollback example_tk [''/t/a'', ''/t/b'', ''/t/c'']
      (snd (DT_Append example_tk [''/t/a'', ''/t/b'', ''/t/c''] (m_txn example_read) [example_written ''/t/a'' 3, example_written ''/t/b'' 4])))) = [''/t/c''] \<and>
   snd (snd (DT_Rollback example_tk [''/t/a'', ''/t/b'', ''/t/c'']
      (snd (DT_Append example_tk [''/t/a'', ''/t/b'', ''/t/c''] managed_txn [example_written ''/t/a'' 3, example_written ''/t/b'' 4])))) =
     [''/t/a'', ''/t/b'', ''/t/c'']"
proof -
  let ?w = "[''/t/a'', ''/t/b'', ''/t/c'']" and ?files = "[example_written ''/t/a'' 3, example_written ''/t/b'' 4]"
  have clean: "gs_written_files example_gs = []" by (simp add: example_gs_def)
  have names: "wr_file_name (Insert_Sink.example_row f n) = f" for f n by (simp add: Insert_Sink.example_row_def)
  have fs: "tk_client_alive example_tk" "\<And>w f. fst (tk_try_remove example_tk w f) = Inr ()" by (simp_all add: example_tk_def)
  have open_txn: "\<not> refused example_tk (m_txn example_read)"
    by (simp add: refused_def InitializeTransaction_def build_kernel_transaction_def Unpack_def IsCatalogManaged_def HasWriterFeature_def
        ReadProtocol_def example_machine_defs)
  have managed: "dt_state managed_txn = TRANSACTION_NOT_YET_STARTED"
    "\<exists>entry. dt_table_entry managed_txn = Some entry \<and> IsCatalogManaged (te_kernel entry) \<and> \<not> dt_parent_commit managed_txn"
    by (simp_all add: managed_txn_def example_machine_defs IsCatalogManaged_def HasWriterFeature_def ReadProtocol_def)
  have state: "dt_state (m_txn example_read) = TRANSACTION_NOT_YET_STARTED" "dt_outstanding_appends (m_txn example_read) = []"
    "dt_outstanding_appends managed_txn = []"
    by (simp_all add: managed_txn_def example_machine_defs)
  have run: "DT_Append example_tk ?w txn (gs_written_files (example_gs\<lparr>gs_insert_count := 7, gs_written_files := ?files\<rparr>)) =
      (fst (DT_Append example_tk ?w txn ?files), snd (DT_Append example_tk ?w txn ?files))" for txn by simp
  show ?thesis
    using rolled_back_insert_keeps_refused_files [OF example_Sink clean run _ _ fs, of "m_txn example_read"]
      rolled_back_insert_keeps_refused_files [OF example_Sink clean run _ _ fs, of managed_txn] open_txn managed state
    by (simp add: names example_tk_def)
qed

end
